(* ===== verification/Prelude.thy ===== *)
theory Prelude
  imports Complex_Main
begin

text \<open>
  Shared vocabulary of the development: the JavaScript runtime values the SDK
  (\<open>src/src/sdk.ts\<close>, \<open>src/src/errors.ts\<close>) manipulates, and the runtime
  library operations it calls.
  \<^item> \<open>jsnum\<close>: a JavaScript number, a finite value (a rational: every finite
    double is one) or \<open>NaN\<close> or an infinity; comparisons follow the
    ECMAScript abstract relational comparison, in which \<open>NaN\<close> is unordered.
  \<^item> \<open>jsval\<close>: the values a response can decode to (JSON values, the raw text,
    or the \<open>Response\<close> object itself for event streams), with \<open>undefined\<close>.
  \<^item> \<open>http_response\<close>: what a \<open>fetch\<close> resolves with: status, status text,
    the header list as the \<open>Headers\<close> object enumerates it, the body chunks.
  \<^item> strings: \<open>String.prototype.includes\<close>, \<open>parseInt(s, 10)\<close> and
    \<open>Number.prototype.toString\<close> on the values the SDK prints.
  The collection \<open>js_eval\<close> gathers the equations that evaluate these
  operations on concrete values.
\<close>

named_theorems js_eval "equations evaluating the JavaScript runtime model"

section \<open>Numbers\<close>

datatype jsnum = JFin rat | JNaN | JPosInf | JNegInf

text \<open>\<open>x < y\<close> of ECMAScript: false whenever \<open>NaN\<close> is involved.\<close>

fun js_lt :: "jsnum \<Rightarrow> jsnum \<Rightarrow> bool" where
  "js_lt (JFin a) (JFin b) = (a < b)"
| "js_lt JNaN _ = False"
| "js_lt _ JNaN = False"
| "js_lt JNegInf y = (y \<noteq> JNegInf)"
| "js_lt x JPosInf = (x \<noteq> JPosInf)"
| "js_lt _ _ = False"

text \<open>\<open>x <= y\<close>: the negation of \<open>y < x\<close>, unless \<open>NaN\<close> is involved.\<close>

definition js_le :: "jsnum \<Rightarrow> jsnum \<Rightarrow> bool" where
  "js_le x y = (x \<noteq> JNaN \<and> y \<noteq> JNaN \<and> \<not> js_lt y x)"

definition js_num_truthy :: "jsnum \<Rightarrow> bool" where
  "js_num_truthy x = (x \<noteq> JNaN \<and> x \<noteq> JFin 0)"

definition js_isFinite :: "jsnum \<Rightarrow> bool" where
  "js_isFinite x = (case x of JFin _ \<Rightarrow> True | _ \<Rightarrow> False)"

definition rat_is_int :: "rat \<Rightarrow> bool" where
  "rat_is_int q = (snd (quotient_of q) = 1)"

definition js_isInteger :: "jsnum \<Rightarrow> bool" where
  "js_isInteger x = (case x of JFin q \<Rightarrow> rat_is_int q | _ \<Rightarrow> False)"

definition inf_of_sign :: "bool \<Rightarrow> jsnum" where
  "inf_of_sign pos = (if pos then JPosInf else JNegInf)"

text \<open>Multiplication; the overflow of a finite product to an infinity is not modelled.\<close>

fun js_mul :: "jsnum \<Rightarrow> jsnum \<Rightarrow> jsnum" where
  "js_mul (JFin a) (JFin b) = JFin (a * b)"
| "js_mul JNaN _ = JNaN"
| "js_mul _ JNaN = JNaN"
| "js_mul (JFin a) y = (if a = 0 then JNaN else inf_of_sign ((0 < a) = (y = JPosInf)))"
| "js_mul x (JFin b) = (if b = 0 then JNaN else inf_of_sign ((0 < b) = (x = JPosInf)))"
| "js_mul x y = inf_of_sign (x = y)"

abbreviation js_int :: "int \<Rightarrow> jsnum" where
  "js_int i \<equiv> JFin (of_int i)"

abbreviation js_nat :: "nat \<Rightarrow> jsnum" where
  "js_nat n \<equiv> JFin (of_nat n)"

section \<open>Strings\<close>

definition digit_char :: "nat \<Rightarrow> char" where
  "digit_char d = char_of (48 + d)"

fun nat_str :: "nat \<Rightarrow> string" where
  "nat_str n = (if n < 10 then [digit_char n] else nat_str (n div 10) @ [digit_char (n mod 10)])"

declare nat_str.simps [simp del]

definition int_str :: "int \<Rightarrow> string" where
  "int_str i = (if i < 0 then CHR ''-'' # nat_str (nat (- i)) else nat_str (nat i))"

text \<open>
  Digits after the decimal point of \<open>r / b\<close> (\<open>0 \<le> r < b\<close>). A double's
  denominator is a power of two, whose expansion has fewer digits than the
  denominator, so the denominator is enough fuel.
\<close>

fun frac_digits :: "nat \<Rightarrow> int \<Rightarrow> int \<Rightarrow> string" where
  "frac_digits 0 r b = []"
| "frac_digits (Suc f) r b =
     (if r = 0 then [] else digit_char (nat ((10 * r) div b)) # frac_digits f ((10 * r) mod b) b)"

text \<open>
  \<open>Number.prototype.toString()\<close> in positional notation (the exponent
  notation JavaScript uses from \<open>1e21\<close> up is not modelled).
\<close>

definition js_num_str :: "jsnum \<Rightarrow> string" where
  "js_num_str x = (case x of
      JNaN \<Rightarrow> ''NaN''
    | JPosInf \<Rightarrow> ''Infinity''
    | JNegInf \<Rightarrow> ''-Infinity''
    | JFin q \<Rightarrow>
        (let (a, b) = quotient_of q in
         if b = 1 then int_str a
         else (if a < 0 then ''-'' else '''') @ int_str (\<bar>a\<bar> div b) @ ''.''
                @ frac_digits (nat b) (\<bar>a\<bar> mod b) b))"

text \<open>\<open>String.prototype.startsWith\<close> and \<open>String.prototype.includes\<close>.\<close>

fun starts_with :: "string \<Rightarrow> string \<Rightarrow> bool" where
  "starts_with xs [] = True"
| "starts_with [] (y # ys) = False"
| "starts_with (x # xs) (y # ys) = (x = y \<and> starts_with xs ys)"

fun str_includes :: "string \<Rightarrow> string \<Rightarrow> bool" where
  "str_includes [] nd = (nd = [])"
| "str_includes (h # hs) nd = (starts_with (h # hs) nd \<or> str_includes hs nd)"

text \<open>
  \<open>parseInt(s, 10)\<close>: leading white space skipped (the white-space code
  points that fit a byte), an optional sign, then the longest run of decimal
  digits; \<open>NaN\<close> when there is none. Exact on integers (the rounding of
  \<open>parseInt\<close> beyond \<open>2^53\<close> is not modelled).
\<close>

definition js_ws :: "char \<Rightarrow> bool" where
  "js_ws c = (of_char c \<in> set [9, 10, 11, 12, 13, 32, 160 :: nat])"

definition is_digit :: "char \<Rightarrow> bool" where
  "is_digit c = (48 \<le> (of_char c :: nat) \<and> (of_char c :: nat) \<le> 57)"

fun digits_val :: "nat \<Rightarrow> string \<Rightarrow> nat" where
  "digits_val acc [] = acc"
| "digits_val acc (c # cs) = digits_val (10 * acc + (of_char c - 48)) cs"

definition parseInt :: "string \<Rightarrow> jsnum" where
  "parseInt s =
     (let s1 = dropWhile js_ws s;
          neg = (s1 \<noteq> [] \<and> hd s1 = CHR ''-'');
          s2 = (if s1 \<noteq> [] \<and> (hd s1 = CHR ''-'' \<or> hd s1 = CHR ''+'') then tl s1 else s1);
          ds = takeWhile is_digit s2
      in if ds = [] then JNaN
         else js_int ((if neg then -1 else 1) * int (digits_val 0 ds)))"

section \<open>Values\<close>

text \<open>A \<open>Response\<close> as \<open>fetch\<close> resolves it; header names are lower case and
  distinct, as the \<open>Headers\<close> object enumerates them.\<close>

record http_response =
  resp_status :: int
  resp_statusText :: string
  resp_headers :: "(string \<times> string) list"
  resp_body :: "string list"

datatype jsval =
    JUndef
  | JNull
  | JBool bool
  | JNum jsnum
  | JStr string
  | JArr "jsval list"
  | JObj "(string \<times> jsval) list"
  | JResponse http_response

text \<open>Truthiness (\<open>ToBoolean\<close>).\<close>

fun js_truthy :: "jsval \<Rightarrow> bool" where
  "js_truthy JUndef = False"
| "js_truthy JNull = False"
| "js_truthy (JBool b) = b"
| "js_truthy (JNum n) = js_num_truthy n"
| "js_truthy (JStr s) = (s \<noteq> [])"
| "js_truthy _ = True"

text \<open>Property read \<open>o.k\<close> (the last binding wins, as \<open>JSON.parse\<close> keeps the
  last of duplicate keys) and the \<open>in\<close> operator.\<close>

definition obj_get :: "(string \<times> jsval) list \<Rightarrow> string \<Rightarrow> jsval option" where
  "obj_get kvs k = map_of (rev kvs) k"

definition obj_has :: "(string \<times> jsval) list \<Rightarrow> string \<Rightarrow> bool" where
  "obj_has kvs k = (k \<in> set (map fst kvs))"

section \<open>Headers\<close>

text \<open>\<open>Headers.get\<close> on a lower-case name.\<close>

definition headers_get :: "(string \<times> string) list \<Rightarrow> string \<Rightarrow> string option" where
  "headers_get hs k = map_of hs k"

text \<open>The loop \<open>response.headers.forEach((value, key) => { headers[key] = value; })\<close>
  of \<open>request\<close> (sdk.ts, lines 278-281).\<close>

definition headers_to_record :: "(string \<times> string) list \<Rightarrow> (string \<rightharpoonup> string)" where
  "headers_to_record hs = fold (\<lambda>(k, v) m. m(k \<mapsto> v)) hs Map.empty"

declare js_le_def [js_eval] js_num_truthy_def [js_eval] js_isFinite_def [js_eval]
  js_isInteger_def [js_eval] rat_is_int_def [js_eval] inf_of_sign_def [js_eval]
  int_str_def [js_eval] digit_char_def [js_eval] js_num_str_def [js_eval]
  js_ws_def [js_eval] is_digit_def [js_eval] parseInt_def [js_eval]
  obj_get_def [js_eval] obj_has_def [js_eval] headers_get_def [js_eval]
  headers_to_record_def [js_eval]

section \<open>Shared lemmas\<close>

lemma starts_with_iff: "starts_with xs ys \<longleftrightarrow> (\<exists>s. xs = ys @ s)"
  by (induction xs ys rule: starts_with.induct) auto

lemma includes_iff: "str_includes hs nd \<longleftrightarrow> (\<exists>p s. hs = p @ nd @ s)"
proof (induction hs)
  case Nil
  then show ?case by auto
next
  case (Cons h hs)
  show ?case
  proof
    assume "str_includes (h # hs) nd"
    then consider "starts_with (h # hs) nd" | "str_includes hs nd" by auto
    then show "\<exists>p s. h # hs = p @ nd @ s"
    proof cases
      case 1
      then show ?thesis by (auto simp: starts_with_iff intro: exI [of _ "[]"])
    next
      case 2
      with Cons.IH obtain p s where "hs = p @ nd @ s" by blast
      then have "h # hs = (h # p) @ nd @ s" by simp
      then show ?thesis by blast
    qed
  next
    assume "\<exists>p s. h # hs = p @ nd @ s"
    then obtain p s where eq: "h # hs = p @ nd @ s" by blast
    show "str_includes (h # hs) nd"
    proof (cases p)
      case Nil
      with eq have "starts_with (h # hs) nd" by (auto simp: starts_with_iff)
      then show ?thesis by simp
    next
      case (Cons a p')
      with eq Cons.IH show ?thesis by auto
    qed
  qed
qed

lemma includes_append_right [simp]: "str_includes (p @ nd @ s) nd"
  by (auto simp: includes_iff)

lemma js_le_fin [simp]: "js_le (JFin a) (JFin b) \<longleftrightarrow> a \<le> b"
  by (auto simp: js_le_def)

lemma js_lt_fin_PosInf [simp]: "js_lt (JFin a) JPosInf"
  by simp

lemma js_le_NaN [simp]: "\<not> js_le JNaN y" "\<not> js_le x JNaN"
  by (simp_all add: js_le_def)

lemma nat_str_nonempty [simp]: "nat_str n \<noteq> []"
  by (subst nat_str.simps) simp

lemma digits_val_append:
  "digits_val acc (xs @ ys) = digits_val (digits_val acc xs) ys"
  by (induction acc xs rule: digits_val.induct) simp_all

lemma digit_char_digit [simp]: "d < 10 \<Longrightarrow> is_digit (digit_char d)"
  by (simp add: is_digit_def digit_char_def)

lemma of_char_digit_char [simp]: "d < 10 \<Longrightarrow> of_char (digit_char d) - 48 = (d::nat)"
  by (simp add: digit_char_def)

lemma nat_str_digits: "\<forall>c \<in> set (nat_str n). is_digit c"
proof (induction n rule: nat_str.induct)
  case (1 n)
  then show ?case by (subst nat_str.simps) auto
qed

lemma digits_val_nat_str: "digits_val acc (nat_str n) = acc * 10 ^ length (nat_str n) + n"
proof (induction n arbitrary: acc rule: nat_str.induct)
  case (1 n)
  show ?case
  proof (cases "n < 10")
    case True
    then show ?thesis by (subst (1 2) nat_str.simps) simp
  next
    case False
    then have "digits_val acc (nat_str n) =
        10 * digits_val acc (nat_str (n div 10)) + n mod 10"
      by (subst nat_str.simps) (simp add: digits_val_append)
    also have "\<dots> = 10 * (acc * 10 ^ length (nat_str (n div 10)) + n div 10) + n mod 10"
      using "1" False by simp
    also have "\<dots> = acc * 10 ^ length (nat_str n) + n"
      using False by (subst (2) nat_str.simps) (simp add: algebra_simps)
    finally show ?thesis .
  qed
qed

lemma headers_to_record_fold:
  "fold (\<lambda>(k, v) m. m(k \<mapsto> v)) hs m0 = m0 ++ map_of (rev hs)"
  by (induction hs arbitrary: m0) (auto simp: map_add_def map_of_append fun_eq_iff split: option.splits)

lemma map_of_rev_distinct:
  "distinct (map fst hs) \<Longrightarrow> map_of (rev hs) = map_of hs"
proof (induction hs)
  case Nil
  then show ?case by simp
next
  case (Cons kv hs)
  then have "fst kv \<notin> dom (map_of hs)" by (auto simp: dom_map_of_conv_image_fst)
  with Cons show ?case
    by (cases kv) (auto simp: map_of_append fun_eq_iff map_add_def split: option.splits)
qed

lemma headers_to_record_get:
  "distinct (map fst hs) \<Longrightarrow> headers_to_record hs = map_of hs"
  by (simp add: headers_to_record_def headers_to_record_fold map_of_rev_distinct)

lemma digit_not_ws: "is_digit c \<Longrightarrow> \<not> js_ws c"
  by (auto simp: is_digit_def js_ws_def)

lemma parseInt_digits:
  assumes "ds \<noteq> []" and "\<forall>c \<in> set ds. is_digit c"
  shows "parseInt ds = js_nat (digits_val 0 ds)"
    and "parseInt (CHR ''-'' # ds) = js_int (- int (digits_val 0 ds))"
proof -
  from assms have hd: "is_digit (hd ds)" by simp
  then have "hd ds \<noteq> CHR ''-''" "hd ds \<noteq> CHR ''+''" "\<not> js_ws (hd ds)"
    by (auto simp: is_digit_def digit_not_ws)
  moreover have dw: "dropWhile js_ws ds = ds"
    using assms hd digit_not_ws by (cases ds) auto
  moreover have tw: "takeWhile is_digit ds = ds" using assms(2) by simp
  ultimately show "parseInt ds = js_nat (digits_val 0 ds)"
    and "parseInt (CHR ''-'' # ds) = js_int (- int (digits_val 0 ds))"
    using assms(1) by (simp_all add: parseInt_def js_ws_def Let_def tw dw)
qed

text \<open>\<open>parseInt\<close> reads back what \<open>toString\<close> prints for an integer.\<close>

lemma parseInt_int_str: "parseInt (int_str i) = js_int i"
proof -
  have ds: "nat_str n \<noteq> []" "\<forall>c \<in> set (nat_str n). is_digit c" "digits_val 0 (nat_str n) = n" for n
    using nat_str_digits digits_val_nat_str [of 0] by simp_all
  show ?thesis
  proof (cases "i < 0")
    case True
    then show ?thesis using parseInt_digits(2) [OF ds(1,2), of "nat (- i)"] ds(3)
      by (simp add: int_str_def)
  next
    case False
    then show ?thesis using parseInt_digits(1) [OF ds(1,2), of "nat i"] ds(3)
      by (simp add: int_str_def)
  qed
qed

lemma int_str_nonempty [simp]: "int_str i \<noteq> []"
  by (simp add: int_str_def)

end
