(* ===== verification/Errors.thy ===== *)
theory Errors
  imports Prelude
begin

text \<open>
  The error taxonomy of \<open>src/src/errors.ts\<close>. Every error object of the SDK is a
  \<open>Crawl4AIError\<close> or an instance of one of its subclasses; the model keeps
  one record with the union of their fields and the class as a tag
  (\<open>err_class\<close>). One definition per constructor (\<open>mk_*\<close>), the type
  guards, and the factory \<open>createHttpError\<close> that maps an HTTP status onto a
  class. A thrown JavaScript value is an \<open>exn\<close>: an SDK error or another
  \<open>Error\<close> given by its \<open>name\<close> and \<open>message\<close> (a \<open>TypeError\<close>
  of \<open>fetch\<close>, a \<open>SyntaxError\<close> of \<open>response.json()\<close>, an
  \<open>AbortError\<close>, a plain \<open>Error\<close>).
\<close>

datatype err_class =
    Crawl4AIError
  | NetworkError
  | TimeoutError
  | RequestValidationError
  | RateLimitError
  | AuthError
  | ServerError
  | NotFoundError
  | ParseError

text \<open>The \<open>request\<close> descriptor that \<open>request\<close> attaches to an HTTP error.\<close>

record request_info =
  ri_url :: string
  ri_method :: string
  ri_headers :: "string \<rightharpoonup> string"
  ri_body :: "string option"

record c4_error =
  err_class :: err_class
  err_message :: string
  err_status :: "int option"
  err_statusText :: "string option"
  err_data :: "jsval option"
  err_request :: "request_info option"
  err_cause :: "(string \<times> string) option"
  err_timeout :: "jsnum option"
  err_field :: "string option"
  err_value :: "jsval option"
  err_retryAfter :: "jsnum option"
  err_limit :: "jsnum option"
  err_remaining :: "jsnum option"
  err_reset :: "jsnum option"
  err_resource :: "string option"
  err_responseText :: "string option"

datatype exn = C4 c4_error | JsError string string

text \<open>The \<open>name\<close> each constructor assigns.\<close>

fun class_name :: "err_class \<Rightarrow> string" where
  "class_name Crawl4AIError = ''Crawl4AIError''"
| "class_name NetworkError = ''NetworkError''"
| "class_name TimeoutError = ''TimeoutError''"
| "class_name RequestValidationError = ''RequestValidationError''"
| "class_name RateLimitError = ''RateLimitError''"
| "class_name AuthError = ''AuthError''"
| "class_name ServerError = ''ServerError''"
| "class_name NotFoundError = ''NotFoundError''"
| "class_name ParseError = ''ParseError''"

fun exn_name :: "exn \<Rightarrow> string" where
  "exn_name (C4 e) = class_name (err_class e)"
| "exn_name (JsError n m) = n"

section \<open>Constructors\<close>

definition mk_Crawl4AIError ::
  "string \<Rightarrow> int option \<Rightarrow> string option \<Rightarrow> jsval option \<Rightarrow> c4_error" where
  "mk_Crawl4AIError message status statusText data =
     \<lparr>err_class = Crawl4AIError, err_message = message, err_status = status,
      err_statusText = statusText, err_data = data, err_request = None, err_cause = None,
      err_timeout = None, err_field = None, err_value = None, err_retryAfter = None,
      err_limit = None, err_remaining = None, err_reset = None, err_resource = None,
      err_responseText = None\<rparr>"

definition mk_NetworkError :: "string \<Rightarrow> (string \<times> string) option \<Rightarrow> c4_error" where
  "mk_NetworkError message cause =
     (mk_Crawl4AIError message None None None)\<lparr>err_class := NetworkError, err_cause := cause\<rparr>"

definition mk_TimeoutError :: "jsnum \<Rightarrow> string option \<Rightarrow> c4_error" where
  "mk_TimeoutError timeout url =
     (let message = (case url of
          Some u \<Rightarrow> if u \<noteq> [] then ''Request to '' @ u @ '' timed out after ''
                                     @ js_num_str timeout @ ''ms''
                    else ''Request timed out after '' @ js_num_str timeout @ ''ms''
        | None \<Rightarrow> ''Request timed out after '' @ js_num_str timeout @ ''ms'')
      in (mk_NetworkError message None)\<lparr>err_class := TimeoutError, err_timeout := Some timeout\<rparr>)"

definition mk_RequestValidationError ::
  "string \<Rightarrow> string option \<Rightarrow> jsval option \<Rightarrow> c4_error" where
  "mk_RequestValidationError message field value =
     (mk_Crawl4AIError message (Some 400) (Some ''Bad Request'') None)
       \<lparr>err_class := RequestValidationError, err_field := field, err_value := value\<rparr>"

text \<open>\<open>if (headers['x'])\<close>: the header is present and not the empty string.\<close>

definition header_truthy :: "(string \<rightharpoonup> string) \<Rightarrow> string \<Rightarrow> string option" where
  "header_truthy h k = (case h k of Some v \<Rightarrow> if v \<noteq> [] then Some v else None | None \<Rightarrow> None)"

definition mk_RateLimitError ::
  "string \<Rightarrow> jsnum option \<Rightarrow> (string \<rightharpoonup> string) option \<Rightarrow> c4_error" where
  "mk_RateLimitError message retryAfter headers =
     (let h = (case headers of Some h \<Rightarrow> h | None \<Rightarrow> Map.empty) in
      (mk_Crawl4AIError message (Some 429) (Some ''Too Many Requests'') None)
       \<lparr>err_class := RateLimitError,
        err_retryAfter := retryAfter,
        err_limit := map_option parseInt (header_truthy h ''x-ratelimit-limit''),
        err_remaining := map_option parseInt (header_truthy h ''x-ratelimit-remaining''),
        err_reset := map_option (\<lambda>v. js_mul (parseInt v) (JFin 1000))
                       (header_truthy h ''x-ratelimit-reset'')\<rparr>)"

definition mk_AuthError :: "string \<Rightarrow> int \<Rightarrow> c4_error" where
  "mk_AuthError message status =
     (mk_Crawl4AIError message (Some status)
        (Some (if status = 401 then ''Unauthorized'' else ''Forbidden'')) None)
       \<lparr>err_class := AuthError\<rparr>"

definition mk_ServerError :: "string \<Rightarrow> int \<Rightarrow> string option \<Rightarrow> c4_error" where
  "mk_ServerError message status statusText =
     (mk_Crawl4AIError message (Some status)
        (Some (case statusText of Some t \<Rightarrow> if t \<noteq> [] then t else ''Internal Server Error''
                                | None \<Rightarrow> ''Internal Server Error'')) None)
       \<lparr>err_class := ServerError\<rparr>"

definition mk_NotFoundError :: "string option \<Rightarrow> c4_error" where
  "mk_NotFoundError resource =
     (let r = (case resource of Some r \<Rightarrow> if r \<noteq> [] then Some r else None | None \<Rightarrow> None) in
      (mk_Crawl4AIError
         (case r of Some x \<Rightarrow> ''Resource not found: '' @ x | None \<Rightarrow> ''Resource not found'')
         (Some 404) (Some ''Not Found'') None)
       \<lparr>err_class := NotFoundError, err_resource := r\<rparr>)"

definition mk_ParseError :: "string \<Rightarrow> string option \<Rightarrow> c4_error" where
  "mk_ParseError message responseText =
     (mk_Crawl4AIError message None None None)
       \<lparr>err_class := ParseError,
        err_responseText := (case responseText of Some t \<Rightarrow> if t \<noteq> [] then Some t else None
                                                | None \<Rightarrow> None)\<rparr>"

section \<open>Type guards\<close>

fun isCrawl4AIError :: "exn \<Rightarrow> bool" where
  "isCrawl4AIError (C4 _) = True"
| "isCrawl4AIError (JsError _ _) = False"

fun isRateLimitError :: "exn \<Rightarrow> bool" where
  "isRateLimitError (C4 e) = (err_class e = RateLimitError)"
| "isRateLimitError (JsError _ _) = False"

fun isAuthError :: "exn \<Rightarrow> bool" where
  "isAuthError (C4 e) = (err_class e = AuthError)"
| "isAuthError (JsError _ _) = False"

fun isNetworkError :: "exn \<Rightarrow> bool" where
  "isNetworkError (C4 e) = (err_class e = NetworkError \<or> err_class e = TimeoutError)"
| "isNetworkError (JsError _ _) = False"

section \<open>The factory\<close>

definition createHttpError ::
  "int \<Rightarrow> string \<Rightarrow> string option \<Rightarrow> jsval option \<Rightarrow> (string \<rightharpoonup> string) option \<Rightarrow> c4_error" where
  "createHttpError status statusText message data headers =
     (let errorMessage = (case message of
            Some m \<Rightarrow> if m \<noteq> [] then m else ''HTTP '' @ int_str status @ '': '' @ statusText
          | None \<Rightarrow> ''HTTP '' @ int_str status @ '': '' @ statusText)
      in if status = 400 then mk_RequestValidationError errorMessage None None
         else if status = 401 then mk_AuthError errorMessage 401
         else if status = 403 then mk_AuthError errorMessage 403
         else if status = 404 then mk_NotFoundError None
         else if status = 429 then
           (let retryAfter = (case headers of
                  Some h \<Rightarrow> map_option parseInt (header_truthy h ''retry-after'')
                | None \<Rightarrow> None)
            in mk_RateLimitError errorMessage retryAfter headers)
         else if status \<in> {500, 502, 503, 504} then
           mk_ServerError errorMessage status (Some statusText)
         else mk_Crawl4AIError errorMessage (Some status) (Some statusText) data)"

text \<open>The class \<open>createHttpError\<close> chooses, as a table on the status.\<close>

definition status_class :: "int \<Rightarrow> err_class" where
  "status_class s =
     (if s = 400 then RequestValidationError
      else if s = 401 \<or> s = 403 then AuthError
      else if s = 404 then NotFoundError
      else if s = 429 then RateLimitError
      else if s \<in> {500, 502, 503, 504} then ServerError
      else Crawl4AIError)"

text \<open>The kind the design's taxonomy (section 4.1) assigns to a non-2xx
  status: \<open>Auth\<close> for 401 and 403, \<open>NotFound\<close> for 404, \<open>RateLimit\<close> for
  429, \<open>Server\<close> for every 5xx, and the catch-all \<open>Generic\<close> (the base class)
  for the rest.\<close>

definition spec_kind :: "int \<Rightarrow> err_class" where
  "spec_kind s =
     (if s = 401 \<or> s = 403 then AuthError
      else if s = 404 then NotFoundError
      else if s = 429 then RateLimitError
      else if 500 \<le> s \<and> s < 600 then ServerError
      else Crawl4AIError)"

lemmas ctor_defs = mk_Crawl4AIError_def mk_NetworkError_def mk_TimeoutError_def
  mk_RequestValidationError_def mk_RateLimitError_def mk_AuthError_def mk_ServerError_def
  mk_NotFoundError_def mk_ParseError_def

declare header_truthy_def [js_eval] createHttpError_def [js_eval] status_class_def [js_eval]
  spec_kind_def [js_eval]

section \<open>Lemmas\<close>

lemma ctor_class [simp]:
  "err_class (mk_Crawl4AIError m s st d) = Crawl4AIError"
  "err_class (mk_NetworkError m c) = NetworkError"
  "err_class (mk_TimeoutError t u) = TimeoutError"
  "err_class (mk_RequestValidationError m f v) = RequestValidationError"
  "err_class (mk_RateLimitError m r h) = RateLimitError"
  "err_class (mk_AuthError m s') = AuthError"
  "err_class (mk_ServerError m s' st) = ServerError"
  "err_class (mk_NotFoundError rs) = NotFoundError"
  "err_class (mk_ParseError m pt) = ParseError"
  by (simp_all add: ctor_defs Let_def)

lemma ctor_status [simp]:
  "err_status (mk_Crawl4AIError m s st d) = s"
  "err_status (mk_NetworkError m c) = None"
  "err_status (mk_TimeoutError t u) = None"
  "err_status (mk_RequestValidationError m f v) = Some 400"
  "err_status (mk_RateLimitError m r h) = Some 429"
  "err_status (mk_AuthError m s') = Some s'"
  "err_status (mk_ServerError m s' st) = Some s'"
  "err_status (mk_NotFoundError rs) = Some 404"
  "err_status (mk_ParseError m pt) = None"
  by (simp_all add: ctor_defs Let_def)

lemma ctor_retryAfter [simp]:
  "err_retryAfter (mk_RateLimitError m r h) = r"
  "err_timeout (mk_TimeoutError t u) = Some t"
  by (simp_all add: ctor_defs Let_def)

lemma createHttpError_status [simp]: "err_status (createHttpError s st m d h) = Some s"
  by (simp add: createHttpError_def Let_def)

lemma createHttpError_class [simp]: "err_class (createHttpError s st m d h) = status_class s"
  by (simp add: createHttpError_def status_class_def Let_def)

lemma createHttpError_429:
  "err_retryAfter (createHttpError 429 st m d (Some h)) = map_option parseInt (header_truthy h ''retry-after'')"
  by (simp add: createHttpError_def Let_def)

section \<open>Properties of the taxonomy\<close>

text \<open>
  C6. Classification is total, depends on the status alone, and agrees with
  the design's taxonomy except at two places: whatever the message, body and
  headers, the error keeps its status, and its class is the kind section 4.1
  assigns exactly when the status is not 400 (which the code classifies as a
  \<open>RequestValidationError\<close>, a kind the design reserves for input rejected
  before any request) and not a 5xx other than 500, 502, 503 and 504 (which the
  code leaves generic instead of \<open>Server\<close>).
\<close>

theorem createHttpError_classifies:
  "err_status (createHttpError status statusText message data headers) = Some status \<and>
   (err_class (createHttpError status statusText message data headers) = spec_kind status \<longleftrightarrow>
    \<not> (status = 400 \<or> (500 \<le> status \<and> status < 600 \<and> status \<notin> {500, 502, 503, 504})))"
  by (auto simp: status_class_def spec_kind_def)

theorem createHttpError_classifies_witness:
  "err_status (createHttpError 501 ''Not Implemented'' None None None) = Some 501 \<and>
   (err_class (createHttpError 501 ''Not Implemented'' None None None) = spec_kind 501 \<longleftrightarrow>
    \<not> ((501::int) = 400 \<or> (500 \<le> (501::int) \<and> (501::int) < 600 \<and> (501::int) \<notin> {500, 502, 503, 504})))"
  by (rule createHttpError_classifies)

text \<open>
  C10. A 429 response whose \<open>retry-after\<close> header is the decimal rendering of
  an integer \<open>n\<close> yields a \<open>RateLimitError\<close> whose \<open>retryAfter\<close> is
  \<open>n\<close>: \<open>parseInt\<close> reads back what \<open>toString\<close> prints.
\<close>

theorem createHttpError_retry_after_roundtrip:
  assumes "h ''retry-after'' = Some (int_str n)"
  shows "err_retryAfter (createHttpError 429 statusText message data (Some h)) = Some (js_int n)"
proof -
  from assms have "header_truthy h ''retry-after'' = Some (int_str n)"
    by (simp add: header_truthy_def)
  then show ?thesis by (simp add: createHttpError_429 parseInt_int_str)
qed

theorem createHttpError_retry_after_roundtrip_witness:
  "[''retry-after'' \<mapsto> int_str 120] ''retry-after'' = Some (int_str 120) \<and>
   err_retryAfter (createHttpError 429 ''Too Many Requests'' None None (Some [''retry-after'' \<mapsto> int_str 120]))
     = Some (js_int 120)"
  using createHttpError_retry_after_roundtrip [of "[''retry-after'' \<mapsto> int_str 120]" 120] by simp

end
