(* ===== verification/Transport.thy ===== *)
theory Transport
  imports Errors
begin

text \<open>
  The transport executor: the private method \<open>request\<close> of the class
  \<open>Crawl4AI\<close> (\<open>src/src/sdk.ts\<close>, lines 231-319) and the debug logger
  \<open>log\<close> (lines 190-194). The client's configuration \<open>this.config\<close> is
  the record \<open>client_config\<close>; the per-call options
  (\<open>RequestInit & RequestConfig\<close>) are \<open>req_options\<close>.

  The network is an input of the model, not a side effect: a \<open>net_event\<close>
  says what the server does for one \<open>fetch\<close>: its response arrives at
  a time \<open>t\<close> (milliseconds after the call), or its headers arrive at \<open>t\<close>
  and its body never finishes, or \<open>fetch\<close> rejects by itself
  at \<open>t\<close> (DNS, connection refused: a \<open>TypeError\<close>), or nothing ever
  happens. The deadline timer \<open>setTimeout(() => controller.abort(), timeout)\<close>
  fires after the delay Node.js actually uses (\<open>timer_delay\<close>), and aborts
  the fetch only when the internal controller's signal was passed to it, that
  is when the caller supplied no signal of their own; it is cleared as soon as
  the headers are in, so it never bounds the reading of the body. A call that
  never settles is \<open>None\<close>.
\<close>

record client_config =
  cfg_baseUrl :: string
  cfg_apiToken :: string
  cfg_timeout :: jsnum
  cfg_retries :: jsnum
  cfg_retryDelay :: jsnum
  cfg_defaultHeaders :: "string \<rightharpoonup> string"
  cfg_throwOnError :: bool
  cfg_validateStatus :: "int \<Rightarrow> bool"
  cfg_debug :: bool

text \<open>The caller's \<open>AbortSignal\<close>: absent, or present and aborting at the given
  time, if ever.\<close>

datatype caller_signal = NoSignal | CallerSignal "rat option"

record req_options =
  opt_method :: "string option"
  opt_body :: "string option"
  opt_headers :: "string \<rightharpoonup> string"
  opt_timeout :: "jsnum option"
  opt_signal :: caller_signal

text \<open>\<open>Arrive r j t\<close>: the response \<open>r\<close> arrives at \<open>t\<close>; \<open>j\<close> is what
  \<open>response.json()\<close> yields on its body (\<open>Inl\<close>: the message of the
  \<open>SyntaxError\<close> it throws). \<open>Stall r t\<close>: the headers of \<open>r\<close> arrive at
  \<open>t\<close> but its body never finishes, so \<open>response.json()\<close> and
  \<open>response.text()\<close> never settle unless the signal passed to \<open>fetch\<close>
  aborts them.\<close>

datatype net_event =
    Arrive http_response "string + jsval" rat
  | Stall http_response rat
  | Reject string string rat
  | Hang

type_synonym log_entry = "string \<times> jsval"

section \<open>Logging\<close>

definition log :: "client_config \<Rightarrow> string \<Rightarrow> jsval \<Rightarrow> log_entry list" where
  "log cfg message data =
     (if cfg_debug cfg then [(''[Crawl4AI] '' @ message, if js_truthy data then data else JStr '''')]
      else [])"

section \<open>The deadline timer\<close>

text \<open>
  Node.js runs a timer callback after \<open>after\<close> milliseconds when
  \<open>1 \<le> after \<le> TIMEOUT_MAX\<close> (\<open>TIMEOUT_MAX = 2^31 - 1\<close>, the largest
  32-bit signed delay) and after 1 millisecond otherwise: \<open>NaN\<close>,
  \<open>undefined\<close>, zero, negative and too large delays all collapse to 1.
\<close>

definition TIMEOUT_MAX :: rat where
  "TIMEOUT_MAX = 2 ^ 31 - 1"

definition timer_delay :: "jsnum \<Rightarrow> rat" where
  "timer_delay d = (case d of JFin q \<Rightarrow> if 1 \<le> q \<and> q \<le> TIMEOUT_MAX then q else 1 | _ \<Rightarrow> 1)"

datatype fetch_result = Fetched http_response "string + jsval" | FetchedStream http_response
  | FetchRejected string string

definition abort_rejection :: fetch_result where
  "abort_rejection = FetchRejected ''AbortError'' ''This operation was aborted''"

text \<open>When the signal passed to \<open>fetch\<close> aborts: the deadline timer when the
  caller gave no signal (\<open>signal || controller.signal\<close>), else the caller's.\<close>

definition abort_time :: "caller_signal \<Rightarrow> jsnum \<Rightarrow> rat option" where
  "abort_time sig timeout =
     (case sig of NoSignal \<Rightarrow> Some (timer_delay timeout) | CallerSignal a \<Rightarrow> a)"

definition content_type :: "http_response \<Rightarrow> string" where
  "content_type r = (case headers_get (resp_headers r) ''content-type'' of Some v \<Rightarrow> v | None \<Rightarrow> '''')"

text \<open>The content types whose body \<open>request\<close> does not read (lines 262-268):
  an event stream that is neither JSON nor HTML nor plain text.\<close>

definition is_event_stream :: "http_response \<Rightarrow> bool" where
  "is_event_stream r =
     (let ct = content_type r in
      \<not> str_includes ct ''application/json'' \<and>
      \<not> (str_includes ct ''text/html'' \<or> str_includes ct ''text/plain'') \<and>
      str_includes ct ''text/event-stream'')"

text \<open>How \<open>await fetch(...)\<close> and the body read after it settle (lines
  252-271): an abort no later than the network event wins; with no abort and
  no event it never settles. Once the headers are in, the deadline timer is
  cleared (line 258): a stalled body is then abandoned only by an abort of the
  caller's own signal, and otherwise never settles; an event stream is
  returned without reading its body.\<close>

definition fetch_settle :: "caller_signal \<Rightarrow> jsnum \<Rightarrow> net_event \<Rightarrow> fetch_result option" where
  "fetch_settle sig timeout ev =
     (case ev of
        Arrive r j t \<Rightarrow>
          (case abort_time sig timeout of
             Some ta \<Rightarrow> if ta \<le> t then Some abort_rejection else Some (Fetched r j)
           | None \<Rightarrow> Some (Fetched r j))
      | Stall r t \<Rightarrow>
          (case abort_time sig timeout of
             Some ta \<Rightarrow>
               if ta \<le> t then Some abort_rejection
               else if is_event_stream r then Some (FetchedStream r)
               else (case sig of CallerSignal _ \<Rightarrow> Some abort_rejection | NoSignal \<Rightarrow> None)
           | None \<Rightarrow> if is_event_stream r then Some (FetchedStream r) else None)
      | Reject n m t \<Rightarrow>
          (case abort_time sig timeout of
             Some ta \<Rightarrow> if ta \<le> t then Some abort_rejection else Some (FetchRejected n m)
           | None \<Rightarrow> Some (FetchRejected n m))
      | Hang \<Rightarrow>
          (case abort_time sig timeout of
             Some ta \<Rightarrow> Some abort_rejection
           | None \<Rightarrow> None))"

text \<open>The events on which the body read never finishes, whatever the
  deadline: a stalled body that is not an event stream.\<close>

definition body_stalls :: "net_event \<Rightarrow> bool" where
  "body_stalls ev = (case ev of Stall r t \<Rightarrow> \<not> is_event_stream r | _ \<Rightarrow> False)"

section \<open>Reading the body\<close>


definition body_text :: "http_response \<Rightarrow> string" where
  "body_text r = concat (resp_body r)"

datatype body_read = BodyThrow exn | BodyValue jsval | BodyStream

text \<open>The branch on the content type (lines 260-272): JSON is decoded, HTML,
  plain text and any other type are read as text, an event stream is returned
  unread.\<close>

definition read_body :: "http_response \<Rightarrow> string + jsval \<Rightarrow> body_read" where
  "read_body r j =
     (let ct = content_type r in
      if str_includes ct ''application/json'' then
        (case j of Inl msg \<Rightarrow> BodyThrow (JsError ''SyntaxError'' msg) | Inr v \<Rightarrow> BodyValue v)
      else if str_includes ct ''text/html'' \<or> str_includes ct ''text/plain'' then
        BodyValue (JStr (body_text r))
      else if str_includes ct ''text/event-stream'' then BodyStream
      else BodyValue (JStr (body_text r)))"

section \<open>The request\<close>

definition req_method :: "req_options \<Rightarrow> string" where
  "req_method opts = (case opt_method opts of Some m \<Rightarrow> if m \<noteq> [] then m else ''GET'' | None \<Rightarrow> ''GET'')"

definition req_timeout :: "client_config \<Rightarrow> req_options \<Rightarrow> jsnum" where
  "req_timeout cfg opts = (case opt_timeout opts of Some t \<Rightarrow> t | None \<Rightarrow> cfg_timeout cfg)"

definition req_headers :: "client_config \<Rightarrow> req_options \<Rightarrow> (string \<rightharpoonup> string)" where
  "req_headers cfg opts = cfg_defaultHeaders cfg ++ opt_headers opts"

definition body_val :: "string option \<Rightarrow> jsval" where
  "body_val b = (case b of Some s \<Rightarrow> JStr s | None \<Rightarrow> JUndef)"

text \<open>The error built for a response that fails \<open>validateStatus\<close>
  (lines 277-297).\<close>

definition status_error ::
  "http_response \<Rightarrow> jsval \<Rightarrow> string \<Rightarrow> string \<Rightarrow> (string \<rightharpoonup> string) \<Rightarrow> string option \<Rightarrow> c4_error" where
  "status_error r d url method hdrs body =
     (createHttpError (resp_status r) (resp_statusText r) None (Some d)
        (Some (headers_to_record (resp_headers r))))
       \<lparr>err_request := Some \<lparr>ri_url = url, ri_method = method, ri_headers = hdrs, ri_body = body\<rparr>\<rparr>"

text \<open>The \<open>try\<close> block after \<open>fetch\<close> has settled (lines 251-304).\<close>

definition request_try ::
  "client_config \<Rightarrow> string \<Rightarrow> string \<Rightarrow> (string \<rightharpoonup> string) \<Rightarrow> string option \<Rightarrow> fetch_result
   \<Rightarrow> (exn + jsval) \<times> log_entry list" where
  "request_try cfg url method hdrs body fr =
     (case fr of
        FetchRejected n m \<Rightarrow> (Inl (JsError n m), [])
      | FetchedStream r \<Rightarrow> (Inr (JResponse r), [])
      | Fetched r j \<Rightarrow>
          (case read_body r j of
             BodyThrow e \<Rightarrow> (Inl e, [])
           | BodyStream \<Rightarrow> (Inr (JResponse r), [])
           | BodyValue d \<Rightarrow>
               (let lg = log cfg (''Response: '' @ int_str (resp_status r)) d in
                if \<not> cfg_validateStatus cfg (resp_status r) then
                  (if cfg_throwOnError cfg then (Inl (C4 (status_error r d url method hdrs body)), lg)
                   else (Inr d, lg))
                else (Inr d, lg))))"

text \<open>The \<open>catch\<close> block (lines 305-318).\<close>

definition request_catch :: "jsnum \<Rightarrow> string \<Rightarrow> exn \<Rightarrow> exn" where
  "request_catch timeout url e =
     (if exn_name e = ''AbortError'' then C4 (mk_TimeoutError timeout (Some url))
      else (case e of
              JsError n m \<Rightarrow>
                if n = ''TypeError'' \<and> str_includes m ''fetch''
                then C4 (mk_NetworkError (''Network request failed: '' @ m) (Some (n, m)))
                else e
            | C4 _ \<Rightarrow> e))"

definition request ::
  "client_config \<Rightarrow> string \<Rightarrow> req_options \<Rightarrow> net_event \<Rightarrow> ((exn + jsval) \<times> log_entry list) option" where
  "request cfg endpoint opts ev =
     (let url = cfg_baseUrl cfg @ endpoint;
          timeout = req_timeout cfg opts;
          method = req_method opts;
          log1 = log cfg (''Request: '' @ method @ '' '' @ url) (body_val (opt_body opts));
          hdrs = req_headers cfg opts
      in case fetch_settle (opt_signal opts) timeout ev of
           None \<Rightarrow> None
         | Some fr \<Rightarrow>
             (let (res, lg) = request_try cfg url method hdrs (opt_body opts) fr in
              Some (case res of Inl e \<Rightarrow> Inl (request_catch timeout url e) | Inr v \<Rightarrow> Inr v,
                    log1 @ lg)))"

section \<open>Defaults\<close>

text \<open>The constants of sdk.ts (lines 29-36) and the \<open>defaults\<close> object of the
  constructor (lines 110-119): the configuration of a client built from a base
  address alone.\<close>

definition DEFAULT_TIMEOUT :: rat where "DEFAULT_TIMEOUT = 300000"
definition DEFAULT_RETRIES :: rat where "DEFAULT_RETRIES = 3"
definition DEFAULT_RETRY_DELAY :: rat where "DEFAULT_RETRY_DELAY = 1000"
definition RETRY_BACKOFF_MULTIPLIER :: rat where "RETRY_BACKOFF_MULTIPLIER = 2"
definition CLIENT_ERROR_MIN :: int where "CLIENT_ERROR_MIN = 400"
definition CLIENT_ERROR_MAX :: int where "CLIENT_ERROR_MAX = 500"
definition RATE_LIMIT_STATUS :: int where "RATE_LIMIT_STATUS = 429"

definition default_config :: "string \<Rightarrow> client_config" where
  "default_config baseUrl =
     \<lparr>cfg_baseUrl = baseUrl, cfg_apiToken = '''', cfg_timeout = JFin DEFAULT_TIMEOUT,
      cfg_retries = JFin DEFAULT_RETRIES, cfg_retryDelay = JFin DEFAULT_RETRY_DELAY,
      cfg_defaultHeaders = [''Content-Type'' \<mapsto> ''application/json''],
      cfg_throwOnError = True, cfg_validateStatus = (\<lambda>status. status < CLIENT_ERROR_MIN),
      cfg_debug = False\<rparr>"

text \<open>The default \<open>options = {}\<close> of \<open>request\<close> (line 233).\<close>

definition empty_options :: req_options where
  "empty_options = \<lparr>opt_method = None, opt_body = None, opt_headers = Map.empty,
     opt_timeout = None, opt_signal = NoSignal\<rparr>"

lemmas request_defs = request_def request_try_def req_method_def req_timeout_def req_headers_def

declare log_def [js_eval] timer_delay_def [js_eval] TIMEOUT_MAX_def [js_eval]
  abort_rejection_def [js_eval] abort_time_def [js_eval] fetch_settle_def [js_eval]
  is_event_stream_def [js_eval] body_stalls_def [js_eval]
  content_type_def [js_eval] body_text_def [js_eval] read_body_def [js_eval]
  body_val_def [js_eval] status_error_def [js_eval] request_catch_def [js_eval]
  DEFAULT_TIMEOUT_def [js_eval] DEFAULT_RETRIES_def [js_eval] DEFAULT_RETRY_DELAY_def [js_eval]
  RETRY_BACKOFF_MULTIPLIER_def [js_eval] CLIENT_ERROR_MIN_def [js_eval] CLIENT_ERROR_MAX_def [js_eval]
  RATE_LIMIT_STATUS_def [js_eval] default_config_def [js_eval] empty_options_def [js_eval]


section \<open>Lemmas\<close>

lemma timer_delay_range: "1 \<le> timer_delay d \<and> timer_delay d \<le> TIMEOUT_MAX"
  by (cases d) (auto simp: timer_delay_def TIMEOUT_MAX_def)

lemma fetch_settle_NoSignal:
  "\<not> body_stalls ev \<Longrightarrow> \<exists>fr. fetch_settle NoSignal timeout ev = Some fr"
  by (cases ev) (auto simp: fetch_settle_def abort_time_def body_stalls_def)

lemma fetch_settle_stalled:
  "t < timer_delay timeout \<Longrightarrow> \<not> is_event_stream r \<Longrightarrow> fetch_settle NoSignal timeout (Stall r t) = None"
  by (simp add: fetch_settle_def abort_time_def)

lemma fetch_settle_deadline:
  "timer_delay timeout \<le> t \<Longrightarrow> fetch_settle NoSignal timeout (Arrive r j t) = Some abort_rejection"
  "timer_delay timeout \<le> t \<Longrightarrow> fetch_settle NoSignal timeout (Reject n m t) = Some abort_rejection"
  "fetch_settle NoSignal timeout Hang = Some abort_rejection"
  by (simp_all add: fetch_settle_def abort_time_def)

lemma fetch_settle_before_deadline:
  "t < timer_delay timeout \<Longrightarrow> fetch_settle NoSignal timeout (Arrive r j t) = Some (Fetched r j)"
  "t < timer_delay timeout \<Longrightarrow> fetch_settle NoSignal timeout (Reject n m t) = Some (FetchRejected n m)"
  by (simp_all add: fetch_settle_def abort_time_def)

lemma class_name_not_abort [simp]: "class_name c \<noteq> ''AbortError''"
  by (cases c) simp_all

lemma request_catch_C4 [simp]: "request_catch timeout url (C4 e) = C4 e"
  by (simp add: request_catch_def)

lemma request_catch_abort [simp]:
  "request_catch timeout url (JsError ''AbortError'' m) = C4 (mk_TimeoutError timeout (Some url))"
  by (simp add: request_catch_def)

lemma request_settled:
  "fetch_settle (opt_signal opts) (req_timeout cfg opts) ev = Some fr \<Longrightarrow>
   request cfg endpoint opts ev =
     Some (case fst (request_try cfg (cfg_baseUrl cfg @ endpoint) (req_method opts) (req_headers cfg opts)
                      (opt_body opts) fr) of
             Inl e \<Rightarrow> Inl (request_catch (req_timeout cfg opts) (cfg_baseUrl cfg @ endpoint) e)
           | Inr v \<Rightarrow> Inr v,
           log cfg (''Request: '' @ req_method opts @ '' '' @ cfg_baseUrl cfg @ endpoint)
             (body_val (opt_body opts))
           @ snd (request_try cfg (cfg_baseUrl cfg @ endpoint) (req_method opts) (req_headers cfg opts)
                    (opt_body opts) fr))"
  by (simp add: request_def split_beta Let_def)

lemma request_unsettled:
  "fetch_settle (opt_signal opts) (req_timeout cfg opts) ev = None \<Longrightarrow> request cfg endpoint opts ev = None"
  by (simp add: request_def)

lemma request_settles:
  "opt_signal opts = NoSignal \<Longrightarrow> \<not> body_stalls ev \<Longrightarrow> \<exists>res lg. request cfg endpoint opts ev = Some (res, lg)"
  using fetch_settle_NoSignal [of ev "req_timeout cfg opts"]
  by (auto simp: request_def split_beta Let_def)

text \<open>The deadline does not cover the body: headers in time followed by a
  body that never finishes make the call hang, whatever the timeout.\<close>

lemma request_stalled_body:
  "opt_signal opts = NoSignal \<Longrightarrow> t < timer_delay (req_timeout cfg opts) \<Longrightarrow> \<not> is_event_stream r \<Longrightarrow>
   request cfg endpoint opts (Stall r t) = None"
  by (simp add: request_unsettled fetch_settle_stalled)

lemma request_status_error:
  assumes "opt_signal opts = NoSignal" and "t < timer_delay (req_timeout cfg opts)"
    and "read_body r j = BodyValue d" and "\<not> cfg_validateStatus cfg (resp_status r)"
    and "cfg_throwOnError cfg"
  shows "\<exists>lg. request cfg endpoint opts (Arrive r j t) =
           Some (Inl (C4 (status_error r d (cfg_baseUrl cfg @ endpoint) (req_method opts)
                            (req_headers cfg opts) (opt_body opts))), lg)"
  using assms
  by (simp add: request_settled fetch_settle_before_deadline request_try_def Let_def)

lemma request_success:
  assumes "opt_signal opts = NoSignal" and "t < timer_delay (req_timeout cfg opts)"
    and "read_body r j = BodyValue d" and "cfg_validateStatus cfg (resp_status r)"
  shows "\<exists>lg. request cfg endpoint opts (Arrive r j t) = Some (Inr d, lg)"
  using assms
  by (simp add: request_settled fetch_settle_before_deadline request_try_def Let_def)

lemma request_json_syntax_error:
  assumes "opt_signal opts = NoSignal" and "t < timer_delay (req_timeout cfg opts)"
    and "str_includes (content_type r) ''application/json''"
  shows "\<exists>lg. request cfg endpoint opts (Arrive r (Inl msg) t) = Some (Inl (JsError ''SyntaxError'' msg), lg)"
  using assms
  by (simp add: request_settled fetch_settle_before_deadline request_try_def read_body_def request_catch_def)

lemma status_error_fields [simp]:
  "err_status (status_error r d u m h b) = Some (resp_status r)"
  "err_class (status_error r d u m h b) = status_class (resp_status r)"
  "err_retryAfter (status_error r d u m h b) =
     err_retryAfter (createHttpError (resp_status r) (resp_statusText r) None (Some d)
       (Some (headers_to_record (resp_headers r))))"
  by (simp_all add: status_error_def)

section \<open>Properties of the transport\<close>

text \<open>
  C5. Deadline: with no caller signal, a response that has not arrived when the
  deadline timer fires makes \<open>request\<close> throw a \<open>TimeoutError\<close> carrying the
  call's timeout and the resolved address, not a generic network error.
\<close>

theorem request_deadline_timeout:
  assumes "opt_signal opts = NoSignal" and "timer_delay (req_timeout cfg opts) \<le> t"
  shows "map_option fst (request cfg endpoint opts (Arrive r j t)) =
           Some (Inl (C4 (mk_TimeoutError (req_timeout cfg opts) (Some (cfg_baseUrl cfg @ endpoint)))))"
  using assms
  by (simp add: request_settled fetch_settle_deadline request_try_def abort_rejection_def)

text \<open>
  C8. A response that fails \<open>validateStatus\<close> becomes the classified error of
  \<open>createHttpError\<close>, with the request descriptor (address, method, merged
  headers, body) attached; it is thrown when \<open>throwOnError\<close> is set, and
  otherwise the decoded body is returned as if the call had succeeded.
\<close>

theorem request_status_failure:
  assumes "opt_signal opts = NoSignal" and "t < timer_delay (req_timeout cfg opts)"
    and "read_body r j = BodyValue d" and "\<not> cfg_validateStatus cfg (resp_status r)"
  shows "map_option fst (request cfg endpoint opts (Arrive r j t)) =
           Some (if cfg_throwOnError cfg
                 then Inl (C4 (status_error r d (cfg_baseUrl cfg @ endpoint) (req_method opts)
                                 (req_headers cfg opts) (opt_body opts)))
                 else Inr d)"
  using assms
  by (simp add: request_settled fetch_settle_before_deadline request_try_def Let_def)

text \<open>
  C11. A caller-supplied signal replaces the deadline: the internal timer then
  aborts a controller nobody listens to, so a server that never answers makes
  the call hang for ever (the call never settles).
\<close>

theorem request_caller_signal_hangs:
  "request cfg endpoint (opts\<lparr>opt_signal := CallerSignal None\<rparr>) Hang = None"
  by (simp add: request_unsettled fetch_settle_def abort_time_def)

text \<open>
  C13. An event-stream response is returned unread before the status is
  checked: a \<open>text/event-stream\<close> response is a success whatever its status.
\<close>

theorem request_event_stream_unchecked:
  assumes "opt_signal opts = NoSignal" and "t < timer_delay (req_timeout cfg opts)"
    and "content_type r = ''text/event-stream''"
  shows "map_option fst (request cfg endpoint opts (Arrive r j t)) = Some (Inr (JResponse r))"
  using assms
  by (simp add: request_settled fetch_settle_before_deadline request_try_def read_body_def)

text \<open>
  C14. The debug log never depends on the request headers: whatever the
  default headers (where the bearer token lives) and the caller's headers, the
  same lines are logged.
\<close>

theorem request_log_ignores_headers:
  "map_option snd (request (cfg\<lparr>cfg_defaultHeaders := h1\<rparr>) endpoint (opts\<lparr>opt_headers := h2\<rparr>) ev) =
   map_option snd (request cfg endpoint opts ev)"
  by (simp add: request_def request_try_def Let_def log_def req_timeout_def req_method_def split_beta
      split: option.split fetch_result.split body_read.split)

text \<open>
  C15. A \<open>TypeError\<close> from \<open>fetch\<close> becomes a \<open>NetworkError\<close> only when its
  message mentions \<open>fetch\<close>; any other \<open>TypeError\<close> leaves the transport
  unclassified.
\<close>

theorem request_network_failure:
  assumes "opt_signal opts = NoSignal" and "t < timer_delay (req_timeout cfg opts)"
  shows "map_option fst (request cfg endpoint opts (Reject ''TypeError'' m t)) =
           Some (Inl (if str_includes m ''fetch''
                      then C4 (mk_NetworkError (''Network request failed: '' @ m) (Some (''TypeError'', m)))
                      else JsError ''TypeError'' m))"
  using assms
  by (simp add: request_settled fetch_settle_before_deadline request_try_def request_catch_def)

text \<open>
  C18. When the caller's own signal aborts the fetch, the call is reported as
  a \<open>TimeoutError\<close> carrying the configured timeout, although no deadline
  elapsed.
\<close>

theorem request_caller_abort_timeout:
  assumes "opt_signal opts = CallerSignal (Some ta)" and "ta \<le> t"
  shows "map_option fst (request cfg endpoint opts (Arrive r j t)) =
           Some (Inl (C4 (mk_TimeoutError (req_timeout cfg opts) (Some (cfg_baseUrl cfg @ endpoint)))))"
  using assms
  by (simp add: request_settled fetch_settle_def abort_time_def request_try_def abort_rejection_def)

section \<open>Witnesses\<close>

text \<open>A client with a timeout of \<open>2^31\<close> ms (accepted by the constructor,
  which only asks for a positive finite number) aborts a request that takes
  5 ms: the deadline timer collapses to 1 ms.\<close>

theorem request_deadline_timeout_witness:
  "opt_signal empty_options = NoSignal \<and>
   timer_delay (req_timeout ((default_config ''http://h'')\<lparr>cfg_timeout := JFin (2 ^ 31)\<rparr>) empty_options) \<le> 5 \<and>
   map_option fst (request ((default_config ''http://h'')\<lparr>cfg_timeout := JFin (2 ^ 31)\<rparr>) ''/crawl'' empty_options
       (Arrive \<lparr>resp_status = 200, resp_statusText = ''OK'', resp_headers = [], resp_body = []\<rparr> (Inr JNull) 5)) =
     Some (Inl (C4 (mk_TimeoutError (JFin (2 ^ 31)) (Some ''http://h/crawl''))))"
proof -
  let ?cfg = "(default_config ''http://h'')\<lparr>cfg_timeout := JFin (2 ^ 31)\<rparr>"
  have h1: "opt_signal empty_options = NoSignal" by (simp add: empty_options_def)
  have h2: "timer_delay (req_timeout ?cfg empty_options) \<le> 5"
    by (simp add: req_timeout_def empty_options_def timer_delay_def TIMEOUT_MAX_def)
  have "req_timeout ?cfg empty_options = JFin (2 ^ 31)" by (simp add: req_timeout_def empty_options_def)
  then show ?thesis using h1 h2 request_deadline_timeout [OF h1 h2] by (simp add: default_config_def)
qed

theorem request_status_failure_witness:
  "opt_signal empty_options = NoSignal \<and>
   (1::rat) < timer_delay (req_timeout (default_config ''http://h'') empty_options) \<and>
   read_body \<lparr>resp_status = 404, resp_statusText = ''Not Found'', resp_headers = [], resp_body = [''no'']\<rparr>
     (Inr JNull) = BodyValue (JStr ''no'') \<and>
   \<not> cfg_validateStatus (default_config ''http://h'') 404 \<and>
   map_option fst (request (default_config ''http://h'') ''/md'' empty_options
       (Arrive \<lparr>resp_status = 404, resp_statusText = ''Not Found'', resp_headers = [], resp_body = [''no'']\<rparr>
          (Inr JNull) 1)) =
     Some (Inl (C4 (status_error \<lparr>resp_status = 404, resp_statusText = ''Not Found'', resp_headers = [],
        resp_body = [''no'']\<rparr> (JStr ''no'') ''http://h/md'' ''GET''
        (req_headers (default_config ''http://h'') empty_options) None)))"
proof -
  let ?r = "\<lparr>resp_status = 404, resp_statusText = ''Not Found'', resp_headers = [], resp_body = [''no'']\<rparr>"
  have h1: "opt_signal empty_options = NoSignal" by (simp add: empty_options_def)
  have h2: "(1::rat) < timer_delay (req_timeout (default_config ''http://h'') empty_options)"
    by (simp add: req_timeout_def empty_options_def timer_delay_def TIMEOUT_MAX_def default_config_def
        DEFAULT_TIMEOUT_def)
  have h3: "read_body ?r (Inr JNull) = BodyValue (JStr ''no'')"
    by (simp add: read_body_def content_type_def headers_get_def body_text_def)
  have h4: "\<not> cfg_validateStatus (default_config ''http://h'') (resp_status ?r)"
    by (simp add: default_config_def CLIENT_ERROR_MIN_def)
  have "cfg_throwOnError (default_config ''http://h'')" "req_method empty_options = ''GET''"
    "opt_body empty_options = None"
    by (simp_all add: default_config_def req_method_def empty_options_def)
  then show ?thesis using h1 h2 h3 h4 request_status_failure [OF h1 h2 h3 h4]
    by (simp add: default_config_def)
qed

theorem request_event_stream_unchecked_witness:
  "opt_signal empty_options = NoSignal \<and>
   (1::rat) < timer_delay (req_timeout (default_config ''http://h'') empty_options) \<and>
   content_type \<lparr>resp_status = 500, resp_statusText = ''Internal Server Error'',
      resp_headers = [(''content-type'', ''text/event-stream'')], resp_body = []\<rparr> = ''text/event-stream'' \<and>
   map_option fst (request (default_config ''http://h'') ''/crawl/stream'' empty_options
       (Arrive \<lparr>resp_status = 500, resp_statusText = ''Internal Server Error'',
          resp_headers = [(''content-type'', ''text/event-stream'')], resp_body = []\<rparr> (Inr JNull) 1)) =
     Some (Inr (JResponse \<lparr>resp_status = 500, resp_statusText = ''Internal Server Error'',
          resp_headers = [(''content-type'', ''text/event-stream'')], resp_body = []\<rparr>))"
proof -
  let ?r = "\<lparr>resp_status = 500, resp_statusText = ''Internal Server Error'',
      resp_headers = [(''content-type'', ''text/event-stream'')], resp_body = []\<rparr>"
  have h1: "opt_signal empty_options = NoSignal" by (simp add: empty_options_def)
  have h2: "(1::rat) < timer_delay (req_timeout (default_config ''http://h'') empty_options)"
    by (simp add: req_timeout_def empty_options_def timer_delay_def TIMEOUT_MAX_def default_config_def
        DEFAULT_TIMEOUT_def)
  have h3: "content_type ?r = ''text/event-stream''" by (simp add: content_type_def headers_get_def)
  show ?thesis using h1 h2 h3 request_event_stream_unchecked [OF h1 h2 h3] by (simp add: default_config_def)
qed

theorem request_network_failure_witness:
  "opt_signal empty_options = NoSignal \<and>
   (1::rat) < timer_delay (req_timeout (default_config ''http://h'') empty_options) \<and>
   map_option fst (request (default_config ''http://h'') ''/health'' empty_options
      (Reject ''TypeError'' ''fetch failed'' 1)) =
     Some (Inl (C4 (mk_NetworkError ''Network request failed: fetch failed'' (Some (''TypeError'', ''fetch failed'')))))"
proof -
  have h1: "opt_signal empty_options = NoSignal" by (simp add: empty_options_def)
  have h2: "(1::rat) < timer_delay (req_timeout (default_config ''http://h'') empty_options)"
    by (simp add: req_timeout_def empty_options_def timer_delay_def TIMEOUT_MAX_def default_config_def
        DEFAULT_TIMEOUT_def)
  show ?thesis using h1 h2 request_network_failure [OF h1 h2, of "''/health''" "''fetch failed''"]
    by (simp add: default_config_def)
qed

theorem request_caller_abort_timeout_witness:
  "opt_signal (empty_options\<lparr>opt_signal := CallerSignal (Some 3)\<rparr>) = CallerSignal (Some 3) \<and>
   (3::rat) \<le> 10 \<and>
   map_option fst (request (default_config ''http://h'') ''/md'' (empty_options\<lparr>opt_signal := CallerSignal (Some 3)\<rparr>)
      (Arrive \<lparr>resp_status = 200, resp_statusText = ''OK'', resp_headers = [], resp_body = []\<rparr> (Inr JNull) 10)) =
     Some (Inl (C4 (mk_TimeoutError (JFin 300000) (Some ''http://h/md''))))"
proof -
  let ?o = "empty_options\<lparr>opt_signal := CallerSignal (Some 3)\<rparr>"
  have h1: "opt_signal ?o = CallerSignal (Some 3)" by simp
  have h2: "(3::rat) \<le> 10" by simp
  have "req_timeout (default_config ''http://h'') ?o = JFin 300000"
    by (simp add: req_timeout_def empty_options_def default_config_def DEFAULT_TIMEOUT_def)
  moreover have "cfg_baseUrl (default_config ''http://h'') = ''http://h''"
    by (simp add: default_config_def)
  ultimately show ?thesis
    using request_caller_abort_timeout [OF h1 h2, of "default_config ''http://h''" "''/md''"] by simp
qed

end
