(* ===== verification/Retry.thy ===== *)
theory Retry
  imports Transport
begin

text \<open>
  The retry coordinator: the private method \<open>requestWithRetry\<close> of
  \<open>Crawl4AI\<close> (\<open>src/src/sdk.ts\<close>, lines 321-365). Its \<open>for\<close> loop over
  \<open>attempt = 0 .. this.config.retries\<close> is the tail-recursive
  \<open>retry_loop\<close>, defined with \<open>partial_function (option)\<close>: the loop need not
  end (a \<open>fetch\<close> that never settles, a retry count of \<open>Infinity\<close>), and
  not ending is the value \<open>None\<close>. The network is one \<open>net_event\<close> per
  attempt (\<open>net i\<close> for attempt \<open>i\<close>). The state the loop threads is the
  attempt counter, \<open>lastError\<close>, and a trace of what it did
  (\<open>retry_trace\<close>): how many requests it issued, the delays it passed to
  \<open>setTimeout\<close> between attempts, and the debug log.
\<close>

record retry_trace =
  rt_attempts :: nat
  rt_sleeps :: "jsnum list"
  rt_logs :: "log_entry list"

definition empty_trace :: retry_trace where
  "empty_trace = \<lparr>rt_attempts = 0, rt_sleeps = [], rt_logs = []\<rparr>"

text \<open>The guard of lines 334-340: a \<open>Crawl4AIError\<close> with a truthy status in
  \<open>[400, 500)\<close> other than 429 is rethrown at once.\<close>

definition is_client_error :: "exn \<Rightarrow> bool" where
  "is_client_error e =
     (case e of
        C4 err \<Rightarrow>
          (case err_status err of
             Some s \<Rightarrow> s \<noteq> 0 \<and> CLIENT_ERROR_MIN \<le> s \<and> s < CLIENT_ERROR_MAX \<and> s \<noteq> RATE_LIMIT_STATUS
           | None \<Rightarrow> False)
      | JsError _ _ \<Rightarrow> False)"

text \<open>The delay of lines 345-349: \<open>retryDelay * 2 ** attempt\<close>, replaced by
  \<open>retryAfter * 1000\<close> for a \<open>RateLimitError\<close> with a truthy
  \<open>retryAfter\<close>.\<close>

definition backoff_delay :: "client_config \<Rightarrow> nat \<Rightarrow> exn \<Rightarrow> jsnum" where
  "backoff_delay cfg attempt e =
     (let delay = js_mul (cfg_retryDelay cfg) (JFin (RETRY_BACKOFF_MULTIPLIER ^ attempt)) in
      case e of
        C4 err \<Rightarrow>
          (if err_class err = RateLimitError then
             (case err_retryAfter err of
                Some ra \<Rightarrow> if js_num_truthy ra then js_mul ra (JFin 1000) else delay
              | None \<Rightarrow> delay)
           else delay)
      | JsError _ _ \<Rightarrow> delay)"

text \<open>The two log lines of lines 350-356.\<close>

definition retry_log :: "client_config \<Rightarrow> nat \<Rightarrow> exn \<Rightarrow> log_entry list" where
  "retry_log cfg attempt e =
     (let progress = nat_str (Suc attempt) @ ''/'' @ js_num_str (cfg_retries cfg) in
      case e of
        C4 err \<Rightarrow>
          (if err_class err = RateLimitError then
             (case err_retryAfter err of
                Some ra \<Rightarrow>
                  if js_num_truthy ra then
                    log cfg (''Rate limited. Waiting '' @ js_num_str ra @ ''s before retry (attempt ''
                             @ progress @ '')'') JUndef
                  else log cfg (''Retry attempt '' @ progress @ '' after ''
                                @ js_num_str (backoff_delay cfg attempt e) @ ''ms'') JUndef
              | None \<Rightarrow> log cfg (''Retry attempt '' @ progress @ '' after ''
                                @ js_num_str (backoff_delay cfg attempt e) @ ''ms'') JUndef)
           else log cfg (''Retry attempt '' @ progress @ '' after ''
                         @ js_num_str (backoff_delay cfg attempt e) @ ''ms'') JUndef)
      | JsError _ _ \<Rightarrow> log cfg (''Retry attempt '' @ progress @ '' after ''
                                @ js_num_str (backoff_delay cfg attempt e) @ ''ms'') JUndef)"

text \<open>One iteration of the \<open>for\<close> loop (lines 327-361), recursing on the next
  attempt; the loop test \<open>attempt <= this.config.retries\<close> is
  \<open>js_le\<close>, so a \<open>NaN\<close> retry count runs no attempt at all.\<close>

partial_function (option) retry_loop ::
  "client_config \<Rightarrow> string \<Rightarrow> req_options \<Rightarrow> (nat \<Rightarrow> net_event) \<Rightarrow> nat \<Rightarrow> exn \<Rightarrow> retry_trace
   \<Rightarrow> ((exn + jsval) \<times> retry_trace) option" where
  "retry_loop cfg endpoint opts net attempt lastError tr =
     (if js_le (js_nat attempt) (cfg_retries cfg) then
        (case request cfg endpoint opts (net attempt) of
           None \<Rightarrow> None
         | Some (res, lg) \<Rightarrow>
             (let tr1 = tr\<lparr>rt_attempts := Suc (rt_attempts tr), rt_logs := rt_logs tr @ lg\<rparr> in
              case res of
                Inr v \<Rightarrow> Some (Inr v, tr1)
              | Inl e \<Rightarrow>
                  if is_client_error e then Some (Inl e, tr1)
                  else if js_lt (js_nat attempt) (cfg_retries cfg) then
                    retry_loop cfg endpoint opts net (Suc attempt) e
                      (tr1\<lparr>rt_sleeps := rt_sleeps tr1 @ [backoff_delay cfg attempt e],
                           rt_logs := rt_logs tr1 @ retry_log cfg attempt e\<rparr>)
                  else retry_loop cfg endpoint opts net (Suc attempt) e tr1))
      else Some (Inl lastError, tr))"

definition requestWithRetry ::
  "client_config \<Rightarrow> string \<Rightarrow> req_options \<Rightarrow> (nat \<Rightarrow> net_event) \<Rightarrow> ((exn + jsval) \<times> retry_trace) option" where
  "requestWithRetry cfg endpoint opts net =
     retry_loop cfg endpoint opts net 0 (JsError ''Error'' ''No attempts made'') empty_trace"

declare empty_trace_def [js_eval] is_client_error_def [js_eval] backoff_delay_def [js_eval]
  retry_log_def [js_eval] requestWithRetry_def [js_eval]

section \<open>Unfolding one iteration\<close>

lemma retry_loop_exit:
  "\<not> js_le (js_nat a) (cfg_retries cfg) \<Longrightarrow>
   retry_loop cfg endpoint opts net a lastE tr = Some (Inl lastE, tr)"
  by (subst retry_loop.simps) simp

lemma retry_loop_hang:
  "js_le (js_nat a) (cfg_retries cfg) \<Longrightarrow> request cfg endpoint opts (net a) = None \<Longrightarrow>
   retry_loop cfg endpoint opts net a lastE tr = None"
  by (subst retry_loop.simps) simp

lemma retry_loop_success:
  "js_le (js_nat a) (cfg_retries cfg) \<Longrightarrow> request cfg endpoint opts (net a) = Some (Inr v, lg) \<Longrightarrow>
   retry_loop cfg endpoint opts net a lastE tr =
     Some (Inr v, tr\<lparr>rt_attempts := Suc (rt_attempts tr), rt_logs := rt_logs tr @ lg\<rparr>)"
  by (subst retry_loop.simps) simp

lemma requestWithRetry_first_success:
  "js_le (JFin 0) (cfg_retries cfg) \<Longrightarrow> request cfg endpoint opts (net 0) = Some (Inr v, lg) \<Longrightarrow>
   requestWithRetry cfg endpoint opts net = Some (Inr v, empty_trace\<lparr>rt_attempts := 1, rt_logs := lg\<rparr>)"
  using retry_loop_success [where a = 0 and net = net] by (simp add: requestWithRetry_def empty_trace_def)

lemma retry_loop_client_error:
  "js_le (js_nat a) (cfg_retries cfg) \<Longrightarrow> request cfg endpoint opts (net a) = Some (Inl e, lg) \<Longrightarrow>
   is_client_error e \<Longrightarrow>
   retry_loop cfg endpoint opts net a lastE tr =
     Some (Inl e, tr\<lparr>rt_attempts := Suc (rt_attempts tr), rt_logs := rt_logs tr @ lg\<rparr>)"
  by (subst retry_loop.simps) simp

lemma retry_loop_backoff:
  "js_le (js_nat a) (cfg_retries cfg) \<Longrightarrow> request cfg endpoint opts (net a) = Some (Inl e, lg) \<Longrightarrow>
   \<not> is_client_error e \<Longrightarrow> js_lt (js_nat a) (cfg_retries cfg) \<Longrightarrow>
   retry_loop cfg endpoint opts net a lastE tr =
     retry_loop cfg endpoint opts net (Suc a) e
       (tr\<lparr>rt_attempts := Suc (rt_attempts tr), rt_sleeps := rt_sleeps tr @ [backoff_delay cfg a e],
           rt_logs := rt_logs tr @ lg @ retry_log cfg a e\<rparr>)"
  by (subst retry_loop.simps) (simp add: Let_def)

lemma retry_loop_no_backoff:
  "js_le (js_nat a) (cfg_retries cfg) \<Longrightarrow> request cfg endpoint opts (net a) = Some (Inl e, lg) \<Longrightarrow>
   \<not> is_client_error e \<Longrightarrow> \<not> js_lt (js_nat a) (cfg_retries cfg) \<Longrightarrow>
   retry_loop cfg endpoint opts net a lastE tr =
     retry_loop cfg endpoint opts net (Suc a) e
       (tr\<lparr>rt_attempts := Suc (rt_attempts tr), rt_logs := rt_logs tr @ lg\<rparr>)"
  by (subst retry_loop.simps) (simp add: Let_def)

section \<open>Termination and runs of the loop\<close>

lemma retry_loop_total_fin:
  assumes sig: "opt_signal opts = NoSignal" and rq: "cfg_retries cfg = JFin q"
    and ns: "\<forall>a. \<not> body_stalls (net a)"
  shows "nat (\<lfloor>q\<rfloor> + 1) - a \<le> k \<Longrightarrow> \<exists>res. retry_loop cfg endpoint opts net a lastE tr = Some res"
proof (induction k arbitrary: a lastE tr)
  case 0
  have "\<not> rat_of_nat a \<le> q"
  proof
    assume "rat_of_nat a \<le> q"
    then have "int a \<le> \<lfloor>q\<rfloor>" by (metis le_floor_iff of_int_of_nat_eq)
    with "0" show False by (simp add: nat_le_iff)
  qed
  with rq show ?case by (simp add: retry_loop_exit)
next
  case (Suc k)
  show ?case
  proof (cases "js_le (js_nat a) (cfg_retries cfg)")
    case False
    then show ?thesis by (simp add: retry_loop_exit)
  next
    case le: True
    have step: "nat (\<lfloor>q\<rfloor> + 1) - Suc a \<le> k" using Suc.prems by simp
    obtain res lg where rqs: "request cfg endpoint opts (net a) = Some (res, lg)"
      using request_settles [OF sig] ns by blast
    show ?thesis
    proof (cases res)
      case (Inr v)
      with le rqs show ?thesis by (simp add: retry_loop_success)
    next
      case (Inl e)
      show ?thesis
        using le rqs Inl Suc.IH [OF step]
        by (cases "is_client_error e"; cases "js_lt (js_nat a) (cfg_retries cfg)")
           (simp_all add: retry_loop_client_error retry_loop_backoff retry_loop_no_backoff)
    qed
  qed
qed

lemma retry_loop_total:
  assumes "opt_signal opts = NoSignal" and "cfg_retries cfg \<noteq> JPosInf" and "\<forall>a. \<not> body_stalls (net a)"
  shows "\<exists>res. retry_loop cfg endpoint opts net a lastE tr = Some res"
proof (cases "cfg_retries cfg")
  case (JFin q)
  with assms show ?thesis using retry_loop_total_fin by blast
next
  case JNaN
  then show ?thesis by (simp add: retry_loop_exit)
next
  case JPosInf
  with assms show ?thesis by simp
next
  case JNegInf
  then show ?thesis by (simp add: retry_loop_exit js_le_def)
qed

lemma retry_loop_mono:
  assumes "retry_loop cfg endpoint opts net a lastE tr = Some y"
  shows "rt_attempts tr \<le> rt_attempts (snd y) \<and> (\<exists>zs. rt_sleeps (snd y) = rt_sleeps tr @ zs)"
proof (rule retry_loop.raw_induct
    [where P = "\<lambda>cfg endpoint opts net a lastE tr y. rt_attempts tr \<le> rt_attempts (snd y) \<and>
                  (\<exists>zs. rt_sleeps (snd y) = rt_sleeps tr @ zs)", OF _ assms], goal_cases)
  case (1 f cfg endpoint opts net a lastE tr y)
  from "1"(2) show ?case
    by (auto simp: Let_def split: if_splits option.splits sum.splits dest!: "1"(1))
qed

lemma is_client_error_C4:
  "is_client_error (C4 e) \<longleftrightarrow> (\<exists>s. err_status e = Some s \<and> 400 \<le> s \<and> s < 500 \<and> s \<noteq> 429)"
  by (auto simp: is_client_error_def CLIENT_ERROR_MIN_def CLIENT_ERROR_MAX_def RATE_LIMIT_STATUS_def
      split: option.split)

lemma backoff_delay_plain:
  "\<not> isRateLimitError e \<Longrightarrow> backoff_delay cfg a e = js_mul (cfg_retryDelay cfg) (JFin (2 ^ a))"
  by (cases e) (simp_all add: backoff_delay_def RETRY_BACKOFF_MULTIPLIER_def)

lemma retry_loop_skip:
  assumes rq: "cfg_retries cfg = js_nat n" and "k \<le> n" and "a \<le> k"
    and "\<forall>i. a \<le> i \<and> i < k \<longrightarrow>
           (\<exists>lg. request cfg endpoint opts (net i) = Some (Inl (errs i), lg)) \<and> \<not> is_client_error (errs i)"
  shows "\<exists>l tr'. retry_loop cfg endpoint opts net a lastE tr = retry_loop cfg endpoint opts net k l tr' \<and>
           rt_attempts tr' = rt_attempts tr + (k - a) \<and>
           rt_sleeps tr' = rt_sleeps tr @ map (\<lambda>i. backoff_delay cfg i (errs i)) [a..<k]"
  using assms(2-4)
proof (induction "k - a" arbitrary: a lastE tr)
  case 0
  then have "a = k" by simp
  then show ?case by auto
next
  case (Suc m)
  then have ak: "a < k" by simp
  from Suc.prems ak obtain lg where rqs: "request cfg endpoint opts (net a) = Some (Inl (errs a), lg)"
    and nc: "\<not> is_client_error (errs a)" by auto
  have le: "js_le (js_nat a) (cfg_retries cfg)" and lt: "js_lt (js_nat a) (cfg_retries cfg)"
    using rq ak Suc.prems(1) by simp_all
  let ?tr1 = "tr\<lparr>rt_attempts := Suc (rt_attempts tr), rt_sleeps := rt_sleeps tr @ [backoff_delay cfg a (errs a)],
                  rt_logs := rt_logs tr @ lg @ retry_log cfg a (errs a)\<rparr>"
  have "m = k - Suc a" using Suc.hyps by simp
  from Suc.hyps(1) [OF this, where lastE = "errs a" and tr = ?tr1] Suc.prems ak
  obtain l tr' where "retry_loop cfg endpoint opts net (Suc a) (errs a) ?tr1 = retry_loop cfg endpoint opts net k l tr'"
    and "rt_attempts tr' = Suc (rt_attempts tr) + (k - Suc a)"
    and "rt_sleeps tr' = (rt_sleeps tr @ [backoff_delay cfg a (errs a)]) @ map (\<lambda>i. backoff_delay cfg i (errs i)) [Suc a..<k]"
    by auto
  then show ?case
    using retry_loop_backoff [where net = net and a = a, OF le rqs nc lt] ak
    by (intro exI [of _ l] exI [of _ tr']) (simp add: upt_conv_Cons)
qed

lemma retry_loop_attempts_bound:
  assumes "retry_loop cfg endpoint opts net a lastE tr = Some y"
  shows "\<forall>q. cfg_retries cfg = JFin q \<longrightarrow> rt_attempts (snd y) \<le> rt_attempts tr + (nat (\<lfloor>q\<rfloor> + 1) - a)"
proof (rule retry_loop.raw_induct
    [where P = "\<lambda>cfg endpoint opts net a lastE tr y. \<forall>q. cfg_retries cfg = JFin q \<longrightarrow>
                  rt_attempts (snd y) \<le> rt_attempts tr + (nat (\<lfloor>q\<rfloor> + 1) - a)", OF _ assms], goal_cases)
  case (1 f cfg endpoint opts net a lastE tr y)
  show ?case
  proof (intro allI impI)
    fix q assume rq: "cfg_retries cfg = JFin q"
    show "rt_attempts (snd y) \<le> rt_attempts tr + (nat (\<lfloor>q\<rfloor> + 1) - a)"
    proof (cases "js_le (js_nat a) (cfg_retries cfg)")
      case False
      with "1"(2) show ?thesis by auto
    next
      case True
      with rq have "int a \<le> \<lfloor>q\<rfloor>" by (simp add: le_floor_iff)
      then have B: "Suc (nat (\<lfloor>q\<rfloor> + 1) - Suc a) = nat (\<lfloor>q\<rfloor> + 1) - a" by simp
      from True "1"(2) rq B show ?thesis
        by (auto simp: Let_def split: option.splits sum.splits if_splits dest!: "1"(1))
    qed
  qed
qed

lemma retry_loop_attempt_made:
  assumes le: "js_le (js_nat a) (cfg_retries cfg)"
    and run: "retry_loop cfg endpoint opts net a lastE tr = Some y"
  shows "Suc (rt_attempts tr) \<le> rt_attempts (snd y)"
proof -
  have "request cfg endpoint opts (net a) \<noteq> None"
  proof
    assume "request cfg endpoint opts (net a) = None"
    with run le show False by (subst (asm) retry_loop.simps) simp
  qed
  then obtain res lg where rqs: "request cfg endpoint opts (net a) = Some (res, lg)" by auto
  let ?tr1 = "tr\<lparr>rt_attempts := Suc (rt_attempts tr), rt_logs := rt_logs tr @ lg\<rparr>"
  show ?thesis
  proof (cases res)
    case (Inr v)
    with run le rqs show ?thesis by (auto simp: retry_loop_success)
  next
    case (Inl e)
    show ?thesis
    proof (cases "is_client_error e")
      case True
      with run le rqs Inl show ?thesis by (auto simp: retry_loop_client_error)
    next
      case nc: False
      show ?thesis
      proof (cases "js_lt (js_nat a) (cfg_retries cfg)")
        case True
        with run le rqs Inl nc retry_loop_mono show ?thesis
          by (fastforce simp: retry_loop_backoff [where net = net and a = a])
      next
        case False
        with run le rqs Inl nc retry_loop_mono show ?thesis
          by (fastforce simp: retry_loop_no_backoff [where net = net and a = a])
      qed
    qed
  qed
qed

section \<open>Properties of the retry coordinator\<close>

text \<open>
  C1. A client error is not retried: when the first response fails
  \<open>validateStatus\<close> with a status in \<open>[400, 500)\<close> other than 429, the
  coordinator makes exactly one request, never sleeps, and surfaces the
  classified error built from that response.
\<close>

theorem retry_client_error_single_attempt:
  assumes "opt_signal opts = NoSignal" and "js_le (JFin 0) (cfg_retries cfg)" and "cfg_throwOnError cfg"
    and "net 0 = Arrive r j t" and "t < timer_delay (req_timeout cfg opts)"
    and "read_body r j = BodyValue d" and "\<not> cfg_validateStatus cfg (resp_status r)"
    and "400 \<le> resp_status r" and "resp_status r < 500" and "resp_status r \<noteq> 429"
  shows "\<exists>tr. requestWithRetry cfg endpoint opts net =
           Some (Inl (C4 (status_error r d (cfg_baseUrl cfg @ endpoint) (req_method opts)
                            (req_headers cfg opts) (opt_body opts))), tr) \<and>
         rt_attempts tr = 1 \<and> rt_sleeps tr = []"
proof -
  let ?e = "C4 (status_error r d (cfg_baseUrl cfg @ endpoint) (req_method opts) (req_headers cfg opts) (opt_body opts))"
  obtain lg where rqs: "request cfg endpoint opts (net 0) = Some (Inl ?e, lg)"
    using request_status_error [OF assms(1,5,6,7,3)] assms(4) by auto
  have "is_client_error ?e" using assms(8-10) by (simp add: is_client_error_C4)
  moreover have "js_le (js_nat 0) (cfg_retries cfg)" using assms(2) by simp
  ultimately show ?thesis
    using retry_loop_client_error [where net = net and a = 0, OF _ rqs] by (simp add: requestWithRetry_def empty_trace_def)
qed

text \<open>
  C2. Persistent server errors exhaust the retries on the exponential
  schedule: with \<open>retries = n\<close> and every response a 500, 502, 503 or 504,
  exactly \<open>n + 1\<close> requests are made, the delays between them are
  \<open>retryDelay * 2^i\<close> for \<open>i = 0 .. n - 1\<close>, and the last classified
  error is surfaced.
\<close>

theorem retry_persistent_server_error:
  assumes "cfg_retries cfg = js_nat n" and "opt_signal opts = NoSignal" and "cfg_throwOnError cfg"
    and "\<forall>i\<le>n. net i = Arrive r j t" and "t < timer_delay (req_timeout cfg opts)"
    and "read_body r j = BodyValue d" and "\<not> cfg_validateStatus cfg (resp_status r)"
    and "resp_status r \<in> {500, 502, 503, 504}"
  shows "\<exists>tr. requestWithRetry cfg endpoint opts net =
           Some (Inl (C4 (status_error r d (cfg_baseUrl cfg @ endpoint) (req_method opts)
                            (req_headers cfg opts) (opt_body opts))), tr) \<and>
         rt_attempts tr = n + 1 \<and>
         rt_sleeps tr = map (\<lambda>i. js_mul (cfg_retryDelay cfg) (JFin (2 ^ i))) [0..<n]"
proof -
  let ?e = "C4 (status_error r d (cfg_baseUrl cfg @ endpoint) (req_method opts) (req_headers cfg opts) (opt_body opts))"
  have fail: "\<exists>lg. request cfg endpoint opts (net i) = Some (Inl ?e, lg)" if "i \<le> n" for i
    using request_status_error [OF assms(2,5,6,7,3)] assms(4) that by auto
  have nc: "\<not> is_client_error ?e" and nrl: "\<not> isRateLimitError ?e"
    using assms(8) by (auto simp: is_client_error_C4 status_class_def)
  have "\<exists>l tr'. retry_loop cfg endpoint opts net 0 (JsError ''Error'' ''No attempts made'') empty_trace
        = retry_loop cfg endpoint opts net n l tr' \<and> rt_attempts tr' = rt_attempts empty_trace + (n - 0) \<and>
        rt_sleeps tr' = rt_sleeps empty_trace @ map (\<lambda>i. backoff_delay cfg i ((\<lambda>_. ?e) i)) [0..<n]"
    using fail nc by (intro retry_loop_skip [OF assms(1) order_refl]) auto
  then obtain l tr' where skip: "retry_loop cfg endpoint opts net 0 (JsError ''Error'' ''No attempts made'') empty_trace
        = retry_loop cfg endpoint opts net n l tr'"
    and att: "rt_attempts tr' = n" and sl: "rt_sleeps tr' = map (\<lambda>i. backoff_delay cfg i ?e) [0..<n]"
    by (auto simp: empty_trace_def)
  obtain lg where rqn: "request cfg endpoint opts (net n) = Some (Inl ?e, lg)" using fail by blast
  have le: "js_le (js_nat n) (cfg_retries cfg)" and nlt: "\<not> js_lt (js_nat n) (cfg_retries cfg)"
    and nle: "\<not> js_le (js_nat (Suc n)) (cfg_retries cfg)" using assms(1) by simp_all
  show ?thesis
    using skip att sl retry_loop_no_backoff [where net = net and a = n, OF le rqn nc nlt]
      retry_loop_exit [OF nle] backoff_delay_plain [OF nrl]
    by (simp add: requestWithRetry_def)
qed

text \<open>
  C3. Rate limiting overrides the schedule: when the first response is a 429
  whose \<open>retry-after\<close> header is a non-zero integer \<open>R\<close> and a retry
  remains, the first delay is exactly \<open>R * 1000\<close> milliseconds (on a
  network whose response bodies finish, so that the call returns).
\<close>

theorem retry_rate_limit_delay:
  assumes "cfg_retries cfg = js_nat n" and "0 < n" and "opt_signal opts = NoSignal"
    and "cfg_throwOnError cfg" and "net 0 = Arrive r j t" and "t < timer_delay (req_timeout cfg opts)"
    and "read_body r j = BodyValue d" and "\<not> cfg_validateStatus cfg (resp_status r)"
    and "resp_status r = 429" and "distinct (map fst (resp_headers r))"
    and "map_of (resp_headers r) ''retry-after'' = Some (int_str R)" and "R \<noteq> 0"
    and "\<forall>a. \<not> body_stalls (net a)"
  shows "\<exists>res tr. requestWithRetry cfg endpoint opts net = Some (res, tr) \<and>
           take 1 (rt_sleeps tr) = [js_int (R * 1000)]"
proof -
  let ?se = "status_error r d (cfg_baseUrl cfg @ endpoint) (req_method opts) (req_headers cfg opts) (opt_body opts)"
  obtain lg where rqs: "request cfg endpoint opts (net 0) = Some (Inl (C4 ?se), lg)"
    using request_status_error [OF assms(3,6,7,8,4)] assms(5) by auto
  have nc: "\<not> is_client_error (C4 ?se)" using assms(9) by (simp add: is_client_error_C4)
  have "header_truthy (headers_to_record (resp_headers r)) ''retry-after'' = Some (int_str R)"
    using assms(10,11) by (simp add: headers_to_record_get header_truthy_def)
  then have ra: "err_retryAfter ?se = Some (js_int R)"
    using assms(9) by (simp add: createHttpError_429 parseInt_int_str)
  have bd: "backoff_delay cfg 0 (C4 ?se) = js_int (R * 1000)"
    using ra assms(9,12) by (simp add: backoff_delay_def status_class_def js_num_truthy_def)
  have le: "js_le (js_nat 0) (cfg_retries cfg)" and lt: "js_lt (js_nat 0) (cfg_retries cfg)"
    using assms(1,2) by simp_all
  let ?tr1 = "empty_trace\<lparr>rt_attempts := Suc (rt_attempts empty_trace),
      rt_sleeps := rt_sleeps empty_trace @ [backoff_delay cfg 0 (C4 ?se)],
      rt_logs := rt_logs empty_trace @ lg @ retry_log cfg 0 (C4 ?se)\<rparr>"
  have step: "requestWithRetry cfg endpoint opts net = retry_loop cfg endpoint opts net 1 (C4 ?se) ?tr1"
    using retry_loop_backoff [where net = net and a = 0, OF le rqs nc lt] by (simp add: requestWithRetry_def)
  obtain y where run: "retry_loop cfg endpoint opts net 1 (C4 ?se) ?tr1 = Some y"
    using retry_loop_total [OF assms(3) _ assms(13)] assms(1) by fastforce
  from retry_loop_mono [OF run] obtain zs where "rt_sleeps (snd y) = rt_sleeps ?tr1 @ zs" by blast
  with step run bd show ?thesis by (intro exI [of _ "fst y"] exI [of _ "snd y"]) (simp add: empty_trace_def)
qed

text \<open>
  C4. Termination: without a caller-supplied signal, with any retry count
  but \<open>Infinity\<close>, and as long as no attempt's response body stalls after
  its headers, \<open>requestWithRetry\<close> always returns (a value or an error),
  servers that never answer included. The condition on the body cannot be
  dropped: the deadline timer is cleared once the headers are in
  (\<open>Transport.request_stalled_body\<close>, and C29 for \<open>testConnection\<close>).
\<close>

theorem requestWithRetry_returns:
  assumes "opt_signal opts = NoSignal" and "cfg_retries cfg \<noteq> JPosInf" and "\<forall>a. \<not> body_stalls (net a)"
  shows "\<exists>res. requestWithRetry cfg endpoint opts net = Some res"
  using retry_loop_total [OF assms] by (simp add: requestWithRetry_def)

text \<open>
  C12. An error outside the taxonomy is retried: a response declared as JSON
  whose body does not parse makes \<open>response.json()\<close> throw a
  \<open>SyntaxError\<close>, which the coordinator does not recognise as a client
  error and so retries (at least a second request and a sleep), although the
  design says such errors propagate at once (on a network whose response
  bodies finish, so that the call returns).
\<close>

theorem retry_unclassified_error_retried:
  assumes "cfg_retries cfg = js_nat n" and "0 < n" and "opt_signal opts = NoSignal"
    and "net 0 = Arrive r (Inl msg) t" and "t < timer_delay (req_timeout cfg opts)"
    and "str_includes (content_type r) ''application/json''" and "\<forall>a. \<not> body_stalls (net a)"
  shows "\<exists>res tr. requestWithRetry cfg endpoint opts net = Some (res, tr) \<and>
           2 \<le> rt_attempts tr \<and> rt_sleeps tr \<noteq> []"
proof -
  let ?e = "JsError ''SyntaxError'' msg"
  obtain lg where rqs: "request cfg endpoint opts (net 0) = Some (Inl ?e, lg)"
    using request_json_syntax_error [OF assms(3,5,6)] assms(4) by auto
  have nc: "\<not> is_client_error ?e" by (simp add: is_client_error_def)
  have le: "js_le (js_nat 0) (cfg_retries cfg)" and lt: "js_lt (js_nat 0) (cfg_retries cfg)"
    and le1: "js_le (js_nat 1) (cfg_retries cfg)"
    using assms(1,2) by simp_all
  let ?tr1 = "empty_trace\<lparr>rt_attempts := Suc (rt_attempts empty_trace),
      rt_sleeps := rt_sleeps empty_trace @ [backoff_delay cfg 0 ?e],
      rt_logs := rt_logs empty_trace @ lg @ retry_log cfg 0 ?e\<rparr>"
  have step: "requestWithRetry cfg endpoint opts net = retry_loop cfg endpoint opts net 1 ?e ?tr1"
    using retry_loop_backoff [where net = net and a = 0, OF le rqs nc lt] by (simp add: requestWithRetry_def)
  obtain y where run: "retry_loop cfg endpoint opts net 1 ?e ?tr1 = Some y"
    using retry_loop_total [OF assms(3) _ assms(7)] assms(1) by fastforce
  have "Suc (rt_attempts ?tr1) \<le> rt_attempts (snd y)"
    using retry_loop_attempt_made [OF le1 run] .
  moreover from retry_loop_mono [OF run] obtain zs where "rt_sleeps (snd y) = rt_sleeps ?tr1 @ zs" by blast
  ultimately show ?thesis using step run
    by (intro exI [of _ "fst y"] exI [of _ "snd y"]) (simp add: empty_trace_def)
qed

text \<open>
  C16. Success stops the loop: if attempts \<open>0 .. k-1\<close> fail with retryable
  errors and attempt \<open>k \<le> retries\<close> succeeds, its value is returned after
  exactly \<open>k + 1\<close> requests and one delay per failed attempt.
\<close>

theorem retry_success_after_failures:
  assumes "cfg_retries cfg = js_nat n" and "k \<le> n"
    and "\<forall>i<k. (\<exists>lg. request cfg endpoint opts (net i) = Some (Inl (errs i), lg)) \<and> \<not> is_client_error (errs i)"
    and "request cfg endpoint opts (net k) = Some (Inr v, lg)"
  shows "\<exists>tr. requestWithRetry cfg endpoint opts net = Some (Inr v, tr) \<and> rt_attempts tr = k + 1 \<and>
           rt_sleeps tr = map (\<lambda>i. backoff_delay cfg i (errs i)) [0..<k]"
proof -
  have "\<exists>l tr'. retry_loop cfg endpoint opts net 0 (JsError ''Error'' ''No attempts made'') empty_trace
        = retry_loop cfg endpoint opts net k l tr' \<and> rt_attempts tr' = rt_attempts empty_trace + (k - 0) \<and>
        rt_sleeps tr' = rt_sleeps empty_trace @ map (\<lambda>i. backoff_delay cfg i (errs i)) [0..<k]"
    using assms(3) by (intro retry_loop_skip [OF assms(1,2)]) auto
  then obtain l tr' where skip: "requestWithRetry cfg endpoint opts net = retry_loop cfg endpoint opts net k l tr'"
    and att: "rt_attempts tr' = k" and sl: "rt_sleeps tr' = map (\<lambda>i. backoff_delay cfg i (errs i)) [0..<k]"
    by (auto simp: empty_trace_def requestWithRetry_def)
  have le: "js_le (js_nat k) (cfg_retries cfg)" using assms(1,2) by simp
  show ?thesis
    using skip att sl retry_loop_success [where net = net and a = k, OF le assms(4)] by simp
qed

text \<open>
  C17. Bounded retries: a call that returns has made at most
  \<open>\<lfloor>retries\<rfloor> + 1\<close> requests.
\<close>

theorem retry_attempts_bound:
  assumes "requestWithRetry cfg endpoint opts net = Some (res, tr)" and "cfg_retries cfg = JFin q"
  shows "rt_attempts tr \<le> nat (\<lfloor>q\<rfloor> + 1)"
  using retry_loop_attempts_bound [OF assms(1) [unfolded requestWithRetry_def]] assms(2)
  by (simp add: empty_trace_def)

section \<open>Witnesses\<close>

theorem retry_client_error_single_attempt_witness:
  "\<exists>tr. requestWithRetry (default_config ''http://h'') ''/md'' empty_options
      (\<lambda>_. Arrive \<lparr>resp_status = 404, resp_statusText = ''Not Found'', resp_headers = [], resp_body = [''no'']\<rparr>
               (Inr JNull) 1) =
     Some (Inl (C4 (status_error \<lparr>resp_status = 404, resp_statusText = ''Not Found'', resp_headers = [],
        resp_body = [''no'']\<rparr> (JStr ''no'') (cfg_baseUrl (default_config ''http://h'') @ ''/md'')
        (req_method empty_options) (req_headers (default_config ''http://h'') empty_options)
        (opt_body empty_options))), tr) \<and> rt_attempts tr = 1 \<and> rt_sleeps tr = []"
  by (rule retry_client_error_single_attempt [where j = "Inr JNull" and t = 1])
     (simp_all add: js_eval request_defs)

theorem retry_persistent_server_error_witness:
  "\<exists>tr. requestWithRetry (default_config ''http://h'') ''/crawl'' empty_options
      (\<lambda>_. Arrive \<lparr>resp_status = 500, resp_statusText = ''Internal Server Error'', resp_headers = [],
                  resp_body = [''down'']\<rparr> (Inr JNull) 1) =
     Some (Inl (C4 (status_error \<lparr>resp_status = 500, resp_statusText = ''Internal Server Error'',
        resp_headers = [], resp_body = [''down'']\<rparr> (JStr ''down'') (cfg_baseUrl (default_config ''http://h'') @ ''/crawl'')
        (req_method empty_options) (req_headers (default_config ''http://h'') empty_options)
        (opt_body empty_options))), tr) \<and>
     rt_attempts tr = 4 \<and> rt_sleeps tr = [JFin 1000, JFin 2000, JFin 4000]"
proof -
  have "\<exists>tr. requestWithRetry (default_config ''http://h'') ''/crawl'' empty_options
      (\<lambda>_. Arrive \<lparr>resp_status = 500, resp_statusText = ''Internal Server Error'', resp_headers = [],
                  resp_body = [''down'']\<rparr> (Inr JNull) 1) =
     Some (Inl (C4 (status_error \<lparr>resp_status = 500, resp_statusText = ''Internal Server Error'',
        resp_headers = [], resp_body = [''down'']\<rparr> (JStr ''down'') (cfg_baseUrl (default_config ''http://h'') @ ''/crawl'')
        (req_method empty_options) (req_headers (default_config ''http://h'') empty_options)
        (opt_body empty_options))), tr) \<and>
     rt_attempts tr = 3 + 1 \<and>
     rt_sleeps tr = map (\<lambda>i. js_mul (cfg_retryDelay (default_config ''http://h'')) (JFin (2 ^ i))) [0..<3]"
    by (rule retry_persistent_server_error [where j = "Inr JNull" and t = 1])
       (simp_all add: js_eval request_defs)
  then show ?thesis by (simp add: js_eval upt_rec)
qed

theorem retry_rate_limit_delay_witness:
  "\<exists>res tr. requestWithRetry (default_config ''http://h'') ''/crawl'' empty_options
      (\<lambda>_. Arrive \<lparr>resp_status = 429, resp_statusText = ''Too Many Requests'',
                  resp_headers = [(''retry-after'', int_str 2)], resp_body = []\<rparr> (Inr JNull) 1) = Some (res, tr) \<and>
     take 1 (rt_sleeps tr) = [js_int (2 * 1000)]"
proof -
  let ?r = "\<lparr>resp_status = 429, resp_statusText = ''Too Many Requests'',
              resp_headers = [(''retry-after'', int_str 2)], resp_body = []\<rparr>"
  show ?thesis
    by (rule retry_rate_limit_delay [where n = 3 and r = ?r and j = "Inr JNull" and t = 1 and d = "JStr []"])
       (simp_all add: js_eval request_defs)
qed

theorem requestWithRetry_returns_witness:
  "\<exists>res. requestWithRetry (default_config ''http://h'') ''/health'' empty_options (\<lambda>_. Hang) = Some res"
  by (rule requestWithRetry_returns) (simp_all add: js_eval)

theorem retry_unclassified_error_retried_witness:
  "\<exists>res tr. requestWithRetry (default_config ''http://h'') ''/crawl'' empty_options
      (\<lambda>_. Arrive \<lparr>resp_status = 200, resp_statusText = ''OK'',
                  resp_headers = [(''content-type'', ''application/json'')], resp_body = [''{'']\<rparr>
            (Inl ''Unexpected end of JSON input'') 1) = Some (res, tr) \<and>
     2 \<le> rt_attempts tr \<and> rt_sleeps tr \<noteq> []"
proof -
  let ?r = "\<lparr>resp_status = 200, resp_statusText = ''OK'',
              resp_headers = [(''content-type'', ''application/json'')], resp_body = [''{'']\<rparr>"
  show ?thesis
    by (rule retry_unclassified_error_retried [where n = 3 and r = ?r and t = 1])
       (simp_all add: js_eval request_defs)
qed

theorem retry_success_after_failures_witness:
  "\<exists>tr. requestWithRetry (default_config ''http://h'') ''/md'' empty_options
      (\<lambda>i. if i = 0 then Reject ''TypeError'' ''fetch failed'' 1
           else Arrive \<lparr>resp_status = 200, resp_statusText = ''OK'',
                  resp_headers = [(''content-type'', ''text/plain'')], resp_body = [''ok'']\<rparr> (Inr JNull) 1) =
     Some (Inr (JStr ''ok''), tr) \<and> rt_attempts tr = 1 + 1 \<and>
     rt_sleeps tr = map (\<lambda>i. backoff_delay (default_config ''http://h'') i
        (C4 (mk_NetworkError ''Network request failed: fetch failed'' (Some (''TypeError'', ''fetch failed''))))) [0..<1]"
  by (rule retry_success_after_failures [where n = 3 and lg = "[]"])
     (simp_all add: js_eval request_defs is_client_error_C4)

theorem retry_attempts_bound_witness:
  "\<exists>tr. requestWithRetry (default_config ''http://h'') ''/md'' empty_options
      (\<lambda>_. Arrive \<lparr>resp_status = 200, resp_statusText = ''OK'',
                  resp_headers = [(''content-type'', ''text/plain'')], resp_body = [''ok'']\<rparr> (Inr JNull) 1) =
        Some (Inr (JStr ''ok''), tr) \<and>
     cfg_retries (default_config ''http://h'') = JFin 3 \<and> rt_attempts tr \<le> nat (\<lfloor>3::rat\<rfloor> + 1)"
proof -
  let ?net = "\<lambda>_::nat. Arrive \<lparr>resp_status = 200, resp_statusText = ''OK'',
                  resp_headers = [(''content-type'', ''text/plain'')], resp_body = [''ok'']\<rparr> (Inr JNull) 1"
  have rq: "request (default_config ''http://h'') ''/md'' empty_options (?net 0) = Some (Inr (JStr ''ok''), [])"
    by (simp add: js_eval request_defs)
  have le: "js_le (js_nat 0) (cfg_retries (default_config ''http://h''))" by (simp add: js_eval)
  have run: "requestWithRetry (default_config ''http://h'') ''/md'' empty_options ?net =
      Some (Inr (JStr ''ok''), empty_trace\<lparr>rt_attempts := 1\<rparr>)"
    using retry_loop_success [where net = ?net and a = 0, OF le rq] by (simp add: requestWithRetry_def empty_trace_def)
  have q: "cfg_retries (default_config ''http://h'') = JFin 3" by (simp add: js_eval)
  show ?thesis using run q retry_attempts_bound [OF run q] by blast
qed

end
