(* ===== verification/Normalize.thy ===== *)
theory Normalize
  imports Prelude
begin

text \<open>
  The response normalizer: the type guard \<open>isApiArrayResponse\<close>
  (\<open>src/src/sdk.ts\<close>, lines 44-46) and the private method
  \<open>normalizeArrayResponse\<close> (lines 199-214) that \<open>crawl\<close> applies to the
  decoded body. The code tests JavaScript truthiness, \<open>Array.isArray\<close> and
  the \<open>in\<close> operator; the abstract specification \<open>envelope_items\<close> is the
  priority rule of the design (a bare array; else an array under
  \<open>results\<close>; else an array under \<open>result\<close>; else the value alone), and
  the refinement lemma says the code computes it.
\<close>

definition js_isArray :: "jsval \<Rightarrow> bool" where
  "js_isArray v = (case v of JArr _ \<Rightarrow> True | _ \<Rightarrow> False)"

text \<open>A property read \<open>v.k\<close>: \<open>undefined\<close> when the object lacks it.\<close>

definition js_prop :: "jsval \<Rightarrow> string \<Rightarrow> jsval" where
  "js_prop v k = (case v of JObj kvs \<Rightarrow> (case obj_get kvs k of Some x \<Rightarrow> x | None \<Rightarrow> JUndef) | _ \<Rightarrow> JUndef)"

text \<open>\<open>typeof value === 'object' && value !== null && ('results' in value ||
  'result' in value)\<close>: arrays and the \<open>Response\<close> object are objects without
  these properties.\<close>

definition isApiArrayResponse :: "jsval \<Rightarrow> bool" where
  "isApiArrayResponse v =
     (case v of
        JObj kvs \<Rightarrow> obj_has kvs ''results'' \<or> obj_has kvs ''result''
      | _ \<Rightarrow> False)"

definition normalizeArrayResponse :: "jsval \<Rightarrow> jsval" where
  "normalizeArrayResponse response =
     (if js_isArray response then response
      else if isApiArrayResponse response then
        (if js_truthy (js_prop response ''results'') \<and> js_isArray (js_prop response ''results'')
         then js_prop response ''results''
         else if js_truthy (js_prop response ''result'') \<and> js_isArray (js_prop response ''result'')
         then js_prop response ''result''
         else JArr [response])
      else JArr [response])"

text \<open>The envelope rule of the design, on the list of items.\<close>

definition envelope_items :: "jsval \<Rightarrow> jsval list" where
  "envelope_items v =
     (case v of
        JArr xs \<Rightarrow> xs
      | JObj kvs \<Rightarrow>
          (case obj_get kvs ''results'' of
             Some (JArr xs) \<Rightarrow> xs
           | _ \<Rightarrow> (case obj_get kvs ''result'' of Some (JArr xs) \<Rightarrow> xs | _ \<Rightarrow> [v]))
      | _ \<Rightarrow> [v])"

declare js_isArray_def [js_eval] js_prop_def [js_eval] isApiArrayResponse_def [js_eval]
  normalizeArrayResponse_def [js_eval] envelope_items_def [js_eval]

section \<open>Lemmas\<close>

lemma obj_get_has: "obj_get kvs k = Some x \<Longrightarrow> obj_has kvs k"
  by (force simp: obj_get_def obj_has_def dest!: map_of_SomeD)

lemma truthy_array: "js_truthy v \<and> js_isArray v \<longleftrightarrow> (\<exists>xs. v = JArr xs)"
  by (cases v) (simp_all add: js_isArray_def)

lemma normalize_is_array: "\<exists>xs. normalizeArrayResponse v = JArr xs"
proof -
  have arr: "js_isArray w \<Longrightarrow> \<exists>xs. w = JArr xs" for w by (cases w) (simp_all add: js_isArray_def)
  show ?thesis by (auto simp: normalizeArrayResponse_def dest: arr)
qed

section \<open>Properties of the normalizer\<close>

text \<open>
  C7. Refinement: whatever the decoded body, \<open>normalizeArrayResponse\<close>
  returns an array, and its items are those the envelope rule of the design
  prescribes (bare array, then \<open>results\<close>, then \<open>result\<close>, then the value
  wrapped alone).
\<close>

theorem normalize_refines_envelope:
  "normalizeArrayResponse v = JArr (envelope_items v)"
proof (cases v)
  case (JObj kvs)
  show ?thesis
  proof (cases "obj_get kvs ''results''")
    case None
    with JObj show ?thesis
      by (cases "obj_get kvs ''result''")
         (auto simp: normalizeArrayResponse_def envelope_items_def isApiArrayResponse_def js_prop_def
            truthy_array js_isArray_def dest: obj_get_has split: jsval.split)
  next
    case (Some x)
    with JObj show ?thesis
      by (cases "obj_get kvs ''result''")
         (auto simp: normalizeArrayResponse_def envelope_items_def isApiArrayResponse_def js_prop_def
            truthy_array js_isArray_def dest: obj_get_has split: jsval.split)
  qed
qed (simp_all add: normalizeArrayResponse_def envelope_items_def isApiArrayResponse_def js_isArray_def)

text \<open>
  The design's examples: \<open>{results: [1, 2]}\<close>, \<open>{result: [1, 2]}\<close> and
  \<open>[1, 2]\<close> all normalize to \<open>[1, 2]\<close>, and \<open>{foo: 1}\<close> to
  \<open>[{foo: 1}]\<close>.
\<close>

theorem normalize_examples:
  "normalizeArrayResponse (JObj [(''results'', JArr [JNum (JFin 1), JNum (JFin 2)])]) =
     JArr [JNum (JFin 1), JNum (JFin 2)] \<and>
   normalizeArrayResponse (JObj [(''result'', JArr [JNum (JFin 1), JNum (JFin 2)])]) =
     JArr [JNum (JFin 1), JNum (JFin 2)] \<and>
   normalizeArrayResponse (JArr [JNum (JFin 1), JNum (JFin 2)]) = JArr [JNum (JFin 1), JNum (JFin 2)] \<and>
   normalizeArrayResponse (JObj [(''foo'', JNum (JFin 1))]) = JArr [JObj [(''foo'', JNum (JFin 1))]]"
  by (simp add: normalizeArrayResponse_def isApiArrayResponse_def js_prop_def obj_get_def obj_has_def
      js_isArray_def js_num_truthy_def)

end
