(* ===== verification/Client.thy ===== *)
theory Client
  imports Transport
begin

text \<open>
  The client's configuration cell: the constructor of \<open>Crawl4AI\<close>
  (\<open>src/src/sdk.ts\<close>, lines 92-172), which validates the caller's
  \<open>Crawl4AIConfig\<close> and merges it over the defaults,
  and the three setters \<open>setApiToken\<close>, \<open>setBaseUrl\<close> and \<open>setDebug\<close>
  (lines 695-716) that mutate it between calls. The caller's configuration
  distinguishes a key that is absent from a key present with the value
  \<open>undefined\<close>, because the object spread \<open>{...defaults, ...config}\<close> copies
  the second and not the first. The URL parser \<open>new URL\<close> is a platform
  library: the constructor is modelled for any validity predicate
  \<open>url_ok\<close>. The reachable configurations are an inductive set (built by the
  constructor, then any sequence of setter calls), and the invariant the
  client keeps is proved over it by rule induction.
\<close>

section \<open>The caller's configuration\<close>

text \<open>An optional property of an object literal: absent, present with
  \<open>undefined\<close>, or given.\<close>

datatype 'a js_field = Absent | Undef | Given 'a

record c4_config =
  in_baseUrl :: "string js_field"
  in_apiToken :: "string js_field"
  in_timeout :: "jsnum js_field"
  in_retries :: "jsnum js_field"
  in_retryDelay :: "jsnum js_field"
  in_defaultHeaders :: "(string \<rightharpoonup> string) js_field"
  in_throwOnError :: "bool js_field"
  in_validateStatus :: "(int \<Rightarrow> bool) js_field"
  in_debug :: "bool js_field"

text \<open>A configuration naming only the base address.\<close>

definition base_config :: "string \<Rightarrow> c4_config" where
  "base_config b = \<lparr>in_baseUrl = Given b, in_apiToken = Absent, in_timeout = Absent,
     in_retries = Absent, in_retryDelay = Absent, in_defaultHeaders = Absent,
     in_throwOnError = Absent, in_validateStatus = Absent, in_debug = Absent\<rparr>"

section \<open>Validation\<close>

text \<open>\<open>baseUrl.replace(/\/$/, '')\<close>: one trailing slash is removed.\<close>

definition strip_slash :: "string \<Rightarrow> string" where
  "strip_slash s = (if s \<noteq> [] \<and> last s = CHR ''/'' then butlast s else s)"

text \<open>The three numeric checks of lines 121-152; each rejects a value that is
  present and not \<open>undefined\<close>.\<close>

definition bad_timeout :: "jsnum js_field \<Rightarrow> bool" where
  "bad_timeout f = (case f of Given t \<Rightarrow> js_le t (JFin 0) \<or> \<not> js_isFinite t | _ \<Rightarrow> False)"

definition bad_retries :: "jsnum js_field \<Rightarrow> bool" where
  "bad_retries f = (case f of Given r \<Rightarrow> js_lt r (JFin 0) \<or> \<not> js_isInteger r | _ \<Rightarrow> False)"

definition bad_retryDelay :: "jsnum js_field \<Rightarrow> bool" where
  "bad_retryDelay f = (case f of Given d \<Rightarrow> js_lt d (JFin 0) \<or> \<not> js_isFinite d | _ \<Rightarrow> False)"

definition field_value :: "jsnum js_field \<Rightarrow> jsval option" where
  "field_value f = (case f of Given x \<Rightarrow> Some (JNum x) | _ \<Rightarrow> Some JUndef)"

text \<open>The guards of the constructor in the order of the code (lines 94-152):
  the validated base address, or the first error.\<close>

definition validate_config :: "(string \<Rightarrow> bool) \<Rightarrow> c4_config \<Rightarrow> c4_error + string" where
  "validate_config url_ok c =
     (case in_baseUrl c of
        Given b \<Rightarrow>
          if b = [] then
            Inl (mk_RequestValidationError ''baseUrl is required in configuration'' (Some ''baseUrl'') None)
          else if \<not> url_ok b then
            Inl (mk_RequestValidationError (''Invalid baseUrl: '' @ b) (Some ''baseUrl'') (Some (JStr b)))
          else if bad_timeout (in_timeout c) then
            Inl (mk_RequestValidationError ''timeout must be a positive number'' (Some ''timeout'')
                   (field_value (in_timeout c)))
          else if bad_retries (in_retries c) then
            Inl (mk_RequestValidationError ''retries must be a non-negative integer'' (Some ''retries'')
                   (field_value (in_retries c)))
          else if bad_retryDelay (in_retryDelay c) then
            Inl (mk_RequestValidationError ''retryDelay must be a non-negative number'' (Some ''retryDelay'')
                   (field_value (in_retryDelay c)))
          else Inr b
      | _ \<Rightarrow> Inl (mk_RequestValidationError ''baseUrl is required in configuration'' (Some ''baseUrl'') None))"

section \<open>Merging\<close>

text \<open>\<open>{...defaults, ...config}\<close> for a number: an explicit \<open>undefined\<close>
  overrides the default; as the timer delay, the loop bound and the backoff
  base it behaves as \<open>NaN\<close> does, which is how it is represented.\<close>

definition num_field :: "jsnum js_field \<Rightarrow> rat \<Rightarrow> jsnum" where
  "num_field f d = (case f of Absent \<Rightarrow> JFin d | Undef \<Rightarrow> JNaN | Given x \<Rightarrow> x)"

definition bearer :: "string \<Rightarrow> string" where
  "bearer token = ''Bearer '' @ token"

text \<open>The merge of lines 155-171, and the authorization header of the
  token.\<close>

definition merge_config :: "c4_config \<Rightarrow> string \<Rightarrow> client_config" where
  "merge_config c b =
     (let token = (case in_apiToken c of Given s \<Rightarrow> s | _ \<Rightarrow> '''');
          hdrs = [''Content-Type'' \<mapsto> ''application/json''] ++
                 (case in_defaultHeaders c of Given h \<Rightarrow> h | _ \<Rightarrow> Map.empty)
      in \<lparr>cfg_baseUrl = strip_slash b, cfg_apiToken = token,
          cfg_timeout = num_field (in_timeout c) DEFAULT_TIMEOUT,
          cfg_retries = num_field (in_retries c) DEFAULT_RETRIES,
          cfg_retryDelay = num_field (in_retryDelay c) DEFAULT_RETRY_DELAY,
          cfg_defaultHeaders = (if token \<noteq> [] then hdrs(''Authorization'' \<mapsto> bearer token) else hdrs),
          cfg_throwOnError = (case in_throwOnError c of Given t \<Rightarrow> t | _ \<Rightarrow> True),
          cfg_validateStatus = (case in_validateStatus c of Given f \<Rightarrow> f
                                | _ \<Rightarrow> (\<lambda>status. status < CLIENT_ERROR_MIN)),
          cfg_debug = (case in_debug c of Given d \<Rightarrow> d | _ \<Rightarrow> False)\<rparr>)"

text \<open>\<open>new Crawl4AI(config)\<close> (and \<open>createCrawl4AI\<close>, lines 733-735): a
  thrown \<open>RequestValidationError\<close> or the client's configuration.\<close>

definition Crawl4AI_new :: "(string \<Rightarrow> bool) \<Rightarrow> c4_config \<Rightarrow> exn + client_config" where
  "Crawl4AI_new url_ok c =
     (case validate_config url_ok c of Inl e \<Rightarrow> Inl (C4 e) | Inr b \<Rightarrow> Inr (merge_config c b))"

text \<open>\<open>createCrawl4AI(config)\<close>, the module's factory function.\<close>

definition createCrawl4AI :: "(string \<Rightarrow> bool) \<Rightarrow> c4_config \<Rightarrow> exn + client_config" where
  "createCrawl4AI url_ok c = Crawl4AI_new url_ok c"

section \<open>Setters\<close>

definition setApiToken :: "string \<Rightarrow> client_config \<Rightarrow> client_config" where
  "setApiToken token cfg =
     cfg\<lparr>cfg_apiToken := token,
         cfg_defaultHeaders := (if token \<noteq> [] then (cfg_defaultHeaders cfg)(''Authorization'' \<mapsto> bearer token)
                                else (cfg_defaultHeaders cfg)(''Authorization'' := None))\<rparr>"

definition setBaseUrl :: "string \<Rightarrow> client_config \<Rightarrow> client_config" where
  "setBaseUrl b cfg = cfg\<lparr>cfg_baseUrl := strip_slash b\<rparr>"

definition setDebug :: "bool \<Rightarrow> client_config \<Rightarrow> client_config" where
  "setDebug d cfg = cfg\<lparr>cfg_debug := d\<rparr>"

datatype client_op = SetApiToken string | SetBaseUrl string | SetDebug bool

fun apply_op :: "client_op \<Rightarrow> client_config \<Rightarrow> client_config" where
  "apply_op (SetApiToken t) cfg = setApiToken t cfg"
| "apply_op (SetBaseUrl b) cfg = setBaseUrl b cfg"
| "apply_op (SetDebug d) cfg = setDebug d cfg"

text \<open>The setter calls that leave the token alone.\<close>

definition is_token_op :: "client_op \<Rightarrow> bool" where
  "is_token_op op = (case op of SetApiToken _ \<Rightarrow> True | _ \<Rightarrow> False)"

text \<open>The configurations a client can hold: built by the constructor, then
  changed by setter calls.\<close>

inductive reachable :: "(string \<Rightarrow> bool) \<Rightarrow> client_config \<Rightarrow> bool" for url_ok where
  built: "Crawl4AI_new url_ok c = Inr cfg \<Longrightarrow> reachable url_ok cfg"
| step: "reachable url_ok cfg \<Longrightarrow> reachable url_ok (apply_op op cfg)"

section \<open>The invariant\<close>

text \<open>What the client keeps true of its configuration: a configured token is
  sent as the bearer credential, a content type is always set, and each
  numeric setting is either valid or \<open>NaN\<close> (an explicit \<open>undefined\<close>).\<close>

definition timeout_ok :: "jsnum \<Rightarrow> bool" where
  "timeout_ok t = (case t of JFin q \<Rightarrow> 0 < q | JNaN \<Rightarrow> True | _ \<Rightarrow> False)"

definition retries_ok :: "jsnum \<Rightarrow> bool" where
  "retries_ok r = (case r of JFin q \<Rightarrow> 0 \<le> q \<and> rat_is_int q | JNaN \<Rightarrow> True | _ \<Rightarrow> False)"

definition delay_ok :: "jsnum \<Rightarrow> bool" where
  "delay_ok d = (case d of JFin q \<Rightarrow> 0 \<le> q | JNaN \<Rightarrow> True | _ \<Rightarrow> False)"

definition config_inv :: "client_config \<Rightarrow> bool" where
  "config_inv cfg =
     ((cfg_apiToken cfg = [] \<or> cfg_defaultHeaders cfg ''Authorization'' = Some (bearer (cfg_apiToken cfg))) \<and>
      cfg_defaultHeaders cfg ''Content-Type'' \<noteq> None \<and>
      timeout_ok (cfg_timeout cfg) \<and> retries_ok (cfg_retries cfg) \<and> delay_ok (cfg_retryDelay cfg))"

declare strip_slash_def [js_eval] bad_timeout_def [js_eval] bad_retries_def [js_eval]
  bad_retryDelay_def [js_eval] field_value_def [js_eval] validate_config_def [js_eval]
  num_field_def [js_eval] bearer_def [js_eval] merge_config_def [js_eval] Crawl4AI_new_def [js_eval]
  setApiToken_def [js_eval] setBaseUrl_def [js_eval] setDebug_def [js_eval]
  timeout_ok_def [js_eval] retries_ok_def [js_eval] delay_ok_def [js_eval] config_inv_def [js_eval]
  base_config_def [js_eval]

section \<open>Lemmas\<close>

lemma rat_is_int_numeral [simp]: "rat_is_int (numeral k)" "rat_is_int 0"
  by (simp_all add: rat_is_int_def quotient_of_number)

lemma num_field_timeout_ok:
  "\<not> bad_timeout f \<Longrightarrow> timeout_ok (num_field f DEFAULT_TIMEOUT)"
  by (cases f) (auto simp: bad_timeout_def num_field_def timeout_ok_def DEFAULT_TIMEOUT_def
      js_le_def js_isFinite_def split: jsnum.splits)

lemma num_field_retries_ok:
  "\<not> bad_retries f \<Longrightarrow> retries_ok (num_field f DEFAULT_RETRIES)"
  by (cases f) (auto simp: bad_retries_def num_field_def retries_ok_def DEFAULT_RETRIES_def
      js_isInteger_def split: jsnum.splits)

lemma num_field_delay_ok:
  "\<not> bad_retryDelay f \<Longrightarrow> delay_ok (num_field f DEFAULT_RETRY_DELAY)"
  by (cases f) (auto simp: bad_retryDelay_def num_field_def delay_ok_def DEFAULT_RETRY_DELAY_def
      js_isFinite_def split: jsnum.splits)

lemma validate_config_Inr:
  assumes "validate_config url_ok c = Inr b"
  shows "in_baseUrl c = Given b" "b \<noteq> []" "url_ok b" "\<not> bad_timeout (in_timeout c)"
    "\<not> bad_retries (in_retries c)" "\<not> bad_retryDelay (in_retryDelay c)"
  using assms by (auto simp: validate_config_def split: js_field.splits if_splits)

lemma merge_config_inv:
  assumes "\<not> bad_timeout (in_timeout c)" "\<not> bad_retries (in_retries c)" "\<not> bad_retryDelay (in_retryDelay c)"
  shows "config_inv (merge_config c b)"
  using num_field_timeout_ok [OF assms(1)] num_field_retries_ok [OF assms(2)] num_field_delay_ok [OF assms(3)]
  by (auto simp: config_inv_def merge_config_def Let_def map_add_def split: option.split js_field.split)

lemma Crawl4AI_new_inv:
  "Crawl4AI_new url_ok c = Inr cfg \<Longrightarrow> config_inv cfg"
  by (auto simp: Crawl4AI_new_def split: sum.splits dest: validate_config_Inr intro!: merge_config_inv)

lemma apply_op_inv:
  "config_inv cfg \<Longrightarrow> config_inv (apply_op op cfg)"
  by (cases op) (auto simp: config_inv_def setApiToken_def setBaseUrl_def setDebug_def)

lemma strip_slash_append [simp]: "strip_slash (s @ ''/'') = s"
  by (simp add: strip_slash_def)

lemma fold_other_ops_headers:
  "\<forall>op\<in>set ops. \<not> is_token_op op \<Longrightarrow> cfg_defaultHeaders (fold apply_op ops c) = cfg_defaultHeaders c"
proof (induction ops arbitrary: c)
  case (Cons op ops)
  then show ?case by (cases op) (simp_all add: is_token_op_def setBaseUrl_def setDebug_def)
qed simp

lemma reachable_fold: "reachable url_ok c \<Longrightarrow> reachable url_ok (fold apply_op ops c)"
  by (induction ops arbitrary: c) (auto intro: reachable.step)

lemma reachable_inv: "reachable url_ok cfg \<Longrightarrow> config_inv cfg"
  by (induction rule: reachable.induct) (auto intro: Crawl4AI_new_inv apply_op_inv)

section \<open>Properties of the configuration\<close>

text \<open>
  C9. A malformed base address is rejected at construction: when the
  caller's \<open>baseUrl\<close> is a non-empty string that does not parse as a URL,
  the constructor throws a \<open>RequestValidationError\<close> naming the field and
  carrying the rejected value, whatever the other settings are.
\<close>

theorem Crawl4AI_new_rejects_invalid_base:
  assumes "in_baseUrl c = Given b" and "b \<noteq> []" and "\<not> url_ok b"
  shows "\<exists>e. Crawl4AI_new url_ok c = Inl (C4 e) \<and> err_class e = RequestValidationError \<and>
             err_field e = Some ''baseUrl'' \<and> err_value e = Some (JStr b) \<and> err_status e = Some 400"
  using assms by (simp add: Crawl4AI_new_def validate_config_def mk_RequestValidationError_def
      mk_Crawl4AIError_def)

text \<open>
  C20. The configuration cell of a client: in every configuration it can
  reach (built by the constructor, then changed by any sequence of
  \<open>setApiToken\<close>, \<open>setBaseUrl\<close> and \<open>setDebug\<close> calls), a non-empty token is
  sent as \<open>Authorization: Bearer token\<close>, a \<open>Content-Type\<close> header is set,
  and the timeout, retry count and retry delay are each valid or \<open>NaN\<close>;
  and after \<open>setApiToken(t)\<close>, whatever other setters follow, the
  \<open>Authorization\<close> header is \<open>Bearer t\<close> for a non-empty \<open>t\<close> and absent
  for the empty one: clearing the token never leaves a stale credential.
\<close>

theorem reachable_config_inv:
  assumes "reachable url_ok cfg"
  shows "config_inv cfg \<and>
         (\<forall>t ops. (\<forall>op\<in>set ops. \<not> is_token_op op) \<longrightarrow>
            reachable url_ok (fold apply_op ops (setApiToken t cfg)) \<and>
            cfg_defaultHeaders (fold apply_op ops (setApiToken t cfg)) ''Authorization'' =
              (if t = [] then None else Some (bearer t)))"
proof -
  have r: "reachable url_ok (fold apply_op ops (setApiToken t cfg))" for t ops
    using reachable_fold [OF reachable.step [OF assms, of "SetApiToken t"]] by simp
  have h: "cfg_defaultHeaders (fold apply_op ops (setApiToken t cfg)) ''Authorization'' =
             (if t = [] then None else Some (bearer t))" if "\<forall>op\<in>set ops. \<not> is_token_op op" for t ops
    using that by (simp add: fold_other_ops_headers setApiToken_def)
  show ?thesis using reachable_inv [OF assms] r h by blast
qed

text \<open>
  C21. A client built from a valid base address alone (with no trailing
  slash) holds the default configuration: 300000 ms timeout, 3 retries, a
  1000 ms base delay, JSON content type, throwing on errors, and statuses
  below 400 accepted.
\<close>

theorem Crawl4AI_new_defaults:
  assumes "b \<noteq> []" and "url_ok b" and "last b \<noteq> CHR ''/''"
  shows "Crawl4AI_new url_ok (base_config b) = Inr (default_config b)"
  using assms by (simp add: Crawl4AI_new_def validate_config_def base_config_def bad_timeout_def
      bad_retries_def bad_retryDelay_def merge_config_def num_field_def default_config_def strip_slash_def)

text \<open>
  C22. The trailing-slash rule removes one slash only: a base address ending
  in two slashes is kept with one, so the configured address still ends in
  a path separator and every request address contains \<open>//\<close> before the
  endpoint.
\<close>

theorem Crawl4AI_new_double_slash:
  assumes "url_ok (b @ ''//'')"
  shows "\<exists>cfg. Crawl4AI_new url_ok (base_config (b @ ''//'')) = Inr cfg \<and>
               cfg_baseUrl cfg = b @ ''/'' \<and> cfg_baseUrl cfg @ ''/health'' = b @ ''//health''"
  using assms by (simp add: Crawl4AI_new_def validate_config_def base_config_def bad_timeout_def
      bad_retries_def bad_retryDelay_def merge_config_def strip_slash_def butlast_append)

section \<open>Witnesses\<close>

theorem Crawl4AI_new_rejects_invalid_base_witness:
  "\<exists>e. Crawl4AI_new (\<lambda>u. u \<noteq> ''localhost'') (base_config ''localhost'') = Inl (C4 e) \<and>
       err_class e = RequestValidationError \<and> err_field e = Some ''baseUrl'' \<and>
       err_value e = Some (JStr ''localhost'') \<and> err_status e = Some 400"
  by (rule Crawl4AI_new_rejects_invalid_base) (simp_all add: base_config_def)

theorem reachable_config_inv_witness:
  "reachable (\<lambda>u. True) (setApiToken ''old'' (merge_config (base_config ''http://h'') ''http://h'')) \<and>
   config_inv (setApiToken ''old'' (merge_config (base_config ''http://h'') ''http://h'')) \<and>
   cfg_defaultHeaders (fold apply_op [SetDebug True]
       (setApiToken '''' (setApiToken ''old'' (merge_config (base_config ''http://h'') ''http://h'')))) ''Authorization'' =
     None"
proof -
  have "Crawl4AI_new (\<lambda>u. True) (base_config ''http://h'') = Inr (merge_config (base_config ''http://h'') ''http://h'')"
    by (simp add: Crawl4AI_new_def validate_config_def base_config_def bad_timeout_def bad_retries_def
        bad_retryDelay_def)
  then have r: "reachable (\<lambda>u. True) (apply_op (SetApiToken ''old'') (merge_config (base_config ''http://h'') ''http://h''))"
    by (intro reachable.step reachable.built)
  then have r': "reachable (\<lambda>u. True) (setApiToken ''old'' (merge_config (base_config ''http://h'') ''http://h''))"
    by simp
  have nt: "\<forall>op\<in>set [SetDebug True]. \<not> is_token_op op" by (simp add: is_token_op_def)
  from reachable_config_inv [OF r'] have i: "config_inv (setApiToken ''old'' (merge_config (base_config ''http://h'') ''http://h''))"
    and a: "\<forall>t ops. (\<forall>op\<in>set ops. \<not> is_token_op op) \<longrightarrow>
            reachable (\<lambda>u. True) (fold apply_op ops (setApiToken t (setApiToken ''old'' (merge_config (base_config ''http://h'') ''http://h'')))) \<and>
            cfg_defaultHeaders (fold apply_op ops (setApiToken t (setApiToken ''old'' (merge_config (base_config ''http://h'') ''http://h'')))) ''Authorization'' =
              (if t = [] then None else Some (bearer t))"
    by blast+
  have "cfg_defaultHeaders (fold apply_op [SetDebug True]
       (setApiToken '''' (setApiToken ''old'' (merge_config (base_config ''http://h'') ''http://h'')))) ''Authorization'' =
     None"
    using a [THEN spec [where x = "''''"], THEN spec [where x = "[SetDebug True]"], THEN mp, OF nt]
    by (simp del: fold_simps)
  then show ?thesis using r' i by blast
qed

theorem Crawl4AI_new_defaults_witness:
  "Crawl4AI_new (\<lambda>u. True) (base_config ''http://localhost:11235'') = Inr (default_config ''http://localhost:11235'')"
  by (rule Crawl4AI_new_defaults) simp_all

theorem Crawl4AI_new_double_slash_witness:
  "\<exists>cfg. Crawl4AI_new (\<lambda>u. True) (base_config (''http://h'' @ ''//'')) = Inr cfg \<and>
         cfg_baseUrl cfg = ''http://h'' @ ''/'' \<and> cfg_baseUrl cfg @ ''/health'' = ''http://h'' @ ''//health''"
  by (rule Crawl4AI_new_double_slash) simp

end
