(* ===== verification/Query.thy ===== *)
theory Query
  imports Prelude
begin

text \<open>
  Query strings and path segments. \<open>ask\<close> builds its query with the private
  \<open>buildQueryParams\<close> (\<open>src/src/sdk.ts\<close>, lines 219-227), which appends every
  defined parameter, as \<open>String(value)\<close>, to a \<open>URLSearchParams\<close> and
  serialises it; \<open>llm\<close> puts the target address into the path with
  \<open>encodeURIComponent\<close> and the question into a \<open>URLSearchParams\<close>
  (lines 564-583). Both encoders are the percent-encoding of the platform
  (the WHATWG \<open>application/x-www-form-urlencoded\<close> serializer and ECMAScript
  \<open>encodeURIComponent\<close>): each character is kept when it is in the encoder's
  safe set and otherwise written as the \<open>%XX\<close> escapes of its UTF-8 bytes,
  except that the form encoder writes a space as \<open>+\<close>. A \<open>char\<close> of the model
  is a code point below 256, so a character takes one or two UTF-8 bytes.
  The decoders (\<open>form_decode\<close>, \<open>parse_query\<close>, \<open>decodeURIComponent\<close>) are what
  the server applies; the lemmas show that it recovers exactly the parameters
  and the address the client sent.
\<close>

section \<open>Encoding\<close>

definition is_alnum :: "char \<Rightarrow> bool" where
  "is_alnum c = (let n = (of_char c :: nat) in (48 \<le> n \<and> n \<le> 57) \<or> (65 \<le> n \<and> n \<le> 90) \<or> (97 \<le> n \<and> n \<le> 122))"

text \<open>The characters the form serializer leaves alone, and those
  \<open>encodeURIComponent\<close> leaves alone (0x27 is the apostrophe).\<close>

definition form_safe :: "char \<Rightarrow> bool" where
  "form_safe c = (is_alnum c \<or> c \<in> set ''*-._'')"

definition uri_safe :: "char \<Rightarrow> bool" where
  "uri_safe c = (is_alnum c \<or> c \<in> set ''-_.!~*()'' \<or> c = CHR 0x27)"

definition utf8_bytes :: "char \<Rightarrow> nat list" where
  "utf8_bytes c = (let n = (of_char c :: nat) in if n < 128 then [n] else [192 + n div 64, 128 + n mod 64])"

definition hex_digit :: "nat \<Rightarrow> char" where
  "hex_digit d = (if d < 10 then char_of (48 + d) else char_of (55 + d))"

definition pct_byte :: "nat \<Rightarrow> string" where
  "pct_byte b = [CHR ''%'', hex_digit (b div 16), hex_digit (b mod 16)]"

definition pct_encode_char :: "(char \<Rightarrow> bool) \<Rightarrow> char \<Rightarrow> string" where
  "pct_encode_char safe c = (if safe c then [c] else concat (map pct_byte (utf8_bytes c)))"

definition form_enc_char :: "char \<Rightarrow> string" where
  "form_enc_char c = (if c = CHR '' '' then ''+'' else pct_encode_char form_safe c)"

definition form_urlencode :: "string \<Rightarrow> string" where
  "form_urlencode s = concat (map form_enc_char s)"

definition encodeURIComponent :: "string \<Rightarrow> string" where
  "encodeURIComponent s = concat (map (pct_encode_char uri_safe) s)"

fun join_with :: "string \<Rightarrow> string list \<Rightarrow> string" where
  "join_with sep [] = []"
| "join_with sep [x] = x"
| "join_with sep (x # y # xs) = x @ sep @ join_with sep (y # xs)"

text \<open>\<open>String(value)\<close>; an array is joined with commas, its \<open>null\<close> and
  \<open>undefined\<close> elements written as the empty string.\<close>

fun js_String :: "jsval \<Rightarrow> string" where
  "js_String JUndef = ''undefined''"
| "js_String JNull = ''null''"
| "js_String (JBool b) = (if b then ''true'' else ''false'')"
| "js_String (JNum n) = js_num_str n"
| "js_String (JStr s) = s"
| "js_String (JArr xs) = join_with '','' (map (\<lambda>x. if x = JUndef \<or> x = JNull then [] else js_String x) xs)"
| "js_String (JObj _) = ''[object Object]''"
| "js_String (JResponse _) = ''[object Response]''"

text \<open>\<open>buildQueryParams\<close>: the entries whose value is not \<open>undefined\<close>, in
  order, as \<open>key=value\<close> pairs joined by \<open>&\<close>.\<close>

definition buildQueryParams :: "(string \<times> jsval) list \<Rightarrow> string" where
  "buildQueryParams params =
     join_with ''&'' (map (\<lambda>(k, v). form_urlencode k @ ''='' @ form_urlencode (js_String v))
                        (filter (\<lambda>(k, v). v \<noteq> JUndef) params))"

section \<open>Decoding\<close>

definition hex_val :: "char \<Rightarrow> nat option" where
  "hex_val c = (let n = (of_char c :: nat) in
     if 48 \<le> n \<and> n \<le> 57 then Some (n - 48)
     else if 65 \<le> n \<and> n \<le> 70 then Some (n - 55)
     else if 97 \<le> n \<and> n \<le> 102 then Some (n - 87) else None)"

text \<open>Percent-decoding to bytes; \<open>pl\<close> says whether \<open>+\<close> stands for a space
  (form decoding) or for itself.\<close>

fun pct_decode :: "bool \<Rightarrow> string \<Rightarrow> nat list" where
  "pct_decode pl [] = []"
| "pct_decode pl (c # cs) =
     (if c = CHR ''%'' then
        (case cs of
           h # l # r \<Rightarrow>
             (case (hex_val h, hex_val l) of
                (Some a, Some b) \<Rightarrow> (16 * a + b) # pct_decode pl r
              | _ \<Rightarrow> of_char c # pct_decode pl cs)
         | _ \<Rightarrow> of_char c # pct_decode pl cs)
      else if pl \<and> c = CHR ''+'' then 32 # pct_decode pl cs
      else of_char c # pct_decode pl cs)"

fun utf8_decode :: "nat list \<Rightarrow> string" where
  "utf8_decode [] = []"
| "utf8_decode (b # bs) =
     (if b < 128 then char_of b # utf8_decode bs
      else if 192 \<le> b \<and> b < 196 then
        (case bs of
           b2 # r \<Rightarrow> if 128 \<le> b2 \<and> b2 < 192 then char_of ((b - 192) * 64 + (b2 - 128)) # utf8_decode r
                    else char_of b # utf8_decode bs
         | [] \<Rightarrow> [char_of b])
      else char_of b # utf8_decode bs)"

definition form_decode :: "string \<Rightarrow> string" where
  "form_decode s = utf8_decode (pct_decode True s)"

definition decodeURIComponent :: "string \<Rightarrow> string" where
  "decodeURIComponent s = utf8_decode (pct_decode False s)"

fun split_on :: "char \<Rightarrow> string \<Rightarrow> string list" where
  "split_on c [] = [[]]"
| "split_on c (x # xs) =
     (if x = c then [] # split_on c xs else (case split_on c xs of y # ys \<Rightarrow> (x # y) # ys | [] \<Rightarrow> [[x]]))"

text \<open>The \<open>application/x-www-form-urlencoded\<close> parser: non-empty pieces
  between \<open>&\<close>, each split at its first \<open>=\<close>.\<close>

definition parse_query :: "string \<Rightarrow> (string \<times> string) list" where
  "parse_query s =
     map (\<lambda>seg. (form_decode (takeWhile (\<lambda>x. x \<noteq> CHR ''='') seg),
                 form_decode (drop 1 (dropWhile (\<lambda>x. x \<noteq> CHR ''='') seg))))
         (filter (\<lambda>seg. seg \<noteq> []) (split_on CHR ''&'' s))"

text \<open>A delimiter: a character no encoder of the safe set produces.\<close>

definition delimiter :: "(char \<Rightarrow> bool) \<Rightarrow> char \<Rightarrow> bool" where
  "delimiter safe d = (\<not> safe d \<and> d \<noteq> CHR ''%'' \<and> (of_char d :: nat) \<notin> {48..57} \<union> {65..70})"

text \<open>A safe set of ASCII characters other than \<open>%\<close> and \<open>+\<close> makes every
  encoded character decode to its UTF-8 bytes.\<close>

definition plain_safe :: "(char \<Rightarrow> bool) \<Rightarrow> bool" where
  "plain_safe safe = (\<forall>c. safe c \<longrightarrow> (of_char c :: nat) < 128 \<and> c \<noteq> CHR ''%'' \<and> c \<noteq> CHR ''+'')"

declare pct_decode.simps(2) [simp del] utf8_decode.simps(2) [simp del]

section \<open>Lemmas: one character at a time\<close>

lemma of_char_char_of_nat [simp]: "n < 256 \<Longrightarrow> (of_char (char_of n :: char) :: nat) = n"
  by (simp add: of_char_of)

lemma hex_digit_val: "d < 16 \<Longrightarrow> hex_val (hex_digit d) = Some d"
  by (simp add: hex_val_def hex_digit_def Let_def)

lemma hex_digit_range: "d < 16 \<Longrightarrow> (of_char (hex_digit d) :: nat) \<in> {48..57} \<union> {65..70}"
  by (simp add: hex_digit_def)

lemma pct_decode_pct:
  "hex_val h = Some a \<Longrightarrow> hex_val l = Some b \<Longrightarrow> pct_decode p (CHR ''%'' # h # l # r) = (16 * a + b) # pct_decode p r"
  by (simp add: pct_decode.simps(2))

lemma pct_decode_plain:
  "c \<noteq> CHR ''%'' \<Longrightarrow> c \<noteq> CHR ''+'' \<Longrightarrow> pct_decode p (c # r) = of_char c # pct_decode p r"
  by (simp add: pct_decode.simps(2))

lemma pct_decode_plus: "pct_decode True (CHR ''+'' # r) = 32 # pct_decode True r"
  by (simp add: pct_decode.simps(2))

lemma pct_decode_pct_byte: "b < 256 \<Longrightarrow> pct_decode p (pct_byte b @ r) = b # pct_decode p r"
proof -
  assume "b < 256"
  then have h: "hex_val (hex_digit (b div 16)) = Some (b div 16)" "hex_val (hex_digit (b mod 16)) = Some (b mod 16)"
    by (simp_all add: hex_digit_val div_less_iff_less_mult)
  have "pct_decode p (pct_byte b @ r) = (16 * (b div 16) + b mod 16) # pct_decode p r"
    unfolding pct_byte_def append_Cons append_Nil by (rule pct_decode_pct [OF h])
  then show ?thesis by simp
qed

lemma utf8_bytes_lt: "x \<in> set (utf8_bytes c) \<Longrightarrow> x < 256"
proof -
  have "(of_char c :: nat) < 256" by (rule nat_of_char_less_256)
  then have "(of_char c :: nat) div 64 < 4" by (simp add: div_less_iff_less_mult)
  moreover assume "x \<in> set (utf8_bytes c)"
  ultimately show ?thesis by (auto simp: utf8_bytes_def Let_def split: if_splits)
qed

lemma pct_decode_pcts:
  "(\<forall>x\<in>set bs. x < 256) \<Longrightarrow> pct_decode p (concat (map pct_byte bs) @ r) = bs @ pct_decode p r"
  by (induction bs) (simp_all add: pct_decode_pct_byte)

lemma utf8_decode_one: "b < 128 \<Longrightarrow> utf8_decode (b # r) = char_of b # utf8_decode r"
  by (simp add: utf8_decode.simps(2))

lemma utf8_decode_two:
  "192 \<le> b1 \<Longrightarrow> b1 < 196 \<Longrightarrow> 128 \<le> b2 \<Longrightarrow> b2 < 192 \<Longrightarrow>
   utf8_decode (b1 # b2 # r) = char_of ((b1 - 192) * 64 + (b2 - 128)) # utf8_decode r"
  by (simp add: utf8_decode.simps(2))

lemma utf8_decode_bytes: "utf8_decode (utf8_bytes c @ r) = c # utf8_decode r"
proof (cases "of_char c < (128::nat)")
  case True then show ?thesis by (simp add: utf8_bytes_def utf8_decode_one)
next
  case False
  define n where "n = (of_char c :: nat)"
  define q where "q = n div 64"
  define m where "m = n mod 64"
  have a: "2 \<le> q" using False div_le_mono [of 128 n 64] by (simp add: q_def n_def)
  have b: "q < 4" using nat_of_char_less_256 [of c] by (simp add: q_def n_def div_less_iff_less_mult)
  have mm: "m < 64" by (simp add: m_def)
  have c: "q * 64 + m = n" by (simp add: q_def m_def)
  have u: "utf8_bytes c = [192 + q, 128 + m]"
    using False by (simp add: utf8_bytes_def Let_def q_def m_def n_def)
  have "utf8_decode ([192 + q, 128 + m] @ r) = char_of (q * 64 + m) # utf8_decode r"
    using a b mm by (simp add: utf8_decode_two)
  then show ?thesis using c by (simp add: u n_def)
qed

lemma utf8_decode_concat: "utf8_decode (concat (map utf8_bytes s)) = s"
proof (induction s)
  case Nil then show ?case by simp
next
  case (Cons c s) then show ?case using utf8_decode_bytes [of c "concat (map utf8_bytes s)"] by simp
qed

lemma plain_safe_form: "plain_safe form_safe"
  by (auto simp: plain_safe_def form_safe_def is_alnum_def Let_def)

lemma plain_safe_uri: "plain_safe uri_safe"
  by (auto simp: plain_safe_def uri_safe_def is_alnum_def Let_def)

lemma pct_decode_encode_char:
  "plain_safe safe \<Longrightarrow> pct_decode p (pct_encode_char safe c @ r) = utf8_bytes c @ pct_decode p r"
  by (auto simp: plain_safe_def pct_encode_char_def utf8_bytes_def pct_decode_plain pct_decode_pcts
      utf8_bytes_lt [unfolded utf8_bytes_def])

lemma pct_decode_form_enc_char:
  "pct_decode True (form_enc_char c @ r) = utf8_bytes c @ pct_decode True r"
proof (cases "c = CHR '' ''")
  case True then show ?thesis by (simp add: form_enc_char_def utf8_bytes_def pct_decode_plus)
next
  case False then show ?thesis by (simp add: form_enc_char_def pct_decode_encode_char [OF plain_safe_form])
qed

lemma form_decode_encode: "form_decode (form_urlencode s) = s"
proof -
  have "pct_decode True (form_urlencode s) = concat (map utf8_bytes s)"
    by (induction s) (simp_all add: form_urlencode_def pct_decode_form_enc_char [where r = "concat (map form_enc_char _)", simplified])
  then show ?thesis by (simp add: form_decode_def utf8_decode_concat)
qed
lemma uri_decode_encode: "decodeURIComponent (encodeURIComponent s) = s"
proof -
  have "pct_decode False (encodeURIComponent s) = concat (map utf8_bytes s)"
    by (induction s) (simp_all add: encodeURIComponent_def
        pct_decode_encode_char [OF plain_safe_uri, where r = "concat (map (pct_encode_char uri_safe) _)", simplified])
  then show ?thesis by (simp add: decodeURIComponent_def utf8_decode_concat)
qed

section \<open>Lemmas: what an encoding cannot contain\<close>


lemma pct_byte_chars:
  assumes "b < 256" and "x \<in> set (pct_byte b)"
  shows "x = CHR ''%'' \<or> (of_char x :: nat) \<in> {48..57} \<union> {65..70}"
proof -
  have "x = CHR ''%'' \<or> x = hex_digit (b div 16) \<or> x = hex_digit (b mod 16)"
    using assms(2) by (simp add: pct_byte_def)
  moreover have "b div 16 < 16" using assms(1) by (simp add: div_less_iff_less_mult)
  moreover have "b mod 16 < (16::nat)" by simp
  ultimately show ?thesis using hex_digit_range by blast
qed

lemma pct_encode_char_chars:
  assumes "x \<in> set (pct_encode_char safe c)"
  shows "safe x \<or> x = CHR ''%'' \<or> (of_char x :: nat) \<in> {48..57} \<union> {65..70}"
proof (cases "safe c")
  case True then show ?thesis using assms by (simp add: pct_encode_char_def)
next
  case False
  then obtain b where "b \<in> set (utf8_bytes c)" "x \<in> set (pct_byte b)"
    using assms by (auto simp: pct_encode_char_def)
  then show ?thesis using pct_byte_chars utf8_bytes_lt by blast
qed

lemma delimiter_not_encoded:
  assumes "delimiter safe d" shows "d \<notin> set (concat (map (pct_encode_char safe) s))"
proof
  assume "d \<in> set (concat (map (pct_encode_char safe) s))"
  then obtain c where "d \<in> set (pct_encode_char safe c)" by auto
  then show False using pct_encode_char_chars assms unfolding delimiter_def by blast
qed

lemma form_delims: "delimiter form_safe CHR ''&''" "delimiter form_safe CHR ''=''"
  by (simp_all add: delimiter_def form_safe_def is_alnum_def)

lemma uri_delims:
  "delimiter uri_safe CHR ''/''" "delimiter uri_safe CHR ''?''" "delimiter uri_safe CHR ''#''"
  "delimiter uri_safe CHR ''&''" "delimiter uri_safe CHR ''=''"
  by (simp_all add: delimiter_def uri_safe_def is_alnum_def)
lemma form_enc_char_delim:
  assumes "delimiter form_safe d" and "d \<noteq> CHR ''+''" shows "d \<notin> set (form_enc_char c)"
proof (cases "c = CHR '' ''")
  case True then show ?thesis using assms(2) by (simp add: form_enc_char_def)
next
  case False then show ?thesis using delimiter_not_encoded [OF assms(1), of "[c]"] by (simp add: form_enc_char_def)
qed

lemma form_urlencode_no_sep:
  "CHR ''&'' \<notin> set (form_urlencode s) \<and> CHR ''='' \<notin> set (form_urlencode s)"
  using form_enc_char_delim [OF form_delims(1)] form_enc_char_delim [OF form_delims(2)]
  by (auto simp: form_urlencode_def)

lemma split_on_append: "c \<notin> set x \<Longrightarrow> split_on c (x @ c # r) = x # split_on c r"
  by (induction x) auto

lemma split_on_no: "c \<notin> set x \<Longrightarrow> split_on c x = [x]"
  by (induction x) auto

lemma split_on_join: "xs \<noteq> [] \<Longrightarrow> \<forall>x\<in>set xs. c \<notin> set x \<Longrightarrow> split_on c (join_with [c] xs) = xs"
  by (induction "[c]" xs rule: join_with.induct) (simp_all add: split_on_append split_on_no)

lemma form_no_eq: "\<forall>x\<in>set (form_urlencode k). x \<noteq> CHR ''=''"
  using form_urlencode_no_sep [of k] by blast

lemma query_key_decode [simp]:
  "form_decode (takeWhile (\<lambda>x. x \<noteq> CHR ''='') (form_urlencode k @ CHR ''='' # w)) = k"
  using form_no_eq [of k] by (simp add: takeWhile_append2 form_decode_encode)

lemma query_value_decode [simp]:
  "form_decode (drop (Suc 0) (dropWhile (\<lambda>x. x \<noteq> CHR ''='') (form_urlencode k @ CHR ''='' # form_urlencode v))) = v"
  using form_no_eq [of k] by (simp add: dropWhile_append2 form_decode_encode)

lemma parse_query_build:
  "parse_query (buildQueryParams ps) = map (\<lambda>(k, v). (k, js_String v)) (filter (\<lambda>(k, v). v \<noteq> JUndef) ps)"
proof (cases "filter (\<lambda>(k, v). v \<noteq> JUndef) ps = []")
  case True then show ?thesis by (simp add: parse_query_def buildQueryParams_def)
next
  case False
  let ?segs = "map (\<lambda>(k, v). form_urlencode k @ ''='' @ form_urlencode (js_String v)) (filter (\<lambda>(k, v). v \<noteq> JUndef) ps)"
  have "\<forall>x\<in>set ?segs. CHR ''&'' \<notin> set x" using form_urlencode_no_sep by auto
  moreover have "?segs \<noteq> []" using False by simp
  ultimately have sp: "split_on CHR ''&'' (join_with ''&'' ?segs) = ?segs" by (intro split_on_join)
  have "filter (\<lambda>seg. seg \<noteq> []) ?segs = ?segs" by (auto simp: filter_id_conv)
  then show ?thesis using sp by (simp add: parse_query_def buildQueryParams_def comp_def split_beta)
qed

section \<open>The query round trip\<close>

text \<open>
  C24. Round trip of the query string: the server's
  \<open>application/x-www-form-urlencoded\<close> parser, applied to what
  \<open>buildQueryParams\<close> produces, yields exactly the parameters whose value is
  not \<open>undefined\<close>, in order, each value as \<open>String(value)\<close>, whatever
  characters (\<open>&\<close>, \<open>=\<close>, \<open>+\<close>, \<open>%\<close>, spaces, non-ASCII) the keys and values contain.
\<close>

theorem buildQueryParams_roundtrip:
  "parse_query (buildQueryParams params) =
     map (\<lambda>(k, v). (k, js_String v)) (filter (\<lambda>(k, v). v \<noteq> JUndef) params)"
  by (rule parse_query_build)

end
