(* ===== verification/Api.thy ===== *)
theory Api
  imports Retry Normalize Query
begin

text \<open>
  The public methods of \<open>Crawl4AI\<close> (\<open>src/src/sdk.ts\<close>, lines 389-683) and
  the request and response types they take and return (the type declarations
  of \<open>src/unnamed/part_001\<close>). Each method checks its URL arguments with
  \<open>validateUrl\<close> (lines 179-185), shapes an endpoint and options, and calls
  \<open>requestWithRetry\<close> (the crawling methods and \<open>ask\<close>, \<open>llm\<close>) or
  \<open>request\<close> directly (\<open>health\<close>, \<open>metrics\<close>, \<open>schema\<close>, \<open>getRoot\<close>); the
  decoded body is then post-processed. A method's result is the settled
  promise: \<open>Inl\<close> the rejection, with the retry trace, or \<open>None\<close> when it never
  settles. \<open>JSON.stringify\<close> of the request bodies is \<open>json_str\<close>; the URL
  parser is again the parameter \<open>url_ok\<close>.
\<close>

section \<open>JSON.stringify\<close>

definition hex_lower :: "nat \<Rightarrow> char" where
  "hex_lower d = (if d < 10 then char_of (48 + d) else char_of (87 + d))"

text \<open>The escapes of a string literal: quote, backslash, the short escapes
  of backspace, tab, line feed, form feed and carriage return, and
  \<open>\u00XX\<close> for the other control characters.\<close>

definition json_escape :: "char \<Rightarrow> string" where
  "json_escape c =
     (let n = (of_char c :: nat); bs = CHR 0x5C in
      if c = CHR 0x22 then [bs, CHR 0x22]
      else if c = bs then [bs, bs]
      else if n = 8 then [bs, CHR ''b'']
      else if n = 9 then [bs, CHR ''t'']
      else if n = 10 then [bs, CHR ''n'']
      else if n = 12 then [bs, CHR ''f'']
      else if n = 13 then [bs, CHR ''r'']
      else if n < 32 then [bs, CHR ''u'', CHR ''0'', CHR ''0'', hex_lower (n div 16), hex_lower (n mod 16)]
      else [c])"

definition json_quote :: "string \<Rightarrow> string" where
  "json_quote s = [CHR 0x22] @ concat (map json_escape s) @ [CHR 0x22]"

text \<open>\<open>JSON.stringify\<close> of a value that is not \<open>undefined\<close>: non-finite
  numbers and \<open>undefined\<close> array elements become \<open>null\<close>, object entries
  whose value is \<open>undefined\<close> are left out, a \<open>Response\<close> has no own
  enumerable property.\<close>

fun json_str :: "jsval \<Rightarrow> string" where
  "json_str JUndef = ''null''"
| "json_str JNull = ''null''"
| "json_str (JBool b) = (if b then ''true'' else ''false'')"
| "json_str (JNum n) = (if js_isFinite n then js_num_str n else ''null'')"
| "json_str (JStr s) = json_quote s"
| "json_str (JArr xs) = ''['' @ join_with '','' (map json_str xs) @ '']''"
| "json_str (JObj kvs) =
     ''{'' @ join_with '','' (map (\<lambda>kv. json_quote (fst kv) @ '':'' @ json_str (snd kv))
                                (filter (\<lambda>kv. snd kv \<noteq> JUndef) kvs)) @ ''}''"
| "json_str (JResponse r) = ''{}''"

section \<open>Types of the API\<close>

text \<open>\<open>RequestConfig\<close>: the per-call timeout, signal and headers, spread
  into the options after the method and body.\<close>

record request_config =
  rc_timeout :: "jsnum option"
  rc_signal :: caller_signal
  rc_headers :: "string \<rightharpoonup> string"

definition no_config :: request_config where
  "no_config = \<lparr>rc_timeout = None, rc_signal = NoSignal, rc_headers = Map.empty\<rparr>"

definition call_options :: "string \<Rightarrow> string option \<Rightarrow> request_config \<Rightarrow> req_options" where
  "call_options method body rc =
     \<lparr>opt_method = Some method, opt_body = body, opt_headers = rc_headers rc,
      opt_timeout = rc_timeout rc, opt_signal = rc_signal rc\<rparr>"

text \<open>\<open>CrawlRequest\<close>: \<open>urls\<close> (one address or a list), then the other
  properties of the request object in their order.\<close>

datatype urls_arg = OneUrl string | ManyUrls "string list"

record crawl_request =
  cr_urls :: urls_arg
  cr_rest :: "(string \<times> jsval) list"

record markdown_request =
  md_url :: string
  md_rest :: "(string \<times> jsval) list"

record execute_js_request =
  ej_url :: string
  ej_scripts :: "string list"

record ask_request =
  ask_context_type :: "string option"
  ask_query :: "string option"
  ask_score_ratio :: "jsnum option"
  ask_max_results :: "jsnum option"

record ask_response =
  ar_context :: string
  ar_type :: string
  ar_query :: "string option"
  ar_results_count :: nat

type_synonym 'a call_result = "((exn + 'a) \<times> retry_trace) option"

section \<open>Shared steps\<close>

definition validateUrl :: "(string \<Rightarrow> bool) \<Rightarrow> string \<Rightarrow> c4_error option" where
  "validateUrl url_ok url =
     (if url_ok url then None else Some (mk_RequestValidationError (''Invalid URL: '' @ url) (Some ''url'') (Some (JStr url))))"

text \<open>A rejection before any request: the trace is empty.\<close>

definition reject_early :: "c4_error \<Rightarrow> 'a call_result" where
  "reject_early e = Some (Inl (C4 e), empty_trace)"

text \<open>What the method does with the awaited value of \<open>requestWithRetry\<close>:
  a rejection passes through, a value is post-processed (which may throw).\<close>

definition then_apply :: "(jsval \<Rightarrow> exn + 'a) \<Rightarrow> jsval call_result \<Rightarrow> 'a call_result" where
  "then_apply f r =
     map_option (\<lambda>(res, tr). (case res of Inl e \<Rightarrow> Inl e | Inr v \<Rightarrow> f v, tr)) r"

text \<open>\<open>value.k\<close>: reading a property of \<open>null\<close> or \<open>undefined\<close> throws a
  \<open>TypeError\<close>; of any other value it yields the property or \<open>undefined\<close>.\<close>

definition js_member :: "jsval \<Rightarrow> string \<Rightarrow> exn + jsval" where
  "js_member v k =
     (case v of
        JUndef \<Rightarrow> Inl (JsError ''TypeError'' (''Cannot read properties of undefined (reading '' @ k @ '')''))
      | JNull \<Rightarrow> Inl (JsError ''TypeError'' (''Cannot read properties of null (reading '' @ k @ '')''))
      | _ \<Rightarrow> Inr (js_prop v k))"

text \<open>\<open>typeof response === 'string' ? response : response.k\<close>.\<close>

definition text_or_field :: "string \<Rightarrow> jsval \<Rightarrow> exn + jsval" where
  "text_or_field k v = (case v of JStr s \<Rightarrow> Inr (JStr s) | _ \<Rightarrow> js_member v k)"

section \<open>Crawling methods\<close>

definition crawl_urls :: "urls_arg \<Rightarrow> string list" where
  "crawl_urls u = (case u of OneUrl s \<Rightarrow> [s] | ManyUrls us \<Rightarrow> us)"

text \<open>\<open>for (const url of urls) this.validateUrl(url)\<close>: the first invalid
  address throws.\<close>

definition first_invalid :: "(string \<Rightarrow> bool) \<Rightarrow> string list \<Rightarrow> c4_error option" where
  "first_invalid url_ok urls = (case find (\<lambda>u. \<not> url_ok u) urls of
     Some u \<Rightarrow> validateUrl url_ok u | None \<Rightarrow> None)"

definition crawl_body :: "crawl_request \<Rightarrow> string" where
  "crawl_body req = json_str (JObj ((''urls'', JArr (map JStr (crawl_urls (cr_urls req)))) # cr_rest req))"

definition crawl ::
  "(string \<Rightarrow> bool) \<Rightarrow> client_config \<Rightarrow> crawl_request \<Rightarrow> request_config \<Rightarrow> (nat \<Rightarrow> net_event) \<Rightarrow> jsval call_result" where
  "crawl url_ok cfg req rc net =
     (case first_invalid url_ok (crawl_urls (cr_urls req)) of
        Some e \<Rightarrow> reject_early e
      | None \<Rightarrow> then_apply (\<lambda>v. Inr (normalizeArrayResponse v))
                 (requestWithRetry cfg ''/crawl'' (call_options ''POST'' (Some (crawl_body req)) rc) net))"

definition markdown ::
  "(string \<Rightarrow> bool) \<Rightarrow> client_config \<Rightarrow> markdown_request \<Rightarrow> request_config \<Rightarrow> (nat \<Rightarrow> net_event) \<Rightarrow> jsval call_result" where
  "markdown url_ok cfg req rc net =
     (case validateUrl url_ok (md_url req) of
        Some e \<Rightarrow> reject_early e
      | None \<Rightarrow> then_apply (text_or_field ''markdown'')
                 (requestWithRetry cfg ''/md''
                    (call_options ''POST'' (Some (json_str (JObj ((''url'', JStr (md_url req)) # md_rest req)))) rc) net))"

definition html ::
  "(string \<Rightarrow> bool) \<Rightarrow> client_config \<Rightarrow> string \<Rightarrow> request_config \<Rightarrow> (nat \<Rightarrow> net_event) \<Rightarrow> jsval call_result" where
  "html url_ok cfg url rc net =
     (case validateUrl url_ok url of
        Some e \<Rightarrow> reject_early e
      | None \<Rightarrow> then_apply (text_or_field ''html'')
                 (requestWithRetry cfg ''/html'' (call_options ''POST'' (Some (json_str (JObj [(''url'', JStr url)]))) rc) net))"

definition executeJs ::
  "(string \<Rightarrow> bool) \<Rightarrow> client_config \<Rightarrow> execute_js_request \<Rightarrow> request_config \<Rightarrow> (nat \<Rightarrow> net_event) \<Rightarrow> jsval call_result" where
  "executeJs url_ok cfg req rc net =
     (case validateUrl url_ok (ej_url req) of
        Some e \<Rightarrow> reject_early e
      | None \<Rightarrow> requestWithRetry cfg ''/execute_js''
                 (call_options ''POST''
                    (Some (json_str (JObj [(''url'', JStr (ej_url req)), (''scripts'', JArr (map JStr (ej_scripts req)))]))) rc) net)"

section \<open>ask\<close>

definition opt_str :: "string option \<Rightarrow> jsval" where
  "opt_str s = (case s of Some x \<Rightarrow> JStr x | None \<Rightarrow> JUndef)"

definition opt_num :: "jsnum option \<Rightarrow> jsval" where
  "opt_num n = (case n of Some x \<Rightarrow> JNum x | None \<Rightarrow> JUndef)"

text \<open>The parameters \<open>ask\<close> passes to \<open>buildQueryParams\<close> (\<open>params?.x\<close>
  is \<open>undefined\<close> when there are no parameters), and the endpoint.\<close>

definition ask_params :: "ask_request option \<Rightarrow> (string \<times> jsval) list" where
  "ask_params p =
     (case p of
        None \<Rightarrow> [(''context_type'', JUndef), (''query'', JUndef), (''score_ratio'', JUndef), (''max_results'', JUndef)]
      | Some a \<Rightarrow> [(''context_type'', opt_str (ask_context_type a)), (''query'', opt_str (ask_query a)),
                  (''score_ratio'', opt_num (ask_score_ratio a)), (''max_results'', opt_num (ask_max_results a))])"

definition ask_endpoint :: "ask_request option \<Rightarrow> string" where
  "ask_endpoint p = (let qs = buildQueryParams (ask_params p) in ''/ask'' @ (if qs \<noteq> [] then ''?'' @ qs else []))"

text \<open>\<open>response.doc_results || response.code_results || response.all_results || []\<close>.\<close>

definition ask_results :: "jsval \<Rightarrow> exn + jsval" where
  "ask_results response =
     (case js_member response ''doc_results'' of
        Inl e \<Rightarrow> Inl e
      | Inr d \<Rightarrow> Inr (if js_truthy d then d
                      else if js_truthy (js_prop response ''code_results'') then js_prop response ''code_results''
                      else if js_truthy (js_prop response ''all_results'') then js_prop response ''all_results''
                      else JArr []))"

text \<open>\<open>results.map((r) => r.text)\<close>, stopping at the first element whose
  \<open>text\<close> cannot be read.\<close>

fun map_text :: "jsval list \<Rightarrow> exn + jsval list" where
  "map_text [] = Inr []"
| "map_text (r # rs) =
     (case js_member r ''text'' of
        Inl e \<Rightarrow> Inl e
      | Inr t \<Rightarrow> (case map_text rs of Inl e \<Rightarrow> Inl e | Inr ts \<Rightarrow> Inr (t # ts)))"

text \<open>\<open>Array.prototype.join\<close>: \<open>null\<close> and \<open>undefined\<close> elements are empty.\<close>

definition js_join :: "string \<Rightarrow> jsval list \<Rightarrow> string" where
  "js_join sep ts = join_with sep (map (\<lambda>t. if t = JUndef \<or> t = JNull then [] else js_String t) ts)"

definition ask_result :: "ask_request option \<Rightarrow> jsval \<Rightarrow> exn + ask_response" where
  "ask_result p response =
     (case ask_results response of
        Inl e \<Rightarrow> Inl e
      | Inr (JArr xs) \<Rightarrow>
          (case map_text xs of
             Inl e \<Rightarrow> Inl e
           | Inr ts \<Rightarrow>
               Inr \<lparr>ar_context = js_join [CHR 0x0A, CHR 0x0A] ts,
                    ar_type = (case p of Some a \<Rightarrow> (case ask_context_type a of Some c \<Rightarrow> if c \<noteq> [] then c else ''doc''
                                                   | None \<Rightarrow> ''doc'') | None \<Rightarrow> ''doc''),
                    ar_query = (case p of Some a \<Rightarrow> ask_query a | None \<Rightarrow> None),
                    ar_results_count = length xs\<rparr>)
      | Inr _ \<Rightarrow> Inl (JsError ''TypeError'' ''results.map is not a function''))"

definition ask ::
  "client_config \<Rightarrow> ask_request option \<Rightarrow> request_config \<Rightarrow> (nat \<Rightarrow> net_event) \<Rightarrow> ask_response call_result" where
  "ask cfg p rc net =
     then_apply (ask_result p) (requestWithRetry cfg (ask_endpoint p) (call_options ''GET'' None rc) net)"

section \<open>llm\<close>

text \<open>\<open>/llm/${encodeURIComponent(url)}?${new URLSearchParams({ q: query })}\<close>.\<close>

definition llm_endpoint :: "string \<Rightarrow> string \<Rightarrow> string" where
  "llm_endpoint url query = ''/llm/'' @ encodeURIComponent url @ ''?q='' @ form_urlencode query"

text \<open>\<open>typeof response === 'string' ? response : response.answer || ''\<close>.\<close>

definition llm_answer :: "jsval \<Rightarrow> exn + jsval" where
  "llm_answer v =
     (case v of
        JStr s \<Rightarrow> Inr (JStr s)
      | _ \<Rightarrow> (case js_member v ''answer'' of Inl e \<Rightarrow> Inl e | Inr a \<Rightarrow> Inr (if js_truthy a then a else JStr [])))"

definition llm ::
  "(string \<Rightarrow> bool) \<Rightarrow> client_config \<Rightarrow> string \<Rightarrow> string \<Rightarrow> request_config \<Rightarrow> (nat \<Rightarrow> net_event) \<Rightarrow> jsval call_result" where
  "llm url_ok cfg url query rc net =
     (case validateUrl url_ok url of
        Some e \<Rightarrow> reject_early e
      | None \<Rightarrow> then_apply llm_answer
                 (requestWithRetry cfg (llm_endpoint url query) (call_options ''GET'' None rc) net))"

section \<open>Service endpoints\<close>

text \<open>\<open>health\<close>, \<open>metrics\<close>, \<open>schema\<close> and \<open>getRoot\<close> call \<open>request\<close>
  directly, one attempt, with \<open>{method: 'GET', ...config}\<close>.\<close>

definition get_endpoint ::
  "string \<Rightarrow> client_config \<Rightarrow> request_config \<Rightarrow> net_event \<Rightarrow> ((exn + jsval) \<times> log_entry list) option" where
  "get_endpoint endpoint cfg rc ev = request cfg endpoint (call_options ''GET'' None rc) ev"

definition health where "health = get_endpoint ''/health''"
definition metrics where "metrics = get_endpoint ''/metrics''"
definition schema where "schema = get_endpoint ''/schema''"
definition getRoot where "getRoot = get_endpoint ''/''"

definition HEALTH_CHECK_TIMEOUT :: rat where "HEALTH_CHECK_TIMEOUT = 5000"

text \<open>\<open>testConnection(options)\<close>: \<open>true\<close> when \<open>health\<close> (with a 5 s timeout)
  resolves; a rejection is rethrown when \<open>options.throwOnError\<close>, and is
  \<open>false\<close> otherwise.\<close>

definition testConnection ::
  "client_config \<Rightarrow> bool \<Rightarrow> net_event \<Rightarrow> ((exn + bool) \<times> log_entry list) option" where
  "testConnection cfg throwOnError ev =
     map_option (\<lambda>(res, lg). (case res of Inr _ \<Rightarrow> Inr True
                                | Inl e \<Rightarrow> if throwOnError then Inl e else Inr False, lg))
       (health cfg (no_config\<lparr>rc_timeout := Some (JFin HEALTH_CHECK_TIMEOUT)\<rparr>) ev)"

text \<open>\<open>version(options)\<close>: \<open>health.version || 'unknown'\<close>; any error,
  including reading \<open>version\<close> of a \<open>null\<close> body, is \<open>'unknown'\<close> unless
  \<open>options.throwOnError\<close>.\<close>

definition version ::
  "client_config \<Rightarrow> bool \<Rightarrow> net_event \<Rightarrow> ((exn + jsval) \<times> log_entry list) option" where
  "version cfg throwOnError ev =
     map_option (\<lambda>(res, lg).
        (let r = (case res of Inl e \<Rightarrow> Inl e | Inr h \<Rightarrow> js_member h ''version'') in
         case r of Inr v \<Rightarrow> Inr (if js_truthy v then v else JStr ''unknown'')
                 | Inl e \<Rightarrow> if throwOnError then Inl e else Inr (JStr ''unknown''), lg))
       (health cfg no_config ev)"

text \<open>The object \<open>ask\<close> resolves to (lines 537-545): \<open>context\<close>, \<open>type\<close>
  and \<open>results_count\<close>, then \<open>query\<close> only when \<open>params?.query\<close> is
  defined.\<close>

definition ask_response_obj :: "ask_response \<Rightarrow> jsval" where
  "ask_response_obj r =
     JObj ([(''context'', JStr (ar_context r)), (''type'', JStr (ar_type r)),
            (''results_count'', JNum (JFin (of_nat (ar_results_count r))))] @
           (case ar_query r of Some q \<Rightarrow> [(''query'', JStr q)] | None \<Rightarrow> []))"

text \<open>What the service should read from the query of \<open>ask\<close>: each given
  parameter, in the order \<open>context_type\<close>, \<open>query\<close>, \<open>score_ratio\<close>,
  \<open>max_results\<close>, with its string value.\<close>

definition ask_query_spec :: "ask_request option \<Rightarrow> (string \<times> string) list" where
  "ask_query_spec p =
     (case p of
        None \<Rightarrow> []
      | Some a \<Rightarrow>
          (case ask_context_type a of Some c \<Rightarrow> [(''context_type'', c)] | None \<Rightarrow> []) @
          (case ask_query a of Some q \<Rightarrow> [(''query'', q)] | None \<Rightarrow> []) @
          (case ask_score_ratio a of Some s \<Rightarrow> [(''score_ratio'', js_num_str s)] | None \<Rightarrow> []) @
          (case ask_max_results a of Some m \<Rightarrow> [(''max_results'', js_num_str m)] | None \<Rightarrow> []))"

declare hex_lower_def [js_eval] json_escape_def [js_eval] json_quote_def [js_eval] no_config_def [js_eval]
  call_options_def [js_eval] validateUrl_def [js_eval] reject_early_def [js_eval] then_apply_def [js_eval]
  js_member_def [js_eval] text_or_field_def [js_eval] crawl_urls_def [js_eval] first_invalid_def [js_eval]
  crawl_body_def [js_eval] crawl_def [js_eval] markdown_def [js_eval] html_def [js_eval] executeJs_def [js_eval]
  opt_str_def [js_eval] opt_num_def [js_eval] ask_params_def [js_eval] ask_endpoint_def [js_eval]
  ask_results_def [js_eval] js_join_def [js_eval] ask_result_def [js_eval] ask_def [js_eval]
  llm_endpoint_def [js_eval] llm_answer_def [js_eval] llm_def [js_eval] get_endpoint_def [js_eval]
  health_def [js_eval] metrics_def [js_eval] schema_def [js_eval] getRoot_def [js_eval]
  HEALTH_CHECK_TIMEOUT_def [js_eval] testConnection_def [js_eval] version_def [js_eval]
section \<open>Lemmas\<close>

lemma then_apply_simps [simp]:
  "then_apply f (Some (Inr v, tr)) = Some (f v, tr)"
  "then_apply f (Some (Inl e, tr)) = Some (Inl e, tr)"
  "then_apply f None = None"
  by (simp_all add: then_apply_def)

lemma then_apply_Inr:
  assumes "then_apply f r = Some (Inr v, tr)" shows "\<exists>w. r = Some (Inr w, tr) \<and> f w = Inr v"
proof -
  obtain res tr' where r: "r = Some (res, tr')" using assms by (cases r) (auto simp: then_apply_def)
  show ?thesis using assms by (cases res) (simp_all add: r)
qed

lemma first_invalid_find:
  "find (\<lambda>u. \<not> url_ok u) us = Some u \<Longrightarrow>
   first_invalid url_ok us = Some (mk_RequestValidationError (''Invalid URL: '' @ u) (Some ''url'') (Some (JStr u)))"
  by (auto simp: first_invalid_def validateUrl_def dest: find_Some_iff [THEN iffD1])

lemma first_invalid_none: "\<forall>u\<in>set us. url_ok u \<Longrightarrow> first_invalid url_ok us = None"
proof -
  assume "\<forall>u\<in>set us. url_ok u"
  then have "find (\<lambda>u. \<not> url_ok u) us = None" by (simp add: find_None_iff)
  then show ?thesis by (simp add: first_invalid_def)
qed

lemma crawl_valid:
  "\<forall>u\<in>set (crawl_urls (cr_urls req)). url_ok u \<Longrightarrow>
   crawl url_ok cfg req rc net =
     then_apply (\<lambda>v. Inr (normalizeArrayResponse v))
       (requestWithRetry cfg ''/crawl'' (call_options ''POST'' (Some (crawl_body req)) rc) net)"
  by (simp add: crawl_def first_invalid_none)

lemma map_text_objs: "map_text (map (\<lambda>t. JObj [(''text'', JStr t)]) ts) = Inr (map JStr ts)"
  by (induction ts) (simp_all add: js_member_def js_prop_def obj_get_def)

lemma js_join_strs: "js_join sep (map JStr ts) = join_with sep ts"
  by (simp add: js_join_def comp_def)

lemma call_options_signal [simp]: "opt_signal (call_options m b rc) = rc_signal rc"
  by (simp add: call_options_def)
text \<open>With the default configuration and no call options, a first response
  that is read and accepted is the value of \<open>requestWithRetry\<close>.\<close>

lemma default_first_success:
  assumes "read_body r j = BodyValue d" and "resp_status r < 400" and "t < 300000"
  shows "\<exists>lg. requestWithRetry (default_config b) endpoint (call_options m body no_config) (\<lambda>_. Arrive r j t) =
           Some (Inr d, empty_trace\<lparr>rt_attempts := 1, rt_logs := lg\<rparr>)"
proof -
  have "opt_signal (call_options m body no_config) = NoSignal" by (simp add: no_config_def)
  moreover have "t < timer_delay (req_timeout (default_config b) (call_options m body no_config))"
    using assms(3) by (simp add: req_timeout_def call_options_def no_config_def default_config_def
        timer_delay_def TIMEOUT_MAX_def DEFAULT_TIMEOUT_def)
  moreover have "cfg_validateStatus (default_config b) (resp_status r)"
    using assms(2) by (simp add: default_config_def CLIENT_ERROR_MIN_def)
  ultimately obtain lg where "request (default_config b) endpoint (call_options m body no_config) (Arrive r j t) = Some (Inr d, lg)"
    using request_success [OF _ _ assms(1)] by blast
  moreover have "js_le (JFin 0) (cfg_retries (default_config b))" by (simp add: default_config_def DEFAULT_RETRIES_def)
  ultimately show ?thesis using requestWithRetry_first_success [where net = "\<lambda>_. Arrive r j t"] by blast
qed

lemma ask_params_spec:
  "map (\<lambda>(k, v). (k, js_String v)) (filter (\<lambda>(k, v). v \<noteq> JUndef) (ask_params p)) = ask_query_spec p"
  by (cases p) (simp_all add: ask_params_def ask_query_spec_def opt_str_def opt_num_def split: option.split)

lemma testConnection_settles:
  "\<not> body_stalls ev \<Longrightarrow> \<exists>b lg. testConnection cfg False ev = Some (Inr b, lg)"
proof -
  assume ns: "\<not> body_stalls ev"
  have "opt_signal (call_options ''GET'' None (no_config\<lparr>rc_timeout := Some (JFin HEALTH_CHECK_TIMEOUT)\<rparr>)) = NoSignal"
    by (simp add: no_config_def)
  from request_settles [OF this ns, of cfg "''/health''"]
  obtain res lg where "health cfg (no_config\<lparr>rc_timeout := Some (JFin HEALTH_CHECK_TIMEOUT)\<rparr>) ev = Some (res, lg)"
    by (auto simp: health_def get_endpoint_def)
  then show ?thesis by (cases res) (auto simp: testConnection_def)
qed

section \<open>Properties of the API methods\<close>

text \<open>
  C25. \<open>crawl\<close> validates every address before any request: when some
  address of \<open>urls\<close> does not parse, the call rejects with the
  \<open>RequestValidationError\<close> of the first such address (field \<open>url\<close>), and the
  trace is empty, whatever the network would have done.
\<close>

theorem crawl_rejects_invalid_url:
  assumes "find (\<lambda>u. \<not> url_ok u) (crawl_urls (cr_urls req)) = Some u"
  shows "crawl url_ok cfg req rc net =
           Some (Inl (C4 (mk_RequestValidationError (''Invalid URL: '' @ u) (Some ''url'') (Some (JStr u)))),
                 empty_trace)"
  using first_invalid_find [OF assms] by (simp add: crawl_def reject_early_def)

text \<open>
  C26. Whatever envelope the service answers with, a \<open>crawl\<close> that resolves
  resolves with an array: the normalizer runs on every successful body.
\<close>

theorem crawl_resolves_array:
  assumes "crawl url_ok cfg req rc net = Some (Inr v, tr)"
  shows "\<exists>xs. v = JArr xs"
proof -
  have "first_invalid url_ok (crawl_urls (cr_urls req)) = None"
    using assms by (auto simp: crawl_def reject_early_def split: option.splits)
  then have "then_apply (\<lambda>v. Inr (normalizeArrayResponse v))
     (requestWithRetry cfg ''/crawl'' (call_options ''POST'' (Some (crawl_body req)) rc) net) = Some (Inr v, tr)"
    using assms by (simp add: crawl_def)
  then obtain w where "v = normalizeArrayResponse w" by (auto dest: then_apply_Inr)
  then show ?thesis using normalize_is_array by blast
qed

text \<open>
  C27. The query of \<open>ask\<close>: the endpoint is \<open>/ask\<close> alone when no
  parameter is given, and otherwise \<open>/ask?\<close> followed by a query from which
  the service's parser reads back exactly the given parameters
  (\<open>context_type\<close>, \<open>query\<close>, \<open>score_ratio\<close>, \<open>max_results\<close>, in that
  order) with their string values.
\<close>

theorem ask_endpoint_query:
  "\<exists>q. ask_endpoint p = ''/ask'' @ (if ask_query_spec p = [] then [] else ''?'' @ q) \<and>
       parse_query q = ask_query_spec p"
proof -
  let ?qs = "buildQueryParams (ask_params p)"
  have spec: "map (\<lambda>(k, v). (k, js_String v)) (filter (\<lambda>(k, v). v \<noteq> JUndef) (ask_params p)) = ask_query_spec p"
    by (simp add: ask_params_spec)
  have pq: "parse_query ?qs = ask_query_spec p"
    using parse_query_build [of "ask_params p"] spec by simp
  have ne: "?qs = [] \<longleftrightarrow> ask_query_spec p = []"
  proof
    assume "?qs = []"
    then show "ask_query_spec p = []" using pq by (simp add: parse_query_def)
  next
    assume "ask_query_spec p = []"
    then have "filter (\<lambda>(k, v). v \<noteq> JUndef) (ask_params p) = []" using spec by simp
    then show "?qs = []" by (simp add: buildQueryParams_def)
  qed
  show ?thesis using ne pq by (intro exI [of _ ?qs]) (simp add: ask_endpoint_def)
qed

text \<open>
  C28. The path of \<open>llm\<close> cannot be broken by the target address: the
  endpoint is \<open>/llm/\<close>, one path segment, \<open>?q=\<close> and the question, where
  the segment contains no \<open>/\<close>, \<open>?\<close> or \<open>#\<close>, decodes back to the address,
  and the question decodes back to itself.
\<close>

theorem llm_endpoint_path:
  "\<exists>seg qv. llm_endpoint url query = ''/llm/'' @ seg @ ''?q='' @ qv \<and>
     CHR ''/'' \<notin> set seg \<and> CHR ''?'' \<notin> set seg \<and> CHR ''#'' \<notin> set seg \<and>
     decodeURIComponent seg = url \<and> form_decode qv = query"
proof (intro exI conjI)
  show "llm_endpoint url query = ''/llm/'' @ encodeURIComponent url @ ''?q='' @ form_urlencode query"
    by (simp add: llm_endpoint_def)
  show "CHR ''/'' \<notin> set (encodeURIComponent url)" "CHR ''?'' \<notin> set (encodeURIComponent url)"
    "CHR ''#'' \<notin> set (encodeURIComponent url)"
    unfolding encodeURIComponent_def by (intro delimiter_not_encoded uri_delims)+
  show "decodeURIComponent (encodeURIComponent url) = url" by (rule uri_decode_encode)
  show "form_decode (form_urlencode query) = query" by (rule form_decode_encode)
qed
text \<open>
  C29. The 5-second timeout of \<open>testConnection()\<close> does not bound it: when
  the headers of \<open>/health\<close> arrive within 5 s but the body never finishes,
  the deadline timer has already been cleared, and \<open>testConnection\<close>
  never settles: neither \<open>true\<close>, nor \<open>false\<close>, nor a rejection.
\<close>

theorem testConnection_hangs_on_stalled_body:
  assumes "t < HEALTH_CHECK_TIMEOUT" and "\<not> is_event_stream r"
  shows "testConnection cfg throwOnError (Stall r t) = None"
proof -
  let ?rc = "no_config\<lparr>rc_timeout := Some (JFin HEALTH_CHECK_TIMEOUT)\<rparr>"
  have sig: "opt_signal (call_options ''GET'' None ?rc) = NoSignal" by (simp add: no_config_def)
  have td: "t < timer_delay (req_timeout cfg (call_options ''GET'' None ?rc))"
    using assms(1) by (simp add: req_timeout_def call_options_def timer_delay_def HEALTH_CHECK_TIMEOUT_def TIMEOUT_MAX_def)
  show ?thesis
    using request_stalled_body [OF sig td assms(2), of "''/health''"]
    by (simp add: testConnection_def health_def get_endpoint_def)
qed

text \<open>
  C30. \<open>version()\<close> falls back to \<open>'unknown'\<close>: when \<open>health\<close> rejects, for
  any reason, \<open>version\<close> resolves with \<open>'unknown'\<close>.
\<close>

theorem version_unknown_on_error:
  assumes "map_option fst (health cfg no_config ev) = Some (Inl e)"
  shows "map_option fst (version cfg False ev) = Some (Inr (JStr ''unknown''))"
  using assms by (auto simp: version_def)

text \<open>
  C31. A JSON \<open>null\<close> body makes \<open>markdown\<close> reject with a platform
  \<open>TypeError\<close> (reading \<open>markdown\<close> of \<open>null\<close>), an error outside the
  taxonomy, after the request has succeeded.
\<close>

theorem markdown_null_body_typeerror:
  assumes "url_ok (md_url req)"
    and "requestWithRetry cfg ''/md''
           (call_options ''POST'' (Some (json_str (JObj ((''url'', JStr (md_url req)) # md_rest req)))) rc) net =
         Some (Inr JNull, tr)"
  shows "\<exists>m. markdown url_ok cfg req rc net = Some (Inl (JsError ''TypeError'' m), tr)"
  using assms by (simp add: markdown_def validateUrl_def text_or_field_def js_member_def)

text \<open>
  C32. \<open>ask\<close> reports the documentation results: when the body is an object
  whose \<open>doc_results\<close> is a list of \<open>{text}\<close> objects, the answer's
  \<open>results_count\<close> is their number and its \<open>context\<close> their texts joined by
  blank lines.
\<close>

theorem ask_doc_results:
  assumes "requestWithRetry cfg (ask_endpoint p) (call_options ''GET'' None rc) net = Some (Inr (JObj kvs), tr)"
    and "obj_get kvs ''doc_results'' = Some (JArr (map (\<lambda>t. JObj [(''text'', JStr t)]) ts))"
  shows "\<exists>r. ask cfg p rc net = Some (Inr r, tr) \<and> ar_results_count r = length ts \<and>
             ar_context r = join_with [CHR 0x0A, CHR 0x0A] ts"
proof -
  have "ask_results (JObj kvs) = Inr (JArr (map (\<lambda>t. JObj [(''text'', JStr t)]) ts))"
    using assms(2) by (simp add: ask_results_def js_member_def js_prop_def)
  then show ?thesis
    using assms(1) by (simp add: ask_def ask_result_def map_text_objs js_join_strs)
qed
section \<open>Witnesses\<close>

theorem crawl_rejects_invalid_url_witness:
  "find (\<lambda>u. \<not> u \<noteq> ''bad'') (crawl_urls (cr_urls \<lparr>cr_urls = ManyUrls [''http://a'', ''bad''], cr_rest = []\<rparr>)) = Some ''bad'' \<and>
   crawl (\<lambda>u. u \<noteq> ''bad'') (default_config ''http://h'') \<lparr>cr_urls = ManyUrls [''http://a'', ''bad''], cr_rest = []\<rparr>
     no_config (\<lambda>_. Hang) =
   Some (Inl (C4 (mk_RequestValidationError (''Invalid URL: '' @ ''bad'') (Some ''url'') (Some (JStr ''bad'')))), empty_trace)"
proof -
  have f: "find (\<lambda>u. \<not> u \<noteq> ''bad'') (crawl_urls (cr_urls \<lparr>cr_urls = ManyUrls [''http://a'', ''bad''], cr_rest = []\<rparr>)) = Some ''bad''"
    by (simp add: crawl_urls_def)
  show ?thesis using f crawl_rejects_invalid_url [OF f] by simp
qed

theorem crawl_resolves_array_witness:
  "\<exists>tr. crawl (\<lambda>_. True) (default_config ''http://h'') \<lparr>cr_urls = OneUrl ''http://a'', cr_rest = []\<rparr> no_config
          (\<lambda>_. Arrive \<lparr>resp_status = 200, resp_statusText = ''OK'', resp_headers = [(''content-type'', ''application/json'')],
                       resp_body = []\<rparr> (Inr (JObj [(''results'', JArr [JNull])])) 1) = Some (Inr (JArr [JNull]), tr) \<and>
        (\<exists>xs. JArr [JNull] = JArr xs)"
proof -
  let ?r = "\<lparr>resp_status = 200, resp_statusText = ''OK'', resp_headers = [(''content-type'', ''application/json'')],
             resp_body = []\<rparr>"
  let ?v = "JObj [(''results'', JArr [JNull])]"
  let ?req = "\<lparr>cr_urls = OneUrl ''http://a'', cr_rest = []\<rparr>"
  have rb: "read_body ?r (Inr ?v) = BodyValue ?v" by (simp add: read_body_def content_type_def headers_get_def)
  obtain lg where rq: "requestWithRetry (default_config ''http://h'') ''/crawl'' (call_options ''POST'' (Some (crawl_body ?req)) no_config)
      (\<lambda>_. Arrive ?r (Inr ?v) 1) = Some (Inr ?v, empty_trace\<lparr>rt_attempts := 1, rt_logs := lg\<rparr>)"
    using default_first_success [OF rb] by fastforce
  have "normalizeArrayResponse ?v = JArr [JNull]"
    by (simp add: normalizeArrayResponse_def js_isArray_def isApiArrayResponse_def obj_has_def js_prop_def obj_get_def)
  then have c: "crawl (\<lambda>_. True) (default_config ''http://h'') ?req no_config (\<lambda>_. Arrive ?r (Inr ?v) 1) =
      Some (Inr (JArr [JNull]), empty_trace\<lparr>rt_attempts := 1, rt_logs := lg\<rparr>)"
    using rq by (simp add: crawl_valid crawl_urls_def)
  show ?thesis using c crawl_resolves_array [OF c] by blast
qed

theorem testConnection_hangs_on_stalled_body_witness:
  "1 < HEALTH_CHECK_TIMEOUT \<and>
   \<not> is_event_stream \<lparr>resp_status = 200, resp_statusText = ''OK'',
       resp_headers = [(''content-type'', ''application/json'')], resp_body = []\<rparr> \<and>
   testConnection (default_config ''http://h'') False
     (Stall \<lparr>resp_status = 200, resp_statusText = ''OK'',
             resp_headers = [(''content-type'', ''application/json'')], resp_body = []\<rparr> 1) = None"
proof -
  let ?r = "\<lparr>resp_status = 200, resp_statusText = ''OK'',
             resp_headers = [(''content-type'', ''application/json'')], resp_body = []\<rparr>"
  have h1: "1 < HEALTH_CHECK_TIMEOUT" by (simp add: HEALTH_CHECK_TIMEOUT_def)
  have h2: "\<not> is_event_stream ?r" by (simp add: js_eval)
  show ?thesis using h1 h2 testConnection_hangs_on_stalled_body [OF h1 h2] by simp
qed

theorem version_unknown_on_error_witness:
  "map_option fst (health (default_config ''http://h'') no_config Hang) =
     Some (Inl (C4 (mk_TimeoutError (JFin 300000) (Some ''http://h/health'')))) \<and>
   map_option fst (version (default_config ''http://h'') False Hang) = Some (Inr (JStr ''unknown''))"
proof -
  have h: "map_option fst (health (default_config ''http://h'') no_config Hang) =
     Some (Inl (C4 (mk_TimeoutError (JFin 300000) (Some ''http://h/health''))))"
    by (simp add: health_def get_endpoint_def request_settled fetch_settle_deadline request_try_def abort_rejection_def
        call_options_def no_config_def req_timeout_def default_config_def DEFAULT_TIMEOUT_def)
  show ?thesis using h version_unknown_on_error [OF h] by simp
qed

theorem markdown_null_body_typeerror_witness:
  "\<exists>tr. (\<lambda>_. True) (md_url \<lparr>md_url = ''http://a'', md_rest = []\<rparr>) \<and>
     requestWithRetry (default_config ''http://h'') ''/md''
       (call_options ''POST'' (Some (json_str (JObj ((''url'', JStr (md_url \<lparr>md_url = ''http://a'', md_rest = []\<rparr>)) #
          md_rest \<lparr>md_url = ''http://a'', md_rest = []\<rparr>)))) no_config)
       (\<lambda>_. Arrive \<lparr>resp_status = 200, resp_statusText = ''OK'', resp_headers = [(''content-type'', ''application/json'')],
                    resp_body = []\<rparr> (Inr JNull) 1) = Some (Inr JNull, tr) \<and>
     (\<exists>m. markdown (\<lambda>_. True) (default_config ''http://h'') \<lparr>md_url = ''http://a'', md_rest = []\<rparr> no_config
            (\<lambda>_. Arrive \<lparr>resp_status = 200, resp_statusText = ''OK'', resp_headers = [(''content-type'', ''application/json'')],
                         resp_body = []\<rparr> (Inr JNull) 1) = Some (Inl (JsError ''TypeError'' m), tr))"
proof -
  let ?r = "\<lparr>resp_status = 200, resp_statusText = ''OK'', resp_headers = [(''content-type'', ''application/json'')],
             resp_body = []\<rparr>"
  let ?req = "\<lparr>md_url = ''http://a'', md_rest = []\<rparr>"
  have rb: "read_body ?r (Inr JNull) = BodyValue JNull" by (simp add: read_body_def content_type_def headers_get_def)
  obtain lg where rq: "requestWithRetry (default_config ''http://h'') ''/md''
      (call_options ''POST'' (Some (json_str (JObj ((''url'', JStr (md_url ?req)) # md_rest ?req)))) no_config)
      (\<lambda>_. Arrive ?r (Inr JNull) 1) = Some (Inr JNull, empty_trace\<lparr>rt_attempts := 1, rt_logs := lg\<rparr>)"
    using default_first_success [OF rb] by fastforce
  have u: "(\<lambda>_. True) (md_url ?req)" by simp
  show ?thesis using rq markdown_null_body_typeerror [OF u rq] by blast
qed

theorem ask_doc_results_witness:
  "\<exists>tr. requestWithRetry (default_config ''http://h'') (ask_endpoint None) (call_options ''GET'' None no_config)
          (\<lambda>_. Arrive \<lparr>resp_status = 200, resp_statusText = ''OK'', resp_headers = [(''content-type'', ''application/json'')],
                       resp_body = []\<rparr>
             (Inr (JObj [(''doc_results'', JArr [JObj [(''text'', JStr ''a'')], JObj [(''text'', JStr ''b'')]])])) 1) =
        Some (Inr (JObj [(''doc_results'', JArr [JObj [(''text'', JStr ''a'')], JObj [(''text'', JStr ''b'')]])]), tr) \<and>
        obj_get [(''doc_results'', JArr [JObj [(''text'', JStr ''a'')], JObj [(''text'', JStr ''b'')]])] ''doc_results'' =
          Some (JArr (map (\<lambda>t. JObj [(''text'', JStr t)]) [''a'', ''b''])) \<and>
        (\<exists>r. ask (default_config ''http://h'') None no_config
               (\<lambda>_. Arrive \<lparr>resp_status = 200, resp_statusText = ''OK'',
                             resp_headers = [(''content-type'', ''application/json'')], resp_body = []\<rparr>
                  (Inr (JObj [(''doc_results'', JArr [JObj [(''text'', JStr ''a'')], JObj [(''text'', JStr ''b'')]])])) 1) =
             Some (Inr r, tr) \<and> ar_results_count r = length [''a'', ''b''] \<and>
             ar_context r = join_with [CHR 0x0A, CHR 0x0A] [''a'', ''b''])"
proof -
  let ?r = "\<lparr>resp_status = 200, resp_statusText = ''OK'', resp_headers = [(''content-type'', ''application/json'')],
             resp_body = []\<rparr>"
  let ?kvs = "[(''doc_results'', JArr [JObj [(''text'', JStr ''a'')], JObj [(''text'', JStr ''b'')]])]"
  have rb: "read_body ?r (Inr (JObj ?kvs)) = BodyValue (JObj ?kvs)" by (simp add: read_body_def content_type_def headers_get_def)
  obtain lg where rq: "requestWithRetry (default_config ''http://h'') (ask_endpoint None) (call_options ''GET'' None no_config)
      (\<lambda>_. Arrive ?r (Inr (JObj ?kvs)) 1) = Some (Inr (JObj ?kvs), empty_trace\<lparr>rt_attempts := 1, rt_logs := lg\<rparr>)"
    using default_first_success [OF rb] by fastforce
  have g: "obj_get ?kvs ''doc_results'' = Some (JArr (map (\<lambda>t. JObj [(''text'', JStr t)]) [''a'', ''b'']))"
    by (simp add: obj_get_def)
  show ?thesis using rq g ask_doc_results [OF rq g] by blast
qed
end
