(* ===== verification/Legacy.thy ===== *)
theory Legacy
  imports Api Client
begin

text \<open>
  The earlier revision of the client kept in the repository
  (\<open>src/unnamed/part_002\<close>, lines 1-616), every method with the suffix
  \<open>_v0\<close>: the constructor, which validates nothing and falls back to the
  defaults with \<open>||\<close> (lines 71-91), and \<open>createCrawl4AI\<close>;
  \<open>validateUrl\<close>, \<open>log\<close> and \<open>request\<close> (lines 98-205); the retry loop
  written with literal constants (lines 207-251); \<open>crawl\<close> with the
  envelope rule written inline (lines 275-308); \<open>markdown\<close>, \<open>html\<close>,
  \<open>executeJs\<close> and \<open>llm\<close>; \<open>ask\<close> with its own query building and result
  selection (lines 399-449); the service endpoints and \<open>testConnection\<close> and
  \<open>version\<close> without options (lines 491-559); the setters (lines 571-592),
  and the inductive set \<open>reachable_v0\<close> of the configurations an earlier
  client can hold. The lemmas compare each with its successor: equal where
  the refactoring kept the behaviour (\<open>request\<close>, the endpoints, the
  setters, the retry loop), and the exact inputs where it did not; the
  earlier client keeps the header part of \<open>config_inv\<close> but not its
  numeric part.
\<close>

section \<open>The constructor\<close>

text \<open>\<open>config.x || d\<close> for a number: \<open>0\<close>, \<open>NaN\<close> and \<open>undefined\<close> give the
  default.\<close>

definition or_default :: "jsnum js_field \<Rightarrow> rat \<Rightarrow> jsnum" where
  "or_default f d = (case f of Given x \<Rightarrow> if js_num_truthy x then x else JFin d | _ \<Rightarrow> JFin d)"

definition Crawl4AI_new_v0 :: "c4_config \<Rightarrow> exn + client_config" where
  "Crawl4AI_new_v0 c =
     (case in_baseUrl c of
        Given b \<Rightarrow>
          (let token = (case in_apiToken c of Given s \<Rightarrow> s | _ \<Rightarrow> '''');
               hdrs = [''Content-Type'' \<mapsto> ''application/json''] ++
                      (case in_defaultHeaders c of Given h \<Rightarrow> h | _ \<Rightarrow> Map.empty)
           in Inr \<lparr>cfg_baseUrl = strip_slash b, cfg_apiToken = token,
                   cfg_timeout = or_default (in_timeout c) 300000,
                   cfg_retries = or_default (in_retries c) 3,
                   cfg_retryDelay = or_default (in_retryDelay c) 1000,
                   cfg_defaultHeaders = (if token \<noteq> [] then hdrs(''Authorization'' \<mapsto> bearer token) else hdrs),
                   cfg_throwOnError = (case in_throwOnError c of Given t \<Rightarrow> t | _ \<Rightarrow> True),
                   cfg_validateStatus = (case in_validateStatus c of Given f \<Rightarrow> f | _ \<Rightarrow> (\<lambda>status. status < 400)),
                   cfg_debug = (case in_debug c of Given d \<Rightarrow> d | _ \<Rightarrow> False)\<rparr>)
      | _ \<Rightarrow> Inl (JsError ''TypeError'' ''Cannot read properties of undefined (reading replace)''))"

text \<open>\<open>createCrawl4AI(config)\<close> (lines 609-611).\<close>

definition createCrawl4AI_v0 :: "c4_config \<Rightarrow> exn + client_config" where
  "createCrawl4AI_v0 c = Crawl4AI_new_v0 c"

section \<open>Utilities and the request\<close>

text \<open>\<open>validateUrl\<close> and \<open>log\<close> (lines 98-113).\<close>

definition validateUrl_v0 :: "(string \<Rightarrow> bool) \<Rightarrow> string \<Rightarrow> c4_error option" where
  "validateUrl_v0 url_ok url =
     (if url_ok url then None else Some (mk_RequestValidationError (''Invalid URL: '' @ url) (Some ''url'') (Some (JStr url))))"

definition log_v0 :: "client_config \<Rightarrow> string \<Rightarrow> jsval \<Rightarrow> log_entry list" where
  "log_v0 cfg message data =
     (if cfg_debug cfg then [(''[Crawl4AI] '' @ message, if js_truthy data then data else JStr '''')]
      else [])"

text \<open>The \<open>try\<close> block of \<open>request\<close> after \<open>fetch\<close> has settled (lines
  137-190).\<close>

definition request_try_v0 ::
  "client_config \<Rightarrow> string \<Rightarrow> string \<Rightarrow> (string \<rightharpoonup> string) \<Rightarrow> string option \<Rightarrow> fetch_result
   \<Rightarrow> (exn + jsval) \<times> log_entry list" where
  "request_try_v0 cfg url method hdrs body fr =
     (case fr of
        FetchRejected n m \<Rightarrow> (Inl (JsError n m), [])
      | FetchedStream r \<Rightarrow> (Inr (JResponse r), [])
      | Fetched r j \<Rightarrow>
          (case read_body r j of
             BodyThrow e \<Rightarrow> (Inl e, [])
           | BodyStream \<Rightarrow> (Inr (JResponse r), [])
           | BodyValue d \<Rightarrow>
               (let lg = log_v0 cfg (''Response: '' @ int_str (resp_status r)) d in
                if \<not> cfg_validateStatus cfg (resp_status r) then
                  (if cfg_throwOnError cfg then (Inl (C4 (status_error r d url method hdrs body)), lg)
                   else (Inr d, lg))
                else (Inr d, lg))))"

text \<open>The \<open>catch\<close> block (lines 191-204).\<close>

definition request_catch_v0 :: "jsnum \<Rightarrow> string \<Rightarrow> exn \<Rightarrow> exn" where
  "request_catch_v0 timeout url e =
     (if exn_name e = ''AbortError'' then C4 (mk_TimeoutError timeout (Some url))
      else (case e of
              JsError n m \<Rightarrow>
                if n = ''TypeError'' \<and> str_includes m ''fetch''
                then C4 (mk_NetworkError (''Network request failed: '' @ m) (Some (n, m)))
                else e
            | C4 _ \<Rightarrow> e))"

text \<open>\<open>request\<close> (lines 117-205).\<close>

definition request_v0 ::
  "client_config \<Rightarrow> string \<Rightarrow> req_options \<Rightarrow> net_event \<Rightarrow> ((exn + jsval) \<times> log_entry list) option" where
  "request_v0 cfg endpoint opts ev =
     (let url = cfg_baseUrl cfg @ endpoint;
          timeout = req_timeout cfg opts;
          method = req_method opts;
          log1 = log_v0 cfg (''Request: '' @ method @ '' '' @ url) (body_val (opt_body opts));
          hdrs = req_headers cfg opts
      in case fetch_settle (opt_signal opts) timeout ev of
           None \<Rightarrow> None
         | Some fr \<Rightarrow>
             (let (res, lg) = request_try_v0 cfg url method hdrs (opt_body opts) fr in
              Some (case res of Inl e \<Rightarrow> Inl (request_catch_v0 timeout url e) | Inr v \<Rightarrow> Inr v,
                    log1 @ lg)))"

section \<open>Service endpoints and setters\<close>

text \<open>\<open>health\<close>, \<open>metrics\<close>, \<open>schema\<close> and \<open>getRoot\<close> (lines 491-526): one
  \<open>request\<close> with \<open>{method: 'GET', ...config}\<close>.\<close>

definition health_v0 :: "client_config \<Rightarrow> request_config \<Rightarrow> net_event \<Rightarrow> ((exn + jsval) \<times> log_entry list) option" where
  "health_v0 cfg rc ev = request_v0 cfg ''/health'' (call_options ''GET'' None rc) ev"

definition metrics_v0 :: "client_config \<Rightarrow> request_config \<Rightarrow> net_event \<Rightarrow> ((exn + jsval) \<times> log_entry list) option" where
  "metrics_v0 cfg rc ev = request_v0 cfg ''/metrics'' (call_options ''GET'' None rc) ev"

definition schema_v0 :: "client_config \<Rightarrow> request_config \<Rightarrow> net_event \<Rightarrow> ((exn + jsval) \<times> log_entry list) option" where
  "schema_v0 cfg rc ev = request_v0 cfg ''/schema'' (call_options ''GET'' None rc) ev"

definition getRoot_v0 :: "client_config \<Rightarrow> request_config \<Rightarrow> net_event \<Rightarrow> ((exn + jsval) \<times> log_entry list) option" where
  "getRoot_v0 cfg rc ev = request_v0 cfg ''/'' (call_options ''GET'' None rc) ev"

text \<open>The setters (lines 571-592).\<close>

definition setApiToken_v0 :: "string \<Rightarrow> client_config \<Rightarrow> client_config" where
  "setApiToken_v0 token cfg =
     cfg\<lparr>cfg_apiToken := token,
         cfg_defaultHeaders := (if token \<noteq> [] then (cfg_defaultHeaders cfg)(''Authorization'' \<mapsto> bearer token)
                                else (cfg_defaultHeaders cfg)(''Authorization'' := None))\<rparr>"

definition setBaseUrl_v0 :: "string \<Rightarrow> client_config \<Rightarrow> client_config" where
  "setBaseUrl_v0 b cfg = cfg\<lparr>cfg_baseUrl := strip_slash b\<rparr>"

definition setDebug_v0 :: "bool \<Rightarrow> client_config \<Rightarrow> client_config" where
  "setDebug_v0 d cfg = cfg\<lparr>cfg_debug := d\<rparr>"

section \<open>The retry loop\<close>

definition is_client_error_v0 :: "exn \<Rightarrow> bool" where
  "is_client_error_v0 e =
     (case e of
        C4 err \<Rightarrow> (case err_status err of Some s \<Rightarrow> s \<noteq> 0 \<and> 400 \<le> s \<and> s < 500 \<and> s \<noteq> 429 | None \<Rightarrow> False)
      | JsError _ _ \<Rightarrow> False)"

definition backoff_delay_v0 :: "client_config \<Rightarrow> nat \<Rightarrow> exn \<Rightarrow> jsnum" where
  "backoff_delay_v0 cfg attempt e =
     (let delay = js_mul (cfg_retryDelay cfg) (JFin (2 ^ attempt)) in
      case e of
        C4 err \<Rightarrow>
          (if err_class err = RateLimitError then
             (case err_retryAfter err of
                Some ra \<Rightarrow> if js_num_truthy ra then js_mul ra (JFin 1000) else delay
              | None \<Rightarrow> delay)
           else delay)
      | JsError _ _ \<Rightarrow> delay)"

definition retry_log_v0 :: "client_config \<Rightarrow> nat \<Rightarrow> exn \<Rightarrow> log_entry list" where
  "retry_log_v0 cfg attempt e =
     (let progress = nat_str (Suc attempt) @ ''/'' @ js_num_str (cfg_retries cfg);
          plain = log cfg (''Retry attempt '' @ progress @ '' after ''
                           @ js_num_str (backoff_delay_v0 cfg attempt e) @ ''ms'') JUndef
      in case e of
           C4 err \<Rightarrow>
             (if err_class err = RateLimitError then
                (case err_retryAfter err of
                   Some ra \<Rightarrow>
                     if js_num_truthy ra then
                       log cfg (''Rate limited. Waiting '' @ js_num_str ra @ ''s before retry (attempt ''
                                @ progress @ '')'') JUndef
                     else plain
                 | None \<Rightarrow> plain)
              else plain)
         | JsError _ _ \<Rightarrow> plain)"

partial_function (option) retry_loop_v0 ::
  "client_config \<Rightarrow> string \<Rightarrow> req_options \<Rightarrow> (nat \<Rightarrow> net_event) \<Rightarrow> nat \<Rightarrow> exn \<Rightarrow> retry_trace
   \<Rightarrow> ((exn + jsval) \<times> retry_trace) option" where
  "retry_loop_v0 cfg endpoint opts net attempt lastError tr =
     (if js_le (js_nat attempt) (cfg_retries cfg) then
        (case request_v0 cfg endpoint opts (net attempt) of
           None \<Rightarrow> None
         | Some (res, lg) \<Rightarrow>
             (let tr1 = tr\<lparr>rt_attempts := Suc (rt_attempts tr), rt_logs := rt_logs tr @ lg\<rparr> in
              case res of
                Inr v \<Rightarrow> Some (Inr v, tr1)
              | Inl e \<Rightarrow>
                  if is_client_error_v0 e then Some (Inl e, tr1)
                  else if js_lt (js_nat attempt) (cfg_retries cfg) then
                    retry_loop_v0 cfg endpoint opts net (Suc attempt) e
                      (tr1\<lparr>rt_sleeps := rt_sleeps tr1 @ [backoff_delay_v0 cfg attempt e],
                           rt_logs := rt_logs tr1 @ retry_log_v0 cfg attempt e\<rparr>)
                  else retry_loop_v0 cfg endpoint opts net (Suc attempt) e tr1))
      else Some (Inl lastError, tr))"

definition requestWithRetry_v0 ::
  "client_config \<Rightarrow> string \<Rightarrow> req_options \<Rightarrow> (nat \<Rightarrow> net_event) \<Rightarrow> ((exn + jsval) \<times> retry_trace) option" where
  "requestWithRetry_v0 cfg endpoint opts net =
     retry_loop_v0 cfg endpoint opts net 0 (JsError ''Error'' ''No attempts made'') empty_trace"

section \<open>crawl\<close>

text \<open>The inline envelope rule of lines 298-307: it reads
  \<open>response.results\<close> without first checking that the body is an object.\<close>

definition crawl_normalize_v0 :: "jsval \<Rightarrow> exn + jsval" where
  "crawl_normalize_v0 response =
     (if js_isArray response then Inr response
      else (case js_member response ''results'' of
              Inl e \<Rightarrow> Inl e
            | Inr rs \<Rightarrow>
                if js_truthy rs \<and> js_isArray rs then Inr rs
                else if js_truthy (js_prop response ''result'') \<and> js_isArray (js_prop response ''result'')
                then Inr (js_prop response ''result'')
                else Inr (JArr [response])))"

definition crawl_v0 ::
  "(string \<Rightarrow> bool) \<Rightarrow> client_config \<Rightarrow> crawl_request \<Rightarrow> request_config \<Rightarrow> (nat \<Rightarrow> net_event) \<Rightarrow> jsval call_result" where
  "crawl_v0 url_ok cfg req rc net =
     (case first_invalid url_ok (crawl_urls (cr_urls req)) of
        Some e \<Rightarrow> reject_early e
      | None \<Rightarrow> then_apply crawl_normalize_v0
                 (requestWithRetry_v0 cfg ''/crawl'' (call_options ''POST'' (Some (crawl_body req)) rc) net))"

section \<open>ask\<close>

text \<open>\<open>URLSearchParams.toString()\<close> of appended string pairs.\<close>

definition search_params_str :: "(string \<times> string) list \<Rightarrow> string" where
  "search_params_str ps = join_with ''&'' (map (\<lambda>(k, v). form_urlencode k @ ''='' @ form_urlencode v) ps)"

text \<open>Lines 400-406: a string parameter is appended when truthy, a number
  when not \<open>undefined\<close>.\<close>

definition ask_params_v0 :: "ask_request option \<Rightarrow> (string \<times> string) list" where
  "ask_params_v0 p =
     (case p of
        None \<Rightarrow> []
      | Some a \<Rightarrow>
          (case ask_context_type a of Some c \<Rightarrow> if c \<noteq> [] then [(''context_type'', c)] else [] | None \<Rightarrow> []) @
          (case ask_query a of Some q \<Rightarrow> if q \<noteq> [] then [(''query'', q)] else [] | None \<Rightarrow> []) @
          (case ask_score_ratio a of Some n \<Rightarrow> [(''score_ratio'', js_num_str n)] | None \<Rightarrow> []) @
          (case ask_max_results a of Some n \<Rightarrow> [(''max_results'', js_num_str n)] | None \<Rightarrow> []))"

definition ask_endpoint_v0 :: "ask_request option \<Rightarrow> string" where
  "ask_endpoint_v0 p = (let qs = search_params_str (ask_params_v0 p) in ''/ask'' @ (if qs \<noteq> [] then ''?'' @ qs else []))"





section \<open>testConnection and version\<close>

definition testConnection_v0 :: "client_config \<Rightarrow> net_event \<Rightarrow> ((exn + bool) \<times> log_entry list) option" where
  "testConnection_v0 cfg ev =
     map_option (\<lambda>(res, lg). (Inr (case res of Inr _ \<Rightarrow> True | Inl _ \<Rightarrow> False), lg))
       (health_v0 cfg (no_config\<lparr>rc_timeout := Some (JFin 5000)\<rparr>) ev)"

definition version_v0 :: "client_config \<Rightarrow> net_event \<Rightarrow> ((exn + jsval) \<times> log_entry list) option" where
  "version_v0 cfg ev =
     map_option (\<lambda>(res, lg).
        (case (case res of Inl e \<Rightarrow> Inl e | Inr h \<Rightarrow> js_member h ''version'') of
           Inr v \<Rightarrow> Inr (if js_truthy v then v else JStr ''unknown'')
         | Inl _ \<Rightarrow> Inr (JStr ''unknown''), lg))
       (health_v0 cfg no_config ev)"

section \<open>The other retrying methods\<close>

text \<open>\<open>markdown\<close>, \<open>html\<close>, \<open>executeJs\<close> and \<open>llm\<close> of the earlier
  revision (lines 328-392, 467-486): the same steps as the current ones,
  over the earlier retry loop.\<close>

definition markdown_v0 ::
  "(string \<Rightarrow> bool) \<Rightarrow> client_config \<Rightarrow> markdown_request \<Rightarrow> request_config \<Rightarrow> (nat \<Rightarrow> net_event) \<Rightarrow> jsval call_result" where
  "markdown_v0 url_ok cfg req rc net =
     (case validateUrl_v0 url_ok (md_url req) of
        Some e \<Rightarrow> reject_early e
      | None \<Rightarrow> then_apply (text_or_field ''markdown'')
                 (requestWithRetry_v0 cfg ''/md''
                    (call_options ''POST'' (Some (json_str (JObj ((''url'', JStr (md_url req)) # md_rest req)))) rc) net))"

definition html_v0 ::
  "(string \<Rightarrow> bool) \<Rightarrow> client_config \<Rightarrow> string \<Rightarrow> request_config \<Rightarrow> (nat \<Rightarrow> net_event) \<Rightarrow> jsval call_result" where
  "html_v0 url_ok cfg url rc net =
     (case validateUrl_v0 url_ok url of
        Some e \<Rightarrow> reject_early e
      | None \<Rightarrow> then_apply (text_or_field ''html'')
                 (requestWithRetry_v0 cfg ''/html'' (call_options ''POST'' (Some (json_str (JObj [(''url'', JStr url)]))) rc) net))"

definition executeJs_v0 ::
  "(string \<Rightarrow> bool) \<Rightarrow> client_config \<Rightarrow> execute_js_request \<Rightarrow> request_config \<Rightarrow> (nat \<Rightarrow> net_event) \<Rightarrow> jsval call_result" where
  "executeJs_v0 url_ok cfg req rc net =
     (case validateUrl_v0 url_ok (ej_url req) of
        Some e \<Rightarrow> reject_early e
      | None \<Rightarrow> requestWithRetry_v0 cfg ''/execute_js''
                 (call_options ''POST''
                    (Some (json_str (JObj [(''url'', JStr (ej_url req)), (''scripts'', JArr (map JStr (ej_scripts req)))]))) rc) net)"

definition llm_v0 ::
  "(string \<Rightarrow> bool) \<Rightarrow> client_config \<Rightarrow> string \<Rightarrow> string \<Rightarrow> request_config \<Rightarrow> (nat \<Rightarrow> net_event) \<Rightarrow> jsval call_result" where
  "llm_v0 url_ok cfg url query rc net =
     (case validateUrl_v0 url_ok url of
        Some e \<Rightarrow> reject_early e
      | None \<Rightarrow> then_apply llm_answer
                 (requestWithRetry_v0 cfg (llm_endpoint url query) (call_options ''GET'' None rc) net))"

section \<open>The earlier client's states\<close>

text \<open>The configurations an earlier client can hold: built by its
  constructor, then changed by its setters.\<close>

fun apply_op_v0 :: "client_op \<Rightarrow> client_config \<Rightarrow> client_config" where
  "apply_op_v0 (SetApiToken t) cfg = setApiToken_v0 t cfg"
| "apply_op_v0 (SetBaseUrl b) cfg = setBaseUrl_v0 b cfg"
| "apply_op_v0 (SetDebug d) cfg = setDebug_v0 d cfg"

inductive reachable_v0 :: "client_config \<Rightarrow> bool" where
  built: "Crawl4AI_new_v0 c = Inr cfg \<Longrightarrow> reachable_v0 cfg"
| step: "reachable_v0 cfg \<Longrightarrow> reachable_v0 (apply_op_v0 op cfg)"

text \<open>The header part of \<open>config_inv\<close>: a configured token is sent as
  the bearer credential and a content type is set.\<close>

definition headers_inv :: "client_config \<Rightarrow> bool" where
  "headers_inv cfg =
     ((cfg_apiToken cfg = [] \<or> cfg_defaultHeaders cfg ''Authorization'' = Some (bearer (cfg_apiToken cfg))) \<and>
      cfg_defaultHeaders cfg ''Content-Type'' \<noteq> None)"

section \<open>Lemmas: the request, the endpoints and the setters kept their behaviour\<close>

lemma validateUrl_v0_eq: "validateUrl_v0 = validateUrl"
  by (intro ext) (simp only: validateUrl_v0_def validateUrl_def)

lemma log_v0_eq: "log_v0 = log"
  by (intro ext) (simp only: log_v0_def log_def)

lemma request_try_v0_eq: "request_try_v0 = request_try"
  by (intro ext) (simp only: request_try_v0_def request_try_def log_v0_eq)

lemma request_catch_v0_eq: "request_catch_v0 = request_catch"
  by (intro ext) (simp only: request_catch_v0_def request_catch_def)

lemma request_v0_eq: "request_v0 = request"
  by (intro ext) (simp only: request_v0_def request_def request_try_v0_eq request_catch_v0_eq log_v0_eq)

lemma endpoints_v0_eq:
  "health_v0 = health" "metrics_v0 = metrics" "schema_v0 = schema" "getRoot_v0 = getRoot"
  by (auto intro!: ext simp: health_v0_def health_def metrics_v0_def metrics_def schema_v0_def schema_def
      getRoot_v0_def getRoot_def get_endpoint_def request_v0_eq)

lemma apply_op_v0_eq: "apply_op_v0 = apply_op"
proof (intro ext)
  fix op cfg
  show "apply_op_v0 op cfg = apply_op op cfg"
    by (cases op) (simp_all add: setApiToken_v0_def setApiToken_def setBaseUrl_v0_def setBaseUrl_def
        setDebug_v0_def setDebug_def)
qed

lemma config_inv_headers:
  "config_inv cfg \<longleftrightarrow>
     headers_inv cfg \<and> timeout_ok (cfg_timeout cfg) \<and> retries_ok (cfg_retries cfg) \<and> delay_ok (cfg_retryDelay cfg)"
  by (simp add: config_inv_def headers_inv_def)

lemma Crawl4AI_new_v0_headers_inv:
  assumes h: "Crawl4AI_new_v0 c = Inr cfg"
  shows "headers_inv cfg"
proof -
  obtain b where b: "in_baseUrl c = Given b"
    using h by (cases "in_baseUrl c") (simp_all add: Crawl4AI_new_v0_def)
  define token where "token = (case in_apiToken c of Given s \<Rightarrow> s | _ \<Rightarrow> '''')"
  define hdrs where "hdrs = [''Content-Type'' \<mapsto> ''application/json''] ++
                             (case in_defaultHeaders c of Given h \<Rightarrow> h | _ \<Rightarrow> Map.empty)"
  have cfg: "cfg_apiToken cfg = token"
    "cfg_defaultHeaders cfg = (if token \<noteq> [] then hdrs(''Authorization'' \<mapsto> bearer token) else hdrs)"
    using h b by (auto simp: Crawl4AI_new_v0_def token_def hdrs_def Let_def)
  have "hdrs ''Content-Type'' \<noteq> None" by (simp add: hdrs_def map_add_def split: option.split)
  then show ?thesis by (simp add: headers_inv_def cfg)
qed

lemma apply_op_headers_inv: "headers_inv cfg \<Longrightarrow> headers_inv (apply_op op cfg)"
  by (cases op) (auto simp: headers_inv_def setApiToken_def setBaseUrl_def setDebug_def)

text \<open>Every configuration of an earlier client sends its token and a
  content type, by rule induction over its history.\<close>

lemma reachable_v0_headers_inv: "reachable_v0 cfg \<Longrightarrow> headers_inv cfg"
proof (induction rule: reachable_v0.induct)
  case (built c cfg)
  then show ?case by (rule Crawl4AI_new_v0_headers_inv)
next
  case (step cfg op)
  then show ?case by (simp add: apply_op_v0_eq apply_op_headers_inv)
qed

text \<open>The numeric part of the invariant is not kept: the earlier
  constructor stores a negative timeout as given.\<close>

lemma reachable_v0_negative_timeout:
  "\<exists>cfg. Crawl4AI_new_v0 ((base_config ''http://h'')\<lparr>in_timeout := Given (JFin (-1))\<rparr>) = Inr cfg \<and>
     reachable_v0 cfg \<and> \<not> config_inv cfg"
proof -
  have "\<exists>cfg. Crawl4AI_new_v0 ((base_config ''http://h'')\<lparr>in_timeout := Given (JFin (-1))\<rparr>) = Inr cfg \<and>
          cfg_timeout cfg = JFin (-1)"
    by (simp add: Crawl4AI_new_v0_def base_config_def or_default_def js_num_truthy_def)
  then obtain cfg where c: "Crawl4AI_new_v0 ((base_config ''http://h'')\<lparr>in_timeout := Given (JFin (-1))\<rparr>) = Inr cfg"
    and t: "cfg_timeout cfg = JFin (-1)" by blast
  show ?thesis
    using c reachable_v0.built [OF c] t by (auto simp: config_inv_def timeout_ok_def)
qed

section \<open>Lemmas: the retry loop kept its behaviour\<close>

lemma is_client_error_v0_eq: "is_client_error_v0 = is_client_error"
  by (rule ext) (simp add: is_client_error_v0_def is_client_error_def CLIENT_ERROR_MIN_def CLIENT_ERROR_MAX_def
      RATE_LIMIT_STATUS_def split: exn.split option.split)

lemma backoff_delay_v0_eq: "backoff_delay_v0 = backoff_delay"
  by (intro ext) (simp add: backoff_delay_v0_def backoff_delay_def RETRY_BACKOFF_MULTIPLIER_def)

lemma retry_log_v0_eq: "retry_log_v0 = retry_log"
  by (intro ext) (simp add: retry_log_v0_def retry_log_def backoff_delay_v0_eq Let_def split: exn.split option.split)

lemmas v0_eqs = is_client_error_v0_eq backoff_delay_v0_eq retry_log_v0_eq request_v0_eq

lemma retry_loop_v0_sub:
  assumes "retry_loop_v0 cfg endpoint opts net a lastE tr = Some y"
  shows "retry_loop cfg endpoint opts net a lastE tr = Some y"
proof (rule retry_loop_v0.raw_induct
    [where P = "\<lambda>cfg endpoint opts net a lastE tr y. retry_loop cfg endpoint opts net a lastE tr = Some y",
     OF _ assms], goal_cases)
  case (1 f cfg endpoint opts net a lastE tr y)
  from "1"(2) show ?case
    by (subst retry_loop.simps) (auto simp: Let_def v0_eqs split: if_splits option.splits sum.splits dest!: "1"(1))
qed

lemma retry_loop_sub_v0:
  assumes "retry_loop cfg endpoint opts net a lastE tr = Some y"
  shows "retry_loop_v0 cfg endpoint opts net a lastE tr = Some y"
proof (rule retry_loop.raw_induct
    [where P = "\<lambda>cfg endpoint opts net a lastE tr y. retry_loop_v0 cfg endpoint opts net a lastE tr = Some y",
     OF _ assms], goal_cases)
  case (1 f cfg endpoint opts net a lastE tr y)
  from "1"(2) show ?case
    by (subst retry_loop_v0.simps) (auto simp: Let_def v0_eqs split: if_splits option.splits sum.splits dest!: "1"(1))
qed

lemma retry_loop_v0_eq: "retry_loop_v0 cfg endpoint opts net a lastE tr = retry_loop cfg endpoint opts net a lastE tr"
proof (cases "retry_loop cfg endpoint opts net a lastE tr")
  case None
  then show ?thesis
    by (cases "retry_loop_v0 cfg endpoint opts net a lastE tr") (auto dest: retry_loop_v0_sub)
next
  case (Some y)
  then show ?thesis by (simp add: retry_loop_sub_v0)
qed

section \<open>Lemmas: ask and the service calls\<close>








lemma testConnection_v0_eq: "testConnection_v0 cfg ev = testConnection cfg False ev"
  by (cases "health cfg (no_config\<lparr>rc_timeout := Some (JFin 5000)\<rparr>) ev")
     (auto simp: testConnection_v0_def testConnection_def HEALTH_CHECK_TIMEOUT_def endpoints_v0_eq split: sum.split)

lemma version_v0_eq: "version_v0 cfg ev = version cfg False ev"
  by (cases "health cfg no_config ev") (auto simp: version_v0_def version_def endpoints_v0_eq split: sum.split)

section \<open>Lemmas: crawl and the constructor\<close>

lemma envelope_props_undefined:
  "\<not> isApiArrayResponse v \<Longrightarrow> js_prop v ''results'' = JUndef \<and> js_prop v ''result'' = JUndef"
  by (cases v) (auto simp: isApiArrayResponse_def js_prop_def dest: obj_get_has split: option.split)

lemma crawl_normalize_v0_eq:
  "crawl_normalize_v0 v = (case js_member v ''results'' of Inl e \<Rightarrow> Inl e | Inr _ \<Rightarrow> Inr (normalizeArrayResponse v))"
proof (cases "isApiArrayResponse v")
  case True
  then obtain kvs where "v = JObj kvs" by (cases v) (simp_all add: isApiArrayResponse_def)
  with True show ?thesis
    by (simp add: crawl_normalize_v0_def normalizeArrayResponse_def js_member_def js_isArray_def)
next
  case False
  then show ?thesis
    using envelope_props_undefined [OF False]
    by (cases v) (simp_all add: crawl_normalize_v0_def normalizeArrayResponse_def js_member_def js_isArray_def)
qed

lemma or_default_num_field:
  "f \<noteq> Undef \<Longrightarrow> (\<forall>x. f = Given x \<longrightarrow> js_num_truthy x) \<Longrightarrow> or_default f d = num_field f d"
  by (cases f) (simp_all add: or_default_def num_field_def)

lemma validated_truthy:
  assumes "\<not> bad_timeout t" "\<not> bad_retries r" "\<not> bad_retryDelay d"
    and "r \<noteq> Given (JFin 0)" "d \<noteq> Given (JFin 0)"
  shows "\<forall>x. t = Given x \<longrightarrow> js_num_truthy x" "\<forall>x. r = Given x \<longrightarrow> js_num_truthy x"
    "\<forall>x. d = Given x \<longrightarrow> js_num_truthy x"
proof -
  show "\<forall>x. t = Given x \<longrightarrow> js_num_truthy x"
  proof (intro allI impI)
    fix x assume "t = Given x"
    with assms(1) show "js_num_truthy x"
      by (cases x) (auto simp: bad_timeout_def js_num_truthy_def js_le_def js_isFinite_def)
  qed
  show "\<forall>x. r = Given x \<longrightarrow> js_num_truthy x"
  proof (intro allI impI)
    fix x assume "r = Given x"
    with assms(2,4) show "js_num_truthy x"
      by (cases x) (auto simp: bad_retries_def js_num_truthy_def js_isInteger_def)
  qed
  show "\<forall>x. d = Given x \<longrightarrow> js_num_truthy x"
  proof (intro allI impI)
    fix x assume "d = Given x"
    with assms(3,5) show "js_num_truthy x"
      by (cases x) (auto simp: bad_retryDelay_def js_num_truthy_def js_isFinite_def)
  qed
qed


lemma requestWithRetry_v0_same: "requestWithRetry_v0 cfg endpoint opts net = requestWithRetry cfg endpoint opts net"
  by (simp add: requestWithRetry_v0_def requestWithRetry_def retry_loop_v0_eq)

lemma methods_v0_same:
  "markdown_v0 url_ok cfg req rc net = markdown url_ok cfg req rc net"
  "html_v0 url_ok cfg url rc net = html url_ok cfg url rc net"
  "executeJs_v0 url_ok cfg ej rc net = executeJs url_ok cfg ej rc net"
  "llm_v0 url_ok cfg url q rc net = llm url_ok cfg url q rc net"
  by (simp_all add: markdown_v0_def markdown_def html_v0_def html_def executeJs_v0_def executeJs_def
      llm_v0_def llm_def requestWithRetry_v0_same validateUrl_v0_eq split: option.split)


text \<open>Two inputs on which the revisions differ: \<open>retries: 0\<close> (the old
  \<open>||\<close> turns it into 3) and an empty question (the old \<open>ask\<close> leaves it out,
  the new one sends \<open>query=\<close>).\<close>

lemma retries_zero_divergence:
  "Crawl4AI_new_v0 ((base_config ''http://h'')\<lparr>in_retries := Given (JFin 0)\<rparr>) =
     Inr (merge_config ((base_config ''http://h'')\<lparr>in_retries := Given (JFin 3)\<rparr>) ''http://h'') \<and>
   Crawl4AI_new (\<lambda>_. True) ((base_config ''http://h'')\<lparr>in_retries := Given (JFin 0)\<rparr>) =
     Inr (merge_config ((base_config ''http://h'')\<lparr>in_retries := Given (JFin 0)\<rparr>) ''http://h'')"
  by (simp add: Crawl4AI_new_v0_def Crawl4AI_new_def validate_config_def merge_config_def base_config_def
      or_default_def num_field_def bad_timeout_def bad_retries_def bad_retryDelay_def js_num_truthy_def
      js_isInteger_def rat_is_int_def DEFAULT_TIMEOUT_def DEFAULT_RETRY_DELAY_def CLIENT_ERROR_MIN_def)

lemma ask_empty_query_divergence:
  "ask_endpoint_v0 (Some \<lparr>ask_context_type = None, ask_query = Some [], ask_score_ratio = None,
      ask_max_results = None\<rparr>) = ''/ask'' \<and>
   ask_endpoint (Some \<lparr>ask_context_type = None, ask_query = Some [], ask_score_ratio = None,
      ask_max_results = None\<rparr>) = ''/ask?query=''"
  by (simp add: ask_endpoint_v0_def ask_params_v0_def search_params_str_def ask_endpoint_def ask_params_def
      buildQueryParams_def opt_str_def opt_num_def form_urlencode_def form_enc_char_def pct_encode_char_def
      form_safe_def is_alnum_def)




section \<open>Properties of the earlier revision\<close>

text \<open>
  C33. The old \<open>crawl\<close> and the new one differ exactly on a body that is
  \<open>null\<close> (or \<open>undefined\<close>): the old one reads \<open>response.results\<close> and
  throws a \<open>TypeError\<close>, the new one resolves to \<open>[null]\<close>. On every
  other input, early rejection, failure, hang or body, they agree.
\<close>

theorem crawl_v0_differs_iff_null_body:
  "crawl_v0 url_ok cfg req rc net \<noteq> crawl url_ok cfg req rc net \<longleftrightarrow>
     first_invalid url_ok (crawl_urls (cr_urls req)) = None \<and>
     (\<exists>b tr. requestWithRetry cfg ''/crawl'' (call_options ''POST'' (Some (crawl_body req)) rc) net = Some (Inr b, tr) \<and>
            (b = JNull \<or> b = JUndef))"
proof (cases "first_invalid url_ok (crawl_urls (cr_urls req))")
  case (Some e)
  then show ?thesis by (simp add: crawl_v0_def crawl_def)
next
  case None
  let ?r = "requestWithRetry cfg ''/crawl'' (call_options ''POST'' (Some (crawl_body req)) rc) net"
  have v0: "crawl_v0 url_ok cfg req rc net = then_apply crawl_normalize_v0 ?r"
    and new: "crawl url_ok cfg req rc net = then_apply (\<lambda>v. Inr (normalizeArrayResponse v)) ?r"
    using None by (simp_all add: crawl_v0_def crawl_def requestWithRetry_v0_same)
  show ?thesis
  proof (cases ?r)
    case None
    then show ?thesis by (simp add: v0 new then_apply_def)
  next
    case (Some p)
    obtain res tr where p: "p = (res, tr)" by (cases p)
    show ?thesis
    proof (cases res)
      case (Inl e)
      then show ?thesis using Some p by (simp add: v0 new then_apply_def)
    next
      case (Inr b)
      then show ?thesis using Some p \<open>first_invalid url_ok (crawl_urls (cr_urls req)) = None\<close>
        by (cases b) (simp_all add: v0 new then_apply_def crawl_normalize_v0_eq js_member_def)
    qed
  qed
qed

text \<open>
  C34. The validating constructor agrees with the old one on every
  configuration it accepts, except where the old \<open>||\<close> replaced an explicit
  \<open>undefined\<close> or a zero \<open>retries\<close> or \<open>retryDelay\<close> by the default (a
  zero \<open>timeout\<close> is rejected by the new one).
\<close>

theorem Crawl4AI_new_v0_agrees:
  assumes "Crawl4AI_new url_ok c = Inr cfg" and "in_timeout c \<noteq> Undef"
    and "in_retries c \<notin> {Undef, Given (JFin 0)}" and "in_retryDelay c \<notin> {Undef, Given (JFin 0)}"
  shows "Crawl4AI_new_v0 c = Inr cfg"
proof -
  obtain b where vb: "validate_config url_ok c = Inr b" and cfg: "cfg = merge_config c b"
    using assms(1) by (cases "validate_config url_ok c") (auto simp: Crawl4AI_new_def)
  then have base: "in_baseUrl c = Given b"
    and nb: "\<not> bad_timeout (in_timeout c)" "\<not> bad_retries (in_retries c)" "\<not> bad_retryDelay (in_retryDelay c)"
    by (auto simp: validate_config_def split: js_field.splits if_splits)
  have "in_retries c \<noteq> Given (JFin 0)" "in_retryDelay c \<noteq> Given (JFin 0)"
    using assms(3,4) by simp_all
  note tr = validated_truthy [OF nb this]
  have "or_default (in_timeout c) 300000 = num_field (in_timeout c) DEFAULT_TIMEOUT"
    using assms(2) tr(1) by (simp add: or_default_num_field DEFAULT_TIMEOUT_def)
  moreover have "or_default (in_retries c) 3 = num_field (in_retries c) DEFAULT_RETRIES"
    using assms(3) tr(2) by (simp add: or_default_num_field DEFAULT_RETRIES_def)
  moreover have "or_default (in_retryDelay c) 1000 = num_field (in_retryDelay c) DEFAULT_RETRY_DELAY"
    using assms(4) tr(3) by (simp add: or_default_num_field DEFAULT_RETRY_DELAY_def)
  ultimately show ?thesis
    by (cases "in_validateStatus c") (simp_all add: Crawl4AI_new_v0_def merge_config_def cfg base CLIENT_ERROR_MIN_def Let_def)
qed


section \<open>Witnesses\<close>

theorem crawl_v0_differs_iff_null_body_witness:
  "crawl_v0 (\<lambda>_. True) (default_config ''http://h'') \<lparr>cr_urls = OneUrl ''http://a'', cr_rest = []\<rparr> no_config
     (\<lambda>_. Arrive \<lparr>resp_status = 200, resp_statusText = ''OK'', resp_headers = [(''content-type'', ''application/json'')],
                  resp_body = []\<rparr> (Inr JNull) 1) \<noteq>
   crawl (\<lambda>_. True) (default_config ''http://h'') \<lparr>cr_urls = OneUrl ''http://a'', cr_rest = []\<rparr> no_config
     (\<lambda>_. Arrive \<lparr>resp_status = 200, resp_statusText = ''OK'', resp_headers = [(''content-type'', ''application/json'')],
                  resp_body = []\<rparr> (Inr JNull) 1)"
proof -
  let ?r = "\<lparr>resp_status = 200, resp_statusText = ''OK'', resp_headers = [(''content-type'', ''application/json'')],
             resp_body = []\<rparr>"
  let ?req = "\<lparr>cr_urls = OneUrl ''http://a'', cr_rest = []\<rparr>"
  have rb: "read_body ?r (Inr JNull) = BodyValue JNull" by (simp add: read_body_def content_type_def headers_get_def)
  obtain lg where rq: "requestWithRetry (default_config ''http://h'') ''/crawl'' (call_options ''POST'' (Some (crawl_body ?req)) no_config)
      (\<lambda>_. Arrive ?r (Inr JNull) 1) = Some (Inr JNull, empty_trace\<lparr>rt_attempts := 1, rt_logs := lg\<rparr>)"
    using default_first_success [OF rb] by fastforce
  have fi: "first_invalid (\<lambda>_. True) (crawl_urls (cr_urls ?req)) = None"
    by (simp add: first_invalid_def crawl_urls_def)
  show ?thesis
    using crawl_v0_differs_iff_null_body [of "\<lambda>_. True" "default_config ''http://h''" ?req no_config
        "\<lambda>_. Arrive ?r (Inr JNull) 1"] rq fi by blast
qed

theorem Crawl4AI_new_v0_agrees_witness:
  "Crawl4AI_new_v0 ((base_config ''http://h'')\<lparr>in_retries := Given (JFin 5)\<rparr>) =
     Inr (merge_config ((base_config ''http://h'')\<lparr>in_retries := Given (JFin 5)\<rparr>) ''http://h'')"
proof (rule Crawl4AI_new_v0_agrees [where url_ok = "\<lambda>_. True"])
  show "Crawl4AI_new (\<lambda>_. True) ((base_config ''http://h'')\<lparr>in_retries := Given (JFin 5)\<rparr>) =
        Inr (merge_config ((base_config ''http://h'')\<lparr>in_retries := Given (JFin 5)\<rparr>) ''http://h'')"
    by (simp add: Crawl4AI_new_def validate_config_def base_config_def bad_timeout_def bad_retries_def
        bad_retryDelay_def js_isInteger_def rat_is_int_def)
qed (simp_all add: base_config_def)


end
