(* ===== verification/Types.thy ===== *)
theory Types
  imports Prelude "HOL-Library.Monad_Syntax"
begin

text \<open>
  The type declarations of the SDK (\<open>src/unnamed/part_001\<close>, the
  \<open>types.ts\<close> the client imports): the string-literal unions as datatypes,
  each interface as a record whose optional properties are options. An
  interface value crosses the wire as a JavaScript object: \<open>*_json\<close> builds
  the object the SDK passes to \<open>JSON.stringify\<close> (an absent optional
  property is not an entry), and \<open>*_of\<close> reads such an object back,
  \<open>None\<close> when a property is missing or of the wrong type. Every pair is a
  round trip (\<open>*_of (*_json x) = Some x\<close>), collected as \<open>json_rt\<close>.
\<close>

named_theorems json_rt "decoding an encoded value gives it back"

section \<open>Reading and writing object properties\<close>

text \<open>The entries of an object literal, optional properties left out when
  absent.\<close>

definition opt_entries :: "(string \<times> jsval option) list \<Rightarrow> (string \<times> jsval) list" where
  "opt_entries es = concat (map (\<lambda>(k, v). case v of Some x \<Rightarrow> [(k, x)] | None \<Rightarrow> []) es)"

definition as_str :: "jsval \<Rightarrow> string option" where
  "as_str v = (case v of JStr s \<Rightarrow> Some s | _ \<Rightarrow> None)"

definition as_num :: "jsval \<Rightarrow> jsnum option" where
  "as_num v = (case v of JNum n \<Rightarrow> Some n | _ \<Rightarrow> None)"

definition as_bool :: "jsval \<Rightarrow> bool option" where
  "as_bool v = (case v of JBool b \<Rightarrow> Some b | _ \<Rightarrow> None)"

definition as_any :: "jsval \<Rightarrow> jsval option" where
  "as_any v = Some v"

definition as_list :: "(jsval \<Rightarrow> 'a option) \<Rightarrow> jsval \<Rightarrow> 'a list option" where
  "as_list d v = (case v of JArr xs \<Rightarrow> those (map d xs) | _ \<Rightarrow> None)"

text \<open>\<open>Record<string, T>\<close>: an object whose values all have type \<open>T\<close>.\<close>

definition as_dict :: "(jsval \<Rightarrow> 'a option) \<Rightarrow> jsval \<Rightarrow> (string \<times> 'a) list option" where
  "as_dict d v = (case v of JObj kvs \<Rightarrow> map_option (zip (map fst kvs)) (those (map (d \<circ> snd) kvs)) | _ \<Rightarrow> None)"

definition str_list_json :: "string list \<Rightarrow> jsval" where
  "str_list_json xs = JArr (map JStr xs)"

definition dict_json :: "('a \<Rightarrow> jsval) \<Rightarrow> (string \<times> 'a) list \<Rightarrow> jsval" where
  "dict_json e kvs = JObj (map (\<lambda>(k, x). (k, e x)) kvs)"

text \<open>A required and an optional property of an object.\<close>

definition req_prop :: "(string \<times> jsval) list \<Rightarrow> string \<Rightarrow> (jsval \<Rightarrow> 'a option) \<Rightarrow> 'a option" where
  "req_prop kvs k d = (case obj_get kvs k of Some v \<Rightarrow> d v | None \<Rightarrow> None)"

definition dec_opt :: "(jsval \<Rightarrow> 'a option) \<Rightarrow> jsval option \<Rightarrow> 'a option option" where
  "dec_opt d ov = (case ov of None \<Rightarrow> Some None | Some v \<Rightarrow> map_option Some (d v))"

definition opt_prop :: "(string \<times> jsval) list \<Rightarrow> string \<Rightarrow> (jsval \<Rightarrow> 'a option) \<Rightarrow> 'a option option" where
  "opt_prop kvs k d = dec_opt d (obj_get kvs k)"

text \<open>A string-literal union, given its spellings and its members.\<close>

definition enum_of :: "('a \<Rightarrow> string) \<Rightarrow> 'a list \<Rightarrow> jsval \<Rightarrow> 'a option" where
  "enum_of f cs v = (case v of JStr s \<Rightarrow> find (\<lambda>c. f c = s) cs | _ \<Rightarrow> None)"

section \<open>Basic types (lines 7-15)\<close>

datatype http_method = GET | POST | PUT | DELETE | PATCH

definition http_method_str :: "http_method \<Rightarrow> string" where
  "http_method_str m = (case m of GET \<Rightarrow> ''GET'' | POST \<Rightarrow> ''POST'' | PUT \<Rightarrow> ''PUT''
                          | DELETE \<Rightarrow> ''DELETE'' | PATCH \<Rightarrow> ''PATCH'')"

definition http_methods :: "http_method list" where
  "http_methods = [GET, POST, PUT, DELETE, PATCH]"

datatype cache_mode = CacheEnabled | CacheDisabled | CacheBypass | CacheReadOnly | CacheWriteOnly

definition cache_mode_str :: "cache_mode \<Rightarrow> string" where
  "cache_mode_str m = (case m of CacheEnabled \<Rightarrow> ''enabled'' | CacheDisabled \<Rightarrow> ''disabled''
                         | CacheBypass \<Rightarrow> ''bypass'' | CacheReadOnly \<Rightarrow> ''read_only''
                         | CacheWriteOnly \<Rightarrow> ''write_only'')"

definition cache_modes :: "cache_mode list" where
  "cache_modes = [CacheEnabled, CacheDisabled, CacheBypass, CacheReadOnly, CacheWriteOnly]"

datatype browser_type = Chromium | Firefox | Webkit

definition browser_type_str :: "browser_type \<Rightarrow> string" where
  "browser_type_str b = (case b of Chromium \<Rightarrow> ''chromium'' | Firefox \<Rightarrow> ''firefox'' | Webkit \<Rightarrow> ''webkit'')"

definition browser_types :: "browser_type list" where
  "browser_types = [Chromium, Firefox, Webkit]"

datatype content_filter = FilterRaw | FilterFit | FilterBm25 | FilterLlm

definition content_filter_str :: "content_filter \<Rightarrow> string" where
  "content_filter_str f = (case f of FilterRaw \<Rightarrow> ''raw'' | FilterFit \<Rightarrow> ''fit'' | FilterBm25 \<Rightarrow> ''bm25''
                             | FilterLlm \<Rightarrow> ''llm'')"

definition content_filters :: "content_filter list" where
  "content_filters = [FilterRaw, FilterFit, FilterBm25, FilterLlm]"

datatype context_type = CtxCode | CtxDoc | CtxAll

definition context_type_str :: "context_type \<Rightarrow> string" where
  "context_type_str c = (case c of CtxCode \<Rightarrow> ''code'' | CtxDoc \<Rightarrow> ''doc'' | CtxAll \<Rightarrow> ''all'')"

definition context_types :: "context_type list" where
  "context_types = [CtxCode, CtxDoc, CtxAll]"

section \<open>Configuration types (lines 18-54)\<close>

record viewport =
  vp_width :: jsnum
  vp_height :: jsnum

definition viewport_json :: "viewport \<Rightarrow> jsval" where
  "viewport_json v = JObj [(''width'', JNum (vp_width v)), (''height'', JNum (vp_height v))]"

definition viewport_of :: "jsval \<Rightarrow> viewport option" where
  "viewport_of v =
     (case v of
        JObj kvs \<Rightarrow> do { w \<leftarrow> req_prop kvs ''width'' as_num; h \<leftarrow> req_prop kvs ''height'' as_num;
                        Some \<lparr>vp_width = w, vp_height = h\<rparr> }
      | _ \<Rightarrow> None)"

datatype same_site = SameSiteStrict | SameSiteLax | SameSiteNone

definition same_site_str :: "same_site \<Rightarrow> string" where
  "same_site_str s = (case s of SameSiteStrict \<Rightarrow> ''Strict'' | SameSiteLax \<Rightarrow> ''Lax'' | SameSiteNone \<Rightarrow> ''None'')"

definition same_sites :: "same_site list" where
  "same_sites = [SameSiteStrict, SameSiteLax, SameSiteNone]"

record cookie =
  ck_name :: string
  ck_value :: string
  ck_domain :: "string option"
  ck_path :: "string option"
  ck_expires :: "jsnum option"
  ck_httpOnly :: "bool option"
  ck_secure :: "bool option"
  ck_sameSite :: "same_site option"

definition cookie_json :: "cookie \<Rightarrow> jsval" where
  "cookie_json c = JObj (opt_entries
     [(''name'', Some (JStr (ck_name c))), (''value'', Some (JStr (ck_value c))),
      (''domain'', map_option JStr (ck_domain c)), (''path'', map_option JStr (ck_path c)),
      (''expires'', map_option JNum (ck_expires c)), (''httpOnly'', map_option JBool (ck_httpOnly c)),
      (''secure'', map_option JBool (ck_secure c)),
      (''sameSite'', map_option (JStr \<circ> same_site_str) (ck_sameSite c))])"

definition cookie_of :: "jsval \<Rightarrow> cookie option" where
  "cookie_of v =
     (case v of
        JObj kvs \<Rightarrow> do {
          n \<leftarrow> req_prop kvs ''name'' as_str; x \<leftarrow> req_prop kvs ''value'' as_str;
          d \<leftarrow> opt_prop kvs ''domain'' as_str; p \<leftarrow> opt_prop kvs ''path'' as_str;
          e \<leftarrow> opt_prop kvs ''expires'' as_num; h \<leftarrow> opt_prop kvs ''httpOnly'' as_bool;
          s \<leftarrow> opt_prop kvs ''secure'' as_bool; ss \<leftarrow> opt_prop kvs ''sameSite'' (enum_of same_site_str same_sites);
          Some \<lparr>ck_name = n, ck_value = x, ck_domain = d, ck_path = p, ck_expires = e, ck_httpOnly = h,
                ck_secure = s, ck_sameSite = ss\<rparr> }
      | _ \<Rightarrow> None)"

record browser_config =
  bc_headless :: "bool option"
  bc_browser_type :: "browser_type option"
  bc_user_agent :: "string option"
  bc_proxy :: "string option"
  bc_page_timeout :: "jsnum option"
  bc_verbose :: "bool option"
  bc_simulate_user :: "bool option"
  bc_magic :: "bool option"
  bc_override_navigator :: "bool option"
  bc_user_data_dir :: "string option"
  bc_use_managed_browser :: "bool option"
  bc_viewport :: "viewport option"
  bc_headers :: "(string \<times> string) list option"
  bc_cookies :: "cookie list option"
  bc_extra_args :: "string list option"
  bc_ignore_https_errors :: "bool option"
  bc_java_script_enabled :: "bool option"
  bc_accept_downloads :: "bool option"
  bc_downloads_path :: "string option"

definition browser_config_json :: "browser_config \<Rightarrow> jsval" where
  "browser_config_json b = JObj (opt_entries
     [(''headless'', map_option JBool (bc_headless b)),
      (''browser_type'', map_option (JStr \<circ> browser_type_str) (bc_browser_type b)),
      (''user_agent'', map_option JStr (bc_user_agent b)), (''proxy'', map_option JStr (bc_proxy b)),
      (''page_timeout'', map_option JNum (bc_page_timeout b)), (''verbose'', map_option JBool (bc_verbose b)),
      (''simulate_user'', map_option JBool (bc_simulate_user b)), (''magic'', map_option JBool (bc_magic b)),
      (''override_navigator'', map_option JBool (bc_override_navigator b)),
      (''user_data_dir'', map_option JStr (bc_user_data_dir b)),
      (''use_managed_browser'', map_option JBool (bc_use_managed_browser b)),
      (''viewport'', map_option viewport_json (bc_viewport b)),
      (''headers'', map_option (dict_json JStr) (bc_headers b)),
      (''cookies'', map_option (JArr \<circ> map cookie_json) (bc_cookies b)),
      (''extra_args'', map_option str_list_json (bc_extra_args b)),
      (''ignore_https_errors'', map_option JBool (bc_ignore_https_errors b)),
      (''java_script_enabled'', map_option JBool (bc_java_script_enabled b)),
      (''accept_downloads'', map_option JBool (bc_accept_downloads b)),
      (''downloads_path'', map_option JStr (bc_downloads_path b))])"

definition browser_config_of :: "jsval \<Rightarrow> browser_config option" where
  "browser_config_of v =
     (case v of
        JObj kvs \<Rightarrow> do {
          a1 \<leftarrow> opt_prop kvs ''headless'' as_bool;
          a2 \<leftarrow> opt_prop kvs ''browser_type'' (enum_of browser_type_str browser_types);
          a3 \<leftarrow> opt_prop kvs ''user_agent'' as_str; a4 \<leftarrow> opt_prop kvs ''proxy'' as_str;
          a5 \<leftarrow> opt_prop kvs ''page_timeout'' as_num; a6 \<leftarrow> opt_prop kvs ''verbose'' as_bool;
          a7 \<leftarrow> opt_prop kvs ''simulate_user'' as_bool; a8 \<leftarrow> opt_prop kvs ''magic'' as_bool;
          a9 \<leftarrow> opt_prop kvs ''override_navigator'' as_bool; a10 \<leftarrow> opt_prop kvs ''user_data_dir'' as_str;
          a11 \<leftarrow> opt_prop kvs ''use_managed_browser'' as_bool; a12 \<leftarrow> opt_prop kvs ''viewport'' viewport_of;
          a13 \<leftarrow> opt_prop kvs ''headers'' (as_dict as_str); a14 \<leftarrow> opt_prop kvs ''cookies'' (as_list cookie_of);
          a15 \<leftarrow> opt_prop kvs ''extra_args'' (as_list as_str);
          a16 \<leftarrow> opt_prop kvs ''ignore_https_errors'' as_bool;
          a17 \<leftarrow> opt_prop kvs ''java_script_enabled'' as_bool;
          a18 \<leftarrow> opt_prop kvs ''accept_downloads'' as_bool; a19 \<leftarrow> opt_prop kvs ''downloads_path'' as_str;
          Some \<lparr>bc_headless = a1, bc_browser_type = a2, bc_user_agent = a3, bc_proxy = a4,
                bc_page_timeout = a5, bc_verbose = a6, bc_simulate_user = a7, bc_magic = a8,
                bc_override_navigator = a9, bc_user_data_dir = a10, bc_use_managed_browser = a11,
                bc_viewport = a12, bc_headers = a13, bc_cookies = a14, bc_extra_args = a15,
                bc_ignore_https_errors = a16, bc_java_script_enabled = a17, bc_accept_downloads = a18,
                bc_downloads_path = a19\<rparr> }
      | _ \<Rightarrow> None)"

section \<open>Extraction and crawl configuration (lines 57-138)\<close>

datatype css_field_kind = CssText | CssHtml | CssAttribute | CssHref | CssSrc

definition css_field_kind_str :: "css_field_kind \<Rightarrow> string" where
  "css_field_kind_str k = (case k of CssText \<Rightarrow> ''text'' | CssHtml \<Rightarrow> ''html'' | CssAttribute \<Rightarrow> ''attribute''
                             | CssHref \<Rightarrow> ''href'' | CssSrc \<Rightarrow> ''src'')"

definition css_field_kinds :: "css_field_kind list" where
  "css_field_kinds = [CssText, CssHtml, CssAttribute, CssHref, CssSrc]"

record css_extraction_field =
  cef_name :: string
  cef_selector :: string
  cef_type :: css_field_kind
  cef_attribute :: "string option"
  cef_multiple :: "bool option"
  cef_transform :: "string option"

definition css_extraction_field_json :: "css_extraction_field \<Rightarrow> jsval" where
  "css_extraction_field_json f = JObj (opt_entries
     [(''name'', Some (JStr (cef_name f))), (''selector'', Some (JStr (cef_selector f))),
      (''type'', Some (JStr (css_field_kind_str (cef_type f)))),
      (''attribute'', map_option JStr (cef_attribute f)), (''multiple'', map_option JBool (cef_multiple f)),
      (''transform'', map_option JStr (cef_transform f))])"

definition css_extraction_field_of :: "jsval \<Rightarrow> css_extraction_field option" where
  "css_extraction_field_of v =
     (case v of
        JObj kvs \<Rightarrow> do {
          n \<leftarrow> req_prop kvs ''name'' as_str; sel \<leftarrow> req_prop kvs ''selector'' as_str;
          t \<leftarrow> req_prop kvs ''type'' (enum_of css_field_kind_str css_field_kinds);
          a \<leftarrow> opt_prop kvs ''attribute'' as_str; m \<leftarrow> opt_prop kvs ''multiple'' as_bool;
          tr \<leftarrow> opt_prop kvs ''transform'' as_str;
          Some \<lparr>cef_name = n, cef_selector = sel, cef_type = t, cef_attribute = a, cef_multiple = m,
                cef_transform = tr\<rparr> }
      | _ \<Rightarrow> None)"

record css_extraction_schema =
  ces_name :: "string option"
  ces_baseSelector :: string
  ces_fields :: "css_extraction_field list"

definition css_extraction_schema_json :: "css_extraction_schema \<Rightarrow> jsval" where
  "css_extraction_schema_json c = JObj (opt_entries
     [(''name'', map_option JStr (ces_name c)), (''baseSelector'', Some (JStr (ces_baseSelector c))),
      (''fields'', Some (JArr (map css_extraction_field_json (ces_fields c))))])"

definition css_extraction_schema_of :: "jsval \<Rightarrow> css_extraction_schema option" where
  "css_extraction_schema_of v =
     (case v of
        JObj kvs \<Rightarrow> do {
          n \<leftarrow> opt_prop kvs ''name'' as_str; b \<leftarrow> req_prop kvs ''baseSelector'' as_str;
          fs \<leftarrow> req_prop kvs ''fields'' (as_list css_extraction_field_of);
          Some \<lparr>ces_name = n, ces_baseSelector = b, ces_fields = fs\<rparr> }
      | _ \<Rightarrow> None)"

datatype llm_extraction_type = LlmSchema | LlmBlock | LlmMarkdown

definition llm_extraction_type_str :: "llm_extraction_type \<Rightarrow> string" where
  "llm_extraction_type_str t = (case t of LlmSchema \<Rightarrow> ''schema'' | LlmBlock \<Rightarrow> ''block'' | LlmMarkdown \<Rightarrow> ''markdown'')"

definition llm_extraction_types :: "llm_extraction_type list" where
  "llm_extraction_types = [LlmSchema, LlmBlock, LlmMarkdown]"

record llm_extraction_params =
  lep_provider :: string
  lep_api_token :: "string option"
  lep_api_key :: "string option"
  lep_schema :: "(string \<times> jsval) list option"
  lep_extraction_type :: "llm_extraction_type option"
  lep_instruction :: "string option"
  lep_model :: "string option"
  lep_base_url :: "string option"
  lep_extra_headers :: "(string \<times> string) list option"
  lep_extra_body :: "(string \<times> jsval) list option"

definition llm_extraction_params_json :: "llm_extraction_params \<Rightarrow> jsval" where
  "llm_extraction_params_json p = JObj (opt_entries
     [(''provider'', Some (JStr (lep_provider p))), (''api_token'', map_option JStr (lep_api_token p)),
      (''api_key'', map_option JStr (lep_api_key p)), (''schema'', map_option (dict_json id) (lep_schema p)),
      (''extraction_type'', map_option (JStr \<circ> llm_extraction_type_str) (lep_extraction_type p)),
      (''instruction'', map_option JStr (lep_instruction p)), (''model'', map_option JStr (lep_model p)),
      (''base_url'', map_option JStr (lep_base_url p)),
      (''extra_headers'', map_option (dict_json JStr) (lep_extra_headers p)),
      (''extra_body'', map_option (dict_json id) (lep_extra_body p))])"

definition llm_extraction_params_of :: "jsval \<Rightarrow> llm_extraction_params option" where
  "llm_extraction_params_of v =
     (case v of
        JObj kvs \<Rightarrow> do {
          a1 \<leftarrow> req_prop kvs ''provider'' as_str; a2 \<leftarrow> opt_prop kvs ''api_token'' as_str;
          a3 \<leftarrow> opt_prop kvs ''api_key'' as_str; a4 \<leftarrow> opt_prop kvs ''schema'' (as_dict as_any);
          a5 \<leftarrow> opt_prop kvs ''extraction_type'' (enum_of llm_extraction_type_str llm_extraction_types);
          a6 \<leftarrow> opt_prop kvs ''instruction'' as_str; a7 \<leftarrow> opt_prop kvs ''model'' as_str;
          a8 \<leftarrow> opt_prop kvs ''base_url'' as_str; a9 \<leftarrow> opt_prop kvs ''extra_headers'' (as_dict as_str);
          a10 \<leftarrow> opt_prop kvs ''extra_body'' (as_dict as_any);
          Some \<lparr>lep_provider = a1, lep_api_token = a2, lep_api_key = a3, lep_schema = a4,
                lep_extraction_type = a5, lep_instruction = a6, lep_model = a7, lep_base_url = a8,
                lep_extra_headers = a9, lep_extra_body = a10\<rparr> }
      | _ \<Rightarrow> None)"

record cosine_extraction_params =
  cos_semantic_filter :: "string option"
  cos_word_count_threshold :: "jsnum option"
  cos_max_dist :: "jsnum option"
  cos_top_k :: "jsnum option"
  cos_model_name :: "string option"

definition cosine_extraction_params_json :: "cosine_extraction_params \<Rightarrow> jsval" where
  "cosine_extraction_params_json p = JObj (opt_entries
     [(''semantic_filter'', map_option JStr (cos_semantic_filter p)),
      (''word_count_threshold'', map_option JNum (cos_word_count_threshold p)),
      (''max_dist'', map_option JNum (cos_max_dist p)), (''top_k'', map_option JNum (cos_top_k p)),
      (''model_name'', map_option JStr (cos_model_name p))])"

definition cosine_extraction_params_of :: "jsval \<Rightarrow> cosine_extraction_params option" where
  "cosine_extraction_params_of v =
     (case v of
        JObj kvs \<Rightarrow> do {
          a1 \<leftarrow> opt_prop kvs ''semantic_filter'' as_str; a2 \<leftarrow> opt_prop kvs ''word_count_threshold'' as_num;
          a3 \<leftarrow> opt_prop kvs ''max_dist'' as_num; a4 \<leftarrow> opt_prop kvs ''top_k'' as_num;
          a5 \<leftarrow> opt_prop kvs ''model_name'' as_str;
          Some \<lparr>cos_semantic_filter = a1, cos_word_count_threshold = a2, cos_max_dist = a3, cos_top_k = a4,
                cos_model_name = a5\<rparr> }
      | _ \<Rightarrow> None)"

text \<open>\<open>ExtractionStrategy\<close>: a union tagged by \<open>type\<close>; \<open>JsonCssExtractionParams\<close>
  is the object holding the schema.\<close>

datatype extraction_strategy =
    JsonCss css_extraction_schema
  | Llm llm_extraction_params
  | Cosine cosine_extraction_params

definition extraction_strategy_json :: "extraction_strategy \<Rightarrow> jsval" where
  "extraction_strategy_json e =
     (case e of
        JsonCss sch \<Rightarrow> JObj [(''type'', JStr ''json_css''), (''params'', JObj [(''schema'', css_extraction_schema_json sch)])]
      | Llm p \<Rightarrow> JObj [(''type'', JStr ''llm''), (''params'', llm_extraction_params_json p)]
      | Cosine p \<Rightarrow> JObj [(''type'', JStr ''cosine''), (''params'', cosine_extraction_params_json p)])"

definition json_css_params_of :: "jsval \<Rightarrow> css_extraction_schema option" where
  "json_css_params_of v = (case v of JObj kvs \<Rightarrow> req_prop kvs ''schema'' css_extraction_schema_of | _ \<Rightarrow> None)"

definition extraction_strategy_of :: "jsval \<Rightarrow> extraction_strategy option" where
  "extraction_strategy_of v =
     (case v of
        JObj kvs \<Rightarrow> do {
          t \<leftarrow> req_prop kvs ''type'' as_str;
          if t = ''json_css'' then map_option JsonCss (req_prop kvs ''params'' json_css_params_of)
          else if t = ''llm'' then map_option Llm (req_prop kvs ''params'' llm_extraction_params_of)
          else if t = ''cosine'' then map_option Cosine (req_prop kvs ''params'' cosine_extraction_params_of)
          else None }
      | _ \<Rightarrow> None)"

datatype chunking_kind = ChunkRegex | ChunkNltk | ChunkRecursiveUrl

definition chunking_kind_str :: "chunking_kind \<Rightarrow> string" where
  "chunking_kind_str k = (case k of ChunkRegex \<Rightarrow> ''regex'' | ChunkNltk \<Rightarrow> ''nltk''
                            | ChunkRecursiveUrl \<Rightarrow> ''recursive_url_based_chunking'')"

definition chunking_kinds :: "chunking_kind list" where
  "chunking_kinds = [ChunkRegex, ChunkNltk, ChunkRecursiveUrl]"

record chunking_strategy =
  chs_type :: chunking_kind
  chs_params :: "(string \<times> jsval) list option"

definition chunking_strategy_json :: "chunking_strategy \<Rightarrow> jsval" where
  "chunking_strategy_json c = JObj (opt_entries
     [(''type'', Some (JStr (chunking_kind_str (chs_type c)))), (''params'', map_option (dict_json id) (chs_params c))])"

definition chunking_strategy_of :: "jsval \<Rightarrow> chunking_strategy option" where
  "chunking_strategy_of v =
     (case v of
        JObj kvs \<Rightarrow> do {
          t \<leftarrow> req_prop kvs ''type'' (enum_of chunking_kind_str chunking_kinds);
          p \<leftarrow> opt_prop kvs ''params'' (as_dict as_any);
          Some \<lparr>chs_type = t, chs_params = p\<rparr> }
      | _ \<Rightarrow> None)"

text \<open>\<open>CrawlerRunConfig\<close> (lines 103-133): every property optional.\<close>

record crawler_run_config =
  crc_word_count_threshold :: "jsnum option"
  crc_extraction_strategy :: "extraction_strategy option"
  crc_chunking_strategy :: "chunking_strategy option"
  crc_css_selector :: "string option"
  crc_screenshot :: "bool option"
  crc_pdf :: "bool option"
  crc_cache_mode :: "cache_mode option"
  crc_bypass_cache :: "bool option"
  crc_disable_cache :: "bool option"
  crc_no_cache_read :: "bool option"
  crc_no_cache_write :: "bool option"
  crc_log_console :: "bool option"
  crc_stream :: "bool option"
  crc_warmup :: "bool option"
  crc_js_code :: "string list option"
  crc_js_only :: "bool option"
  crc_wait_for :: "string option"
  crc_page_timeout :: "jsnum option"
  crc_delay_before_return_html :: "jsnum option"
  crc_remove_overlay_elements :: "bool option"
  crc_mean_delay :: "jsnum option"
  crc_max_range :: "jsnum option"
  crc_semaphore_count :: "jsnum option"
  crc_base_delay :: "jsnum option"
  crc_random_delay :: "jsnum option"
  crc_ignore_robots_txt :: "bool option"
  crc_anti_bot :: "bool option"
  crc_light_mode :: "bool option"
  crc_extra :: "(string \<times> jsval) list option"

definition crawler_run_config_json :: "crawler_run_config \<Rightarrow> jsval" where
  "crawler_run_config_json c = JObj (opt_entries
     [(''word_count_threshold'', map_option JNum (crc_word_count_threshold c)),
      (''extraction_strategy'', map_option extraction_strategy_json (crc_extraction_strategy c)),
      (''chunking_strategy'', map_option chunking_strategy_json (crc_chunking_strategy c)),
      (''css_selector'', map_option JStr (crc_css_selector c)),
      (''screenshot'', map_option JBool (crc_screenshot c)),
      (''pdf'', map_option JBool (crc_pdf c)),
      (''cache_mode'', map_option (JStr \<circ> cache_mode_str) (crc_cache_mode c)),
      (''bypass_cache'', map_option JBool (crc_bypass_cache c)),
      (''disable_cache'', map_option JBool (crc_disable_cache c)),
      (''no_cache_read'', map_option JBool (crc_no_cache_read c)),
      (''no_cache_write'', map_option JBool (crc_no_cache_write c)),
      (''log_console'', map_option JBool (crc_log_console c)),
      (''stream'', map_option JBool (crc_stream c)),
      (''warmup'', map_option JBool (crc_warmup c)),
      (''js_code'', map_option str_list_json (crc_js_code c)),
      (''js_only'', map_option JBool (crc_js_only c)),
      (''wait_for'', map_option JStr (crc_wait_for c)),
      (''page_timeout'', map_option JNum (crc_page_timeout c)),
      (''delay_before_return_html'', map_option JNum (crc_delay_before_return_html c)),
      (''remove_overlay_elements'', map_option JBool (crc_remove_overlay_elements c)),
      (''mean_delay'', map_option JNum (crc_mean_delay c)),
      (''max_range'', map_option JNum (crc_max_range c)),
      (''semaphore_count'', map_option JNum (crc_semaphore_count c)),
      (''base_delay'', map_option JNum (crc_base_delay c)),
      (''random_delay'', map_option JNum (crc_random_delay c)),
      (''ignore_robots_txt'', map_option JBool (crc_ignore_robots_txt c)),
      (''anti_bot'', map_option JBool (crc_anti_bot c)),
      (''light_mode'', map_option JBool (crc_light_mode c)),
      (''extra'', map_option (dict_json id) (crc_extra c))])"

definition crawler_run_config_of :: "jsval \<Rightarrow> crawler_run_config option" where
  "crawler_run_config_of v =
     (case v of
        JObj kvs \<Rightarrow> do {
          a1 \<leftarrow> opt_prop kvs ''word_count_threshold'' as_num;
          a2 \<leftarrow> opt_prop kvs ''extraction_strategy'' extraction_strategy_of;
          a3 \<leftarrow> opt_prop kvs ''chunking_strategy'' chunking_strategy_of;
          a4 \<leftarrow> opt_prop kvs ''css_selector'' as_str;
          a5 \<leftarrow> opt_prop kvs ''screenshot'' as_bool;
          a6 \<leftarrow> opt_prop kvs ''pdf'' as_bool;
          a7 \<leftarrow> opt_prop kvs ''cache_mode'' (enum_of cache_mode_str cache_modes);
          a8 \<leftarrow> opt_prop kvs ''bypass_cache'' as_bool;
          a9 \<leftarrow> opt_prop kvs ''disable_cache'' as_bool;
          a10 \<leftarrow> opt_prop kvs ''no_cache_read'' as_bool;
          a11 \<leftarrow> opt_prop kvs ''no_cache_write'' as_bool;
          a12 \<leftarrow> opt_prop kvs ''log_console'' as_bool;
          a13 \<leftarrow> opt_prop kvs ''stream'' as_bool;
          a14 \<leftarrow> opt_prop kvs ''warmup'' as_bool;
          a15 \<leftarrow> opt_prop kvs ''js_code'' (as_list as_str);
          a16 \<leftarrow> opt_prop kvs ''js_only'' as_bool;
          a17 \<leftarrow> opt_prop kvs ''wait_for'' as_str;
          a18 \<leftarrow> opt_prop kvs ''page_timeout'' as_num;
          a19 \<leftarrow> opt_prop kvs ''delay_before_return_html'' as_num;
          a20 \<leftarrow> opt_prop kvs ''remove_overlay_elements'' as_bool;
          a21 \<leftarrow> opt_prop kvs ''mean_delay'' as_num;
          a22 \<leftarrow> opt_prop kvs ''max_range'' as_num;
          a23 \<leftarrow> opt_prop kvs ''semaphore_count'' as_num;
          a24 \<leftarrow> opt_prop kvs ''base_delay'' as_num;
          a25 \<leftarrow> opt_prop kvs ''random_delay'' as_num;
          a26 \<leftarrow> opt_prop kvs ''ignore_robots_txt'' as_bool;
          a27 \<leftarrow> opt_prop kvs ''anti_bot'' as_bool;
          a28 \<leftarrow> opt_prop kvs ''light_mode'' as_bool;
          a29 \<leftarrow> opt_prop kvs ''extra'' (as_dict as_any);
          Some \<lparr>crc_word_count_threshold = a1, crc_extraction_strategy = a2, crc_chunking_strategy = a3, crc_css_selector = a4, crc_screenshot = a5, crc_pdf = a6, crc_cache_mode = a7, crc_bypass_cache = a8, crc_disable_cache = a9, crc_no_cache_read = a10, crc_no_cache_write = a11, crc_log_console = a12, crc_stream = a13, crc_warmup = a14, crc_js_code = a15, crc_js_only = a16, crc_wait_for = a17, crc_page_timeout = a18, crc_delay_before_return_html = a19, crc_remove_overlay_elements = a20, crc_mean_delay = a21, crc_max_range = a22, crc_semaphore_count = a23, crc_base_delay = a24, crc_random_delay = a25, crc_ignore_robots_txt = a26, crc_anti_bot = a27, crc_light_mode = a28, crc_extra = a29\<rparr> }
      | _ \<Rightarrow> None)"
section \<open>Request types (lines 141-191)\<close>

text \<open>The properties of a \<open>CrawlRequest\<close> besides \<open>urls\<close>, in their
  declaration order.\<close>

record crawl_options =
  co_browser_config :: "browser_config option"
  co_crawler_config :: "crawler_run_config option"
  co_session_id :: "string option"
  co_priority :: "jsnum option"
  co_ttl :: "jsnum option"
  co_extra :: "(string \<times> jsval) list option"

definition crawl_options_entries :: "crawl_options \<Rightarrow> (string \<times> jsval) list" where
  "crawl_options_entries o' = opt_entries
     [(''browser_config'', map_option browser_config_json (co_browser_config o')),
      (''crawler_config'', map_option crawler_run_config_json (co_crawler_config o')),
      (''session_id'', map_option JStr (co_session_id o')), (''priority'', map_option JNum (co_priority o')),
      (''ttl'', map_option JNum (co_ttl o')), (''extra'', map_option (dict_json id) (co_extra o'))]"

definition crawl_options_of :: "(string \<times> jsval) list \<Rightarrow> crawl_options option" where
  "crawl_options_of kvs = do {
     b \<leftarrow> opt_prop kvs ''browser_config'' browser_config_of;
     c \<leftarrow> opt_prop kvs ''crawler_config'' crawler_run_config_of;
     s \<leftarrow> opt_prop kvs ''session_id'' as_str; p \<leftarrow> opt_prop kvs ''priority'' as_num;
     t \<leftarrow> opt_prop kvs ''ttl'' as_num; e \<leftarrow> opt_prop kvs ''extra'' (as_dict as_any);
     Some \<lparr>co_browser_config = b, co_crawler_config = c, co_session_id = s, co_priority = p, co_ttl = t,
           co_extra = e\<rparr> }"

text \<open>The properties of a \<open>MarkdownRequest\<close> besides \<open>url\<close>.\<close>

record markdown_options =
  mo_filter :: "content_filter option"
  mo_query :: "string option"
  mo_cache :: "string option"

definition markdown_options_entries :: "markdown_options \<Rightarrow> (string \<times> jsval) list" where
  "markdown_options_entries m = opt_entries
     [(''filter'', map_option (JStr \<circ> content_filter_str) (mo_filter m)), (''query'', map_option JStr (mo_query m)),
      (''cache'', map_option JStr (mo_cache m))]"

definition markdown_options_of :: "(string \<times> jsval) list \<Rightarrow> markdown_options option" where
  "markdown_options_of kvs = do {
     f \<leftarrow> opt_prop kvs ''filter'' (enum_of content_filter_str content_filters);
     q \<leftarrow> opt_prop kvs ''query'' as_str; c \<leftarrow> opt_prop kvs ''cache'' as_str;
     Some \<lparr>mo_filter = f, mo_query = q, mo_cache = c\<rparr> }"

text \<open>Request types the API reference lists and no method of the client
  takes (lines 158-184).\<close>

record screenshot_request =
  sr_url :: string
  sr_screenshot_wait_for :: "jsnum option"
  sr_output_path :: "string option"

definition screenshot_request_json :: "screenshot_request \<Rightarrow> jsval" where
  "screenshot_request_json r = JObj (opt_entries
     [(''url'', Some (JStr (sr_url r))), (''screenshot_wait_for'', map_option JNum (sr_screenshot_wait_for r)),
      (''output_path'', map_option JStr (sr_output_path r))])"

definition screenshot_request_of :: "jsval \<Rightarrow> screenshot_request option" where
  "screenshot_request_of v =
     (case v of
        JObj kvs \<Rightarrow> do {
          u \<leftarrow> req_prop kvs ''url'' as_str; w \<leftarrow> opt_prop kvs ''screenshot_wait_for'' as_num;
          o' \<leftarrow> opt_prop kvs ''output_path'' as_str;
          Some \<lparr>sr_url = u, sr_screenshot_wait_for = w, sr_output_path = o'\<rparr> }
      | _ \<Rightarrow> None)"

record pdf_request =
  pr_url :: string
  pr_output_path :: "string option"

definition pdf_request_json :: "pdf_request \<Rightarrow> jsval" where
  "pdf_request_json r = JObj (opt_entries [(''url'', Some (JStr (pr_url r))), (''output_path'', map_option JStr (pr_output_path r))])"

definition pdf_request_of :: "jsval \<Rightarrow> pdf_request option" where
  "pdf_request_of v =
     (case v of
        JObj kvs \<Rightarrow> do { u \<leftarrow> req_prop kvs ''url'' as_str; o' \<leftarrow> opt_prop kvs ''output_path'' as_str;
                        Some \<lparr>pr_url = u, pr_output_path = o'\<rparr> }
      | _ \<Rightarrow> None)"

definition token_request_json :: "string \<Rightarrow> jsval" where
  "token_request_json email = JObj [(''email'', JStr email)]"

definition config_dump_request_json :: "string \<Rightarrow> jsval" where
  "config_dump_request_json code = JObj [(''code'', JStr code)]"

section \<open>Lemmas: the generic readers\<close>

lemma opt_entries_keys: "fst ` set (opt_entries es) \<subseteq> fst ` set es"
  by (force simp: opt_entries_def split: option.splits)

lemma opt_entries_Cons:
  "opt_entries ((k, v) # es) = (case v of Some x \<Rightarrow> [(k, x)] | None \<Rightarrow> []) @ opt_entries es"
  by (simp add: opt_entries_def)

lemma map_of_opt_entries:
  "distinct (map fst es) \<Longrightarrow> map_of (opt_entries es) k = (case map_of es k of Some v \<Rightarrow> v | None \<Rightarrow> None)"
proof (induction es)
  case (Cons e es)
  obtain k' v where e: "e = (k', v)" by (cases e)
  have "k' \<notin> fst ` set (opt_entries es)"
    using Cons.prems e opt_entries_keys [of es] by auto
  moreover have "map_of es k' = None"
    using Cons.prems e by (simp add: map_of_eq_None_iff)
  ultimately show ?case
    using Cons e by (cases v) (simp_all add: opt_entries_Cons)
qed (simp add: opt_entries_def)

lemma distinct_opt_entries: "distinct (map fst es) \<Longrightarrow> distinct (map fst (opt_entries es))"
proof (induction es)
  case (Cons e es)
  obtain k' v where e: "e = (k', v)" by (cases e)
  have "k' \<notin> fst ` set (opt_entries es)"
    using Cons.prems e opt_entries_keys [of es] by auto
  then show ?case
    using Cons e by (cases v) (auto simp: opt_entries_Cons)
qed (simp add: opt_entries_def)

lemma obj_get_opt_entries [simp]:
  "distinct (map fst es) \<Longrightarrow> obj_get (opt_entries es) k = (case map_of es k of Some v \<Rightarrow> v | None \<Rightarrow> None)"
  by (simp add: obj_get_def map_of_rev_distinct distinct_opt_entries map_of_opt_entries)

lemma req_prop_enc [simp]:
  "obj_get kvs k = Some (e x) \<Longrightarrow> (\<forall>y. d (e y) = Some y) \<Longrightarrow> req_prop kvs k d = Some x"
  by (simp add: req_prop_def)

lemma opt_prop_enc [simp]:
  "obj_get kvs k = map_option e x \<Longrightarrow> (\<forall>y. d (e y) = Some y) \<Longrightarrow> opt_prop kvs k d = Some x"
  by (cases x) (simp_all add: opt_prop_def dec_opt_def)

lemma as_basic_rt [json_rt]:
  "as_str (JStr s) = Some s" "as_num (JNum n) = Some n" "as_bool (JBool b) = Some b" "as_any v = Some v"
  by (simp_all add: as_str_def as_num_def as_bool_def as_any_def)

lemma as_list_rt [json_rt]: "(\<forall>y. d (e y) = Some y) \<Longrightarrow> as_list d (JArr (map e xs)) = Some xs"
  by (induction xs) (simp_all add: as_list_def)

lemma str_list_rt [json_rt]: "as_list as_str (str_list_json xs) = Some xs"
  by (simp add: str_list_json_def as_list_rt as_basic_rt)

lemma as_dict_rt [json_rt]: "(\<forall>y. d (e y) = Some y) \<Longrightarrow> as_dict d (dict_json e kvs) = Some kvs"
proof (induction kvs)
  case (Cons kv kvs)
  then show ?case
    by (cases kv) (auto simp: as_dict_def dict_json_def comp_def split: option.splits)
qed (simp add: as_dict_def dict_json_def)

lemma enum_of_rt:
  "x \<in> set cs \<Longrightarrow> inj_on f (set cs) \<Longrightarrow> enum_of f cs (JStr (f x)) = Some x"
proof (induction cs)
  case (Cons c cs)
  then show ?case by (auto simp: enum_of_def)
qed simp

section \<open>Lemmas: round trips of the basic and configuration types\<close>

lemma same_site_rt [json_rt]: "enum_of same_site_str same_sites (JStr (same_site_str s)) = Some s"
  by (rule enum_of_rt) (cases s, simp_all add: same_sites_def same_site_str_def)+

lemma browser_type_rt [json_rt]: "enum_of browser_type_str browser_types (JStr (browser_type_str b)) = Some b"
  by (rule enum_of_rt) (cases b, simp_all add: browser_types_def browser_type_str_def)+

lemma cache_mode_rt [json_rt]: "enum_of cache_mode_str cache_modes (JStr (cache_mode_str m)) = Some m"
  by (rule enum_of_rt) (cases m, simp_all add: cache_modes_def cache_mode_str_def)+

lemma content_filter_rt [json_rt]: "enum_of content_filter_str content_filters (JStr (content_filter_str f)) = Some f"
  by (rule enum_of_rt) (cases f, simp_all add: content_filters_def content_filter_str_def)+

lemma context_type_rt [json_rt]: "enum_of context_type_str context_types (JStr (context_type_str c)) = Some c"
  by (rule enum_of_rt) (cases c, simp_all add: context_types_def context_type_str_def)+

lemma http_method_rt [json_rt]: "enum_of http_method_str http_methods (JStr (http_method_str m)) = Some m"
  by (rule enum_of_rt) (cases m, simp_all add: http_methods_def http_method_str_def)+

lemma viewport_rt [json_rt]: "viewport_of (viewport_json v) = Some v"
  by (simp add: viewport_of_def viewport_json_def req_prop_def obj_get_def as_basic_rt)

lemma cookie_rt [json_rt]: "cookie_of (cookie_json c) = Some c"
  by (simp add: cookie_of_def cookie_json_def json_rt)

lemma browser_config_rt [json_rt]: "browser_config_of (browser_config_json b) = Some b"
  by (simp add: browser_config_of_def browser_config_json_def json_rt)

section \<open>Lemmas: round trips of the extraction and crawl configuration\<close>

lemma css_field_kind_rt [json_rt]: "enum_of css_field_kind_str css_field_kinds (JStr (css_field_kind_str k)) = Some k"
  by (rule enum_of_rt) (cases k, simp_all add: css_field_kinds_def css_field_kind_str_def)+

lemma llm_extraction_type_rt [json_rt]:
  "enum_of llm_extraction_type_str llm_extraction_types (JStr (llm_extraction_type_str t)) = Some t"
  by (rule enum_of_rt) (cases t, simp_all add: llm_extraction_types_def llm_extraction_type_str_def)+

lemma chunking_kind_rt [json_rt]: "enum_of chunking_kind_str chunking_kinds (JStr (chunking_kind_str k)) = Some k"
  by (rule enum_of_rt) (cases k, simp_all add: chunking_kinds_def chunking_kind_str_def)+

lemma as_dict_any_rt [json_rt]: "as_dict as_any (dict_json id kvs) = Some kvs"
  by (rule as_dict_rt) (simp add: as_basic_rt)

lemma css_extraction_field_rt [json_rt]: "css_extraction_field_of (css_extraction_field_json f) = Some f"
  by (simp add: css_extraction_field_of_def css_extraction_field_json_def json_rt)

lemma css_extraction_schema_rt [json_rt]: "css_extraction_schema_of (css_extraction_schema_json c) = Some c"
  by (simp add: css_extraction_schema_of_def css_extraction_schema_json_def json_rt)

lemma llm_extraction_params_rt [json_rt]: "llm_extraction_params_of (llm_extraction_params_json p) = Some p"
  by (simp add: llm_extraction_params_of_def llm_extraction_params_json_def json_rt)

lemma cosine_extraction_params_rt [json_rt]: "cosine_extraction_params_of (cosine_extraction_params_json p) = Some p"
  by (simp add: cosine_extraction_params_of_def cosine_extraction_params_json_def json_rt)

lemma extraction_strategy_rt [json_rt]: "extraction_strategy_of (extraction_strategy_json e) = Some e"
  by (cases e) (simp_all add: extraction_strategy_of_def extraction_strategy_json_def json_css_params_of_def
      req_prop_def obj_get_def json_rt)

lemma chunking_strategy_rt [json_rt]: "chunking_strategy_of (chunking_strategy_json c) = Some c"
  by (simp add: chunking_strategy_of_def chunking_strategy_json_def json_rt)

lemma crawler_run_config_rt [json_rt]: "crawler_run_config_of (crawler_run_config_json c) = Some c"
  by (simp add: crawler_run_config_of_def crawler_run_config_json_def json_rt)

lemma crawl_options_rt [json_rt]: "crawl_options_of (crawl_options_entries o') = Some o'"
  by (simp add: crawl_options_of_def crawl_options_entries_def json_rt)

lemma markdown_options_rt [json_rt]: "markdown_options_of (markdown_options_entries m) = Some m"
  by (simp add: markdown_options_of_def markdown_options_entries_def json_rt)

lemma screenshot_request_rt [json_rt]: "screenshot_request_of (screenshot_request_json r) = Some r"
  by (simp add: screenshot_request_of_def screenshot_request_json_def json_rt)

lemma pdf_request_rt [json_rt]: "pdf_request_of (pdf_request_json r) = Some r"
  by (simp add: pdf_request_of_def pdf_request_json_def json_rt)

end
