(* ===== verification/Results.thy ===== *)
theory Results
  imports Types
begin

text \<open>
  The response types of \<open>src/unnamed/part_001\<close> (lines 194-302): what the
  service's JSON is declared to be. The client never checks them (\<open>request\<close>
  casts the decoded body), so here they are what a conforming body is:
  \<open>*_of\<close> reads a decoded JSON value as the interface, \<open>None\<close> when it does
  not conform, and \<open>*_json\<close> is the value a conforming service sends. The
  round trips show that the readers accept exactly what the writers produce,
  field for field.
\<close>

text \<open>\<open>MediaItem\<close> (lines 234-240).\<close>

record media_item =
  mit_src :: "string"
  mit_alt :: "string option"
  mit_desc :: "string option"
  mit_score :: "jsnum option"
  mit_type :: "string option"

definition media_item_json :: "media_item \<Rightarrow> jsval" where
  "media_item_json x = JObj (opt_entries
     [(''src'', Some (JStr (mit_src x))),
      (''alt'', map_option JStr (mit_alt x)),
      (''desc'', map_option JStr (mit_desc x)),
      (''score'', map_option JNum (mit_score x)),
      (''type'', map_option JStr (mit_type x))])"

definition media_item_of :: "jsval \<Rightarrow> media_item option" where
  "media_item_of v =
     (case v of
        JObj kvs \<Rightarrow> do {
          a1 \<leftarrow> req_prop kvs ''src'' as_str;
          a2 \<leftarrow> opt_prop kvs ''alt'' as_str;
          a3 \<leftarrow> opt_prop kvs ''desc'' as_str;
          a4 \<leftarrow> opt_prop kvs ''score'' as_num;
          a5 \<leftarrow> opt_prop kvs ''type'' as_str;
          Some \<lparr>mit_src = a1, mit_alt = a2, mit_desc = a3, mit_score = a4, mit_type = a5\<rparr> }
      | _ \<Rightarrow> None)"

text \<open>\<open>MediaInfo\<close> (lines 228-232).\<close>

record media_info =
  mi_images :: "media_item list"
  mi_videos :: "media_item list"
  mi_audios :: "media_item list"

definition media_info_json :: "media_info \<Rightarrow> jsval" where
  "media_info_json x = JObj (opt_entries
     [(''images'', Some ((JArr \<circ> map media_item_json) (mi_images x))),
      (''videos'', Some ((JArr \<circ> map media_item_json) (mi_videos x))),
      (''audios'', Some ((JArr \<circ> map media_item_json) (mi_audios x)))])"

definition media_info_of :: "jsval \<Rightarrow> media_info option" where
  "media_info_of v =
     (case v of
        JObj kvs \<Rightarrow> do {
          a1 \<leftarrow> req_prop kvs ''images'' (as_list media_item_of);
          a2 \<leftarrow> req_prop kvs ''videos'' (as_list media_item_of);
          a3 \<leftarrow> req_prop kvs ''audios'' (as_list media_item_of);
          Some \<lparr>mi_images = a1, mi_videos = a2, mi_audios = a3\<rparr> }
      | _ \<Rightarrow> None)"

text \<open>\<open>LinkItem\<close> (lines 247-251).\<close>

record link_item =
  lit_href :: "string"
  lit_text :: "string option"
  lit_title :: "string option"

definition link_item_json :: "link_item \<Rightarrow> jsval" where
  "link_item_json x = JObj (opt_entries
     [(''href'', Some (JStr (lit_href x))),
      (''text'', map_option JStr (lit_text x)),
      (''title'', map_option JStr (lit_title x))])"

definition link_item_of :: "jsval \<Rightarrow> link_item option" where
  "link_item_of v =
     (case v of
        JObj kvs \<Rightarrow> do {
          a1 \<leftarrow> req_prop kvs ''href'' as_str;
          a2 \<leftarrow> opt_prop kvs ''text'' as_str;
          a3 \<leftarrow> opt_prop kvs ''title'' as_str;
          Some \<lparr>lit_href = a1, lit_text = a2, lit_title = a3\<rparr> }
      | _ \<Rightarrow> None)"

text \<open>\<open>LinksInfo\<close> (lines 242-245).\<close>

record links_info =
  li_internal :: "link_item list"
  li_external :: "link_item list"

definition links_info_json :: "links_info \<Rightarrow> jsval" where
  "links_info_json x = JObj (opt_entries
     [(''internal'', Some ((JArr \<circ> map link_item_json) (li_internal x))),
      (''external'', Some ((JArr \<circ> map link_item_json) (li_external x)))])"

definition links_info_of :: "jsval \<Rightarrow> links_info option" where
  "links_info_of v =
     (case v of
        JObj kvs \<Rightarrow> do {
          a1 \<leftarrow> req_prop kvs ''internal'' (as_list link_item_of);
          a2 \<leftarrow> req_prop kvs ''external'' (as_list link_item_of);
          Some \<lparr>li_internal = a1, li_external = a2\<rparr> }
      | _ \<Rightarrow> None)"

text \<open>\<open>PageMetadata\<close> (lines 253-262).\<close>

record page_metadata =
  pm_title :: "string option"
  pm_description :: "string option"
  pm_keywords :: "string option"
  pm_author :: "string option"
  pm_language :: "string option"
  pm_canonical_url :: "string option"
  pm_open_graph :: "(string \<times> string) list option"
  pm_twitter_card :: "(string \<times> string) list option"

definition page_metadata_json :: "page_metadata \<Rightarrow> jsval" where
  "page_metadata_json x = JObj (opt_entries
     [(''title'', map_option JStr (pm_title x)),
      (''description'', map_option JStr (pm_description x)),
      (''keywords'', map_option JStr (pm_keywords x)),
      (''author'', map_option JStr (pm_author x)),
      (''language'', map_option JStr (pm_language x)),
      (''canonical_url'', map_option JStr (pm_canonical_url x)),
      (''open_graph'', map_option (dict_json JStr) (pm_open_graph x)),
      (''twitter_card'', map_option (dict_json JStr) (pm_twitter_card x))])"

definition page_metadata_of :: "jsval \<Rightarrow> page_metadata option" where
  "page_metadata_of v =
     (case v of
        JObj kvs \<Rightarrow> do {
          a1 \<leftarrow> opt_prop kvs ''title'' as_str;
          a2 \<leftarrow> opt_prop kvs ''description'' as_str;
          a3 \<leftarrow> opt_prop kvs ''keywords'' as_str;
          a4 \<leftarrow> opt_prop kvs ''author'' as_str;
          a5 \<leftarrow> opt_prop kvs ''language'' as_str;
          a6 \<leftarrow> opt_prop kvs ''canonical_url'' as_str;
          a7 \<leftarrow> opt_prop kvs ''open_graph'' (as_dict as_str);
          a8 \<leftarrow> opt_prop kvs ''twitter_card'' (as_dict as_str);
          Some \<lparr>pm_title = a1, pm_description = a2, pm_keywords = a3, pm_author = a4, pm_language = a5, pm_canonical_url = a6, pm_open_graph = a7, pm_twitter_card = a8\<rparr> }
      | _ \<Rightarrow> None)"

text \<open>\<open>SSLCertificate\<close> (lines 264-270).\<close>

record ssl_certificate =
  ssl_issuer :: "string option"
  ssl_subject :: "string option"
  ssl_valid_from :: "string option"
  ssl_valid_to :: "string option"
  ssl_fingerprint :: "string option"

definition ssl_certificate_json :: "ssl_certificate \<Rightarrow> jsval" where
  "ssl_certificate_json x = JObj (opt_entries
     [(''issuer'', map_option JStr (ssl_issuer x)),
      (''subject'', map_option JStr (ssl_subject x)),
      (''valid_from'', map_option JStr (ssl_valid_from x)),
      (''valid_to'', map_option JStr (ssl_valid_to x)),
      (''fingerprint'', map_option JStr (ssl_fingerprint x))])"

definition ssl_certificate_of :: "jsval \<Rightarrow> ssl_certificate option" where
  "ssl_certificate_of v =
     (case v of
        JObj kvs \<Rightarrow> do {
          a1 \<leftarrow> opt_prop kvs ''issuer'' as_str;
          a2 \<leftarrow> opt_prop kvs ''subject'' as_str;
          a3 \<leftarrow> opt_prop kvs ''valid_from'' as_str;
          a4 \<leftarrow> opt_prop kvs ''valid_to'' as_str;
          a5 \<leftarrow> opt_prop kvs ''fingerprint'' as_str;
          Some \<lparr>ssl_issuer = a1, ssl_subject = a2, ssl_valid_from = a3, ssl_valid_to = a4, ssl_fingerprint = a5\<rparr> }
      | _ \<Rightarrow> None)"

text \<open>\<open>DispatchResult\<close> (lines 272-276).\<close>

record dispatch_result =
  dr_status :: "string option"
  dr_message :: "string option"
  dr_data :: "jsval option"

definition dispatch_result_json :: "dispatch_result \<Rightarrow> jsval" where
  "dispatch_result_json x = JObj (opt_entries
     [(''status'', map_option JStr (dr_status x)),
      (''message'', map_option JStr (dr_message x)),
      (''data'', map_option id (dr_data x))])"

definition dispatch_result_of :: "jsval \<Rightarrow> dispatch_result option" where
  "dispatch_result_of v =
     (case v of
        JObj kvs \<Rightarrow> do {
          a1 \<leftarrow> opt_prop kvs ''status'' as_str;
          a2 \<leftarrow> opt_prop kvs ''message'' as_str;
          a3 \<leftarrow> opt_prop kvs ''data'' as_any;
          Some \<lparr>dr_status = a1, dr_message = a2, dr_data = a3\<rparr> }
      | _ \<Rightarrow> None)"

text \<open>\<open>CrawlResult\<close> (lines 194-226): what one item of the array \<open>crawl\<close> resolves to is meant to be.\<close>

record crawl_result =
  cres_url :: "string"
  cres_html :: "string"
  cres_success :: "bool"
  cres_cleaned_html :: "string option"
  cres_media :: "media_info option"
  cres_links :: "links_info option"
  cres_downloaded_files :: "(string list) option"
  cres_js_execution_result :: "(string \<times> jsval) list option"
  cres_screenshot :: "string option"
  cres_pdf :: "string option"
  cres_mhtml :: "string option"
  cres_markdown :: "string option"
  cres_fit_markdown :: "string option"
  cres_raw_markdown :: "string option"
  cres_markdown_with_citations :: "string option"
  cres_references_markdown :: "string option"
  cres_fit_html :: "string option"
  cres_extracted_content :: "string option"
  cres_metadata :: "page_metadata option"
  cres_error_message :: "string option"
  cres_session_id :: "string option"
  cres_response_headers :: "(string \<times> string) list option"
  cres_status_code :: "jsnum option"
  cres_ssl_certificate :: "ssl_certificate option"
  cres_dispatch_result :: "dispatch_result option"
  cres_redirected_url :: "string option"
  cres_network_requests :: "(string \<times> jsval) list list option"
  cres_console_messages :: "(string \<times> jsval) list list option"
  cres_crawl_depth :: "jsnum option"
  cres_text :: "string option"
  cres_cookies :: "(cookie list) option"

definition crawl_result_json :: "crawl_result \<Rightarrow> jsval" where
  "crawl_result_json x = JObj (opt_entries
     [(''url'', Some (JStr (cres_url x))),
      (''html'', Some (JStr (cres_html x))),
      (''success'', Some (JBool (cres_success x))),
      (''cleaned_html'', map_option JStr (cres_cleaned_html x)),
      (''media'', map_option media_info_json (cres_media x)),
      (''links'', map_option links_info_json (cres_links x)),
      (''downloaded_files'', map_option str_list_json (cres_downloaded_files x)),
      (''js_execution_result'', map_option (dict_json id) (cres_js_execution_result x)),
      (''screenshot'', map_option JStr (cres_screenshot x)),
      (''pdf'', map_option JStr (cres_pdf x)),
      (''mhtml'', map_option JStr (cres_mhtml x)),
      (''markdown'', map_option JStr (cres_markdown x)),
      (''fit_markdown'', map_option JStr (cres_fit_markdown x)),
      (''raw_markdown'', map_option JStr (cres_raw_markdown x)),
      (''markdown_with_citations'', map_option JStr (cres_markdown_with_citations x)),
      (''references_markdown'', map_option JStr (cres_references_markdown x)),
      (''fit_html'', map_option JStr (cres_fit_html x)),
      (''extracted_content'', map_option JStr (cres_extracted_content x)),
      (''metadata'', map_option page_metadata_json (cres_metadata x)),
      (''error_message'', map_option JStr (cres_error_message x)),
      (''session_id'', map_option JStr (cres_session_id x)),
      (''response_headers'', map_option (dict_json JStr) (cres_response_headers x)),
      (''status_code'', map_option JNum (cres_status_code x)),
      (''ssl_certificate'', map_option ssl_certificate_json (cres_ssl_certificate x)),
      (''dispatch_result'', map_option dispatch_result_json (cres_dispatch_result x)),
      (''redirected_url'', map_option JStr (cres_redirected_url x)),
      (''network_requests'', map_option (JArr \<circ> map (dict_json id)) (cres_network_requests x)),
      (''console_messages'', map_option (JArr \<circ> map (dict_json id)) (cres_console_messages x)),
      (''crawl_depth'', map_option JNum (cres_crawl_depth x)),
      (''text'', map_option JStr (cres_text x)),
      (''cookies'', map_option (JArr \<circ> map cookie_json) (cres_cookies x))])"

definition crawl_result_of :: "jsval \<Rightarrow> crawl_result option" where
  "crawl_result_of v =
     (case v of
        JObj kvs \<Rightarrow> do {
          a1 \<leftarrow> req_prop kvs ''url'' as_str;
          a2 \<leftarrow> req_prop kvs ''html'' as_str;
          a3 \<leftarrow> req_prop kvs ''success'' as_bool;
          a4 \<leftarrow> opt_prop kvs ''cleaned_html'' as_str;
          a5 \<leftarrow> opt_prop kvs ''media'' media_info_of;
          a6 \<leftarrow> opt_prop kvs ''links'' links_info_of;
          a7 \<leftarrow> opt_prop kvs ''downloaded_files'' (as_list as_str);
          a8 \<leftarrow> opt_prop kvs ''js_execution_result'' (as_dict as_any);
          a9 \<leftarrow> opt_prop kvs ''screenshot'' as_str;
          a10 \<leftarrow> opt_prop kvs ''pdf'' as_str;
          a11 \<leftarrow> opt_prop kvs ''mhtml'' as_str;
          a12 \<leftarrow> opt_prop kvs ''markdown'' as_str;
          a13 \<leftarrow> opt_prop kvs ''fit_markdown'' as_str;
          a14 \<leftarrow> opt_prop kvs ''raw_markdown'' as_str;
          a15 \<leftarrow> opt_prop kvs ''markdown_with_citations'' as_str;
          a16 \<leftarrow> opt_prop kvs ''references_markdown'' as_str;
          a17 \<leftarrow> opt_prop kvs ''fit_html'' as_str;
          a18 \<leftarrow> opt_prop kvs ''extracted_content'' as_str;
          a19 \<leftarrow> opt_prop kvs ''metadata'' page_metadata_of;
          a20 \<leftarrow> opt_prop kvs ''error_message'' as_str;
          a21 \<leftarrow> opt_prop kvs ''session_id'' as_str;
          a22 \<leftarrow> opt_prop kvs ''response_headers'' (as_dict as_str);
          a23 \<leftarrow> opt_prop kvs ''status_code'' as_num;
          a24 \<leftarrow> opt_prop kvs ''ssl_certificate'' ssl_certificate_of;
          a25 \<leftarrow> opt_prop kvs ''dispatch_result'' dispatch_result_of;
          a26 \<leftarrow> opt_prop kvs ''redirected_url'' as_str;
          a27 \<leftarrow> opt_prop kvs ''network_requests'' (as_list (as_dict as_any));
          a28 \<leftarrow> opt_prop kvs ''console_messages'' (as_list (as_dict as_any));
          a29 \<leftarrow> opt_prop kvs ''crawl_depth'' as_num;
          a30 \<leftarrow> opt_prop kvs ''text'' as_str;
          a31 \<leftarrow> opt_prop kvs ''cookies'' (as_list cookie_of);
          Some \<lparr>cres_url = a1, cres_html = a2, cres_success = a3, cres_cleaned_html = a4, cres_media = a5, cres_links = a6, cres_downloaded_files = a7, cres_js_execution_result = a8, cres_screenshot = a9, cres_pdf = a10, cres_mhtml = a11, cres_markdown = a12, cres_fit_markdown = a13, cres_raw_markdown = a14, cres_markdown_with_citations = a15, cres_references_markdown = a16, cres_fit_html = a17, cres_extracted_content = a18, cres_metadata = a19, cres_error_message = a20, cres_session_id = a21, cres_response_headers = a22, cres_status_code = a23, cres_ssl_certificate = a24, cres_dispatch_result = a25, cres_redirected_url = a26, cres_network_requests = a27, cres_console_messages = a28, cres_crawl_depth = a29, cres_text = a30, cres_cookies = a31\<rparr> }
      | _ \<Rightarrow> None)"

text \<open>\<open>HealthResponse\<close> (lines 278-282).\<close>

record health_response =
  hr_status :: "string"
  hr_timestamp :: "jsnum"
  hr_version :: "string"

definition health_response_json :: "health_response \<Rightarrow> jsval" where
  "health_response_json x = JObj (opt_entries
     [(''status'', Some (JStr (hr_status x))),
      (''timestamp'', Some (JNum (hr_timestamp x))),
      (''version'', Some (JStr (hr_version x)))])"

definition health_response_of :: "jsval \<Rightarrow> health_response option" where
  "health_response_of v =
     (case v of
        JObj kvs \<Rightarrow> do {
          a1 \<leftarrow> req_prop kvs ''status'' as_str;
          a2 \<leftarrow> req_prop kvs ''timestamp'' as_num;
          a3 \<leftarrow> req_prop kvs ''version'' as_str;
          Some \<lparr>hr_status = a1, hr_timestamp = a2, hr_version = a3\<rparr> }
      | _ \<Rightarrow> None)"

text \<open>\<open>TokenResponse\<close> (lines 284-286).\<close>

record token_response =
  tok_token :: "string"

definition token_response_json :: "token_response \<Rightarrow> jsval" where
  "token_response_json x = JObj (opt_entries
     [(''token'', Some (JStr (tok_token x)))])"

definition token_response_of :: "jsval \<Rightarrow> token_response option" where
  "token_response_of v =
     (case v of
        JObj kvs \<Rightarrow> do {
          a1 \<leftarrow> req_prop kvs ''token'' as_str;
          Some \<lparr>tok_token = a1\<rparr> }
      | _ \<Rightarrow> None)"

text \<open>\<open>ValidationError\<close> (lines 296-302), the body of a 422 response: the
  location of each problem is a path of names and indices.\<close>

datatype loc_item = LocStr string | LocNum jsnum

definition loc_item_json :: "loc_item \<Rightarrow> jsval" where
  "loc_item_json l = (case l of LocStr s \<Rightarrow> JStr s | LocNum n \<Rightarrow> JNum n)"

definition loc_item_of :: "jsval \<Rightarrow> loc_item option" where
  "loc_item_of v = (case v of JStr s \<Rightarrow> Some (LocStr s) | JNum n \<Rightarrow> Some (LocNum n) | _ \<Rightarrow> None)"

record validation_detail =
  vd_loc :: "loc_item list"
  vd_msg :: "string"
  vd_type :: "string"

definition validation_detail_json :: "validation_detail \<Rightarrow> jsval" where
  "validation_detail_json x = JObj (opt_entries
     [(''loc'', Some ((JArr \<circ> map loc_item_json) (vd_loc x))),
      (''msg'', Some (JStr (vd_msg x))),
      (''type'', Some (JStr (vd_type x)))])"

definition validation_detail_of :: "jsval \<Rightarrow> validation_detail option" where
  "validation_detail_of v =
     (case v of
        JObj kvs \<Rightarrow> do {
          a1 \<leftarrow> req_prop kvs ''loc'' (as_list loc_item_of);
          a2 \<leftarrow> req_prop kvs ''msg'' as_str;
          a3 \<leftarrow> req_prop kvs ''type'' as_str;
          Some \<lparr>vd_loc = a1, vd_msg = a2, vd_type = a3\<rparr> }
      | _ \<Rightarrow> None)"

record validation_error =
  ve_detail :: "validation_detail list"

definition validation_error_json :: "validation_error \<Rightarrow> jsval" where
  "validation_error_json x = JObj (opt_entries
     [(''detail'', Some ((JArr \<circ> map validation_detail_json) (ve_detail x)))])"

definition validation_error_of :: "jsval \<Rightarrow> validation_error option" where
  "validation_error_of v =
     (case v of
        JObj kvs \<Rightarrow> do {
          a1 \<leftarrow> req_prop kvs ''detail'' (as_list validation_detail_of);
          Some \<lparr>ve_detail = a1\<rparr> }
      | _ \<Rightarrow> None)"

section \<open>Lemmas: round trips\<close>

lemma media_item_rt [json_rt]: "media_item_of (media_item_json x) = Some x"
  by (simp add: media_item_of_def media_item_json_def json_rt)

lemma media_info_rt [json_rt]: "media_info_of (media_info_json x) = Some x"
  by (simp add: media_info_of_def media_info_json_def json_rt)

lemma link_item_rt [json_rt]: "link_item_of (link_item_json x) = Some x"
  by (simp add: link_item_of_def link_item_json_def json_rt)

lemma links_info_rt [json_rt]: "links_info_of (links_info_json x) = Some x"
  by (simp add: links_info_of_def links_info_json_def json_rt)

lemma page_metadata_rt [json_rt]: "page_metadata_of (page_metadata_json x) = Some x"
  by (simp add: page_metadata_of_def page_metadata_json_def json_rt)

lemma ssl_certificate_rt [json_rt]: "ssl_certificate_of (ssl_certificate_json x) = Some x"
  by (simp add: ssl_certificate_of_def ssl_certificate_json_def json_rt)

lemma dispatch_result_rt [json_rt]: "dispatch_result_of (dispatch_result_json x) = Some x"
  by (simp add: dispatch_result_of_def dispatch_result_json_def json_rt)

lemma crawl_result_rt [json_rt]: "crawl_result_of (crawl_result_json x) = Some x"
  by (simp add: crawl_result_of_def crawl_result_json_def json_rt)

lemma health_response_rt [json_rt]: "health_response_of (health_response_json x) = Some x"
  by (simp add: health_response_of_def health_response_json_def json_rt)

lemma token_response_rt [json_rt]: "token_response_of (token_response_json x) = Some x"
  by (simp add: token_response_of_def token_response_json_def json_rt)

lemma loc_item_rt [json_rt]: "loc_item_of (loc_item_json l) = Some l"
  by (cases l) (simp_all add: loc_item_of_def loc_item_json_def)

lemma validation_detail_rt [json_rt]: "validation_detail_of (validation_detail_json x) = Some x"
  by (simp add: validation_detail_of_def validation_detail_json_def json_rt)

lemma validation_error_rt [json_rt]: "validation_error_of (validation_error_json x) = Some x"
  by (simp add: validation_error_of_def validation_error_json_def json_rt)

end
