(* ===== verification/Wire.thy ===== *)
theory Wire
  imports Api Results
begin

text \<open>
  The typed requests and responses of \<open>Types\<close> and \<open>Results\<close> at the
  methods of \<open>Api\<close>: the object \<open>crawl\<close> and \<open>markdown\<close> stringify for a
  typed request, read back field for field, and what \<open>version\<close> returns for a
  body that is a \<open>HealthResponse\<close>.
\<close>

section \<open>Typed requests\<close>

text \<open>A \<open>CrawlRequest\<close> as the caller writes it: \<open>urls\<close> first, then the
  other properties in declaration order.\<close>

definition typed_crawl_request :: "urls_arg \<Rightarrow> crawl_options \<Rightarrow> crawl_request" where
  "typed_crawl_request u opts = \<lparr>cr_urls = u, cr_rest = crawl_options_entries opts\<rparr>"

text \<open>\<open>normalizedRequest = {...request, urls}\<close> (sdk.ts lines 397-400), the
  object \<open>crawl\<close> passes to \<open>JSON.stringify\<close>.\<close>

definition crawl_object :: "crawl_request \<Rightarrow> jsval" where
  "crawl_object req = JObj ((''urls'', JArr (map JStr (crawl_urls (cr_urls req)))) # cr_rest req)"

definition crawl_request_of :: "jsval \<Rightarrow> (string list \<times> crawl_options) option" where
  "crawl_request_of v =
     (case v of
        JObj kvs \<Rightarrow> do { us \<leftarrow> req_prop kvs ''urls'' (as_list as_str); opts \<leftarrow> crawl_options_of kvs; Some (us, opts) }
      | _ \<Rightarrow> None)"

definition typed_markdown_request :: "string \<Rightarrow> markdown_options \<Rightarrow> markdown_request" where
  "typed_markdown_request url opts = \<lparr>md_url = url, md_rest = markdown_options_entries opts\<rparr>"

text \<open>The request object \<open>markdown\<close> passes to \<open>JSON.stringify\<close>.\<close>

definition markdown_object :: "markdown_request \<Rightarrow> jsval" where
  "markdown_object req = JObj ((''url'', JStr (md_url req)) # md_rest req)"

definition markdown_request_of :: "jsval \<Rightarrow> (string \<times> markdown_options) option" where
  "markdown_request_of v =
     (case v of
        JObj kvs \<Rightarrow> do { u \<leftarrow> req_prop kvs ''url'' as_str; opts \<leftarrow> markdown_options_of kvs; Some (u, opts) }
      | _ \<Rightarrow> None)"

section \<open>Lemmas\<close>

lemma obj_get_Cons_other: "k' \<noteq> k \<Longrightarrow> obj_get ((k', v) # kvs) k = obj_get kvs k"
  by (simp add: obj_get_def map_add_def split: option.split)

lemma obj_get_Cons_same:
  "obj_get ((k, v) # kvs) k = (case obj_get kvs k of Some w \<Rightarrow> Some w | None \<Rightarrow> Some v)"
  by (simp add: obj_get_def map_add_def split: option.split)

lemma crawl_body_object: "crawl_body req = json_str (crawl_object req)"
  by (simp add: crawl_body_def crawl_object_def)

lemma markdown_body_object:
  "json_str (JObj ((''url'', JStr (md_url req)) # md_rest req)) = json_str (markdown_object req)"
  by (simp add: markdown_object_def)

text \<open>The object \<open>crawl\<close> sends for a typed request holds the addresses as
  a list and every option the caller gave, and nothing else.\<close>

lemma crawl_object_rt:
  "crawl_request_of (crawl_object (typed_crawl_request u opts)) = Some (crawl_urls u, opts)"
  by (simp add: crawl_request_of_def crawl_object_def typed_crawl_request_def crawl_options_of_def
      crawl_options_entries_def obj_get_Cons_other obj_get_Cons_same json_rt)

lemma markdown_object_rt:
  "markdown_request_of (markdown_object (typed_markdown_request url opts)) = Some (url, opts)"
  by (simp add: markdown_request_of_def markdown_object_def typed_markdown_request_def markdown_options_of_def
      markdown_options_entries_def obj_get_Cons_other obj_get_Cons_same json_rt)

text \<open>\<open>version()\<close> on a body that is a \<open>HealthResponse\<close>: its version, or
  \<open>'unknown'\<close> when that is the empty string.\<close>

lemma version_health_response:
  assumes "health cfg no_config ev = Some (Inr (health_response_json h), lg)"
  shows "version cfg throwOnError ev =
           Some (Inr (JStr (if hr_version h = [] then ''unknown'' else hr_version h)), lg)"
  using assms
  by (simp add: version_def health_response_json_def js_member_def js_prop_def)

end
