(* ===== verification/Script.thy ===== *)
theory Script
  imports Wire Client
begin

text \<open>
  What the example scripts need beyond the client: a script run as a value
  (the thrown error or the result, with what it wrote to the console, or
  \<open>None\<close> when an awaited call never settles), sequencing with \<open>await\<close>,
  \<open>try\<close>/\<open>catch\<close>, and the few JavaScript operations the scripts apply to
  the values the client returns (indexing, \<open>?.\<close>, \<open>length\<close>, \<open>slice\<close>,
  iteration). A console call keeps its arguments as values; how Node.js
  prints them is not modelled. With \<open>debug: true\<close> the client's log lines
  are console calls too, in the order they are made.
\<close>

section \<open>Script runs\<close>

datatype carg = CVal jsval | CErr exn

datatype console_call = Log "carg list" | Err "carg list"

type_synonym 'a run = "((exn + 'a) \<times> console_call list) option"

definition run_bind :: "'a run \<Rightarrow> ('a \<Rightarrow> 'b run) \<Rightarrow> 'b run" where
  "run_bind m f =
     (case m of
        None \<Rightarrow> None
      | Some (Inl e, out) \<Rightarrow> Some (Inl e, out)
      | Some (Inr a, out) \<Rightarrow> map_option (\<lambda>(r, out'). (r, out @ out')) (f a))"

definition run_return :: "'a \<Rightarrow> 'a run" where
  "run_return a = Some (Inr a, [])"

definition run_throw :: "exn \<Rightarrow> 'a run" where
  "run_throw e = Some (Inl e, [])"

definition run_sum :: "exn + 'a \<Rightarrow> 'a run" where
  "run_sum r = Some (r, [])"

definition say :: "console_call \<Rightarrow> unit run" where
  "say c = Some (Inr (), [c])"

text \<open>\<open>try { body } catch (error) { handler }\<close>.\<close>

definition run_catch :: "'a run \<Rightarrow> (exn \<Rightarrow> 'a run) \<Rightarrow> 'a run" where
  "run_catch m h =
     (case m of
        Some (Inl e, out) \<Rightarrow> map_option (\<lambda>(r, out'). (r, out @ out')) (h e)
      | _ \<Rightarrow> m)"

text \<open>The client's debug log line \<open>console.log('[Crawl4AI] ' + message, data)\<close>.\<close>

definition debug_call :: "log_entry \<Rightarrow> console_call" where
  "debug_call l = Log [CVal (JStr (fst l)), CVal (snd l)]"

text \<open>\<open>await\<close> of a method that retries, and of one that calls \<open>request\<close>
  once.\<close>

definition await_call :: "'a call_result \<Rightarrow> 'a run" where
  "await_call r = map_option (\<lambda>(res, tr). (res, map debug_call (rt_logs tr))) r"

definition await_req :: "((exn + 'a) \<times> log_entry list) option \<Rightarrow> 'a run" where
  "await_req r = map_option (\<lambda>(res, lg). (res, map debug_call lg)) r"

text \<open>\<open>for (const x of xs) body\<close>: a value that is not iterable throws.\<close>

fun run_each :: "('a \<Rightarrow> unit run) \<Rightarrow> 'a list \<Rightarrow> unit run" where
  "run_each f [] = run_return ()"
| "run_each f (x # xs) = run_bind (f x) (\<lambda>_. run_each f xs)"

section \<open>JavaScript operations on results\<close>

definition type_error :: "string \<Rightarrow> exn" where
  "type_error m = JsError ''TypeError'' m"

text \<open>\<open>v?.k\<close>: \<open>undefined\<close> on \<open>null\<close> and \<open>undefined\<close>.\<close>

definition opt_member :: "jsval \<Rightarrow> string \<Rightarrow> jsval" where
  "opt_member v k = (if v = JUndef \<or> v = JNull then JUndef else js_prop v k)"

text \<open>\<open>v[i]\<close> for an index.\<close>

definition js_index :: "jsval \<Rightarrow> nat \<Rightarrow> exn + jsval" where
  "js_index v i =
     (case v of
        JUndef \<Rightarrow> Inl (type_error ''Cannot read properties of undefined'')
      | JNull \<Rightarrow> Inl (type_error ''Cannot read properties of null'')
      | JArr xs \<Rightarrow> Inr (if i < length xs then xs ! i else JUndef)
      | JStr s \<Rightarrow> Inr (if i < length s then JStr [s ! i] else JUndef)
      | _ \<Rightarrow> Inr JUndef)"

definition js_length :: "jsval \<Rightarrow> exn + jsval" where
  "js_length v =
     (case v of
        JUndef \<Rightarrow> Inl (type_error ''Cannot read properties of undefined (reading length)'')
      | JNull \<Rightarrow> Inl (type_error ''Cannot read properties of null (reading length)'')
      | JArr xs \<Rightarrow> Inr (JNum (JFin (of_nat (length xs))))
      | JStr s \<Rightarrow> Inr (JNum (JFin (of_nat (length s))))
      | _ \<Rightarrow> Inr JUndef)"

text \<open>\<open>v.slice(0, n)\<close>: strings and arrays have it; on \<open>null\<close> and
  \<open>undefined\<close> the read throws, on other values the call does.\<close>

definition js_slice :: "jsval \<Rightarrow> nat \<Rightarrow> exn + jsval" where
  "js_slice v n =
     (case v of
        JStr s \<Rightarrow> Inr (JStr (take n s))
      | JArr xs \<Rightarrow> Inr (JArr (take n xs))
      | JUndef \<Rightarrow> Inl (type_error ''Cannot read properties of undefined (reading slice)'')
      | JNull \<Rightarrow> Inl (type_error ''Cannot read properties of null (reading slice)'')
      | _ \<Rightarrow> Inl (type_error ''slice is not a function''))"

text \<open>\<open>v?.slice(0, n)\<close>.\<close>

definition opt_slice :: "jsval \<Rightarrow> nat \<Rightarrow> exn + jsval" where
  "opt_slice v n = (if v = JUndef \<or> v = JNull then Inr JUndef else js_slice v n)"

text \<open>The values \<open>for ... of\<close> and \<open>forEach\<close> visit: the elements of an
  array; on anything else the loop throws the given \<open>TypeError\<close>.\<close>

definition js_elems :: "string \<Rightarrow> jsval \<Rightarrow> exn + jsval list" where
  "js_elems msg v = (case v of JArr xs \<Rightarrow> Inr xs | _ \<Rightarrow> Inl (type_error msg))"

text \<open>\<open>v?.join(sep)\<close>.\<close>

definition opt_join :: "jsval \<Rightarrow> string \<Rightarrow> exn + jsval" where
  "opt_join v sep =
     (case v of
        JUndef \<Rightarrow> Inr JUndef | JNull \<Rightarrow> Inr JUndef
      | JArr xs \<Rightarrow> Inr (JStr (js_join sep xs))
      | _ \<Rightarrow> Inl (type_error ''join is not a function''))"

text \<open>Template literal substitution \<open>${v}\<close>: \<open>String(v)\<close>.\<close>

definition tmpl :: "jsval \<Rightarrow> string" where
  "tmpl v = js_String v"

text \<open>Non-ASCII characters of the scripts' strings, as UTF-8 bytes.\<close>

definition check_mark :: string where "check_mark = [CHR 0xE2, CHR 0x9C, CHR 0x93]"
definition heavy_check_mark :: string where "heavy_check_mark = [CHR 0xE2, CHR 0x9C, CHR 0x85]"
definition cross_mark :: string where "cross_mark = [CHR 0xE2, CHR 0x9D, CHR 0x8C]"

text \<open>\<open>Object.entries(v)\<close> of a truthy value.\<close>

definition js_entries :: "jsval \<Rightarrow> (string \<times> jsval) list" where
  "js_entries v =
     (case v of
        JObj kvs \<Rightarrow> kvs
      | JArr xs \<Rightarrow> zip (map nat_str [0..<length xs]) xs
      | JStr s \<Rightarrow> zip (map nat_str [0..<length s]) (map (\<lambda>c. JStr [c]) s)
      | _ \<Rightarrow> [])"

text \<open>\<open>a + b\<close> where \<open>b\<close> is a string.\<close>

definition js_concat :: "jsval \<Rightarrow> string \<Rightarrow> jsval" where
  "js_concat a s = JStr (js_String a @ s)"

declare run_bind_def [js_eval] run_return_def [js_eval] run_throw_def [js_eval] run_sum_def [js_eval]
  say_def [js_eval] run_catch_def [js_eval] debug_call_def [js_eval] await_call_def [js_eval]
  await_req_def [js_eval] type_error_def [js_eval] opt_member_def [js_eval] js_index_def [js_eval]
  js_length_def [js_eval] js_slice_def [js_eval] opt_slice_def [js_eval] js_elems_def [js_eval]
  js_entries_def [js_eval] js_concat_def [js_eval] opt_join_def [js_eval] tmpl_def [js_eval]

section \<open>Lemmas\<close>

lemma run_bind_simps [simp]:
  "run_bind None f = None"
  "run_bind (Some (Inl e, out)) f = Some (Inl e, out)"
  "run_bind (Some (Inr a, out)) f = map_option (\<lambda>(r, out'). (r, out @ out')) (f a)"
  by (simp_all add: run_bind_def)

lemma run_catch_simps [simp]:
  "run_catch None h = None"
  "run_catch (Some (Inl e, out)) h = map_option (\<lambda>(r, out'). (r, out @ out')) (h e)"
  "run_catch (Some (Inr a, out)) h = Some (Inr a, out)"
  by (simp_all add: run_catch_def)

lemma run_bind_assoc: "run_bind (run_bind m f) g = run_bind m (\<lambda>a. run_bind (f a) g)"
proof (cases m)
  case (Some p)
  obtain r out where p: "p = (r, out)" by (cases p)
  show ?thesis
  proof (cases r)
    case (Inr a)
    then show ?thesis
      using Some p by (cases "f a") (auto simp: run_bind_def option.map_comp comp_def case_prod_unfold
          split: option.split sum.split)
  qed (simp add: Some p)
qed simp

text \<open>A run that throws keeps the error through every later step.\<close>

lemma run_bind_throw [simp]: "run_bind (run_throw e) f = run_throw e"
  by (simp add: run_throw_def)

lemma map_option_out_id [simp]: "map_option (\<lambda>(r, out). (r, out)) x = x"
  by (cases x) auto

lemma run_each_append:
  "run_each f (xs @ ys) = run_bind (run_each f xs) (\<lambda>_. run_each f ys)"
  by (induction xs) (simp_all add: run_return_def run_bind_assoc option.map_id)

end
