(* ===== verification/Examples.thy ===== *)
theory Examples
  imports Script
begin

text \<open>
  The basic example (\<open>src/unnamed/part_004\<close>, lines 1-72, \<open>examples/basic.ts\<close>)
  and the \<open>llm\<close> smoke script (\<open>src/unnamed/part_006\<close>) as script runs over
  an environment that gives every awaited call its network events: call
  \<open>k\<close> of the script sees \<open>env k\<close> (attempt by attempt for the methods that
  retry, \<open>env k 0\<close> for those that call \<open>request\<close> once). The URL parser is
  again \<open>url_ok\<close>. The example calls \<open>client.screenshot\<close>, which the client
  does not have: the call throws a \<open>TypeError\<close> at run time.
\<close>

type_synonym script_env = "nat \<Rightarrow> nat \<Rightarrow> net_event"

definition nl :: "string \<Rightarrow> string" where
  "nl s = CHR 0x0A # s"

section \<open>The basic example (part_004)\<close>

definition basic_config :: c4_config where
  "basic_config = (base_config ''https://example.com'')\<lparr>in_timeout := Given (JFin 30000), in_debug := Given True\<rparr>"

text \<open>\<open>{}\<close> for the two configuration objects, filled in below.\<close>

definition no_browser_config :: browser_config where
  "no_browser_config = \<lparr>bc_headless = None, bc_browser_type = None, bc_user_agent = None, bc_proxy = None,
     bc_page_timeout = None, bc_verbose = None, bc_simulate_user = None, bc_magic = None,
     bc_override_navigator = None, bc_user_data_dir = None, bc_use_managed_browser = None, bc_viewport = None,
     bc_headers = None, bc_cookies = None, bc_extra_args = None, bc_ignore_https_errors = None,
     bc_java_script_enabled = None, bc_accept_downloads = None, bc_downloads_path = None\<rparr>"

definition no_crawler_run_config :: crawler_run_config where
  "no_crawler_run_config = \<lparr>crc_word_count_threshold = None, crc_extraction_strategy = None,
     crc_chunking_strategy = None, crc_css_selector = None, crc_screenshot = None, crc_pdf = None,
     crc_cache_mode = None, crc_bypass_cache = None, crc_disable_cache = None, crc_no_cache_read = None,
     crc_no_cache_write = None, crc_log_console = None, crc_stream = None, crc_warmup = None, crc_js_code = None,
     crc_js_only = None, crc_wait_for = None, crc_page_timeout = None, crc_delay_before_return_html = None,
     crc_remove_overlay_elements = None, crc_mean_delay = None, crc_max_range = None, crc_semaphore_count = None,
     crc_base_delay = None, crc_random_delay = None, crc_ignore_robots_txt = None, crc_anti_bot = None,
     crc_light_mode = None, crc_extra = None\<rparr>"

definition no_crawl_options :: crawl_options where
  "no_crawl_options = \<lparr>co_browser_config = None, co_crawler_config = None, co_session_id = None,
     co_priority = None, co_ttl = None, co_extra = None\<rparr>"

text \<open>Lines 27-37.\<close>

definition basic_crawl_request :: crawl_request where
  "basic_crawl_request = typed_crawl_request (OneUrl ''https://example.com'')
     (no_crawl_options\<lparr>co_browser_config := Some (no_browser_config\<lparr>bc_headless := Some True,
                           bc_viewport := Some \<lparr>vp_width = JFin 1920, vp_height = JFin 1080\<rparr>\<rparr>),
                       co_crawler_config := Some (no_crawler_run_config\<lparr>crc_cache_mode := Some CacheBypass,
                           crc_word_count_threshold := Some (JFin 10)\<rparr>)\<rparr>)"

text \<open>Lines 47-50: the filter is passed as \<open>f\<close>, a key \<open>MarkdownRequest\<close>
  does not have.\<close>

definition basic_markdown_request :: markdown_request where
  "basic_markdown_request = \<lparr>md_url = ''https://example.com'', md_rest = [(''f'', JStr ''fit'')]\<rparr>"

text \<open>Steps 3 and 4 (lines 53-65), reached only if the screenshot call does
  not throw.\<close>

definition basic_health_step :: "client_config \<Rightarrow> script_env \<Rightarrow> unit run" where
  "basic_health_step cfg env =
     run_bind (say (Log [CVal (JStr (nl ''4. Health check:''))])) (\<lambda>_.
     run_bind (await_req (health cfg no_config (env 3 0))) (\<lambda>h.
     run_bind (run_sum (js_member h ''status'')) (\<lambda>st.
     run_bind (say (Log [CVal (JStr ''API Status:''), CVal st])) (\<lambda>_.
     run_bind (run_sum (js_member h ''version'')) (\<lambda>v.
     say (Log [CVal (JStr ''API Version:''), CVal v]))))))"

definition basic_screenshot_step :: "client_config \<Rightarrow> script_env \<Rightarrow> unit run" where
  "basic_screenshot_step cfg env =
     run_bind (say (Log [CVal (JStr (nl ''3. Screenshot capture:''))])) (\<lambda>_.
     run_bind (run_throw (type_error ''client.screenshot is not a function'') :: jsval run) (\<lambda>screenshot.
     run_bind (run_sum (js_length screenshot)) (\<lambda>len.
     run_bind (say (Log [CVal (JStr ''Screenshot captured, base64 length:''), CVal len])) (\<lambda>_.
     basic_health_step cfg env))))"

text \<open>Steps 1 and 2 (lines 25-51): \<open>results[0]\<close> is read without checking
  that the array is not empty.\<close>

definition basic_crawl_step :: "(string \<Rightarrow> bool) \<Rightarrow> client_config \<Rightarrow> script_env \<Rightarrow> unit run" where
  "basic_crawl_step url_ok cfg env =
     run_bind (say (Log [CVal (JStr (nl ''1. Basic crawl example:''))])) (\<lambda>_.
     run_bind (await_call (crawl url_ok cfg basic_crawl_request no_config (env 1))) (\<lambda>results.
     run_bind (run_sum (js_index results 0)) (\<lambda>result.
     run_bind (run_sum (js_member result ''url'')) (\<lambda>u.
     run_bind (say (Log [CVal (JStr ''URL:''), CVal u])) (\<lambda>_.
     run_bind (run_sum (js_member result ''success'')) (\<lambda>s.
     run_bind (say (Log [CVal (JStr ''Success:''), CVal s])) (\<lambda>_.
     run_bind (run_sum (js_member result ''metadata'')) (\<lambda>md.
     run_bind (say (Log [CVal (JStr ''Title:''), CVal (opt_member md ''title'')])) (\<lambda>_.
     run_bind (run_sum (js_member result ''markdown'')) (\<lambda>mk.
     run_bind (run_sum (opt_slice mk 200)) (\<lambda>pv.
     run_bind (say (Log [CVal (JStr ''Content preview:''), CVal (js_concat pv ''...'')])) (\<lambda>_.
     run_bind (say (Log [CVal (JStr (nl ''2. Markdown extraction:''))])) (\<lambda>_.
     run_bind (await_call (markdown url_ok cfg basic_markdown_request no_config (env 2))) (\<lambda>m.
     run_bind (run_sum (js_length m)) (\<lambda>len.
     run_bind (say (Log [CVal (JStr ''Markdown length:''), CVal len])) (\<lambda>_.
     basic_screenshot_step cfg env))))))))))))))))"

text \<open>The \<open>try\<close> block (lines 15-65).\<close>

definition basic_try :: "(string \<Rightarrow> bool) \<Rightarrow> client_config \<Rightarrow> script_env \<Rightarrow> unit run" where
  "basic_try url_ok cfg env =
     run_bind (await_req (testConnection cfg False (env 0 0))) (\<lambda>isConnected.
     run_bind (say (Log [CVal (JStr ''Connection status:''), CVal (JStr (if isConnected then ''Connected'' else ''Failed''))])) (\<lambda>_.
     if \<not> isConnected then say (Err [CVal (JStr ''Failed to connect to Crawl4AI server'')])
     else basic_crawl_step url_ok cfg env))"

text \<open>\<open>main\<close> (lines 7-69) and \<open>main().catch(console.error)\<close> (line 72): the
  constructor runs before the \<open>try\<close>.\<close>

definition basic_main :: "(string \<Rightarrow> bool) \<Rightarrow> script_env \<Rightarrow> unit run" where
  "basic_main url_ok env =
     (case Crawl4AI_new url_ok basic_config of
        Inl e \<Rightarrow> run_throw e
      | Inr cfg \<Rightarrow> run_catch (basic_try url_ok cfg env) (\<lambda>error. say (Err [CVal (JStr ''Error:''), CErr error])))"

definition basic_script :: "(string \<Rightarrow> bool) \<Rightarrow> script_env \<Rightarrow> unit run" where
  "basic_script url_ok env = run_catch (basic_main url_ok env) (\<lambda>e. say (Err [CErr e]))"

section \<open>The llm smoke script (part_006)\<close>

definition llm_script_config :: c4_config where
  "llm_script_config = (base_config ''https://c4.kaste.lol'')\<lparr>in_debug := Given True\<rparr>"

text \<open>\<open>testLlm\<close> (lines 10-24).\<close>

definition testLlm :: "(string \<Rightarrow> bool) \<Rightarrow> client_config \<Rightarrow> (nat \<Rightarrow> net_event) \<Rightarrow> unit run" where
  "testLlm url_ok cfg net =
     run_catch
       (run_bind (say (Log [CVal (JStr (nl ''Testing llm() method...''))])) (\<lambda>_.
        run_bind (await_call (llm url_ok cfg ''https://example.com'' ''What is the main heading on this page?''
                                 no_config net)) (\<lambda>answer.
        run_bind (say (Log [CVal (JStr (heavy_check_mark @ '' llm() method working correctly''))])) (\<lambda>_.
        run_bind (say (Log [CVal (JStr ''Answer:''), CVal answer])) (\<lambda>_.
        run_bind (run_sum (js_length answer)) (\<lambda>len.
        say (Log [CVal (JStr ''Answer length:''), CVal len, CVal (JStr ''chars'')])))))))
       (\<lambda>error. say (Err [CVal (JStr (cross_mark @ '' llm() method failed:'')), CErr error]))"

text \<open>The module (lines 1-26): the client is built at load time.\<close>

definition llm_script :: "(string \<Rightarrow> bool) \<Rightarrow> (nat \<Rightarrow> net_event) \<Rightarrow> unit run" where
  "llm_script url_ok net =
     (case Crawl4AI_new url_ok llm_script_config of Inl e \<Rightarrow> run_throw e | Inr cfg \<Rightarrow> testLlm url_ok cfg net)"

section \<open>Lemmas\<close>

text \<open>A run that cannot complete normally.\<close>

definition never_ok :: "'a run \<Rightarrow> bool" where
  "never_ok m = (case m of Some (Inr _, _) \<Rightarrow> False | _ \<Rightarrow> True)"

lemma never_ok_throw: "never_ok (run_throw e)"
  by (simp add: never_ok_def run_throw_def)

lemma never_ok_bind:
  assumes "\<And>a. never_ok (f a)"
  shows "never_ok (run_bind m f)"
proof (cases m)
  case (Some p)
  obtain r out where p: "p = (r, out)" by (cases p)
  show ?thesis
  proof (cases r)
    case (Inr a)
    with assms [of a] show ?thesis
      using Some p by (cases "f a") (auto simp: never_ok_def split: sum.splits)
  qed (simp add: Some p never_ok_def)
qed (simp add: never_ok_def)

lemma never_ok_bind_throw: "never_ok (run_bind (run_throw e) f)"
  by (simp add: never_ok_throw)

lemma never_ok_prefix [simp]: "never_ok (map_option (\<lambda>(r, out'). (r, pre @ out')) m) = never_ok m"
  by (auto simp: never_ok_def split: option.splits sum.splits)

lemma basic_screenshot_never_ok: "never_ok (basic_screenshot_step cfg env)"
  unfolding basic_screenshot_step_def
  by (intro never_ok_bind never_ok_bind_throw)

lemma basic_crawl_never_ok: "never_ok (basic_crawl_step url_ok cfg env)"
  unfolding basic_crawl_step_def
  by (intro never_ok_bind basic_screenshot_never_ok)

text \<open>The keys \<open>f\<close> and \<open>q\<close> the examples pass to \<open>markdown\<close> are not
  properties of \<open>MarkdownRequest\<close>: read as one, the request has no filter
  and no query.\<close>

lemma examples_markdown_keys_ignored:
  "markdown_request_of (markdown_object basic_markdown_request) =
     Some (''https://example.com'', \<lparr>mo_filter = None, mo_query = None, mo_cache = None\<rparr>)"
  by (simp add: markdown_request_of_def markdown_object_def basic_markdown_request_def markdown_options_of_def
      req_prop_def opt_prop_def dec_opt_def obj_get_def as_str_def)

text \<open>Once connected, the basic example never completes its \<open>try\<close> block: it
  throws, at the latest at the screenshot call, or waits forever; the health
  check of step 4 is dead code.\<close>

lemma basic_try_connected_never_ok:
  assumes "testConnection cfg False (env 0 0) = Some (Inr True, lg)"
  shows "never_ok (basic_try url_ok cfg env)"
  using assms unfolding basic_try_def
  by (simp add: await_req_def) (intro never_ok_bind basic_crawl_never_ok)

end
