(* ===== verification/Examples_Advanced.thy ===== *)
theory Examples_Advanced
  imports Examples
begin

text \<open>
  \<open>src/examples/advanced.ts\<close>: five steps in one \<open>try\<close> block (batch
  crawl, CSS extraction, script execution, custom headers, error handling),
  each a definition below, over the same environment of network events as
  the basic example (call \<open>k\<close> sees \<open>env k\<close>). \<open>JSON.parse\<close> is the
  parameter \<open>json_parse\<close>. The extraction step reads \<open>newsResults[0]\<close>
  without checking that the crawl returned anything.
\<close>

definition dq :: "string \<Rightarrow> string" where
  "dq s = CHR 0x22 # s @ [CHR 0x22]"

definition css_field :: "string \<Rightarrow> string \<Rightarrow> css_field_kind \<Rightarrow> css_extraction_field" where
  "css_field n sel k = \<lparr>cef_name = n, cef_selector = sel, cef_type = k, cef_attribute = None,
     cef_multiple = None, cef_transform = None\<rparr>"

section \<open>Step 1: batch crawl (lines 15-30)\<close>

definition adv_urls :: "string list" where
  "adv_urls = [''https://example.com'', ''https://example.org'', ''https://example.net'']"

text \<open>One line per result, and its error when it failed with a message.\<close>

definition adv_report :: "jsval \<Rightarrow> unit run" where
  "adv_report result =
     run_bind (run_sum (js_member result ''url'')) (\<lambda>u.
     run_bind (run_sum (js_member result ''success'')) (\<lambda>s.
     run_bind (say (Log [CVal (JStr (check_mark @ '' Completed: '' @ tmpl u @ '' - Success: '' @ tmpl s))])) (\<lambda>_.
     run_bind (run_sum (js_member result ''success'')) (\<lambda>s'.
     if \<not> js_truthy s' then
       run_bind (run_sum (js_member result ''error_message'')) (\<lambda>em.
       if js_truthy em then say (Log [CVal (JStr (''  Error: '' @ tmpl em))]) else run_return ())
     else run_return ()))))"

definition adv_step1 :: "(string \<Rightarrow> bool) \<Rightarrow> client_config \<Rightarrow> script_env \<Rightarrow> unit run" where
  "adv_step1 url_ok cfg env =
     run_bind (say (Log [CVal (JStr ''1. Batch crawl example:'')])) (\<lambda>_.
     run_bind (say (Log [CVal (JStr (''Crawling '' @ nat_str (length adv_urls) @ '' URLs...''))])) (\<lambda>_.
     run_bind (await_call (crawl url_ok cfg (typed_crawl_request (ManyUrls adv_urls) no_crawl_options) no_config (env 1)))
       (\<lambda>results.
     run_bind (run_sum (js_elems ''results is not iterable'' results)) (\<lambda>rs.
     run_each adv_report rs))))"

section \<open>Step 2: CSS extraction (lines 32-80)\<close>

definition hn_schema :: css_extraction_schema where
  "hn_schema = \<lparr>ces_name = None, ces_baseSelector = ''.athing'',
     ces_fields = [css_field ''title'' ''.titleline > a'' CssText, css_field ''url'' ''.titleline > a'' CssHref,
                   css_field ''score'' ''+ tr .score'' CssText,
                   css_field ''comments'' ''+ tr .subline > a:last-child'' CssText]\<rparr>"

definition hn_request :: crawl_request where
  "hn_request = typed_crawl_request (OneUrl ''https://news.ycombinator.com'')
     (no_crawl_options\<lparr>co_crawler_config := Some (no_crawler_run_config\<lparr>crc_extraction_strategy := Some (JsonCss hn_schema)\<rparr>)\<rparr>)"

definition adv_post :: "nat \<Rightarrow> jsval \<Rightarrow> unit run" where
  "adv_post i post =
     run_bind (say (Log [CVal (JStr (nl (''Post '' @ nat_str (Suc i) @ '':'')))])) (\<lambda>_.
     run_bind (run_sum (js_member post ''title'')) (\<lambda>t.
     run_bind (say (Log [CVal (JStr (''  Title: '' @ tmpl t))])) (\<lambda>_.
     run_bind (run_sum (js_member post ''url'')) (\<lambda>u.
     run_bind (say (Log [CVal (JStr (''  URL: '' @ tmpl u))])) (\<lambda>_.
     run_bind (run_sum (js_member post ''score'')) (\<lambda>sc.
     run_bind (say (Log [CVal (JStr (''  Score: '' @ tmpl sc))])) (\<lambda>_.
     run_bind (run_sum (js_member post ''comments'')) (\<lambda>c.
     say (Log [CVal (JStr (''  Comments: '' @ tmpl c))])))))))))"

definition adv_step2 :: "(string \<Rightarrow> bool) \<Rightarrow> (string \<Rightarrow> exn + jsval) \<Rightarrow> client_config \<Rightarrow> script_env \<Rightarrow> unit run" where
  "adv_step2 url_ok json_parse cfg env =
     run_bind (say (Log [CVal (JStr (nl ''2. CSS Selector extraction from Hacker News:''))])) (\<lambda>_.
     run_bind (await_call (crawl url_ok cfg hn_request no_config (env 2))) (\<lambda>newsResults.
     run_bind (run_sum (js_index newsResults 0)) (\<lambda>first.
     run_bind (run_sum (js_member first ''extracted_content'')) (\<lambda>ec.
     if js_truthy ec then
       run_bind (run_sum (json_parse (js_String ec))) (\<lambda>posts.
       run_bind (run_sum (js_length posts)) (\<lambda>n.
       run_bind (say (Log [CVal (JStr (''Extracted '' @ tmpl n @ '' posts''))])) (\<lambda>_.
       run_bind (run_sum (js_slice posts 3)) (\<lambda>top.
       run_bind (run_sum (js_elems ''posts.slice(...).forEach is not a function'' top)) (\<lambda>ps.
       run_each (\<lambda>(i, post). adv_post i post) (zip [0..<length ps] ps))))))
     else run_return ()))))"

section \<open>Step 3: script execution (lines 82-103)\<close>

definition adv_scripts :: "string list" where
  "adv_scripts =
     [''return document.title;'',
      ''return document.querySelectorAll('' @ dq ''a'' @ '').length;'',
      ''return Array.from(document.querySelectorAll('' @ dq ''h1'' @ '')).map(h => h.textContent);'',
      ''window.scrollTo(0, document.body.scrollHeight); return '' @ dq ''Scrolled to bottom'' @ '';'']"

definition adv_step3 :: "(string \<Rightarrow> bool) \<Rightarrow> client_config \<Rightarrow> script_env \<Rightarrow> unit run" where
  "adv_step3 url_ok cfg env =
     run_bind (say (Log [CVal (JStr (nl ''3. JavaScript execution example:''))])) (\<lambda>_.
     run_bind (await_call (executeJs url_ok cfg \<lparr>ej_url = ''https://example.com'', ej_scripts = adv_scripts\<rparr>
                             no_config (env 3))) (\<lambda>jsResult.
     run_bind (run_sum (js_member jsResult ''js_execution_result'')) (\<lambda>jr.
     if js_truthy jr then
       run_bind (say (Log [CVal (JStr ''JavaScript execution results:'')])) (\<lambda>_.
       run_each (\<lambda>(k, v). say (Log [CVal (JStr (''  '' @ k @ '': '' @ json_str v))])) (js_entries jr))
     else run_return ())))"

section \<open>Step 4: custom headers (lines 105-126)\<close>

definition headers_request :: crawl_request where
  "headers_request = typed_crawl_request (ManyUrls [''https://httpbin.org/headers'', ''https://httpbin.org/user-agent''])
     (no_crawl_options\<lparr>
        co_browser_config := Some (no_browser_config\<lparr>
          bc_headers := Some [(''X-Custom-Header'', ''Crawl4AI-SDK''), (''Accept-Language'', ''en-US,en;q=0.9'')],
          bc_user_agent := Some ''Crawl4AI-SDK/2.0.0''\<rparr>),
        co_crawler_config := Some (no_crawler_run_config\<lparr>crc_cache_mode := Some CacheDisabled\<rparr>)\<rparr>)"

definition adv_preview :: "jsval \<Rightarrow> unit run" where
  "adv_preview result =
     run_bind (run_sum (js_member result ''url'')) (\<lambda>u.
     run_bind (say (Log [CVal (JStr (nl (''URL: '' @ tmpl u)))])) (\<lambda>_.
     run_bind (run_sum (js_member result ''success'')) (\<lambda>s.
     if js_truthy s then
       run_bind (run_sum (js_member result ''markdown'')) (\<lambda>m.
       if js_truthy m then
         run_bind (run_sum (js_slice m 200)) (\<lambda>pv. say (Log [CVal (JStr ''Response preview:''), CVal pv]))
       else run_return ())
     else run_return ())))"

definition adv_step4 :: "(string \<Rightarrow> bool) \<Rightarrow> client_config \<Rightarrow> script_env \<Rightarrow> unit run" where
  "adv_step4 url_ok cfg env =
     run_bind (say (Log [CVal (JStr (nl ''4. Batch crawling with custom headers:''))])) (\<lambda>_.
     run_bind (await_call (crawl url_ok cfg headers_request no_config (env 4))) (\<lambda>batchResults.
     run_bind (run_sum (js_elems ''batchResults.forEach is not a function'' batchResults)) (\<lambda>rs.
     run_each adv_preview rs)))"

section \<open>Step 5: error handling (lines 128-143)\<close>

definition err_status_val :: "c4_error \<Rightarrow> jsval" where
  "err_status_val e = (case err_status e of Some s \<Rightarrow> JNum (JFin (of_int s)) | None \<Rightarrow> JUndef)"

definition err_statusText_val :: "c4_error \<Rightarrow> jsval" where
  "err_statusText_val e = (case err_statusText e of Some s \<Rightarrow> JStr s | None \<Rightarrow> JUndef)"

definition adv_handler :: "exn \<Rightarrow> unit run" where
  "adv_handler error =
     (case error of
        C4 e \<Rightarrow>
          run_bind (say (Log [CVal (JStr ''Caught Crawl4AI error:'')])) (\<lambda>_.
          run_bind (say (Log [CVal (JStr ''  Message:''), CVal (JStr (err_message e))])) (\<lambda>_.
          run_bind (say (Log [CVal (JStr ''  Status:''), CVal (err_status_val e)])) (\<lambda>_.
          say (Log [CVal (JStr ''  Status Text:''), CVal (err_statusText_val e)]))))
      | _ \<Rightarrow> say (Log [CVal (JStr ''Unexpected error:''), CErr error]))"

definition adv_step5 :: "(string \<Rightarrow> bool) \<Rightarrow> client_config \<Rightarrow> script_env \<Rightarrow> unit run" where
  "adv_step5 url_ok cfg env =
     run_bind (say (Log [CVal (JStr (nl ''5. Error handling example:''))])) (\<lambda>_.
     run_catch
       (run_bind (await_call (crawl url_ok cfg
          (typed_crawl_request (OneUrl ''https://this-domain-definitely-does-not-exist-12345.com'') no_crawl_options)
          no_config (env 5))) (\<lambda>_. run_return ()))
       adv_handler)"

section \<open>The script (lines 8-150)\<close>

definition adv_config :: c4_config where
  "adv_config = (base_config ''https://example.com'')\<lparr>in_timeout := Given (JFin 60000)\<rparr>"

definition adv_main :: "(string \<Rightarrow> bool) \<Rightarrow> (string \<Rightarrow> exn + jsval) \<Rightarrow> script_env \<Rightarrow> unit run" where
  "adv_main url_ok json_parse env =
     (case Crawl4AI_new url_ok adv_config of
        Inl e \<Rightarrow> run_throw e
      | Inr cfg \<Rightarrow>
          run_catch
            (run_bind (adv_step1 url_ok cfg env) (\<lambda>_.
             run_bind (adv_step2 url_ok json_parse cfg env) (\<lambda>_.
             run_bind (adv_step3 url_ok cfg env) (\<lambda>_.
             run_bind (adv_step4 url_ok cfg env) (\<lambda>_.
             adv_step5 url_ok cfg env)))))
            (\<lambda>error. say (Err [CVal (JStr ''Fatal error:''), CErr error])))"

definition adv_script :: "(string \<Rightarrow> bool) \<Rightarrow> (string \<Rightarrow> exn + jsval) \<Rightarrow> script_env \<Rightarrow> unit run" where
  "adv_script url_ok json_parse env = run_catch (adv_main url_ok json_parse env) (\<lambda>e. say (Err [CErr e]))"

section \<open>Lemmas\<close>

text \<open>Step 5 never lets its crawl's rejection escape: whatever the network
  does, the step completes or waits.\<close>

lemma adv_handler_ok: "\<exists>out. adv_handler e = Some (Inr (), out)"
  by (cases e) (simp_all add: adv_handler_def say_def)

lemma adv_step5_catches: "adv_step5 url_ok cfg env = None \<or> (\<exists>out. adv_step5 url_ok cfg env = Some (Inr (), out))"
proof -
  let ?c = "await_call (crawl url_ok cfg
          (typed_crawl_request (OneUrl ''https://this-domain-definitely-does-not-exist-12345.com'') no_crawl_options)
          no_config (env 5))"
  show ?thesis
  proof (cases ?c)
    case (Some p)
    obtain r out where p: "p = (r, out)" by (cases p)
    show ?thesis
    proof (cases r)
      case (Inl e)
      obtain out' where "adv_handler e = Some (Inr (), out')" using adv_handler_ok by blast
      then show ?thesis using Some p Inl by (simp add: adv_step5_def say_def)
    qed (simp add: adv_step5_def Some p say_def run_return_def)
  qed (simp add: adv_step5_def say_def)
qed

text \<open>When the extraction crawl resolves to an empty array, reading
  \<open>newsResults[0].extracted_content\<close> throws, and the steps after it are
  skipped.\<close>

lemma adv_step2_empty_throws:
  assumes "crawl url_ok cfg hn_request no_config (env 2) = Some (Inr (JArr []), tr)"
  shows "\<exists>out. adv_step2 url_ok json_parse cfg env =
           Some (Inl (JsError ''TypeError'' ''Cannot read properties of undefined (reading extracted_content)''), out)"
  using assms by (simp add: adv_step2_def say_def await_call_def run_sum_def js_index_def js_member_def)

end
