(* ===== verification/Examples_Llm.thy ===== *)
theory Examples_Llm
  imports Examples_Advanced
begin

text \<open>
  \<open>src/examples/llm-extraction.ts\<close>: five steps in one \<open>try\<close> block (LLM
  extraction with a schema, filtered markdown, one crawl per provider with a
  key, cosine extraction, \<open>ask\<close>), and the module's check of the environment
  variables. \<open>process.env\<close> is the parameter \<open>penv\<close>, \<open>JSON.parse\<close> is
  \<open>json_parse\<close>, and call \<open>k\<close> of the script sees \<open>env k\<close>.
\<close>

type_synonym process_env = "string \<Rightarrow> string option"

text \<open>\<open>!process.env[k]\<close>: unset or empty.\<close>

definition env_missing :: "process_env \<Rightarrow> string \<Rightarrow> bool" where
  "env_missing penv k = (case penv k of None \<Rightarrow> True | Some s \<Rightarrow> s = [])"

section \<open>Step 1: extraction with a schema (lines 16-77)\<close>

definition jstype :: "string \<Rightarrow> jsval" where
  "jstype t = JObj [(''type'', JStr t)]"

definition news_schema :: "(string \<times> jsval) list" where
  "news_schema =
     [(''type'', JStr ''object''),
      (''properties'', JObj
        [(''articles'', JObj [(''type'', JStr ''array''),
           (''items'', JObj [(''type'', JStr ''object''),
              (''properties'', JObj [(''headline'', jstype ''string''), (''summary'', jstype ''string''),
                 (''category'', jstype ''string''), (''author'', jstype ''string''),
                 (''published_date'', jstype ''string''),
                 (''tags'', JObj [(''type'', JStr ''array''), (''items'', jstype ''string'')])]),
              (''required'', JArr [JStr ''headline'', JStr ''summary''])])]),
         (''main_story'', JObj [(''type'', JStr ''object''),
           (''properties'', JObj [(''title'', jstype ''string''), (''description'', jstype ''string'')])])])]"

definition llm_params :: "string \<Rightarrow> string option \<Rightarrow> llm_extraction_params" where
  "llm_params provider token = \<lparr>lep_provider = provider, lep_api_token = token, lep_api_key = None,
     lep_schema = None, lep_extraction_type = None, lep_instruction = None, lep_model = None, lep_base_url = None,
     lep_extra_headers = None, lep_extra_body = None\<rparr>"

definition crawl_with :: "string \<Rightarrow> extraction_strategy \<Rightarrow> crawl_request" where
  "crawl_with url s = typed_crawl_request (OneUrl url)
     (no_crawl_options\<lparr>co_crawler_config := Some (no_crawler_run_config\<lparr>crc_extraction_strategy := Some s\<rparr>)\<rparr>)"

definition news_request :: "process_env \<Rightarrow> crawl_request" where
  "news_request penv = crawl_with ''https://www.bbc.com/news''
     (Llm ((llm_params ''openai/gpt-4o-mini'' (penv ''OPENAI_API_KEY''))\<lparr>lep_schema := Some news_schema,
        lep_extraction_type := Some LlmSchema,
        lep_instruction := Some ''Extract all news articles from the page. Focus on the main news stories and categorize them appropriately.''\<rparr>))"

definition llm_article :: "nat \<Rightarrow> jsval \<Rightarrow> unit run" where
  "llm_article i a =
     run_bind (say (Log [CVal (JStr (nl (''Article '' @ nat_str (Suc i) @ '':'')))])) (\<lambda>_.
     run_bind (run_sum (js_member a ''headline'')) (\<lambda>h.
     run_bind (say (Log [CVal (JStr ''  Headline:''), CVal h])) (\<lambda>_.
     run_bind (run_sum (js_member a ''summary'')) (\<lambda>s.
     run_bind (say (Log [CVal (JStr ''  Summary:''), CVal s])) (\<lambda>_.
     run_bind (run_sum (js_member a ''category'')) (\<lambda>c.
     run_bind (say (Log [CVal (JStr ''  Category:''), CVal c])) (\<lambda>_.
     run_bind (run_sum (js_member a ''tags'')) (\<lambda>t.
     run_bind (run_sum (opt_join t '', '')) (\<lambda>tj.
     say (Log [CVal (JStr ''  Tags:''), CVal tj]))))))))))"

text \<open>\<open>extracted.articles?.length || 0\<close>.\<close>

definition articles_count :: "jsval \<Rightarrow> jsval" where
  "articles_count arts =
     (let n = (if arts = JUndef \<or> arts = JNull then JUndef else (case js_length arts of Inr v \<Rightarrow> v | Inl _ \<Rightarrow> JUndef))
      in if js_truthy n then n else JNum (JFin 0))"

definition llm_step1 ::
  "(string \<Rightarrow> bool) \<Rightarrow> (string \<Rightarrow> exn + jsval) \<Rightarrow> process_env \<Rightarrow> client_config \<Rightarrow> script_env \<Rightarrow> unit run" where
  "llm_step1 url_ok json_parse penv cfg env =
     run_bind (say (Log [CVal (JStr ''1. LLM extraction with schema:'')])) (\<lambda>_.
     run_bind (await_call (crawl url_ok cfg (news_request penv) no_config (env 1))) (\<lambda>newsResults.
     run_bind (run_sum (js_index newsResults 0)) (\<lambda>first.
     run_bind (run_sum (js_member first ''extracted_content'')) (\<lambda>ec.
     if js_truthy ec then
       run_bind (run_sum (json_parse (js_String ec))) (\<lambda>extracted.
       run_bind (say (Log [CVal (JStr (nl ''Main story:''))])) (\<lambda>_.
       run_bind (run_sum (js_member extracted ''main_story'')) (\<lambda>ms.
       run_bind (say (Log [CVal (JStr ''  Title:''), CVal (opt_member ms ''title'')])) (\<lambda>_.
       run_bind (run_sum (js_member extracted ''main_story'')) (\<lambda>ms'.
       run_bind (say (Log [CVal (JStr ''  Description:''), CVal (opt_member ms' ''description'')])) (\<lambda>_.
       run_bind (run_sum (js_member extracted ''articles'')) (\<lambda>arts.
       run_bind (say (Log [CVal (JStr (nl (''Found '' @ tmpl (articles_count arts) @ '' articles'')))])) (\<lambda>_.
       run_bind (run_sum (js_member extracted ''articles'')) (\<lambda>arts'.
       if arts' = JUndef \<or> arts' = JNull then run_return ()
       else
         run_bind (run_sum (js_slice arts' 3)) (\<lambda>top.
         run_bind (run_sum (js_elems ''forEach is not a function'' top)) (\<lambda>xs.
         run_each (\<lambda>(i, a). llm_article i a) (zip [0..<length xs] xs))))))))))))
     else run_return ()))))"

section \<open>Step 2: filtered markdown (lines 79-87)\<close>

text \<open>The filter and the question are passed as \<open>f\<close> and \<open>q\<close>.\<close>

definition tech_request :: markdown_request where
  "tech_request = \<lparr>md_url = ''https://techcrunch.com'',
     md_rest = [(''f'', JStr ''llm''), (''q'', JStr ''artificial intelligence startups funding'')]\<rparr>"

definition llm_step2 :: "(string \<Rightarrow> bool) \<Rightarrow> client_config \<Rightarrow> script_env \<Rightarrow> unit run" where
  "llm_step2 url_ok cfg env =
     run_bind (say (Log [CVal (JStr (nl ''2. LLM-filtered markdown extraction:''))])) (\<lambda>_.
     run_bind (await_call (markdown url_ok cfg tech_request no_config (env 2))) (\<lambda>techContent.
     run_bind (run_sum (js_length techContent)) (\<lambda>n.
     run_bind (say (Log [CVal (JStr ''Filtered content length:''), CVal n])) (\<lambda>_.
     run_bind (run_sum (js_slice techContent 300)) (\<lambda>pv.
     say (Log [CVal (JStr ''Preview:''), CVal (js_concat pv ''...'')]))))))"

section \<open>Step 3: one crawl per provider (lines 89-129)\<close>

record provider =
  pv_name :: string
  pv_provider :: string
  pv_api_key_env :: string

definition providers :: "provider list" where
  "providers = [\<lparr>pv_name = ''OpenAI'', pv_provider = ''openai/gpt-4o-mini'', pv_api_key_env = ''OPENAI_API_KEY''\<rparr>,
                \<lparr>pv_name = ''Anthropic'', pv_provider = ''anthropic/claude-3-haiku'', pv_api_key_env = ''ANTHROPIC_API_KEY''\<rparr>]"

definition provider_request :: "process_env \<Rightarrow> provider \<Rightarrow> crawl_request" where
  "provider_request penv p = crawl_with ''https://example.com''
     (Llm ((llm_params (pv_provider p) (penv (pv_api_key_env p)))\<lparr>lep_extraction_type := Some LlmBlock,
        lep_instruction := Some ''Summarize the main content of this page in 2-3 sentences.''\<rparr>))"

text \<open>The body of the loop for the \<open>i\<close>-th provider; its crawl is call
  \<open>3 + i\<close>.\<close>

definition llm_provider_step ::
  "(string \<Rightarrow> bool) \<Rightarrow> process_env \<Rightarrow> client_config \<Rightarrow> script_env \<Rightarrow> nat \<times> provider \<Rightarrow> unit run" where
  "llm_provider_step url_ok penv cfg env ip =
     (let (i, p) = ip in
      if env_missing penv (pv_api_key_env p) then
        say (Log [CVal (JStr (nl (''Skipping '' @ pv_name p @ '' (no API key set)'')))])
      else
        run_bind (say (Log [CVal (JStr (nl (''Using '' @ pv_name p @ '':'')))])) (\<lambda>_.
        run_bind (await_call (crawl url_ok cfg (provider_request penv p) no_config (env (3 + i)))) (\<lambda>result.
        run_bind (run_sum (js_index result 0)) (\<lambda>first.
        run_bind (run_sum (js_member first ''extracted_content'')) (\<lambda>ec.
        if js_truthy ec then say (Log [CVal (JStr ''Summary:''), CVal ec]) else run_return ())))))"

definition llm_step3 :: "(string \<Rightarrow> bool) \<Rightarrow> process_env \<Rightarrow> client_config \<Rightarrow> script_env \<Rightarrow> unit run" where
  "llm_step3 url_ok penv cfg env =
     run_bind (say (Log [CVal (JStr (nl ''3. Multi-provider LLM extraction:''))])) (\<lambda>_.
     run_each (llm_provider_step url_ok penv cfg env) (zip [0..<length providers] providers))"

section \<open>Step 4: cosine extraction (lines 131-152)\<close>

definition blog_request :: crawl_request where
  "blog_request = crawl_with ''https://blog.example.com''
     (Cosine \<lparr>cos_semantic_filter = Some ''machine learning artificial intelligence deep learning neural networks'',
              cos_word_count_threshold = Some (JFin 100), cos_max_dist = Some (JFin (3 / 10)),
              cos_top_k = Some (JFin 5), cos_model_name = None\<rparr>)"

definition llm_step4 :: "(string \<Rightarrow> bool) \<Rightarrow> client_config \<Rightarrow> script_env \<Rightarrow> unit run" where
  "llm_step4 url_ok cfg env =
     run_bind (say (Log [CVal (JStr (nl ''4. Cosine similarity extraction:''))])) (\<lambda>_.
     run_bind (await_call (crawl url_ok cfg blog_request no_config (env 5))) (\<lambda>blogResults.
     run_bind (run_sum (js_index blogResults 0)) (\<lambda>first.
     run_bind (run_sum (js_member first ''extracted_content'')) (\<lambda>ec.
     if js_truthy ec then
       run_bind (say (Log [CVal (JStr ''Semantically filtered content found'')])) (\<lambda>_.
       run_bind (run_sum (js_length ec)) (\<lambda>n.
       say (Log [CVal (JStr ''Relevant content length:''), CVal n])))
     else run_return ()))))"

section \<open>Step 5: ask (lines 154-164)\<close>

definition llm_ask_request :: ask_request where
  "llm_ask_request = \<lparr>ask_context_type = Some ''doc'', ask_query = Some ''extraction strategies'',
     ask_score_ratio = None, ask_max_results = Some (JFin 5)\<rparr>"

definition llm_step5 :: "client_config \<Rightarrow> script_env \<Rightarrow> unit run" where
  "llm_step5 cfg env =
     run_bind (say (Log [CVal (JStr (nl ''5. Getting Crawl4AI documentation context:''))])) (\<lambda>_.
     run_bind (await_call (ask cfg (Some llm_ask_request) no_config (env 6))) (\<lambda>context.
     run_bind (say (Log [CVal (JStr ''Documentation context retrieved'')])) (\<lambda>_.
     run_bind (say (Log [CVal (JStr ''Context type:''), CVal (JStr (ar_type context))])) (\<lambda>_.
     run_bind (say (Log [CVal (JStr ''Results count:''), CVal (JNum (JFin (of_nat (ar_results_count context))))])) (\<lambda>_.
     say (Log [CVal (JStr ''Preview:''), CVal (JStr (take 200 (ar_context context) @ ''...''))]))))))"

section \<open>The script (lines 9-181)\<close>

definition llm_example_config :: c4_config where
  "llm_example_config = (base_config ''https://c4.kaste.lol'')\<lparr>in_timeout := Given (JFin 120000)\<rparr>"

definition llm_main ::
  "(string \<Rightarrow> bool) \<Rightarrow> (string \<Rightarrow> exn + jsval) \<Rightarrow> process_env \<Rightarrow> script_env \<Rightarrow> unit run" where
  "llm_main url_ok json_parse penv env =
     (case Crawl4AI_new url_ok llm_example_config of
        Inl e \<Rightarrow> run_throw e
      | Inr cfg \<Rightarrow>
          run_catch
            (run_bind (llm_step1 url_ok json_parse penv cfg env) (\<lambda>_.
             run_bind (llm_step2 url_ok cfg env) (\<lambda>_.
             run_bind (llm_step3 url_ok penv cfg env) (\<lambda>_.
             run_bind (llm_step4 url_ok cfg env) (\<lambda>_.
             llm_step5 cfg env)))))
            (\<lambda>error. say (Err [CVal (JStr ''Error:''), CErr error])))"

text \<open>Lines 170-178: the note about missing keys, printed before \<open>main\<close>
  runs.\<close>

definition required_env_vars :: "string list" where
  "required_env_vars = [''OPENAI_API_KEY'', ''ANTHROPIC_API_KEY'']"

definition env_note :: "process_env \<Rightarrow> unit run" where
  "env_note penv =
     (let missing = filter (env_missing penv) required_env_vars in
      if missing \<noteq> [] then
        run_bind (say (Log [CVal (JStr ''Note: For LLM extraction, set these environment variables:'')])) (\<lambda>_.
        run_bind (run_each (\<lambda>v. say (Log [CVal (JStr (''  export '' @ v @ ''='' @ dq ''your_api_key_here''))])) missing)
          (\<lambda>_. say (Log [CVal (JStr (nl ''Some examples will be skipped without API keys.'' @ [CHR 0x0A]))])))
      else run_return ())"

definition llm_example_script ::
  "(string \<Rightarrow> bool) \<Rightarrow> (string \<Rightarrow> exn + jsval) \<Rightarrow> process_env \<Rightarrow> script_env \<Rightarrow> unit run" where
  "llm_example_script url_ok json_parse penv env =
     run_bind (env_note penv) (\<lambda>_. run_catch (llm_main url_ok json_parse penv env) (\<lambda>e. say (Err [CErr e])))"

section \<open>Lemmas\<close>

text \<open>Without API keys, the provider loop makes no request and only prints
  that it skips both providers, whatever the network does.\<close>

lemma llm_step3_no_keys:
  assumes "penv ''OPENAI_API_KEY'' = None" and "penv ''ANTHROPIC_API_KEY'' = None"
  shows "llm_step3 url_ok penv cfg env =
           Some (Inr (), [Log [CVal (JStr (nl ''3. Multi-provider LLM extraction:''))],
                          Log [CVal (JStr (nl ''Skipping OpenAI (no API key set)''))],
                          Log [CVal (JStr (nl ''Skipping Anthropic (no API key set)''))]])"
  using assms
  by (simp add: llm_step3_def providers_def llm_provider_step_def env_missing_def say_def run_return_def
      upt_conv_Cons)

end
