(* ===== verification/Tests.thy ===== *)
theory Tests
  imports Legacy Results
begin

text \<open>
  The bun test suite bundled after the earlier client in
  \<open>src/unnamed/part_002\<close> (lines 618-1211; it imports that client as
  \<open>./sdk\<close>). A test is a predicate over the model: the outcome its
  \<open>expect\<close> calls accept. A test awaiting a promise that never settles
  fails (bun's timeout), so a hanging call is a failure. The URL parser is
  \<open>url_ok\<close>; the tests that check URL validation pass for every network
  once \<open>url_ok\<close> rejects their invalid addresses, as \<open>new URL\<close> does. The
  tests that only check that a method returns a \<open>Promise\<close> hold of every
  \<open>async\<close> method and are not modelled.
\<close>

section \<open>Fixtures (lines 623-633)\<close>

definition testConfig :: c4_config where
  "testConfig = (base_config ''https://example.com'')\<lparr>in_timeout := Given (JFin 10000), in_debug := Given False\<rparr>"

text \<open>\<open>beforeAll(() => { client = new Crawl4AI(testConfig); })\<close>.\<close>

definition test_client :: "exn + client_config" where
  "test_client = Crawl4AI_new_v0 testConfig"

text \<open>\<open>await expect(p).rejects.toThrow(C)\<close>: the promise rejects with an
  instance of \<open>C\<close>.\<close>

definition rejects_with :: "err_class \<Rightarrow> 'a call_result \<Rightarrow> bool" where
  "rejects_with cls r = (case r of Some (Inl (C4 e), _) \<Rightarrow> err_class e = cls | _ \<Rightarrow> False)"

definition with_client :: "(client_config \<Rightarrow> bool) \<Rightarrow> bool" where
  "with_client t = (case test_client of Inr c \<Rightarrow> t c | Inl _ \<Rightarrow> False)"

text \<open>\<open>expect(new Crawl4AI(c)).toBeInstanceOf(Crawl4AI)\<close>.\<close>

definition constructs :: "c4_config \<Rightarrow> bool" where
  "constructs c = (case Crawl4AI_new_v0 c of Inr _ \<Rightarrow> True | Inl _ \<Rightarrow> False)"

section \<open>Configuration and debug mode (lines 635-663, 1194-1209)\<close>

definition full_config :: c4_config where
  "full_config = \<lparr>in_baseUrl = Given ''https://example.com'', in_apiToken = Given ''test-token'',
     in_timeout = Given (JFin 60000), in_retries = Given (JFin 5), in_retryDelay = Given (JFin 2000),
     in_defaultHeaders = Given [''X-Custom'' \<mapsto> ''value''], in_throwOnError = Given False,
     in_validateStatus = Given (\<lambda>status. status < 500), in_debug = Given True\<rparr>"

definition test_configuration :: bool where
  "test_configuration =
     (with_client (\<lambda>_. True) \<and>
      constructs ((base_config ''https://example.com/'')\<lparr>in_debug := Given False\<rparr>) \<and>
      constructs full_config)"

definition test_debug_mode :: bool where
  "test_debug_mode =
     (constructs (testConfig\<lparr>in_debug := Given True\<rparr>) \<and> constructs (testConfig\<lparr>in_debug := Given False\<rparr>))"

section \<open>URL validation (lines 719-730, 871-895, 954-963, 1011-1020, 1041-1056, 1144-1153)\<close>

definition no_rest_crawl :: "urls_arg \<Rightarrow> crawl_request" where
  "no_rest_crawl u = \<lparr>cr_urls = u, cr_rest = []\<rparr>"

definition test_url_validation :: "(string \<Rightarrow> bool) \<Rightarrow> (nat \<Rightarrow> net_event) \<Rightarrow> bool" where
  "test_url_validation url_ok net = with_client (\<lambda>c.
     rejects_with RequestValidationError (crawl_v0 url_ok c (no_rest_crawl (OneUrl ''not-a-url'')) no_config net) \<and>
     rejects_with RequestValidationError (crawl_v0 url_ok c (no_rest_crawl (OneUrl '''')) no_config net) \<and>
     rejects_with RequestValidationError (crawl_v0 url_ok c (no_rest_crawl (OneUrl ''://invalid'')) no_config net))"

definition test_crawl_validates :: "(string \<Rightarrow> bool) \<Rightarrow> (nat \<Rightarrow> net_event) \<Rightarrow> bool" where
  "test_crawl_validates url_ok net = with_client (\<lambda>c.
     rejects_with RequestValidationError (crawl_v0 url_ok c (no_rest_crawl (OneUrl ''invalid-url'')) no_config net) \<and>
     rejects_with RequestValidationError (crawl_v0 url_ok c (no_rest_crawl (OneUrl '''')) no_config net) \<and>
     rejects_with RequestValidationError (crawl_v0 url_ok c (no_rest_crawl (OneUrl ''://malformed'')) no_config net) \<and>
     rejects_with RequestValidationError
       (crawl_v0 url_ok c (no_rest_crawl (ManyUrls [''https://example.com'', ''invalid-url''])) no_config net) \<and>
     rejects_with RequestValidationError
       (crawl_v0 url_ok c (no_rest_crawl (ManyUrls ['''', ''https://example.com''])) no_config net))"

definition md_req :: "string \<Rightarrow> markdown_request" where
  "md_req u = \<lparr>md_url = u, md_rest = []\<rparr>"

definition test_markdown_validates :: "(string \<Rightarrow> bool) \<Rightarrow> (nat \<Rightarrow> net_event) \<Rightarrow> bool" where
  "test_markdown_validates url_ok net = with_client (\<lambda>c.
     rejects_with RequestValidationError (markdown_v0 url_ok c (md_req ''invalid-url'') no_config net) \<and>
     rejects_with RequestValidationError (markdown_v0 url_ok c (md_req '''') no_config net) \<and>
     rejects_with RequestValidationError (markdown_v0 url_ok c (md_req ''://malformed'') no_config net))"

definition test_html_validates :: "(string \<Rightarrow> bool) \<Rightarrow> (nat \<Rightarrow> net_event) \<Rightarrow> bool" where
  "test_html_validates url_ok net = with_client (\<lambda>c.
     rejects_with RequestValidationError (html_v0 url_ok c ''invalid-url'' no_config net) \<and>
     rejects_with RequestValidationError (html_v0 url_ok c '''' no_config net) \<and>
     rejects_with RequestValidationError (html_v0 url_ok c ''://malformed'' no_config net))"

definition test_executeJs_validates :: "(string \<Rightarrow> bool) \<Rightarrow> (nat \<Rightarrow> net_event) \<Rightarrow> bool" where
  "test_executeJs_validates url_ok net = with_client (\<lambda>c.
     rejects_with RequestValidationError
       (executeJs_v0 url_ok c \<lparr>ej_url = ''invalid-url'', ej_scripts = [''document.title'']\<rparr> no_config net) \<and>
     rejects_with RequestValidationError
       (executeJs_v0 url_ok c \<lparr>ej_url = '''', ej_scripts = [''document.title'']\<rparr> no_config net))"

definition test_llm_validates :: "(string \<Rightarrow> bool) \<Rightarrow> (nat \<Rightarrow> net_event) \<Rightarrow> bool" where
  "test_llm_validates url_ok net = with_client (\<lambda>c.
     rejects_with RequestValidationError (llm_v0 url_ok c ''invalid-url'' ''test query'' no_config net) \<and>
     rejects_with RequestValidationError (llm_v0 url_ok c '''' ''test query'' no_config net) \<and>
     rejects_with RequestValidationError (llm_v0 url_ok c ''://malformed'' ''test query'' no_config net))"

section \<open>Service calls (lines 753-857)\<close>

text \<open>\<open>toHaveProperty\<close> and \<open>typeof\<close> on the value \<open>health()\<close> resolved to.\<close>

definition js_has_prop :: "jsval \<Rightarrow> string \<Rightarrow> bool" where
  "js_has_prop v k = (case v of JObj kvs \<Rightarrow> obj_has kvs k | _ \<Rightarrow> False)"

definition is_js_string :: "jsval \<Rightarrow> bool" where
  "is_js_string v = (case v of JStr _ \<Rightarrow> True | _ \<Rightarrow> False)"

definition is_js_number :: "jsval \<Rightarrow> bool" where
  "is_js_number v = (case v of JNum _ \<Rightarrow> True | _ \<Rightarrow> False)"

text \<open>\<open>should return health status\<close>: a resolved value must have the three
  properties with their types; a rejection passes (\<open>expect(error).toBeInstanceOf(Error)\<close>
  holds of every error the client throws).\<close>

definition health_checks :: "jsval \<Rightarrow> bool" where
  "health_checks v =
     (js_has_prop v ''status'' \<and> js_has_prop v ''timestamp'' \<and> js_has_prop v ''version'' \<and>
      is_js_string (js_prop v ''status'') \<and> is_js_number (js_prop v ''timestamp'') \<and>
      is_js_string (js_prop v ''version''))"

definition test_health :: "net_event \<Rightarrow> bool" where
  "test_health ev = with_client (\<lambda>c.
     (case health_v0 c no_config ev of
        None \<Rightarrow> False
      | Some (Inl _, _) \<Rightarrow> True
      | Some (Inr v, _) \<Rightarrow> health_checks v))"

text \<open>\<open>should return boolean\<close> and \<open>should return false when not connected\<close>.\<close>

definition test_testConnection_boolean :: "net_event \<Rightarrow> bool" where
  "test_testConnection_boolean ev = with_client (\<lambda>c.
     (case testConnection_v0 c ev of Some (Inr _, _) \<Rightarrow> True | _ \<Rightarrow> False))"

definition unreachable_client :: "exn + client_config" where
  "unreachable_client = Crawl4AI_new_v0 (testConfig\<lparr>in_baseUrl := Given ''https://non-existent-domain-12345.com''\<rparr>)"

definition test_testConnection_false :: "net_event \<Rightarrow> bool" where
  "test_testConnection_false ev =
     (case unreachable_client of
        Inr c \<Rightarrow> (case testConnection_v0 c ev of Some (Inr b, _) \<Rightarrow> b = False | _ \<Rightarrow> False)
      | Inl _ \<Rightarrow> False)"

definition test_version_unknown :: "net_event \<Rightarrow> bool" where
  "test_version_unknown ev =
     (case unreachable_client of
        Inr c \<Rightarrow> (case version_v0 c ev of Some (Inr v, _) \<Rightarrow> v = JStr ''unknown'' | _ \<Rightarrow> False)
      | Inl _ \<Rightarrow> False)"

section \<open>Error instances (lines 859-869)\<close>

definition test_error_instance :: bool where
  "test_error_instance =
     (let e = mk_Crawl4AIError ''Test error'' (Some 404) (Some ''Not Found'') (Some (JObj [(''detail'', JStr ''test'')]))
      in isCrawl4AIError (C4 e) \<and> err_message e = ''Test error'' \<and> err_status e = Some 404 \<and>
         err_statusText e = Some ''Not Found'' \<and> err_data e = Some (JObj [(''detail'', JStr ''test'')]))"

section \<open>Lemmas\<close>

lemma test_client_ok: "\<exists>c. test_client = Inr c"
  by (simp add: test_client_def Crawl4AI_new_v0_def testConfig_def base_config_def Let_def)

lemma validateUrl_rejects:
  "\<not> url_ok u \<Longrightarrow> validateUrl url_ok u = Some (mk_RequestValidationError (''Invalid URL: '' @ u) (Some ''url'') (Some (JStr u)))"
  by (simp add: validateUrl_def)

lemma rejects_with_early: "rejects_with cls (reject_early e) = (err_class e = cls)"
  by (simp add: rejects_with_def reject_early_def)

lemma class_mk_RequestValidationError [simp]:
  "err_class (mk_RequestValidationError m f v) = RequestValidationError"
  by (simp add: mk_RequestValidationError_def)

lemma first_invalid_some:
  assumes "\<exists>x\<in>set us. \<not> url_ok x"
  shows "\<exists>e. first_invalid url_ok us = Some e \<and> err_class e = RequestValidationError"
proof -
  obtain u where "find (\<lambda>u. \<not> url_ok u) us = Some u"
    using assms by (cases "find (\<lambda>u. \<not> url_ok u) us") (auto simp: find_None_iff)
  then show ?thesis by (simp add: first_invalid_find)
qed

lemma crawl_v0_invalid:
  assumes "\<exists>x\<in>set (crawl_urls us). \<not> url_ok x"
  shows "rejects_with RequestValidationError (crawl_v0 url_ok c (no_rest_crawl us) rc net)"
  using first_invalid_some [OF assms]
  by (auto simp: crawl_v0_def no_rest_crawl_def rejects_with_early)

lemma methods_v0_invalid:
  assumes "\<not> url_ok u"
  shows "rejects_with RequestValidationError (markdown_v0 url_ok c (md_req u) rc net)"
    "rejects_with RequestValidationError (html_v0 url_ok c u rc net)"
    "rejects_with RequestValidationError (executeJs_v0 url_ok c \<lparr>ej_url = u, ej_scripts = ss\<rparr> rc net)"
    "rejects_with RequestValidationError (llm_v0 url_ok c u q rc net)"
  using assms
  by (simp_all add: markdown_v0_def html_v0_def executeJs_v0_def llm_v0_def md_req_def validateUrl_v0_def
      rejects_with_early)

lemma obj_has_get: "obj_has kvs k \<Longrightarrow> \<exists>x. obj_get kvs k = Some x"
  by (cases "map_of (rev kvs) k") (auto simp: obj_has_def obj_get_def map_of_eq_None_iff)

lemma health_checks_obj:
  "health_checks v \<longleftrightarrow>
     (\<exists>kvs s t ver. v = JObj kvs \<and> obj_get kvs ''status'' = Some (JStr s) \<and>
        obj_get kvs ''timestamp'' = Some (JNum t) \<and> obj_get kvs ''version'' = Some (JStr ver))"
proof
  assume h: "health_checks v"
  then obtain kvs where v: "v = JObj kvs"
    by (cases v) (simp_all add: health_checks_def js_has_prop_def)
  with h show "\<exists>kvs s t ver. v = JObj kvs \<and> obj_get kvs ''status'' = Some (JStr s) \<and>
        obj_get kvs ''timestamp'' = Some (JNum t) \<and> obj_get kvs ''version'' = Some (JStr ver)"
    by (auto simp: health_checks_def js_has_prop_def js_prop_def is_js_string_def is_js_number_def
        dest!: obj_has_get split: jsval.splits)
next
  assume "\<exists>kvs s t ver. v = JObj kvs \<and> obj_get kvs ''status'' = Some (JStr s) \<and>
        obj_get kvs ''timestamp'' = Some (JNum t) \<and> obj_get kvs ''version'' = Some (JStr ver)"
  then show "health_checks v"
    by (auto simp: health_checks_def js_has_prop_def js_prop_def is_js_string_def is_js_number_def
        intro: obj_get_has)
qed

lemma health_response_of_obj:
  "(\<exists>h. health_response_of v = Some h) \<longleftrightarrow>
     (\<exists>kvs s t ver. v = JObj kvs \<and> obj_get kvs ''status'' = Some (JStr s) \<and>
        obj_get kvs ''timestamp'' = Some (JNum t) \<and> obj_get kvs ''version'' = Some (JStr ver))"
  by (auto simp: health_response_of_def req_prop_def as_str_def as_num_def
      split: jsval.splits option.splits)

lemma unreachable_client_ok: "\<exists>c. unreachable_client = Inr c"
  by (simp add: unreachable_client_def Crawl4AI_new_v0_def testConfig_def base_config_def Let_def)

lemma health_settles:
  "\<not> body_stalls ev \<Longrightarrow> \<exists>res lg. health c (no_config\<lparr>rc_timeout := t\<rparr>) ev = Some (res, lg)"
proof -
  assume ns: "\<not> body_stalls ev"
  have "opt_signal (call_options ''GET'' None (no_config\<lparr>rc_timeout := t\<rparr>)) = NoSignal"
    by (simp add: call_options_def no_config_def)
  from request_settles [OF this ns, of c "''/health''"] show ?thesis
    by (simp add: health_def get_endpoint_def)
qed

lemma health_v0_settles:
  "\<not> body_stalls ev \<Longrightarrow> \<exists>res lg. health_v0 c (no_config\<lparr>rc_timeout := t\<rparr>) ev = Some (res, lg)"
  using health_settles by (simp add: endpoints_v0_eq)

section \<open>The tests pass\<close>

text \<open>The tests that need no server: construction, debug mode, and the
  fields of a \<open>Crawl4AIError\<close>.\<close>

lemma static_tests_pass: "test_configuration \<and> test_debug_mode \<and> test_error_instance"
  by (simp add: test_configuration_def test_debug_mode_def test_error_instance_def with_client_def
      test_client_def constructs_def Crawl4AI_new_v0_def testConfig_def full_config_def base_config_def
      mk_Crawl4AIError_def Let_def)

text \<open>\<open>testConnection()\<close> resolves to a boolean on every network event
  whose response body finishes.\<close>

lemma testConnection_boolean_test_passes: "\<not> body_stalls ev \<Longrightarrow> test_testConnection_boolean ev"
proof -
  assume ns: "\<not> body_stalls ev"
  obtain c where c: "test_client = Inr c" using test_client_ok by blast
  obtain res lg where h: "health_v0 c (no_config\<lparr>rc_timeout := Some (JFin 5000)\<rparr>) ev = Some (res, lg)"
    using health_v0_settles [OF ns] by blast
  show ?thesis
    using h unfolding test_testConnection_boolean_def with_client_def c testConnection_v0_def
    by (auto split: option.split sum.split prod.split)
qed

text \<open>\<open>should return false when not connected\<close> passes exactly when the
  health check of the unreachable host fails: the test depends on the
  network, not on the client.\<close>

lemma testConnection_false_test_iff:
  "\<not> body_stalls ev \<Longrightarrow> test_testConnection_false ev \<longleftrightarrow>
     (\<exists>c e lg. unreachable_client = Inr c \<and> health_v0 c (no_config\<lparr>rc_timeout := Some (JFin 5000)\<rparr>) ev = Some (Inl e, lg))"
proof -
  assume ns: "\<not> body_stalls ev"
  obtain c where c: "unreachable_client = Inr c" using unreachable_client_ok by blast
  obtain res lg where h: "health_v0 c (no_config\<lparr>rc_timeout := Some (JFin 5000)\<rparr>) ev = Some (res, lg)"
    using health_v0_settles [OF ns] by blast
  show ?thesis
    using h unfolding test_testConnection_false_def c testConnection_v0_def
    by (auto split: option.split sum.split prod.split)
qed

lemma version_unknown_test_passes:
  assumes "unreachable_client = Inr c" and "health_v0 c no_config ev = Some (Inl e, lg)"
  shows "test_version_unknown ev"
  unfolding test_version_unknown_def assms(1) by (simp add: version_v0_def assms(2))

text \<open>The checks of \<open>should return health status\<close> on a resolved value
  are exactly conformance to \<open>HealthResponse\<close>.\<close>

lemma health_test_is_conformance: "health_checks v \<longleftrightarrow> (\<exists>h. health_response_of v = Some h)"
  unfolding health_checks_obj health_response_of_obj ..

text \<open>
  C19. The URL-validation tests of the bundled suite pass against the
  earlier client for every network, as soon as the URL parser rejects their
  invalid addresses: every \<open>crawl\<close>, \<open>markdown\<close>, \<open>html\<close>, \<open>executeJs\<close> and
  \<open>llm\<close> call with such an address rejects with a
  \<open>RequestValidationError\<close> before any request.
\<close>

theorem url_validation_tests_pass:
  assumes "\<not> url_ok ''not-a-url''" "\<not> url_ok ''''" "\<not> url_ok ''://invalid''" "\<not> url_ok ''invalid-url''"
    "\<not> url_ok ''://malformed''"
  shows "test_url_validation url_ok net \<and> test_crawl_validates url_ok net \<and> test_markdown_validates url_ok net \<and>
         test_html_validates url_ok net \<and> test_executeJs_validates url_ok net \<and> test_llm_validates url_ok net"
proof -
  obtain c where c: "test_client = Inr c" using test_client_ok by blast
  show ?thesis
    using assms
    by (simp add: c with_client_def test_url_validation_def test_crawl_validates_def test_markdown_validates_def
        test_html_validates_def test_executeJs_validates_def test_llm_validates_def crawl_v0_invalid
        methods_v0_invalid crawl_urls_def)
qed

theorem url_validation_tests_pass_witness:
  "test_url_validation (\<lambda>u. take 4 u = ''http'') (\<lambda>_. Hang) \<and> test_crawl_validates (\<lambda>u. take 4 u = ''http'') (\<lambda>_. Hang) \<and>
   test_markdown_validates (\<lambda>u. take 4 u = ''http'') (\<lambda>_. Hang) \<and> test_html_validates (\<lambda>u. take 4 u = ''http'') (\<lambda>_. Hang) \<and>
   test_executeJs_validates (\<lambda>u. take 4 u = ''http'') (\<lambda>_. Hang) \<and> test_llm_validates (\<lambda>u. take 4 u = ''http'') (\<lambda>_. Hang)"
  by (rule url_validation_tests_pass) simp_all

end
