(* ===== verification/Tests_Current.thy ===== *)
theory Tests_Current
  imports Tests
begin

text \<open>
  The bun suite of the current client, \<open>src/src/sdk.test.ts\<close>, over the
  models of \<open>Client\<close> and \<open>Api\<close>. Unlike the earlier client, the current
  constructor parses the base address, so every test needs \<open>url_ok\<close> to
  accept \<open>https://c4.kaste.lol\<close>. The suite's health test checks only that
  the three properties exist, and its version test that the result is a
  string, which a truthy non-string \<open>version\<close> field defeats.
\<close>

section \<open>Fixtures (lines 6-16)\<close>

definition cur_testConfig :: c4_config where
  "cur_testConfig = (base_config ''https://c4.kaste.lol'')\<lparr>in_timeout := Given (JFin 10000), in_debug := Given False\<rparr>"

definition cur_with_client :: "(string \<Rightarrow> bool) \<Rightarrow> (client_config \<Rightarrow> bool) \<Rightarrow> bool" where
  "cur_with_client url_ok t = (case Crawl4AI_new url_ok cur_testConfig of Inr c \<Rightarrow> t c | Inl _ \<Rightarrow> False)"

section \<open>The tests\<close>

text \<open>Lines 18-22 and 129-136: construction with debug on and off.\<close>

definition test_cur_construction :: "(string \<Rightarrow> bool) \<Rightarrow> bool" where
  "test_cur_construction url_ok =
     (cur_with_client url_ok (\<lambda>_. True) \<and>
      (case Crawl4AI_new url_ok (cur_testConfig\<lparr>in_debug := Given True\<rparr>) of Inr _ \<Rightarrow> True | Inl _ \<Rightarrow> False) \<and>
      (case Crawl4AI_new url_ok (cur_testConfig\<lparr>in_debug := Given False\<rparr>) of Inr _ \<Rightarrow> True | Inl _ \<Rightarrow> False))"

text \<open>Lines 44-50 and 110-113.\<close>

definition test_cur_url_validation :: "(string \<Rightarrow> bool) \<Rightarrow> (nat \<Rightarrow> net_event) \<Rightarrow> bool" where
  "test_cur_url_validation url_ok net = cur_with_client url_ok (\<lambda>c.
     rejects_with RequestValidationError (crawl url_ok c (no_rest_crawl (OneUrl ''not-a-url'')) no_config net) \<and>
     rejects_with RequestValidationError (crawl url_ok c (no_rest_crawl (OneUrl '''')) no_config net) \<and>
     rejects_with RequestValidationError (crawl url_ok c (no_rest_crawl (OneUrl ''://invalid'')) no_config net) \<and>
     rejects_with RequestValidationError (crawl url_ok c (no_rest_crawl (OneUrl ''invalid-url'')) no_config net))"

text \<open>Lines 75-78.\<close>

definition test_cur_testConnection :: "(string \<Rightarrow> bool) \<Rightarrow> net_event \<Rightarrow> bool" where
  "test_cur_testConnection url_ok ev = cur_with_client url_ok (\<lambda>c.
     (case testConnection c False ev of Some (Inr _, _) \<Rightarrow> True | _ \<Rightarrow> False))"

text \<open>Lines 80-90: only the presence of the three properties.\<close>

definition health_props :: "jsval \<Rightarrow> bool" where
  "health_props v = (js_has_prop v ''status'' \<and> js_has_prop v ''timestamp'' \<and> js_has_prop v ''version'')"

definition test_cur_health :: "(string \<Rightarrow> bool) \<Rightarrow> net_event \<Rightarrow> bool" where
  "test_cur_health url_ok ev = cur_with_client url_ok (\<lambda>c.
     (case health c no_config ev of None \<Rightarrow> False | Some (Inl _, _) \<Rightarrow> True | Some (Inr v, _) \<Rightarrow> health_props v))"

text \<open>Lines 92-95.\<close>

definition test_cur_version :: "(string \<Rightarrow> bool) \<Rightarrow> net_event \<Rightarrow> bool" where
  "test_cur_version url_ok ev = cur_with_client url_ok (\<lambda>c.
     (case version c False ev of Some (Inr v, _) \<Rightarrow> is_js_string v | _ \<Rightarrow> False))"

section \<open>Lemmas\<close>

lemma cur_client_ok:
  "url_ok ''https://c4.kaste.lol'' \<Longrightarrow> Crawl4AI_new url_ok (cur_testConfig\<lparr>in_debug := d\<rparr>) = Inr (merge_config (cur_testConfig\<lparr>in_debug := d\<rparr>) ''https://c4.kaste.lol'')"
  by (simp add: Crawl4AI_new_def validate_config_def cur_testConfig_def base_config_def bad_timeout_def
      bad_retries_def bad_retryDelay_def js_le_def js_isFinite_def)

lemma cur_client_base: "url_ok ''https://c4.kaste.lol'' \<Longrightarrow> \<exists>c. Crawl4AI_new url_ok cur_testConfig = Inr c"
  using cur_client_ok [of url_ok "in_debug cur_testConfig"] by simp

lemma crawl_invalid:
  assumes "\<exists>x\<in>set (crawl_urls us). \<not> url_ok x"
  shows "rejects_with RequestValidationError (crawl url_ok c (no_rest_crawl us) rc net)"
  using first_invalid_some [OF assms]
  by (auto simp: crawl_def no_rest_crawl_def rejects_with_early)

text \<open>With a parser that accepts the base address and rejects the four
  invalid ones, construction and validation pass, and \<open>testConnection\<close>
  yields a boolean whenever the response body finishes.\<close>

lemma cur_tests_pass:
  assumes "url_ok ''https://c4.kaste.lol''" "\<not> url_ok ''not-a-url''" "\<not> url_ok ''''" "\<not> url_ok ''://invalid''"
    "\<not> url_ok ''invalid-url''" "\<not> body_stalls ev"
  shows "test_cur_construction url_ok \<and> test_cur_url_validation url_ok net \<and> test_cur_testConnection url_ok ev"
proof -
  obtain c where c: "Crawl4AI_new url_ok cur_testConfig = Inr c" using cur_client_base [of url_ok] assms(1) by blast
  obtain res lg where h: "health c (no_config\<lparr>rc_timeout := Some (JFin HEALTH_CHECK_TIMEOUT)\<rparr>) ev = Some (res, lg)"
    using health_settles [OF assms(6)] by blast
  have "test_cur_construction url_ok"
    using c cur_client_ok [of url_ok] assms(1) by (simp add: test_cur_construction_def cur_with_client_def)
  moreover have "test_cur_url_validation url_ok net"
    using assms(2-5) unfolding test_cur_url_validation_def cur_with_client_def c
    by (simp add: crawl_invalid crawl_urls_def)
  moreover have "test_cur_testConnection url_ok ev"
    using h unfolding test_cur_testConnection_def cur_with_client_def c testConnection_def
    by (auto split: option.split sum.split prod.split)
  ultimately show ?thesis by blast
qed

text \<open>The version test fails on a service whose health body carries a
  truthy non-string \<open>version\<close>: \<open>version()\<close> passes it through.\<close>

lemma version_passes_non_string:
  assumes "health c no_config ev = Some (Inr (JObj [(''version'', JNum (JFin 2))]), lg)"
  shows "version c throwOnError ev = Some (Inr (JNum (JFin 2)), lg)"
  using assms by (simp add: version_def js_member_def js_prop_def obj_get_def js_num_truthy_def)

lemma version_test_fails_on_numeric_version:
  assumes "Crawl4AI_new url_ok cur_testConfig = Inr c"
    and "health c no_config ev = Some (Inr (JObj [(''version'', JNum (JFin 2))]), lg)"
  shows "\<not> test_cur_version url_ok ev"
  unfolding test_cur_version_def cur_with_client_def assms(1)
  by (simp add: version_passes_non_string [OF assms(2)] is_js_string_def)

text \<open>The current suite's health test is weaker than the earlier one: it
  accepts every value with the three properties, of any type.\<close>

lemma health_checks_props: "health_checks v \<Longrightarrow> health_props v"
  by (simp add: health_checks_def health_props_def)

lemma health_props_weaker:
  "health_props (JObj [(''status'', JNull), (''timestamp'', JNull), (''version'', JNull)]) \<and>
   \<not> health_checks (JObj [(''status'', JNull), (''timestamp'', JNull), (''version'', JNull)])"
  by (simp add: health_props_def health_checks_def js_has_prop_def obj_has_def js_prop_def obj_get_def
      is_js_string_def)

end
