(* ===== verification/Spec2Isabelle.thy ===== *)
theory Spec2Isabelle
  imports Retry Normalize Client Query Api Legacy Types Results Wire Examples_Llm Tests_Current
begin

text \<open>
  \<^bold>\<open>A verification library for the Crawl4AI TypeScript SDK.\<close>

  The SDK (\<open>src/src/sdk.ts\<close>, \<open>src/src/errors.ts\<close>) is a client of a
  crawling service. One class, \<open>Crawl4AI\<close>, holds a configuration; each API
  method (\<open>crawl\<close>, \<open>markdown\<close>, \<open>health\<close>, ...) shapes its arguments into an
  endpoint and options and calls the private \<open>requestWithRetry\<close>, which calls
  \<open>request\<close> once per attempt; \<open>request\<close> performs one \<open>fetch\<close> under a
  deadline timer, decodes the body by content type and classifies a failing
  status through \<open>createHttpError\<close>; \<open>crawl\<close> passes the decoded body to
  \<open>normalizeArrayResponse\<close>. The development follows that structure, one
  theory per part, leaf first:

  \<^item> \<open>Prelude\<close>: the JavaScript values the code manipulates. Numbers are
    \<open>jsnum\<close> (a rational, \<open>NaN\<close> or an infinity, with the comparisons
    \<open>js_lt\<close>/\<open>js_le\<close> of ECMAScript, false on \<open>NaN\<close>); decoded JSON and
    other values are \<open>jsval\<close>; a fetched response is the record
    \<open>http_response\<close>. It also holds \<open>parseInt\<close>, the decimal rendering of
    numbers and the string predicates the code uses, with their lemmas (among
    them the round trip \<open>parseInt (int_str n) = n\<close>).
  \<^item> \<open>Errors\<close>: the error classes of \<open>errors.ts\<close> as one record
    \<open>c4_error\<close> tagged by \<open>err_class\<close>, one constructor definition per class,
    the type guards, and \<open>createHttpError\<close> (lines 193-230), the
    status-to-class table. A thrown value is \<open>exn\<close>: a \<open>c4_error\<close> or a
    platform error (\<open>TypeError\<close>, \<open>SyntaxError\<close>, \<open>AbortError\<close>, ...).
  \<^item> \<open>Transport\<close>: the private \<open>request\<close> (sdk.ts lines 231-319) as a
    function of the configuration, the endpoint, the options and one network
    event (a response; headers followed by a body that never finishes; a
    rejection of \<open>fetch\<close>; silence), returning the settled outcome (\<open>Inl\<close> the thrown error) and the
    debug log, or \<open>None\<close> when the promise never settles. The deadline is
    Node.js's \<open>setTimeout\<close> (\<open>timer_delay\<close>: delays outside
    \<open>[1, 2^31 - 1]\<close> run after 1 ms), the race between the abort and the
    network is \<open>fetch_settle\<close> (the timer is cleared once the headers are
    in, so it never bounds the body), and the \<open>try\<close> and \<open>catch\<close> blocks are
    \<open>request_try\<close> and \<open>request_catch\<close>.
  \<^item> \<open>Retry\<close>: \<open>requestWithRetry\<close> (lines 321-365). Its loop is
    \<open>retry_loop\<close>, a \<open>partial_function (option)\<close>: \<open>None\<close> is a loop that never
    returns. The trace \<open>retry_trace\<close> records the requests made and the delays
    slept. The network is a function from the attempt number to its event.
  \<^item> \<open>Normalize\<close>: \<open>isApiArrayResponse\<close> and \<open>normalizeArrayResponse\<close>
    (lines 44-46, 199-214), refined against the priority rule
    \<open>envelope_items\<close> of the design.
  \<^item> \<open>Client\<close>: the constructor (lines 92-172) as \<open>Crawl4AI_new\<close> (and the factory \<open>createCrawl4AI\<close>, lines 733-735), the
    setters (lines 695-716), and the inductive set \<open>reachable\<close> of the
    configurations a client can hold, with the invariant \<open>config_inv\<close>.
  \<^item> \<open>Query\<close>: \<open>buildQueryParams\<close> (lines 219-227) over an executable
    model of \<open>URLSearchParams\<close> (the form encoding of \<open>application/x-www-form-urlencoded\<close>,
    UTF-8 for code points below 256) and \<open>encodeURIComponent\<close>, with the
    decoders \<open>form_decode\<close>, \<open>decodeURIComponent\<close> and \<open>parse_query\<close>
    used to state the round trips.
  \<^item> \<open>Api\<close>: the public methods (lines 389-683): \<open>crawl\<close>, \<open>markdown\<close>,
    \<open>html\<close>, \<open>executeJs\<close>, \<open>ask\<close>, \<open>llm\<close>, the service calls \<open>health\<close>,
    \<open>metrics\<close>, \<open>schema\<close>, \<open>getRoot\<close>, and \<open>testConnection\<close> and
    \<open>version\<close>; the request and response types they use
    (\<open>src/unnamed/part_001\<close>); \<open>JSON.stringify\<close> as \<open>json_str\<close>. A method's
    value is the settled promise with the retry trace (\<open>call_result\<close>).
  \<^item> \<open>Legacy\<close>: the earlier revision of the client bundled in
    \<open>src/unnamed/part_002\<close> (lines 1-616), every method with the suffix
    \<open>_v0\<close> (constructor, \<open>request\<close>, retry loop, each API method, the
    endpoints and the setters) and \<open>reachable_v0\<close>, its configurations; each
    is proved equal to its successor or differing on exactly stated inputs.
  \<^item> \<open>Types\<close> and \<open>Results\<close>: the type declarations of
    \<open>src/unnamed/part_001\<close>. Each string-literal union is a datatype with its
    spellings, each interface a record (optional properties are options), with
    \<open>*_json\<close>, the JavaScript object it travels as, and \<open>*_of\<close>, the reader
    that accepts exactly the conforming objects. The round trips
    \<open>*_of (*_json x) = Some x\<close> are the collection \<open>json_rt\<close>.
  \<^item> \<open>Wire\<close>: the typed requests at \<open>crawl\<close> and \<open>markdown\<close> (the object
    they stringify reads back as the request) and a \<open>HealthResponse\<close> body at
    \<open>version\<close>.
  \<^item> \<open>Script\<close>, \<open>Examples\<close>, \<open>Examples_Advanced\<close>, \<open>Examples_Llm\<close>:
    the example programs (\<open>src/unnamed/part_004\<close> \<open>basic.ts\<close>, the \<open>llm\<close>
    smoke script \<open>src/unnamed/part_006\<close>, \<open>src/examples/advanced.ts\<close>,
    \<open>src/examples/llm-extraction.ts\<close>) as script runs: the result or the
    thrown error with the console calls made, \<open>None\<close> when an awaited call
    never settles. Call \<open>k\<close> of a script sees the network events \<open>env k\<close>;
    \<open>JSON.parse\<close> and \<open>process.env\<close> are parameters. The lemmas show that
    the basic example cannot complete once connected (it calls the missing
    \<open>screenshot\<close> method), that the examples' \<open>f\<close>/\<open>q\<close> keys are not
    \<open>MarkdownRequest\<close> properties, that an empty crawl result makes the
    extraction step throw, and that without API keys no provider request is
    made.
  \<^item> \<open>Tests\<close>: the bun suite bundled after the earlier client in
    \<open>src/unnamed/part_002\<close> (lines 618-1211), each test a predicate over
    the model of that client (\<open>Legacy\<close>). The URL-validation tests pass for
    every network once the URL parser rejects their invalid addresses (C19);
    construction, debug-mode and error-instance tests pass outright;
    \<open>testConnection\<close> always yields a boolean; the health test checks exactly
    \<open>HealthResponse\<close> conformance, and the "not connected" test passes
    exactly when the network fails the request.
  \<^item> \<open>Tests_Current\<close>: the bun suite of the current client,
    \<open>src/src/sdk.test.ts\<close>, over \<open>Client\<close> and \<open>Api\<close>. With a URL parser
    that accepts \<open>https://c4.kaste.lol\<close> and rejects the invalid addresses,
    the construction, URL-validation and \<open>testConnection\<close> tests pass for
    every network; its health test only checks that three properties exist,
    which is strictly weaker than the earlier suite's; and its version test
    fails on a service whose \<open>version\<close> is a truthy number.

  \<^bold>\<open>What the lemmas show.\<close> The retry policy: client errors stop at once
  (C1), persistent server errors give \<open>retries + 1\<close> attempts with delays
  \<open>d, 2d, 4d, ...\<close> (C2), \<open>Retry-After\<close> overrides the schedule (C3), success
  stops the loop (C16), a call that returns made at most \<open>retries + 1\<close>
  requests (C17), and the call returns whenever no caller signal can hang it
  and no response body stalls after its headers (C4, a totality statement
  about the \<open>partial_function\<close> under exactly those conditions). The
  transport: the deadline turns into a \<open>TimeoutError\<close> (C5), a failing
  status into the classified error with the request attached (C8), a
  \<open>TypeError\<close> mentioning \<open>fetch\<close> into a \<open>NetworkError\<close> (C15); the debug
  log does not depend on headers (C14). Classification is total (C6) and the
  \<open>Retry-After\<close> header round-trips (C10). The normalizer refines the
  envelope rule (C7). The configuration cell validates its input (C9),
  starts from the documented defaults (C21), keeps its invariant under every
  setter and never keeps a stale credential after \<open>setApiToken\<close> (C20). The
  methods: the query string of \<open>buildQueryParams\<close> decodes to its defined
  parameters (C24), and the endpoint of \<open>ask\<close> is \<open>/ask\<close> or \<open>/ask?\<close>
  with exactly the given parameters (C27); \<open>crawl\<close> checks every address
  before any request (C25) and always resolves to an array (C26); the
  \<open>llm\<close> path cannot be broken by the address (C28); \<open>version\<close> falls back
  to \<open>'unknown'\<close> (C30); \<open>ask\<close> joins the texts of the results (C32). The
  earlier revision: its \<open>ask\<close> makes the same requests and yields the same
  values except on empty strings, in an object that always has an own
  \<open>query\<close> property (C35), its \<open>crawl\<close> differs exactly on a \<open>null\<close> body
  (C33), and its constructor agrees on the accepted configurations except
  where \<open>||\<close> replaced \<open>0\<close> and \<open>undefined\<close> (C34). The bundled tests:
  the URL-validation tests pass for every network (C19).

  \<^bold>\<open>Where the code departs from the design\<close> (each is a theorem): a
  caller signal disables the deadline, so a silent server hangs the call
  (C11) and a caller abort is reported as a \<open>TimeoutError\<close> (C18); the
  deadline is cleared once the headers are in, so a body that never
  finishes hangs every call, \<open>testConnection\<close> and its 5 s timeout included
  (C29); an event-stream response is returned before the status is checked
  (C13); errors outside the taxonomy (a body that is not JSON) are retried
  (C12); \<open>retries: undefined\<close> passes the constructor and makes every call
  fail without a request (C23); a base address ending in \<open>//\<close> keeps a
  slash (C22); a \<open>null\<close> body makes \<open>markdown\<close> reject with a platform
  \<open>TypeError\<close> (C31). Delays above \<open>2^31 - 1\<close> ms collapse to 1 ms in
  Node.js, so a timeout of \<open>2^31\<close> ms aborts at once (the witness of C5).

  \<^bold>\<open>Bounds and fuel.\<close> No fuel is used: the only unbounded loop is
  \<open>retry_loop\<close>, whose bound \<open>this.config.retries\<close> is a JavaScript number
  (possibly \<open>Infinity\<close> or \<open>NaN\<close>); \<open>partial_function (option)\<close> lets the
  model express the non-terminating cases (an infinite bound, a hanging
  caller signal, a stalled body), and C4 proves termination for every finite
  or \<open>NaN\<close> bound by induction on \<open>\<lfloor>retries\<rfloor> + 1 - attempt\<close>.

  \<^bold>\<open>Not modelled.\<close> The Stream Decoder of the design has no code in the
  repository (\<open>request\<close> returns the raw \<open>Response\<close>); \<open>new URL\<close> is a
  platform parser, a parameter \<open>url_ok\<close> of the constructor; \<open>JSON.parse\<close>
  is the network event's decoded body; \<open>console.log\<close> is the log list. The
  \<open>URLSearchParams\<close> and \<open>JSON.stringify\<close> models cover what the methods
  pass them (strings, numbers, the decoded JSON values). The changelog, the
  API reference and \<open>package.json\<close> carry no behaviour; how \<open>console.log\<close>
  formats its arguments is not modelled (a console call keeps its values). The tests of the
  bundled suites that only check that an \<open>async\<close> method returns a
  \<open>Promise\<close>, or that a setter does not throw, hold of every call in
  JavaScript and are not modelled as predicates.
\<close>

section \<open>Properties across components\<close>

text \<open>
  C23. An explicit \<open>retries: undefined\<close> passes the constructor's check
  (it tests \<open>!== undefined\<close>) but the spread stores it over the default, so
  every call of the resulting client fails with \<open>Error('No attempts made')\<close>
  without any request.
\<close>

theorem undefined_retries_client_never_requests:
  assumes "Crawl4AI_new url_ok c = Inr cfg" and "in_retries c = Undef"
  shows "requestWithRetry cfg endpoint opts net =
           Some (Inl (JsError ''Error'' ''No attempts made''), empty_trace)"
proof -
  have "cfg_retries cfg = JNaN"
    using assms by (auto simp: Crawl4AI_new_def merge_config_def num_field_def Let_def split: sum.splits)
  then show ?thesis by (simp add: requestWithRetry_def retry_loop_exit)
qed

theorem undefined_retries_client_never_requests_witness:
  "requestWithRetry (merge_config ((base_config ''http://h'')\<lparr>in_retries := Undef\<rparr>) ''http://h'')
     ''/health'' empty_options (\<lambda>i. Hang) =
   Some (Inl (JsError ''Error'' ''No attempts made''), empty_trace)"
proof (rule undefined_retries_client_never_requests [where url_ok = "\<lambda>u. True"])
  show "Crawl4AI_new (\<lambda>u. True) ((base_config ''http://h'')\<lparr>in_retries := Undef\<rparr>) =
        Inr (merge_config ((base_config ''http://h'')\<lparr>in_retries := Undef\<rparr>) ''http://h'')"
    by (simp add: Crawl4AI_new_def validate_config_def base_config_def bad_timeout_def bad_retries_def
        bad_retryDelay_def)
qed simp

end
